(* ===== verification/Prelude.thy ===== *)
theory Prelude
  imports Main "HOL-Library.Sublist" "HOL-Library.Char_ord"
begin

text \<open>
  Shared vocabulary of the development: the Python exceptions the code raises, the results a
  handler returns, the queries over tables (lists of rows), and the string operations of the
  Python standard library the sources use. A Python \<open>str\<close> is a \<^typ>\<open>string\<close> whose
  characters are code points below 256; a \<open>datetime\<close> or a clock reading is an integer number
  of microseconds.
\<close>

section \<open>Identifiers, times, exceptions, results\<close>

type_synonym uuid = nat
type_synonym time = int

abbreviation seconds :: "int \<Rightarrow> time" where
  "seconds n \<equiv> n * 1000000"

datatype exn =
    HTTPException nat string
  | ValueError string
  | ValidationError string
  | MultipleResultsFound
  | IntegrityError string
  | RedisError string
  | S3Error string
  | ApiException nat string
  | JSONDecodeError
  | JWTError
  | TimeoutError string
  | OtherError string

type_synonym 'a result = "exn + 'a"

text \<open>\<open>str(exc)\<close>, for the exceptions that carry a text.\<close>

fun exn_str :: "exn \<Rightarrow> string" where
  "exn_str (HTTPException code detail) = detail"
| "exn_str (ValueError m) = m"
| "exn_str (ValidationError m) = m"
| "exn_str MultipleResultsFound = ''Multiple rows were found when one or none was required''"
| "exn_str (IntegrityError m) = m"
| "exn_str (RedisError m) = m"
| "exn_str (S3Error m) = m"
| "exn_str (ApiException code reason) = reason"
| "exn_str JSONDecodeError = ''JSONDecodeError''"
| "exn_str JWTError = ''JWTError''"
| "exn_str (TimeoutError m) = m"
| "exn_str (OtherError m) = m"

named_theorems state_simps \<open>equations that run a handler of the model\<close>
named_theorems inv_intros \<open>preservation of the data invariants\<close>

text \<open>Sequencing of state-passing code: an exception ends the computation and keeps the state.\<close>

fun seq :: "'a result \<times> 's \<Rightarrow> ('a \<Rightarrow> 's \<Rightarrow> 'b result \<times> 's) \<Rightarrow> 'b result \<times> 's" where
  "seq (Inl e, s) k = (Inl e, s)"
| "seq (Inr a, s) k = k a s"

lemma seq_Inr_iff:
  "seq m k = (Inr b, s') \<longleftrightarrow> (\<exists>a s. m = (Inr a, s) \<and> k a s = (Inr b, s'))"
  by (cases m; cases "fst m") auto

lemma seq_split:
  "P (seq m k) \<longleftrightarrow> (\<forall>e s. m = (Inl e, s) \<longrightarrow> P (Inl e, s)) \<and> (\<forall>a s. m = (Inr a, s) \<longrightarrow> P (k a s))"
  by (cases m; cases "fst m") auto

section \<open>Tables\<close>

text \<open>
  A table is the list of its rows in insertion order. \<open>scalar_one_or_none\<close> is SQLAlchemy's
  result method: no row is \<open>None\<close>, one row is that row, several rows raise.
\<close>

fun scalar_one_or_none :: "'a list \<Rightarrow> 'a option result" where
  "scalar_one_or_none [] = Inr None"
| "scalar_one_or_none [x] = Inr (Some x)"
| "scalar_one_or_none (x # y # zs) = Inl MultipleResultsFound"

definition update_where :: "('a \<Rightarrow> bool) \<Rightarrow> ('a \<Rightarrow> 'a) \<Rightarrow> 'a list \<Rightarrow> 'a list" where
  "update_where p f rows = map (\<lambda>r. if p r then f r else r) rows"

definition delete_where :: "('a \<Rightarrow> bool) \<Rightarrow> 'a list \<Rightarrow> 'a list" where
  "delete_where p rows = filter (\<lambda>r. \<not> p r) rows"

definition count_where :: "('a \<Rightarrow> bool) \<Rightarrow> 'a list \<Rightarrow> nat" where
  "count_where p rows = length (filter p rows)"

definition order_by_desc :: "('a \<Rightarrow> int) \<Rightarrow> 'a list \<Rightarrow> 'a list" where
  "order_by_desc k rows = sort_key (\<lambda>r. - k r) rows"

definition page_of :: "nat \<Rightarrow> nat \<Rightarrow> 'a list \<Rightarrow> 'a list" where
  "page_of offset limit rows = take limit (drop offset rows)"

lemma scalar_one_or_none_Some:
  "scalar_one_or_none (filter p xs) = Inr (Some x) \<Longrightarrow> x \<in> set xs \<and> p x"
proof -
  assume "scalar_one_or_none (filter p xs) = Inr (Some x)"
  then have "filter p xs = [x]" by (cases "filter p xs" rule: scalar_one_or_none.cases) auto
  then have "x \<in> set (filter p xs)" by simp
  then show ?thesis by simp
qed

lemma scalar_one_or_none_None:
  "scalar_one_or_none (filter p xs) = Inr None \<longleftrightarrow> (\<forall>x \<in> set xs. \<not> p x)"
proof -
  have "scalar_one_or_none ys = Inr None \<longleftrightarrow> ys = []" for ys :: "'a list"
    by (cases ys rule: scalar_one_or_none.cases) auto
  then show ?thesis by (simp add: filter_empty_conv)
qed

lemma distinct_key_filter:
  assumes "distinct (map k xs)" and "x \<in> set xs"
  shows "filter (\<lambda>r. k r = k x \<and> q r) xs = (if q x then [x] else [])"
  using assms by (induction xs) (auto simp: filter_empty_conv image_iff rev_image_eqI)

lemma distinct_key_unique:
  "distinct (map k xs) \<Longrightarrow> x \<in> set xs \<Longrightarrow> y \<in> set xs \<Longrightarrow> k x = k y \<Longrightarrow> x = y"
  by (auto simp: distinct_map dest: inj_onD)

text \<open>A query by primary key never raises, and finds the row that has the key.\<close>

lemma scalar_by_key:
  assumes d: "distinct (map k xs)" and x: "x \<in> set xs" and "k x = i" and "q x"
  shows "scalar_one_or_none (filter (\<lambda>r. k r = i \<and> q r) xs) = Inr (Some x)"
  using distinct_key_filter [OF d x, of q] assms by simp

lemma scalar_by_key_total:
  assumes "distinct (map k xs)"
  shows "\<exists>y. scalar_one_or_none (filter (\<lambda>r. k r = i \<and> q r) xs) = Inr y"
proof (cases "\<exists>x \<in> set xs. k x = i \<and> q x")
  case True
  then show ?thesis using scalar_by_key [OF assms] by blast
next
  case False
  then have "filter (\<lambda>r. k r = i \<and> q r) xs = []" by (auto simp: filter_empty_conv)
  then show ?thesis by simp
qed

lemma set_update_where: "set (update_where p f xs) = (\<lambda>r. if p r then f r else r) ` set xs"
  by (simp add: update_where_def)

lemma length_update_where [simp]: "length (update_where p f xs) = length xs"
  by (simp add: update_where_def)

lemma update_where_Nil [simp]: "update_where p f [] = []"
  by (simp add: update_where_def)

lemma map_key_update_where:
  "(\<And>r. k (f r) = k r) \<Longrightarrow> map k (update_where p f xs) = map k xs"
  by (simp add: update_where_def)

lemma set_delete_where [simp]: "set (delete_where p xs) = {x \<in> set xs. \<not> p x}"
  by (auto simp: delete_where_def)

lemma distinct_delete_where: "distinct (map k xs) \<Longrightarrow> distinct (map k (delete_where p xs))"
  by (simp add: delete_where_def distinct_map_filter)

lemma count_where_Nil [simp]: "count_where p [] = 0"
  by (simp add: count_where_def)

lemma count_where_append [simp]: "count_where p (xs @ ys) = count_where p xs + count_where p ys"
  by (simp add: count_where_def)

lemma count_where_Cons [simp]:
  "count_where p (x # xs) = (if p x then Suc (count_where p xs) else count_where p xs)"
  by (simp add: count_where_def)

lemma count_where_0: "count_where p xs = 0 \<longleftrightarrow> (\<forall>x \<in> set xs. \<not> p x)"
  by (simp add: count_where_def filter_empty_conv)

lemma set_order_by_desc [simp]: "set (order_by_desc k xs) = set xs"
  by (simp add: order_by_desc_def)

lemma length_order_by_desc [simp]: "length (order_by_desc k xs) = length xs"
  by (simp add: order_by_desc_def)

lemma set_page_of: "set (page_of o' l xs) \<subseteq> set xs"
  by (auto simp: page_of_def dest: in_set_takeD in_set_dropD)

lemma length_page_of: "length (page_of o' l xs) = min l (length xs - o')"
  by (simp add: page_of_def min.commute)

section \<open>Strings\<close>

definition char_code :: "char \<Rightarrow> nat" where
  "char_code c = of_char c"

fun contains :: "string \<Rightarrow> string \<Rightarrow> bool" where
  "contains p [] = (p = [])"
| "contains p (c # cs) = (prefix p (c # cs) \<or> contains p cs)"

fun split_on :: "char \<Rightarrow> string \<Rightarrow> string list" where
  "split_on d [] = [[]]"
| "split_on d (c # cs) =
     (if c = d then [] # split_on d cs
      else (case split_on d cs of [] \<Rightarrow> [[c]] | w # ws \<Rightarrow> (c # w) # ws))"

text \<open>\<open>s.rsplit(d, 1)\<close>: None when the separator does not occur.\<close>

definition rsplit1 :: "char \<Rightarrow> string \<Rightarrow> (string \<times> string) option" where
  "rsplit1 d s =
     (if d \<in> set s
      then Some (rev (tl (dropWhile (\<lambda>c. c \<noteq> d) (rev s))), rev (takeWhile (\<lambda>c. c \<noteq> d) (rev s)))
      else None)"

definition is_line_break :: "char \<Rightarrow> bool" where
  "is_line_break c \<longleftrightarrow> char_code c \<in> {10, 11, 12, 13, 28, 29, 30, 133}"

text \<open>
  \<open>str.splitlines\<close>, with the current line accumulated in reverse: CR LF counts as one
  line break, and a final line break opens no further line.
\<close>

fun splitlines_acc :: "string \<Rightarrow> string \<Rightarrow> string list" where
  "splitlines_acc acc [] = (if acc = [] then [] else [rev acc])"
| "splitlines_acc acc (c # cs) =
     (if char_code c = 13 \<and> cs \<noteq> [] \<and> char_code (hd cs) = 10 then splitlines_acc acc cs
      else if is_line_break c then rev acc # splitlines_acc [] cs
      else splitlines_acc (c # acc) cs)"

definition splitlines :: "string \<Rightarrow> string list" where
  "splitlines s = splitlines_acc [] s"

definition is_space :: "char \<Rightarrow> bool" where
  "is_space c \<longleftrightarrow> char_code c \<in> {9, 10, 11, 12, 13, 28, 29, 30, 31, 32, 133, 160}"

definition strip :: "string \<Rightarrow> string" where
  "strip s = rev (dropWhile is_space (rev (dropWhile is_space s)))"

definition digit_char :: "nat \<Rightarrow> char" where
  "digit_char d = char_of (48 + d)"

fun str_nat :: "nat \<Rightarrow> string" where
  "str_nat n = (if n < 10 then [digit_char n] else str_nat (n div 10) @ [digit_char (n mod 10)])"

declare str_nat.simps [simp del]

definition str_int :: "int \<Rightarrow> string" where
  "str_int i = (if i < 0 then CHR ''-'' # str_nat (nat (- i)) else str_nat (nat i))"

definition is_digit :: "char \<Rightarrow> bool" where
  "is_digit c \<longleftrightarrow> 48 \<le> char_code c \<and> char_code c \<le> 57"

definition nat_of_digits :: "string \<Rightarrow> nat" where
  "nat_of_digits s = foldl (\<lambda>a c. 10 * a + (char_code c - 48)) 0 s"

lemma char_code_digit_char: "d < 10 \<Longrightarrow> char_code (digit_char d) = 48 + d"
  by (simp add: char_code_def digit_char_def)

lemma is_digit_digit_char: "d < 10 \<Longrightarrow> is_digit (digit_char d)"
  by (simp add: is_digit_def char_code_digit_char)

lemma str_nat_nonempty [simp]: "str_nat n \<noteq> []"
  by (subst str_nat.simps) simp

lemma str_nat_digits: "\<forall>c \<in> set (str_nat n). is_digit c"
proof (induction n rule: str_nat.induct)
  case (1 n)
  then show ?case by (subst str_nat.simps) (auto simp: is_digit_digit_char)
qed

lemma nat_of_str_nat: "nat_of_digits (str_nat n) = n"
proof (induction n rule: str_nat.induct)
  case (1 n)
  show ?case
  proof (cases "n < 10")
    case True
    then show ?thesis
      by (subst str_nat.simps) (simp add: nat_of_digits_def char_code_digit_char)
  next
    case False
    with 1 show ?thesis
      by (subst str_nat.simps) (simp add: nat_of_digits_def char_code_digit_char)
  qed
qed

lemma str_nat_inj: "str_nat m = str_nat n \<Longrightarrow> m = n"
  using nat_of_str_nat by metis

text \<open>\<open>uuid.UUID(s)\<close>, which raises on a malformed string.\<close>

definition uuid_of :: "string \<Rightarrow> uuid result" where
  "uuid_of s = (if s \<noteq> [] \<and> list_all is_digit s then Inr (nat_of_digits s)
                else Inl (ValueError ''badly formed hexadecimal UUID string''))"

lemma uuid_of_str_nat [simp]: "uuid_of (str_nat n) = Inr n"
  using str_nat_digits [of n] by (simp add: uuid_of_def nat_of_str_nat list_all_iff)

lemma hd_str_nat: "hd (str_nat n) = CHR ''0'' \<Longrightarrow> n = 0"
proof (induction n rule: str_nat.induct)
  case (1 n)
  show ?case
  proof (cases "n < 10")
    case True
    with "1.prems" have "digit_char n = CHR ''0''"
      by (subst (asm) str_nat.simps) simp
    then have "char_code (digit_char n) = 48" by (simp add: char_code_def)
    with True show ?thesis by (simp add: char_code_digit_char)
  next
    case False
    with "1.prems" have "hd (str_nat (n div 10)) = CHR ''0''"
      by (subst (asm) str_nat.simps) simp
    with 1 False have "n div 10 = 0" by blast
    with False show ?thesis by simp
  qed
qed

end
