(* ===== verification/Json.thy ===== *)
theory Json
  imports Prelude
begin

text \<open>
  The part of Python's \<open>json\<close> module the platform relies on: queue members are
  \<open>json.dumps\<close> of a job, the worker reads them back with \<open>json.loads\<close>, and the runner
  reports its result as one JSON line. A dict is an association list in insertion order (its
  keys are distinct when \<open>wf_json\<close> holds); a float is the literal it is written with.
  \<open>NaN\<close> and the infinities are left out. The main fact is the round trip
  \<open>loads_dumps\<close>.
\<close>

datatype json =
    JNull
  | JBool bool
  | JInt int
  | JFloat string
  | JStr string
  | JList "json list"
  | JObj "(string \<times> json) list"

section \<open>Printing: json.dumps\<close>

definition hex_char :: "nat \<Rightarrow> char" where
  "hex_char d = (if d < 10 then char_of (48 + d) else char_of (87 + d))"

definition esc_char :: "char \<Rightarrow> string" where
  "esc_char c =
     (let n = char_code c in
      if n = 34 then [CHR 0x5C, CHR 0x22]
      else if n = 92 then [CHR 0x5C, CHR 0x5C]
      else if n = 10 then [CHR 0x5C, CHR ''n'']
      else if n = 13 then [CHR 0x5C, CHR ''r'']
      else if n = 9 then [CHR 0x5C, CHR ''t'']
      else if n = 12 then [CHR 0x5C, CHR ''f'']
      else if n = 8 then [CHR 0x5C, CHR ''b'']
      else if 32 \<le> n \<and> n \<le> 126 then [c]
      else [CHR 0x5C, CHR ''u'', CHR ''0'', CHR ''0'', hex_char (n div 16), hex_char (n mod 16)])"

definition dumps_str :: "string \<Rightarrow> string" where
  "dumps_str s = CHR 0x22 # concat (map esc_char s) @ [CHR 0x22]"

fun join_comma :: "string list \<Rightarrow> string" where
  "join_comma [] = []"
| "join_comma [x] = x"
| "join_comma (x # y # zs) = x @ '', '' @ join_comma (y # zs)"

fun dumps :: "json \<Rightarrow> string" where
  "dumps JNull = ''null''"
| "dumps (JBool b) = (if b then ''true'' else ''false'')"
| "dumps (JInt i) = str_int i"
| "dumps (JFloat t) = t"
| "dumps (JStr s) = dumps_str s"
| "dumps (JList xs) = ''['' @ join_comma (map dumps xs) @ '']''"
| "dumps (JObj kvs) = ''{'' @ join_comma (map (\<lambda>(k, v). dumps_str k @ '': '' @ dumps v) kvs) @ ''}''"

section \<open>Parsing: json.loads\<close>

definition json_space :: "char \<Rightarrow> bool" where
  "json_space c \<longleftrightarrow> char_code c \<in> {32, 9, 10, 13}"

definition skip_ws :: "string \<Rightarrow> string" where
  "skip_ws s = dropWhile json_space s"

definition hex_val :: "char \<Rightarrow> nat option" where
  "hex_val c =
     (let n = char_code c in
      if 48 \<le> n \<and> n \<le> 57 then Some (n - 48)
      else if 97 \<le> n \<and> n \<le> 102 then Some (n - 87)
      else if 65 \<le> n \<and> n \<le> 70 then Some (n - 55) else None)"

text \<open>A \<open>\u\<close> escape: four hexadecimal digits of a code point below 256.\<close>

fun unhex4 :: "string \<Rightarrow> char option" where
  "unhex4 [a, b, c, d] =
     (case (hex_val a, hex_val b, hex_val c, hex_val d) of
        (Some 0, Some 0, Some h, Some l) \<Rightarrow> Some (char_of (16 * h + l))
      | _ \<Rightarrow> None)"
| "unhex4 _ = None"

definition simple_esc :: "char \<Rightarrow> char option" where
  "simple_esc e =
     (if e = CHR 0x22 then Some (CHR 0x22)
      else if e = CHR 0x5C then Some (CHR 0x5C)
      else if e = CHR ''/'' then Some (CHR ''/'')
      else if e = CHR ''n'' then Some (char_of (10 :: nat))
      else if e = CHR ''r'' then Some (char_of (13 :: nat))
      else if e = CHR ''t'' then Some (char_of (9 :: nat))
      else if e = CHR ''f'' then Some (char_of (12 :: nat))
      else if e = CHR ''b'' then Some (char_of (8 :: nat))
      else None)"

definition cons_str :: "char \<Rightarrow> (string \<times> string) option \<Rightarrow> (string \<times> string) option" where
  "cons_str c r = map_option (\<lambda>(s, rest). (c # s, rest)) r"

function parse_str :: "string \<Rightarrow> (string \<times> string) option" where
  "parse_str s =
     (case s of
        [] \<Rightarrow> None
      | c # cs \<Rightarrow>
          if c = CHR 0x22 then Some ([], cs)
          else if c = CHR 0x5C then
            (case cs of
               [] \<Rightarrow> None
             | e # es \<Rightarrow>
                 if e = CHR ''u'' then
                   (case unhex4 (take 4 es) of
                      None \<Rightarrow> None
                    | Some ch \<Rightarrow> cons_str ch (parse_str (drop 4 es)))
                 else
                   (case simple_esc e of
                      None \<Rightarrow> None
                    | Some ch \<Rightarrow> cons_str ch (parse_str es)))
          else if char_code c < 32 then None
          else cons_str c (parse_str cs))"
  by pat_completeness auto
termination
  by (relation "measure length") auto

declare parse_str.simps [simp del]

definition number_char :: "char \<Rightarrow> bool" where
  "number_char c \<longleftrightarrow> is_digit c \<or> c \<in> set ''+-.eE''"

definition is_int_lit :: "string \<Rightarrow> bool" where
  "is_int_lit t =
     (let ds = (if t \<noteq> [] \<and> hd t = CHR ''-'' then tl t else t)
      in ds \<noteq> [] \<and> list_all is_digit ds \<and> (hd ds = CHR ''0'' \<longrightarrow> tl ds = []))"

definition int_of_lit :: "string \<Rightarrow> int" where
  "int_of_lit t =
     (if t \<noteq> [] \<and> hd t = CHR ''-'' then - int (nat_of_digits (tl t)) else int (nat_of_digits t))"

definition is_exp_lit :: "string \<Rightarrow> bool" where
  "is_exp_lit t =
     (t = [] \<or>
      (t \<noteq> [] \<and> hd t \<in> set ''eE'' \<and>
       (let u = tl t; ds = (if u \<noteq> [] \<and> hd u \<in> set ''+-'' then tl u else u)
        in ds \<noteq> [] \<and> list_all is_digit ds)))"

text \<open>\<open>NUMBER_RE\<close> of the scanner with a fraction or an exponent: the value is a float.\<close>

definition is_float_lit :: "string \<Rightarrow> bool" where
  "is_float_lit t =
     (let sg = (if t \<noteq> [] \<and> hd t = CHR ''-'' then [CHR ''-''] else []);
          u = drop (length sg) t;
          ip = takeWhile is_digit u;
          r = dropWhile is_digit u
      in is_int_lit (sg @ ip) \<and> r \<noteq> [] \<and>
         (if hd r = CHR ''.''
          then takeWhile is_digit (tl r) \<noteq> [] \<and> is_exp_lit (dropWhile is_digit (tl r))
          else is_exp_lit r))"

definition parse_number :: "string \<Rightarrow> (json \<times> string) option" where
  "parse_number s =
     (let t = takeWhile number_char s; r = dropWhile number_char s
      in if is_int_lit t then Some (JInt (int_of_lit t), r)
         else if is_float_lit t then Some (JFloat t, r)
         else None)"

text \<open>\<open>d[k] = v\<close>: an existing key keeps its place, a new one comes last.\<close>

fun dict_set :: "string \<Rightarrow> 'v \<Rightarrow> (string \<times> 'v) list \<Rightarrow> (string \<times> 'v) list" where
  "dict_set k v [] = [(k, v)]"
| "dict_set k v ((k', v') # kvs) = (if k = k' then (k, v) # kvs else (k', v') # dict_set k v kvs)"

text \<open>The scanner, with fuel for the nesting; \<open>loads\<close> gives it more than any text needs.\<close>

fun parse_value :: "nat \<Rightarrow> string \<Rightarrow> (json \<times> string) option"
  and parse_items :: "nat \<Rightarrow> json list \<Rightarrow> string \<Rightarrow> (json \<times> string) option"
  and parse_members :: "nat \<Rightarrow> (string \<times> json) list \<Rightarrow> string \<Rightarrow> (json \<times> string) option" where
  "parse_value 0 s = None"
| "parse_value (Suc n) s =
     (if s = [] then None
      else if hd s = CHR 0x22 then map_option (\<lambda>(x, r). (JStr x, r)) (parse_str (tl s))
      else if hd s = CHR ''['' then
        (let r = skip_ws (tl s)
         in if r \<noteq> [] \<and> hd r = CHR '']'' then Some (JList [], tl r) else parse_items n [] r)
      else if hd s = CHR ''{'' then
        (let r = skip_ws (tl s)
         in if r \<noteq> [] \<and> hd r = CHR ''}'' then Some (JObj [], tl r) else parse_members n [] r)
      else if prefix ''null'' s then Some (JNull, drop 4 s)
      else if prefix ''true'' s then Some (JBool True, drop 4 s)
      else if prefix ''false'' s then Some (JBool False, drop 5 s)
      else parse_number s)"
| "parse_items 0 acc s = None"
| "parse_items (Suc n) acc s =
     (case parse_value n s of
        None \<Rightarrow> None
      | Some (v, r) \<Rightarrow>
          (let r' = skip_ws r
           in if r' = [] then None
              else if hd r' = CHR '']'' then Some (JList (acc @ [v]), tl r')
              else if hd r' = CHR '','' then parse_items n (acc @ [v]) (skip_ws (tl r'))
              else None))"
| "parse_members 0 acc s = None"
| "parse_members (Suc n) acc s =
     (if s = [] \<or> hd s \<noteq> CHR 0x22 then None
      else (case parse_str (tl s) of
        None \<Rightarrow> None
      | Some (k, r0) \<Rightarrow>
          (let r1 = skip_ws r0
           in if r1 = [] \<or> hd r1 \<noteq> CHR '':'' then None
              else (case parse_value n (skip_ws (tl r1)) of
                None \<Rightarrow> None
              | Some (v, r) \<Rightarrow>
                  (let r' = skip_ws r; acc' = dict_set k v acc
                   in if r' = [] then None
                      else if hd r' = CHR ''}'' then Some (JObj acc', tl r')
                      else if hd r' = CHR '','' then parse_members n acc' (skip_ws (tl r'))
                      else None)))))"

definition loads :: "string \<Rightarrow> json option" where
  "loads s =
     (case parse_value (Suc (2 * length s)) (skip_ws s) of
        None \<Rightarrow> None
      | Some (v, r) \<Rightarrow> if skip_ws r = [] then Some v else None)"

section \<open>The round trip\<close>

fun wf_json :: "json \<Rightarrow> bool" where
  "wf_json (JFloat t) \<longleftrightarrow> is_float_lit t \<and> \<not> is_int_lit t \<and> list_all number_char t"
| "wf_json (JList xs) \<longleftrightarrow> list_all wf_json xs"
| "wf_json (JObj kvs) \<longleftrightarrow> distinct (map fst kvs) \<and> list_all (\<lambda>(k, v). wf_json v) kvs"
| "wf_json _ \<longleftrightarrow> True"

definition stops :: "string \<Rightarrow> bool" where
  "stops r \<longleftrightarrow> r = [] \<or> \<not> number_char (hd r)"

lemma hex_val_hex_char: "d < 16 \<Longrightarrow> hex_val (hex_char d) = Some d"
  by (auto simp: hex_val_def hex_char_def char_code_def Let_def)

lemma char_code_less: "char_code c < 256"
  by (simp add: char_code_def)

lemma char_of_char_code [simp]: "char_of (char_code c) = c"
  by (simp add: char_code_def)

lemma char_code_eq_iff: "char_code c = n \<longleftrightarrow> n < 256 \<and> c = char_of n"
  using char_code_less [of c] by (auto simp: char_code_def)

lemma char_code_inj: "char_code c = char_code d \<longleftrightarrow> c = d"
  by (metis char_of_char_code)

lemma char_code_lits [simp]:
  "char_code (CHR 0x22) = 34" "char_code (CHR 0x5C) = 92" "char_code (CHR ''n'') = 110"
  "char_code (CHR ''r'') = 114" "char_code (CHR ''t'') = 116" "char_code (CHR ''f'') = 102"
  "char_code (CHR ''b'') = 98" "char_code (CHR ''u'') = 117" "char_code (CHR ''0'') = 48"
  by (simp_all add: char_code_def)

lemma parse_str_quote: "parse_str (CHR 0x22 # r) = Some ([], r)"
  by (subst parse_str.simps) simp

lemma parse_str_simple:
  "simple_esc e = Some ch \<Longrightarrow> e \<noteq> CHR ''u'' \<Longrightarrow>
   parse_str (CHR 0x5C # e # r) = cons_str ch (parse_str r)"
  by (subst parse_str.simps) simp

lemma parse_str_plain:
  "32 \<le> char_code c \<Longrightarrow> c \<noteq> CHR 0x22 \<Longrightarrow> c \<noteq> CHR 0x5C \<Longrightarrow>
   parse_str (c # r) = cons_str c (parse_str r)"
  by (subst parse_str.simps) simp

lemma unhex4_esc:
  "unhex4 [CHR ''0'', CHR ''0'', hex_char (char_code c div 16), hex_char (char_code c mod 16)] = Some c"
proof -
  have z: "hex_val (CHR ''0'') = Some 0" by (simp add: hex_val_def)
  have "char_code c div 16 < 16" using char_code_less [of c] by linarith
  then show ?thesis by (simp add: z hex_val_hex_char)
qed

lemma parse_str_hex:
  "parse_str ([CHR 0x5C, CHR ''u'', CHR ''0'', CHR ''0'', hex_char (char_code c div 16),
     hex_char (char_code c mod 16)] @ r) = cons_str c (parse_str r)"
  by (subst parse_str.simps) (simp add: unhex4_esc del: unhex4.simps)

text \<open>One escaped character is read back, whatever follows.\<close>

lemma parse_str_esc_char: "parse_str (esc_char c @ r) = cons_str c (parse_str r)"
proof -
  have esc: "simple_esc (CHR 0x22) = Some (CHR 0x22)" "simple_esc (CHR 0x5C) = Some (CHR 0x5C)"
    "simple_esc (CHR ''n'') = Some (char_of (10 :: nat))"
    "simple_esc (CHR ''r'') = Some (char_of (13 :: nat))"
    "simple_esc (CHR ''t'') = Some (char_of (9 :: nat))"
    "simple_esc (CHR ''f'') = Some (char_of (12 :: nat))"
    "simple_esc (CHR ''b'') = Some (char_of (8 :: nat))"
    by (simp_all add: simple_esc_def)
  have eqs: "char_code c = n \<Longrightarrow> char_of n = c" for n
    using char_of_char_code [of c] by simp
  consider (quote) "c = CHR 0x22" | (bsl) "c = CHR 0x5C" | "char_code c = 10" | "char_code c = 13"
    | "char_code c = 9" | "char_code c = 12" | "char_code c = 8"
    | (plain) "char_code c \<notin> {34, 92, 10, 13, 9, 12, 8}" "32 \<le> char_code c" "char_code c \<le> 126"
    | (hex) "char_code c \<notin> {34, 92, 10, 13, 9, 12, 8}" "\<not> (32 \<le> char_code c \<and> char_code c \<le> 126)"
    using char_code_inj [of c "CHR 0x22"] char_code_inj [of c "CHR 0x5C"] by auto
  then show ?thesis
  proof cases
    case quote
    then show ?thesis by (simp add: esc_char_def parse_str_simple esc)
  next
    case bsl
    then show ?thesis by (simp add: esc_char_def parse_str_simple esc)
  next
    case plain
    then have "c \<noteq> CHR 0x22" "c \<noteq> CHR 0x5C" by auto
    with plain show ?thesis by (simp add: esc_char_def parse_str_plain)
  next
    case hex
    then have "esc_char c = [CHR 0x5C, CHR ''u'', CHR ''0'', CHR ''0'',
        hex_char (char_code c div 16), hex_char (char_code c mod 16)]"
      by (simp add: esc_char_def Let_def)
    then show ?thesis using parse_str_hex by metis
  qed (simp_all add: esc_char_def parse_str_simple esc eqs)
qed

lemma parse_str_dumps_str:
  "parse_str (concat (map esc_char s) @ CHR 0x22 # r) = Some (s, r)"
  by (induction s) (simp_all add: parse_str_quote parse_str_esc_char cons_str_def)

subsection \<open>Numbers\<close>

lemma digit_number_char: "is_digit c \<Longrightarrow> number_char c"
  by (simp add: number_char_def)

lemma take_number_char:
  assumes "list_all number_char t" and "stops r"
  shows "takeWhile number_char (t @ r) = t" and "dropWhile number_char (t @ r) = r"
proof -
  have "takeWhile number_char r = []" "dropWhile number_char r = r"
    using assms(2) by (cases r; simp add: stops_def)+
  then show "takeWhile number_char (t @ r) = t" and "dropWhile number_char (t @ r) = r"
    using assms(1) by (induction t) auto
qed

lemma str_nat_hd_not_minus: "str_nat n \<noteq> [] \<and> hd (str_nat n) \<noteq> CHR ''-''"
proof -
  have "is_digit (hd (str_nat n))" using str_nat_digits [of n] by simp
  moreover have "\<not> is_digit (CHR ''-'')" by (simp add: is_digit_def char_code_def)
  ultimately show ?thesis by auto
qed

lemma list_all_number_str_int: "list_all number_char (str_int i)"
proof -
  have "list_all number_char (str_nat n)" for n
    using str_nat_digits [of n] by (auto simp: list_all_iff intro: digit_number_char)
  then show ?thesis by (simp add: str_int_def number_char_def)
qed

lemma str_nat_tl: "hd (str_nat n) = CHR ''0'' \<Longrightarrow> tl (str_nat n) = []"
proof -
  assume "hd (str_nat n) = CHR ''0''"
  then have "n = 0" by (rule hd_str_nat)
  then show ?thesis by (simp add: str_nat.simps)
qed

lemma int_lit_str_int: "is_int_lit (str_int i) \<and> int_of_lit (str_int i) = i"
  using str_nat_digits str_nat_hd_not_minus
  by (auto simp: is_int_lit_def int_of_lit_def str_int_def Let_def list_all_iff nat_of_str_nat
      dest: str_nat_tl)

lemma parse_number_int: "stops r \<Longrightarrow> parse_number (str_int i @ r) = Some (JInt i, r)"
  using take_number_char [OF list_all_number_str_int] int_lit_str_int
  by (simp add: parse_number_def)

lemma parse_number_float:
  "wf_json (JFloat t) \<Longrightarrow> stops r \<Longrightarrow> parse_number (t @ r) = Some (JFloat t, r)"
  using take_number_char [of t r] by (simp add: parse_number_def)

subsection \<open>Values\<close>

fun json_fuel :: "json \<Rightarrow> nat" where
  "json_fuel (JList xs) = Suc (sum_list (map (\<lambda>x. Suc (json_fuel x)) xs))"
| "json_fuel (JObj kvs) = Suc (sum_list (map (\<lambda>(k, v). Suc (json_fuel v)) kvs))"
| "json_fuel _ = 1"

lemma json_fuel_pos [simp]: "0 < json_fuel j"
  by (cases j) auto

text \<open>What a printed value starts with: no white space and no closing bracket.\<close>

definition value_head :: "char \<Rightarrow> bool" where
  "value_head c \<longleftrightarrow> \<not> json_space c \<and> c \<noteq> CHR '']'' \<and> c \<noteq> CHR ''}''"

lemma number_char_head: "number_char c \<Longrightarrow> value_head c"
  by (auto simp: number_char_def value_head_def json_space_def is_digit_def char_code_def)

lemma dumps_head: "wf_json j \<Longrightarrow> dumps j \<noteq> [] \<and> value_head (hd (dumps j))"
proof (cases j)
  case (JInt i)
  have "list_all number_char (str_int i)" by (rule list_all_number_str_int)
  moreover have "str_int i \<noteq> []" by (simp add: str_int_def)
  ultimately show ?thesis using JInt number_char_head by (cases "str_int i") auto
next
  case (JFloat t)
  moreover assume "wf_json j"
  ultimately have "t \<noteq> []" "list_all number_char t" by (auto simp: is_float_lit_def Let_def)
  then show ?thesis using JFloat number_char_head by (cases t) auto
qed (auto simp: dumps_str_def value_head_def json_space_def char_code_def)

lemma skip_ws_dumps: "wf_json j \<Longrightarrow> skip_ws (dumps j @ r) = dumps j @ r"
  using dumps_head [of j] by (cases "dumps j") (auto simp: skip_ws_def value_head_def)

lemma skip_ws_punct:
  "skip_ws (CHR '','' # CHR '' '' # r) = CHR '','' # CHR '' '' # r"
  "skip_ws (CHR '']'' # r) = CHR '']'' # r" "skip_ws (CHR ''}'' # r) = CHR ''}'' # r"
  "skip_ws (CHR '':'' # r) = CHR '':'' # r" "skip_ws (CHR '' '' # r) = skip_ws r"
  "skip_ws (CHR 0x22 # r) = CHR 0x22 # r"
  by (simp_all add: skip_ws_def json_space_def char_code_def)

lemma stops_punct [simp]:
  "stops (CHR '','' # r)" "stops (CHR '']'' # r)" "stops (CHR ''}'' # r)" "stops []"
  by (simp_all add: stops_def number_char_def is_digit_def char_code_def)

lemma join_comma_Cons: "xs \<noteq> [] \<Longrightarrow> join_comma (x # xs) = x @ '', '' @ join_comma xs"
  by (cases xs) auto

definition reads_back :: "json \<Rightarrow> bool" where
  "reads_back j \<longleftrightarrow> (\<forall>n r. json_fuel j \<le> n \<longrightarrow> stops r \<longrightarrow> parse_value n (dumps j @ r) = Some (j, r))"

lemma parse_items_dumps:
  "list_all reads_back xs \<Longrightarrow> list_all wf_json xs \<Longrightarrow> xs \<noteq> [] \<Longrightarrow>
   sum_list (map (\<lambda>x. Suc (json_fuel x)) xs) \<le> n \<Longrightarrow>
   parse_items n acc (join_comma (map dumps xs) @ CHR '']'' # r) = Some (JList (acc @ xs), r)"
proof (induction xs arbitrary: n acc)
  case Nil
  then show ?case by simp
next
  case (Cons x xs)
  from Cons.prems(4) obtain m where n: "n = Suc m" "json_fuel x \<le> m"
    "sum_list (map (\<lambda>x. Suc (json_fuel x)) xs) \<le> m" by (cases n) auto
  have x: "\<And>r. stops r \<Longrightarrow> parse_value m (dumps x @ r) = Some (x, r)"
    using Cons.prems(1) n(2) by (simp add: reads_back_def)
  show ?case
  proof (cases "xs = []")
    case True
    then show ?thesis using n x by (simp add: skip_ws_punct)
  next
    case False
    have "wf_json (hd xs)" using Cons.prems(2) False by (cases xs) auto
    then have sk: "skip_ws (join_comma (map dumps xs) @ q) = join_comma (map dumps xs) @ q" for q
      using False skip_ws_dumps [of "hd xs"]
      by (cases xs; cases "tl xs") (auto simp: join_comma_Cons)
    have "parse_items m (acc @ [x]) (join_comma (map dumps xs) @ CHR '']'' # r) = Some (JList (acc @ x # xs), r)"
      using Cons.IH [of m "acc @ [x]"] Cons.prems n(3) False by simp
    then show ?thesis using n x False by (simp add: join_comma_Cons skip_ws_punct sk)
  qed
qed

lemma map_of_dict_set: "map_of (dict_set k v kvs) = (map_of kvs)(k \<mapsto> v)"
  by (induction k v kvs rule: dict_set.induct) (auto simp: fun_eq_iff)

lemma dict_set_fresh: "k \<notin> fst ` set kvs \<Longrightarrow> dict_set k v kvs = kvs @ [(k, v)]"
  by (induction kvs) auto

definition dumps_member :: "string \<times> json \<Rightarrow> string" where
  "dumps_member kv = dumps_str (fst kv) @ '': '' @ dumps (snd kv)"

lemma dumps_obj: "dumps (JObj kvs) = CHR ''{'' # join_comma (map dumps_member kvs) @ [CHR ''}'']"
proof -
  have "map (\<lambda>(k, v). dumps_str k @ '': '' @ dumps v) kvs = map dumps_member kvs"
    by (auto simp: dumps_member_def)
  then show ?thesis by (simp only: dumps.simps) simp
qed

lemma parse_members_dumps:
  "list_all (\<lambda>(k, v). reads_back v) kvs \<Longrightarrow> list_all (\<lambda>(k, v). wf_json v) kvs \<Longrightarrow> kvs \<noteq> [] \<Longrightarrow>
   distinct (map fst (acc @ kvs)) \<Longrightarrow> sum_list (map (\<lambda>(k, v). Suc (json_fuel v)) kvs) \<le> n \<Longrightarrow>
   parse_members n acc (join_comma (map dumps_member kvs) @ CHR ''}'' # r) = Some (JObj (acc @ kvs), r)"
proof (induction kvs arbitrary: n acc)
  case Nil
  then show ?case by simp
next
  case (Cons kv kvs)
  obtain k v where kv: "kv = (k, v)" by (cases kv)
  from Cons.prems(5) kv obtain m where n: "n = Suc m" "json_fuel v \<le> m"
    "sum_list (map (\<lambda>(k, v). Suc (json_fuel v)) kvs) \<le> m" by (cases n) auto
  have v: "\<And>r. stops r \<Longrightarrow> parse_value m (dumps v @ r) = Some (v, r)"
    and sv: "\<And>r. skip_ws (dumps v @ r) = dumps v @ r"
    using Cons.prems(1,2) n(2) kv by (simp_all add: reads_back_def skip_ws_dumps)
  have k: "\<And>r. parse_str (concat (map esc_char k) @ CHR 0x22 # r) = Some (k, r)"
    by (rule parse_str_dumps_str)
  have acc: "dict_set k v acc = acc @ [(k, v)]"
    using Cons.prems(4) kv by (intro dict_set_fresh) auto
  show ?case
  proof (cases "kvs = []")
    case True
    then show ?thesis
      using n v k kv acc sv by (simp add: dumps_member_def dumps_str_def skip_ws_punct)
  next
    case False
    have sk: "skip_ws (join_comma (map dumps_member kvs) @ q) = join_comma (map dumps_member kvs) @ q" for q
      using False by (cases kvs; cases "tl kvs") (auto simp: dumps_member_def dumps_str_def skip_ws_punct)
    have "parse_members m (acc @ [(k, v)]) (join_comma (map dumps_member kvs) @ CHR ''}'' # r)
        = Some (JObj (acc @ (k, v) # kvs), r)"
      using Cons.IH [of "acc @ [(k, v)]" m] Cons.prems n(3) False kv by simp
    then show ?thesis
      using n v k kv acc False sv
      by (simp add: join_comma_Cons dumps_member_def [of "(k, v)"] dumps_str_def skip_ws_punct sk)
  qed
qed

lemma reads_back_scalar:
  assumes "wf_json j" and "\<And>xs. j \<noteq> JList xs" and "\<And>kvs. j \<noteq> JObj kvs"
  shows "reads_back j"
  unfolding reads_back_def
proof (intro allI impI)
  fix n r
  assume "json_fuel j \<le> n" and r: "stops r"
  then obtain m where n: "n = Suc m" using json_fuel_pos [of j] by (cases n) auto
  show "parse_value n (dumps j @ r) = Some (j, r)"
  proof (cases j)
    case (JStr s)
    then show ?thesis using n parse_str_dumps_str by (simp add: dumps_str_def)
  next
    case (JInt i)
    have "str_int i \<noteq> [] \<and> number_char (hd (str_int i))"
      using list_all_number_str_int [of i] by (cases "str_int i") (auto simp: str_int_def split: if_splits)
    then obtain c cs where c: "str_int i = c # cs" "number_char c" by (cases "str_int i") auto
    then have "c \<noteq> CHR 0x22" "c \<noteq> CHR ''[''" "c \<noteq> CHR ''{''" "c \<noteq> CHR ''n''" "c \<noteq> CHR ''t''" "c \<noteq> CHR ''f''"
      by (auto simp: number_char_def is_digit_def char_code_def)
    with c JInt n show ?thesis using parse_number_int [OF r, of i] by simp
  next
    case (JFloat t)
    with assms(1) have "t \<noteq> []" "list_all number_char t" by (auto simp: is_float_lit_def Let_def)
    then obtain c cs where c: "t = c # cs" "number_char c" by (cases t) auto
    then have "c \<noteq> CHR 0x22" "c \<noteq> CHR ''[''" "c \<noteq> CHR ''{''" "c \<noteq> CHR ''n''" "c \<noteq> CHR ''t''" "c \<noteq> CHR ''f''"
      by (auto simp: number_char_def is_digit_def char_code_def)
    with c JFloat n assms(1) show ?thesis using parse_number_float [of t r] r by simp
  qed (use n assms in auto)
qed

lemma wf_reads_back: "wf_json j \<Longrightarrow> reads_back j"
proof (induction j)
  case (JList xs)
  then have rb: "list_all reads_back xs" and wf: "list_all wf_json xs" by (auto simp: list_all_iff)
  show ?case
    unfolding reads_back_def
  proof (intro allI impI)
    fix n r
    assume "json_fuel (JList xs) \<le> n"
    then obtain m where n: "n = Suc m" "sum_list (map (\<lambda>x. Suc (json_fuel x)) xs) \<le> m"
      by (cases n) auto
    show "parse_value n (dumps (JList xs) @ r) = Some (JList xs, r)"
    proof (cases xs)
      case Nil
      then show ?thesis using n by (simp add: skip_ws_punct)
    next
      case (Cons x ys)
      then have "\<exists>q. join_comma (map dumps xs) = dumps x @ q" by (cases ys) auto
      then obtain q where q: "join_comma (map dumps xs) = dumps x @ q" by blast
      have wx: "wf_json x" using wf Cons by simp
      then have "skip_ws (dumps x @ q @ CHR '']'' # r) = dumps x @ q @ CHR '']'' # r"
        by (rule skip_ws_dumps)
      moreover have "dumps x \<noteq> []" "hd (dumps x @ q @ CHR '']'' # r) \<noteq> CHR '']''"
        using dumps_head [OF wx] by (auto simp: value_head_def)
      moreover have "parse_items m [] (dumps x @ q @ CHR '']'' # r) = Some (JList xs, r)"
        using parse_items_dumps [OF rb wf _ n(2), of "[]" r] q Cons by simp
      ultimately show ?thesis using n q by simp
    qed
  qed
next
  case (JObj kvs)
  then have rb: "list_all (\<lambda>(k, v). reads_back v) kvs" and wf: "list_all (\<lambda>(k, v). wf_json v) kvs"
    and ds: "distinct (map fst ([] @ kvs))"
    by (auto simp: list_all_iff)
  have dm: "dumps (JObj kvs) = CHR ''{'' # join_comma (map dumps_member kvs) @ [CHR ''}'']"
    by (rule dumps_obj)
  show ?case
    unfolding reads_back_def
  proof (intro allI impI)
    fix n r
    assume "json_fuel (JObj kvs) \<le> n"
    then obtain m where n: "n = Suc m" "sum_list (map (\<lambda>(k, v). Suc (json_fuel v)) kvs) \<le> m"
      by (cases n) auto
    show "parse_value n (dumps (JObj kvs) @ r) = Some (JObj kvs, r)"
    proof (cases kvs)
      case Nil
      then show ?thesis using n by (simp add: skip_ws_punct)
    next
      case (Cons kv ys)
      then have "\<exists>q. join_comma (map dumps_member kvs) = CHR 0x22 # q"
        by (cases ys) (auto simp: dumps_member_def dumps_str_def)
      then obtain q where q: "join_comma (map dumps_member kvs) = CHR 0x22 # q" by blast
      moreover have "parse_members m [] (CHR 0x22 # q @ CHR ''}'' # r) = Some (JObj kvs, r)"
        using parse_members_dumps [OF rb wf _ ds n(2), of r] q Cons by simp
      ultimately show ?thesis using n by (simp add: dm skip_ws_punct del: dumps.simps)
    qed
  qed
qed (rule reads_back_scalar; simp)+

text \<open>The fuel \<open>loads\<close> gives is enough for every text \<open>dumps\<close> writes.\<close>

lemma length_join_comma:
  "sum_list (map (\<lambda>s. 2 + 2 * length s) ss) \<le> 2 * length (join_comma ss) + 2"
  by (induction ss rule: join_comma.induct) auto

lemma json_fuel_length: "json_fuel j \<le> Suc (2 * length (dumps j))"
proof (induction j)
  case (JList xs)
  then have "sum_list (map (\<lambda>x. Suc (json_fuel x)) xs)
      \<le> sum_list (map (\<lambda>x. 2 + 2 * length (dumps x)) xs)"
    by (intro sum_list_mono) fastforce
  also have "\<dots> = sum_list (map (\<lambda>s. 2 + 2 * length s) (map dumps xs))"
    by (simp add: comp_def)
  also have "\<dots> \<le> 2 * length (join_comma (map dumps xs)) + 2"
    by (rule length_join_comma)
  finally show ?case by simp
next
  case (JObj kvs)
  have "Suc (json_fuel v) \<le> 2 + 2 * length (dumps_member (k, v))" if "(k, v) \<in> set kvs" for k v
  proof -
    from JObj that have "json_fuel v \<le> Suc (2 * length (dumps v))" by fastforce
    then show ?thesis by (simp add: dumps_member_def)
  qed
  then have "sum_list (map (\<lambda>(k, v). Suc (json_fuel v)) kvs)
      \<le> sum_list (map (\<lambda>x. 2 + 2 * length (dumps_member x)) kvs)"
    by (intro sum_list_mono) auto
  also have "\<dots> = sum_list (map (\<lambda>s. 2 + 2 * length s) (map dumps_member kvs))"
    by (simp add: comp_def)
  also have "\<dots> \<le> 2 * length (join_comma (map dumps_member kvs)) + 2"
    by (rule length_join_comma)
  finally show ?case by (simp add: dumps_obj del: dumps.simps)
qed simp_all

theorem loads_dumps: "wf_json j \<Longrightarrow> loads (dumps j) = Some j"
proof -
  assume wf: "wf_json j"
  have "parse_value (Suc (2 * length (dumps j))) (dumps j @ []) = Some (j, [])"
    using wf_reads_back [OF wf] json_fuel_length [of j] unfolding reads_back_def by (metis stops_punct(4))
  moreover have "skip_ws (dumps j) = dumps j"
    using skip_ws_dumps [OF wf, of "[]"] by simp
  ultimately show ?thesis by (simp add: loads_def skip_ws_def)
qed

lemma dumps_inj: "wf_json j \<Longrightarrow> wf_json j' \<Longrightarrow> dumps j = dumps j' \<Longrightarrow> j = j'"
  using loads_dumps by (metis option.inject)

end
