(* ===== verification/Models.thy ===== *)
theory Models
  imports Json
begin

text \<open>
  The tables of \<open>shared/db/models.py\<close>: the enumerations, the execution state machine
  (\<open>VALID_TRANSITIONS\<close>, \<open>validate_transition\<close>, \<open>Execution.transition_to\<close>), one record per
  ORM class with the columns the code reads or writes, and the database as a record of tables
  with the constraints PostgreSQL keeps. \<open>get_db\<close> is the session dependency of
  \<open>shared/db/session.py\<close>: commit on return, roll back on an exception.
\<close>

section \<open>Enumerations and the execution state machine\<close>

datatype execution_status =
  PENDING | QUEUED | RUNNING | COMPLETED | FAILED | TIMED_OUT | CANCELLED

datatype function_status = F_ACTIVE | F_INACTIVE | F_DEPRECATED

datatype schedule_status = S_ACTIVE | S_PAUSED | S_DELETED

fun valid_transitions :: "execution_status \<Rightarrow> execution_status list" where
  "valid_transitions PENDING = [QUEUED, CANCELLED]"
| "valid_transitions QUEUED = [RUNNING, CANCELLED, FAILED]"
| "valid_transitions RUNNING = [COMPLETED, FAILED, TIMED_OUT, CANCELLED]"
| "valid_transitions COMPLETED = []"
| "valid_transitions FAILED = []"
| "valid_transitions TIMED_OUT = []"
| "valid_transitions CANCELLED = []"

fun status_value :: "execution_status \<Rightarrow> string" where
  "status_value PENDING = ''PENDING''"
| "status_value QUEUED = ''QUEUED''"
| "status_value RUNNING = ''RUNNING''"
| "status_value COMPLETED = ''COMPLETED''"
| "status_value FAILED = ''FAILED''"
| "status_value TIMED_OUT = ''TIMED_OUT''"
| "status_value CANCELLED = ''CANCELLED''"

text \<open>
  The message ends in the allowed set, which Python prints in no fixed order; the model keeps
  the part before it.
\<close>

definition validate_transition :: "execution_status \<Rightarrow> execution_status \<Rightarrow> unit result" where
  "validate_transition current next_state =
     (if next_state \<notin> set (valid_transitions current)
      then Inl (ValueError (''Invalid state transition: ExecutionStatus.'' @ status_value current @
             '' -> ExecutionStatus.'' @ status_value next_state))
      else Inr ())"

definition terminal_statuses :: "execution_status list" where
  "terminal_statuses = [COMPLETED, FAILED, TIMED_OUT, CANCELLED]"

definition is_terminal :: "execution_status \<Rightarrow> bool" where
  "is_terminal s \<longleftrightarrow> s \<in> set terminal_statuses"

section \<open>Rows\<close>

record user =
  u_id :: uuid
  u_username :: string
  u_email :: string
  u_hashed_password :: string
  u_is_active :: bool
  u_is_superuser :: bool
  u_created_at :: time

record api_key =
  k_id :: uuid
  k_owner_id :: uuid
  k_name :: string
  k_key_hash :: string
  k_key_prefix :: string
  k_revoked_at :: "time option"
  k_last_used_at :: "time option"
  k_created_at :: time

record func =
  f_id :: uuid
  f_owner_id :: uuid
  f_name :: string
  f_description :: "string option"
  f_runtime :: string
  f_status :: function_status
  f_active_version_id :: "uuid option"
  f_canary_version_id :: "uuid option"
  f_canary_percent :: int
  f_tags :: "(string \<times> string) list"
  f_created_at :: time

record activation =
  a_function_id :: uuid
  a_actor_id :: "uuid option"
  a_previous_version_id :: "uuid option"
  a_activated_version_id :: "uuid option"
  a_canary_version_id :: "uuid option"
  a_canary_percent :: int
  a_action :: string
  a_created_at :: time

record version =
  v_id :: uuid
  v_function_id :: uuid
  v_version_number :: nat
  v_entrypoint :: string
  v_artifact_path :: string
  v_artifact_hash :: string
  v_artifact_size :: nat
  v_environment :: "(string \<times> json) list"
  v_timeout :: int
  v_memory_mb :: int
  v_is_active :: bool
  v_change_notes :: "string option"
  v_created_at :: time

record execution =
  e_id :: uuid
  e_function_id :: "uuid option"
  e_function_version_id :: "uuid option"
  e_triggered_by :: "uuid option"
  e_api_key_id :: "uuid option"
  e_execution_type :: string
  e_schedule_id :: "uuid option"
  e_status :: execution_status
  e_payload :: json
  e_result :: "json option"
  e_error_message :: "string option"
  e_failure_kind :: "string option"
  e_worker_id :: "string option"
  e_k8s_job_name :: "string option"
  e_queued_at :: "time option"
  e_started_at :: "time option"
  e_completed_at :: "time option"
  e_duration_ms :: "int option"
  e_attempt_number :: int
  e_timeout :: int
  e_created_at :: time

record exec_log =
  l_execution_id :: uuid
  l_timestamp :: time
  l_level :: string
  l_stream :: string
  l_message :: string
  l_sequence :: nat

record schedule =
  s_id :: uuid
  s_function_id :: uuid
  s_owner_id :: uuid
  s_name :: string
  s_cron_expression :: string
  s_payload :: json
  s_status :: schedule_status
  s_next_run_at :: "time option"
  s_last_run_at :: "time option"
  s_last_execution_id :: "uuid option"
  s_missed_runs :: int
  s_created_at :: time

text \<open>\<open>Execution.transition_to\<close>: the guard first, then the assignment.\<close>

definition transition_to :: "execution_status \<Rightarrow> execution \<Rightarrow> execution result" where
  "transition_to new_status e =
     (case validate_transition (e_status e) new_status of
        Inl x \<Rightarrow> Inl x
      | Inr _ \<Rightarrow> Inr (e\<lparr>e_status := new_status\<rparr>))"

text \<open>The columns of a new \<open>Execution\<close> that the constructor call leaves to the defaults.\<close>

definition new_execution :: "uuid \<Rightarrow> time \<Rightarrow> execution" where
  "new_execution i now =
     \<lparr>e_id = i, e_function_id = None, e_function_version_id = None, e_triggered_by = None,
      e_api_key_id = None, e_execution_type = ''function'', e_schedule_id = None,
      e_status = PENDING, e_payload = JObj [], e_result = None, e_error_message = None,
      e_failure_kind = None, e_worker_id = None, e_k8s_job_name = None, e_queued_at = None,
      e_started_at = None, e_completed_at = None, e_duration_ms = None, e_attempt_number = 1,
      e_timeout = 300, e_created_at = now\<rparr>"

section \<open>The database\<close>

record db =
  t_users :: "user list"
  t_api_keys :: "api_key list"
  t_functions :: "func list"
  t_versions :: "version list"
  t_activations :: "activation list"
  t_executions :: "execution list"
  t_logs :: "exec_log list"
  t_schedules :: "schedule list"

definition empty_db :: db where
  "empty_db = \<lparr>t_users = [], t_api_keys = [], t_functions = [], t_versions = [], t_activations = [],
     t_executions = [], t_logs = [], t_schedules = []\<rparr>"

text \<open>\<open>get_db\<close>: the handler runs on the session's view; only a normal return is committed.\<close>

definition get_db :: "(db \<Rightarrow> 'a result \<times> db) \<Rightarrow> db \<Rightarrow> 'a result \<times> db" where
  "get_db handler d =
     (case handler d of
        (Inl e, _) \<Rightarrow> (Inl e, d)
      | (Inr a, d') \<Rightarrow> (Inr a, d'))"

lemma get_db_Inl_rollback: "get_db h d = (Inl e, d') \<Longrightarrow> d' = d"
  by (auto simp: get_db_def split: prod.splits sum.splits)

lemma get_db_Inr_iff: "get_db h d = (Inr a, d') \<longleftrightarrow> h d = (Inr a, d')"
  by (auto simp: get_db_def split: prod.splits sum.splits)

text \<open>
  A handler that also acts on another service: the session is rolled back on an exception, the
  effects on the service stay.
\<close>

definition get_db_with :: "(db \<times> 'x \<Rightarrow> 'a result \<times> db \<times> 'x) \<Rightarrow> db \<times> 'x \<Rightarrow> 'a result \<times> db \<times> 'x" where
  "get_db_with handler dx =
     (case handler dx of
        (Inl e, (_, x')) \<Rightarrow> (Inl e, (fst dx, x'))
      | (Inr a, dx') \<Rightarrow> (Inr a, dx'))"

lemma get_db_with_Inl: "get_db_with h (d, x) = (Inl e, d', x') \<Longrightarrow> d' = d"
  by (auto simp: get_db_with_def split: prod.splits sum.splits)

lemma get_db_with_Inr_iff: "get_db_with h dx = (Inr a, dx') \<longleftrightarrow> h dx = (Inr a, dx')"
  by (auto simp: get_db_with_def split: prod.splits sum.splits)

text \<open>Writes: an ORM assignment to one row, and inserts that the unique constraints guard.\<close>

definition set_func :: "uuid \<Rightarrow> (func \<Rightarrow> func) \<Rightarrow> db \<Rightarrow> db" where
  "set_func i g d = d\<lparr>t_functions := update_where (\<lambda>f. f_id f = i) g (t_functions d)\<rparr>"

definition set_execution :: "uuid \<Rightarrow> (execution \<Rightarrow> execution) \<Rightarrow> db \<Rightarrow> db" where
  "set_execution i g d = d\<lparr>t_executions := update_where (\<lambda>e. e_id e = i) g (t_executions d)\<rparr>"

definition set_schedule :: "uuid \<Rightarrow> (schedule \<Rightarrow> schedule) \<Rightarrow> db \<Rightarrow> db" where
  "set_schedule i g d = d\<lparr>t_schedules := update_where (\<lambda>s. s_id s = i) g (t_schedules d)\<rparr>"

definition insert_user :: "user \<Rightarrow> db \<Rightarrow> unit result \<times> db" where
  "insert_user u d =
     (if list_ex (\<lambda>w. u_id w = u_id u \<or> u_username w = u_username u \<or> u_email w = u_email u) (t_users d)
      then (Inl (IntegrityError ''users''), d)
      else (Inr (), d\<lparr>t_users := t_users d @ [u]\<rparr>))"

definition insert_api_key :: "api_key \<Rightarrow> db \<Rightarrow> unit result \<times> db" where
  "insert_api_key k d =
     (if list_ex (\<lambda>w. k_id w = k_id k \<or> k_key_hash w = k_key_hash k) (t_api_keys d)
      then (Inl (IntegrityError ''api_keys''), d)
      else (Inr (), d\<lparr>t_api_keys := t_api_keys d @ [k]\<rparr>))"

definition insert_function :: "func \<Rightarrow> db \<Rightarrow> unit result \<times> db" where
  "insert_function f d =
     (if list_ex (\<lambda>g. f_id g = f_id f \<or> (f_owner_id g = f_owner_id f \<and> f_name g = f_name f)) (t_functions d)
      then (Inl (IntegrityError ''functions''), d)
      else (Inr (), d\<lparr>t_functions := t_functions d @ [f]\<rparr>))"

definition insert_version :: "version \<Rightarrow> db \<Rightarrow> unit result \<times> db" where
  "insert_version v d =
     (if list_ex (\<lambda>w. v_id w = v_id v \<or>
           (v_function_id w = v_function_id v \<and> v_version_number w = v_version_number v)) (t_versions d)
      then (Inl (IntegrityError ''function_versions''), d)
      else (Inr (), d\<lparr>t_versions := t_versions d @ [v]\<rparr>))"

definition insert_execution :: "execution \<Rightarrow> db \<Rightarrow> unit result \<times> db" where
  "insert_execution e d =
     (if list_ex (\<lambda>g. e_id g = e_id e) (t_executions d)
      then (Inl (IntegrityError ''executions''), d)
      else (Inr (), d\<lparr>t_executions := t_executions d @ [e]\<rparr>))"

definition insert_schedule :: "schedule \<Rightarrow> db \<Rightarrow> unit result \<times> db" where
  "insert_schedule s d =
     (if list_ex (\<lambda>g. s_id g = s_id s) (t_schedules d)
      then (Inl (IntegrityError ''schedules''), d)
      else (Inr (), d\<lparr>t_schedules := t_schedules d @ [s]\<rparr>))"

text \<open>Deletes, with the \<open>ON DELETE SET NULL\<close> of the foreign keys that point to the rows.\<close>

definition null_if :: "('a \<Rightarrow> bool) \<Rightarrow> 'a option \<Rightarrow> 'a option" where
  "null_if p x = (case x of None \<Rightarrow> None | Some a \<Rightarrow> if p a then None else Some a)"

definition delete_schedules :: "(schedule \<Rightarrow> bool) \<Rightarrow> db \<Rightarrow> db" where
  "delete_schedules p d =
     (let gone = map s_id (filter p (t_schedules d))
      in d\<lparr>t_schedules := delete_where p (t_schedules d),
           t_executions := map (\<lambda>e. e\<lparr>e_schedule_id := null_if (\<lambda>i. i \<in> set gone) (e_schedule_id e)\<rparr>)
                             (t_executions d)\<rparr>)"

definition delete_versions :: "(version \<Rightarrow> bool) \<Rightarrow> db \<Rightarrow> db" where
  "delete_versions p d =
     (let gone = (\<lambda>i. i \<in> set (map v_id (filter p (t_versions d))))
      in d\<lparr>t_versions := delete_where p (t_versions d),
           t_executions := map (\<lambda>e. e\<lparr>e_function_version_id := null_if gone (e_function_version_id e)\<rparr>)
                             (t_executions d),
           t_activations := map (\<lambda>a. a\<lparr>a_previous_version_id := null_if gone (a_previous_version_id a),
               a_activated_version_id := null_if gone (a_activated_version_id a),
               a_canary_version_id := null_if gone (a_canary_version_id a)\<rparr>) (t_activations d)\<rparr>)"

section \<open>Lemmas on the state machine\<close>

lemma validate_transition_Inr:
  "validate_transition s t = Inr u \<longleftrightarrow> t \<in> set (valid_transitions s)"
  by (simp add: validate_transition_def)

lemma transition_to_Inr:
  "transition_to t e = Inr e' \<longleftrightarrow> t \<in> set (valid_transitions (e_status e)) \<and> e' = e\<lparr>e_status := t\<rparr>"
  by (auto simp: transition_to_def validate_transition_def)

lemma terminal_no_transition: "is_terminal s \<longleftrightarrow> valid_transitions s = []"
  by (cases s) (simp_all add: is_terminal_def terminal_statuses_def)

lemma is_terminal_simps [simp]:
  "\<not> is_terminal PENDING" "\<not> is_terminal QUEUED" "\<not> is_terminal RUNNING"
  "is_terminal COMPLETED" "is_terminal FAILED" "is_terminal TIMED_OUT" "is_terminal CANCELLED"
  by (simp_all add: is_terminal_def terminal_statuses_def)

lemma transition_to_terminal: "is_terminal (e_status e) \<Longrightarrow> \<exists>x. transition_to t e = Inl x"
  by (simp add: terminal_no_transition transition_to_def validate_transition_def)

text \<open>The reachability relation of the state machine.\<close>

inductive status_reaches :: "execution_status \<Rightarrow> execution_status \<Rightarrow> bool" where
  stay: "status_reaches s s"
| move: "t \<in> set (valid_transitions s) \<Longrightarrow> status_reaches t u \<Longrightarrow> status_reaches s u"

inductive_cases reaches_fromE: "status_reaches s t"

fun status_rank :: "execution_status \<Rightarrow> nat" where
  "status_rank PENDING = 0"
| "status_rank QUEUED = 1"
| "status_rank RUNNING = 2"
| "status_rank _ = 3"

lemma transition_rank: "t \<in> set (valid_transitions s) \<Longrightarrow> status_rank s < status_rank t"
  by (cases s) auto

lemma reaches_rank: "status_reaches s t \<Longrightarrow> s = t \<or> status_rank s < status_rank t"
  by (induction rule: status_reaches.induct) (auto dest: transition_rank)

lemma reaches_trans: "status_reaches s t \<Longrightarrow> status_reaches t u \<Longrightarrow> status_reaches s u"
  by (induction rule: status_reaches.induct) (auto intro: status_reaches.intros)

lemma reaches_step: "t \<in> set (valid_transitions s) \<Longrightarrow> status_reaches s t"
  by (auto intro: status_reaches.intros)

lemma terminal_reaches: "status_reaches s t \<Longrightarrow> is_terminal s \<Longrightarrow> t = s"
  by (erule reaches_fromE) (auto simp: terminal_no_transition)

section \<open>What the database keeps\<close>

text \<open>Primary keys and the unique constraints declared in the models.\<close>

definition keys_ok :: "db \<Rightarrow> bool" where
  "keys_ok d \<longleftrightarrow>
     distinct (map u_id (t_users d)) \<and> distinct (map u_username (t_users d)) \<and>
     distinct (map u_email (t_users d)) \<and>
     distinct (map k_id (t_api_keys d)) \<and> distinct (map k_key_hash (t_api_keys d)) \<and>
     distinct (map f_id (t_functions d)) \<and>
     distinct (map (\<lambda>f. (f_owner_id f, f_name f)) (t_functions d)) \<and>
     distinct (map v_id (t_versions d)) \<and>
     distinct (map (\<lambda>v. (v_function_id v, v_version_number v)) (t_versions d)) \<and>
     distinct (map e_id (t_executions d)) \<and> distinct (map s_id (t_schedules d))"

text \<open>
  Referential integrity, with the extra condition the handlers keep: the active and the canary
  version of a function are versions of that function.
\<close>

definition version_of :: "db \<Rightarrow> uuid \<Rightarrow> uuid \<Rightarrow> bool" where
  "version_of d fid vid \<longleftrightarrow> (\<exists>v \<in> set (t_versions d). v_id v = vid \<and> v_function_id v = fid)"

definition canary_ok :: "db \<Rightarrow> func \<Rightarrow> bool" where
  "canary_ok d f \<longleftrightarrow>
     (\<forall>vid. f_active_version_id f = Some vid \<longrightarrow> version_of d (f_id f) vid) \<and>
     (case f_canary_version_id f of
        None \<Rightarrow> f_canary_percent f = 0
      | Some c \<Rightarrow> version_of d (f_id f) c \<and> 0 < f_canary_percent f \<and> f_canary_percent f < 100 \<and>
                  f_active_version_id f \<noteq> Some c)"

definition refs_ok :: "db \<Rightarrow> bool" where
  "refs_ok d \<longleftrightarrow>
     (\<forall>f \<in> set (t_functions d). canary_ok d f) \<and>
     (\<forall>v \<in> set (t_versions d). v_is_active v \<and> (\<exists>f \<in> set (t_functions d). f_id f = v_function_id v)) \<and>
     (\<forall>s \<in> set (t_schedules d). \<exists>f \<in> set (t_functions d). f_id f = s_function_id s)"

definition db_ok :: "db \<Rightarrow> bool" where
  "db_ok d \<longleftrightarrow> keys_ok d \<and> refs_ok d"

lemma db_ok_keys: "db_ok d \<Longrightarrow> keys_ok d" and db_ok_refs: "db_ok d \<Longrightarrow> refs_ok d"
  by (simp_all add: db_ok_def)

lemma db_ok_empty: "db_ok empty_db"
  by (simp add: db_ok_def keys_ok_def refs_ok_def empty_db_def)

section \<open>Which writes keep it\<close>

lemma canary_ok_cong: "t_versions d' = t_versions d \<Longrightarrow> canary_ok d' f = canary_ok d f"
  by (simp add: canary_ok_def version_of_def split: option.split)

lemma refs_ok_cong:
  "t_versions d' = t_versions d \<Longrightarrow> t_functions d' = t_functions d \<Longrightarrow> t_schedules d' = t_schedules d \<Longrightarrow>
   refs_ok d' = refs_ok d"
  by (simp add: refs_ok_def canary_ok_cong [of d' d])

lemma version_of_mono:
  "set (t_versions d) \<subseteq> set (t_versions d') \<Longrightarrow> version_of d fid vid \<Longrightarrow> version_of d' fid vid"
  by (auto simp: version_of_def)

lemma canary_ok_mono:
  "set (t_versions d) \<subseteq> set (t_versions d') \<Longrightarrow> canary_ok d f \<Longrightarrow> canary_ok d' f"
  by (auto simp: canary_ok_def split: option.splits intro: version_of_mono)

lemma keys_ok_other [simp]:
  "keys_ok (d\<lparr>t_activations := as\<rparr>) = keys_ok d" "keys_ok (d\<lparr>t_logs := ls\<rparr>) = keys_ok d"
  by (simp_all add: keys_ok_def)

lemma refs_ok_other [simp]:
  "refs_ok (d\<lparr>t_activations := as\<rparr>) = refs_ok d" "refs_ok (d\<lparr>t_logs := ls\<rparr>) = refs_ok d"
  "refs_ok (d\<lparr>t_executions := es\<rparr>) = refs_ok d" "refs_ok (d\<lparr>t_users := us\<rparr>) = refs_ok d"
  "refs_ok (d\<lparr>t_api_keys := ks\<rparr>) = refs_ok d"
  by (rule refs_ok_cong; simp)+

lemma db_ok_other [simp]:
  "db_ok (d\<lparr>t_activations := as\<rparr>) = db_ok d" "db_ok (d\<lparr>t_logs := ls\<rparr>) = db_ok d"
  by (simp_all add: db_ok_def)

lemma db_ok_executions:
  "map e_id es = map e_id (t_executions d) \<Longrightarrow> db_ok (d\<lparr>t_executions := es\<rparr>) = db_ok d"
  by (simp add: db_ok_def keys_ok_def)

lemma db_ok_set_execution:
  "(\<And>e. e_id (g e) = e_id e) \<Longrightarrow> db_ok (set_execution i g d) = db_ok d"
  by (simp add: set_execution_def db_ok_executions map_key_update_where)

lemma db_ok_insert_execution:
  "db_ok d \<Longrightarrow> insert_execution e d = (r, d') \<Longrightarrow> db_ok d'"
proof (cases "d' = d")
  case False
  assume ok: "db_ok d" and ins: "insert_execution e d = (r, d')"
  with False have d': "d' = d\<lparr>t_executions := t_executions d @ [e]\<rparr>"
    and "e_id e \<notin> e_id ` set (t_executions d)"
    by (auto simp: insert_execution_def list_ex_iff split: if_splits)
  then show ?thesis using ok by (simp add: db_ok_def keys_ok_def)
qed simp

lemma keys_ok_functions: "keys_ok d \<Longrightarrow> distinct (map f_id (t_functions d))"
  and keys_ok_versions: "keys_ok d \<Longrightarrow> distinct (map v_id (t_versions d))"
  and keys_ok_executions: "keys_ok d \<Longrightarrow> distinct (map e_id (t_executions d))"
  and keys_ok_schedules: "keys_ok d \<Longrightarrow> distinct (map s_id (t_schedules d))"
  by (simp_all add: keys_ok_def)

lemmas row_keys = keys_ok_functions keys_ok_versions keys_ok_executions keys_ok_schedules

lemma set_func_row:
  assumes "keys_ok d" and "fn \<in> set (t_functions d)"
  shows "t_functions (set_func (f_id fn) g d) = map (\<lambda>f. if f = fn then g fn else f) (t_functions d)"
  using assms by (auto simp: set_func_def update_where_def dest: keys_ok_functions distinct_key_unique)

lemma set_func_other [simp]:
  "t_users (set_func i g d) = t_users d" "t_api_keys (set_func i g d) = t_api_keys d"
  "t_versions (set_func i g d) = t_versions d" "t_activations (set_func i g d) = t_activations d"
  "t_executions (set_func i g d) = t_executions d" "t_logs (set_func i g d) = t_logs d"
  "t_schedules (set_func i g d) = t_schedules d"
  by (simp_all add: set_func_def)

text \<open>Changing one function row keeps the invariant when the row keeps its keys and its canary.\<close>

lemma db_ok_set_func:
  assumes ok: "db_ok d" and fn: "fn \<in> set (t_functions d)"
    and same: "f_id (g fn) = f_id fn" "f_owner_id (g fn) = f_owner_id fn" "f_name (g fn) = f_name fn"
    and canary: "canary_ok d (g fn)"
  shows "db_ok (set_func (f_id fn) g d)"
proof -
  let ?h = "\<lambda>f. if f = fn then g fn else f"
  have fs: "t_functions (set_func (f_id fn) g d) = map ?h (t_functions d)"
    using ok fn by (simp add: set_func_row db_ok_keys)
  have ids: "f_id (?h f) = f_id f" "(f_owner_id (?h f), f_name (?h f)) = (f_owner_id f, f_name f)" for f
    using same by auto
  have m: "map f_id (map ?h (t_functions d)) = map f_id (t_functions d)"
    "map (\<lambda>f. (f_owner_id f, f_name f)) (map ?h (t_functions d)) = map (\<lambda>f. (f_owner_id f, f_name f)) (t_functions d)"
    using same by auto
  have "keys_ok (set_func (f_id fn) g d)"
    using db_ok_keys [OF ok] unfolding keys_ok_def fs set_func_other m .
  moreover have "refs_ok (set_func (f_id fn) g d)"
  proof -
    have ex: "\<exists>f' \<in> set (map ?h (t_functions d)). f_id f' = i"
      if "\<exists>f \<in> set (t_functions d). f_id f = i" for i
    proof -
      from that obtain f where "f \<in> set (t_functions d)" "f_id f = i" by blast
      then have "?h f \<in> set (map ?h (t_functions d))" "f_id (?h f) = i" using ids(1) by auto
      then show ?thesis by blast
    qed
    have "\<forall>f \<in> set (map ?h (t_functions d)). canary_ok (set_func (f_id fn) g d) f"
      using db_ok_refs [OF ok] canary canary_ok_cong [of "set_func (f_id fn) g d" d]
      by (auto simp: refs_ok_def)
    moreover have "\<forall>v \<in> set (t_versions d). v_is_active v \<and>
        (\<exists>f \<in> set (map ?h (t_functions d)). f_id f = v_function_id v)"
      using db_ok_refs [OF ok] ex unfolding refs_ok_def by blast
    moreover have "\<forall>s \<in> set (t_schedules d).
        \<exists>f \<in> set (map ?h (t_functions d)). f_id f = s_function_id s"
      using db_ok_refs [OF ok] ex unfolding refs_ok_def by blast
    ultimately show ?thesis unfolding refs_ok_def fs set_func_other by blast
  qed
  ultimately show ?thesis by (simp add: db_ok_def)
qed

lemma db_ok_insert_function:
  assumes ok: "db_ok d" and ins: "insert_function f d = (r, d')"
    and "f_active_version_id f = None" and "f_canary_version_id f = None" and "f_canary_percent f = 0"
  shows "db_ok d'"
proof (cases "d' = d")
  case False
  then have d': "d' = d\<lparr>t_functions := t_functions d @ [f]\<rparr>"
    and fresh: "\<forall>g \<in> set (t_functions d). f_id g \<noteq> f_id f \<and>
        \<not> (f_owner_id g = f_owner_id f \<and> f_name g = f_name f)"
    using ins by (auto simp: insert_function_def list_ex_iff split: if_splits)
  have "keys_ok d'" using db_ok_keys [OF ok] fresh by (auto simp: d' keys_ok_def)
  moreover have "canary_ok d' f" using assms(3-5) by (simp add: canary_ok_def)
  moreover have "canary_ok d' g = canary_ok d g" for g by (rule canary_ok_cong) (simp add: d')
  ultimately show ?thesis using db_ok_refs [OF ok] by (auto simp: db_ok_def refs_ok_def d')
qed (simp add: ok)

lemma db_ok_insert_version:
  assumes ok: "db_ok d" and ins: "insert_version v d = (r, d')"
    and "v_is_active v" and "\<exists>f \<in> set (t_functions d). f_id f = v_function_id v"
  shows "db_ok d'"
proof (cases r)
  case (Inl e)
  then show ?thesis using ins ok by (auto simp: insert_version_def split: if_splits)
next
  case (Inr u)
  then have d': "d' = d\<lparr>t_versions := t_versions d @ [v]\<rparr>"
    and fresh: "\<forall>w \<in> set (t_versions d). v_id w \<noteq> v_id v \<and>
        \<not> (v_function_id w = v_function_id v \<and> v_version_number w = v_version_number v)"
    using ins by (auto simp: insert_version_def list_ex_iff split: if_splits)
  have "keys_ok d'" using db_ok_keys [OF ok] fresh by (auto simp: d' keys_ok_def)
  moreover have "canary_ok d' f" if "canary_ok d f" for f
    using that by (rule canary_ok_mono [rotated]) (auto simp: d')
  ultimately show ?thesis using assms(3,4) db_ok_refs [OF ok] by (auto simp: db_ok_def refs_ok_def d')
qed

lemma db_ok_schedules:
  assumes "db_ok d" and "distinct (map s_id ss)"
    and "\<forall>s \<in> set ss. \<exists>f \<in> set (t_functions d). f_id f = s_function_id s"
  shows "db_ok (d\<lparr>t_schedules := ss\<rparr>)"
  using assms canary_ok_cong [of "d\<lparr>t_schedules := ss\<rparr>" d]
  by (simp add: db_ok_def keys_ok_def refs_ok_def)

lemma db_ok_set_schedule:
  assumes ok: "db_ok d" and "\<And>s. s_id (g s) = s_id s" and "\<And>s. s_function_id (g s) = s_function_id s"
  shows "db_ok (set_schedule i g d)"
  unfolding set_schedule_def
proof (rule db_ok_schedules [OF ok])
  show "distinct (map s_id (update_where (\<lambda>s. s_id s = i) g (t_schedules d)))"
    using ok assms(2) by (simp add: map_key_update_where db_ok_def keys_ok_def)
  show "\<forall>s \<in> set (update_where (\<lambda>s. s_id s = i) g (t_schedules d)).
      \<exists>f \<in> set (t_functions d). f_id f = s_function_id s"
    using ok assms(3) by (auto simp: set_update_where db_ok_def refs_ok_def)
qed

lemma db_ok_delete_schedules:
  assumes ok: "db_ok d"
  shows "db_ok (delete_schedules p d)"
proof -
  have "db_ok (d\<lparr>t_schedules := delete_where p (t_schedules d)\<rparr>)"
    using ok by (intro db_ok_schedules) (auto simp: db_ok_def keys_ok_def refs_ok_def distinct_delete_where)
  then show ?thesis
    unfolding delete_schedules_def Let_def
    by (subst db_ok_executions [where d = "d\<lparr>t_schedules := delete_where p (t_schedules d)\<rparr>", simplified])
       (simp_all add: comp_def)
qed

lemma db_ok_insert_user:
  assumes "db_ok d" and "insert_user u d = (r, d')"
  shows "db_ok d'"
proof (cases r)
  case (Inl e)
  then show ?thesis using assms by (auto simp: insert_user_def split: if_splits)
next
  case (Inr x)
  then have d': "d' = d\<lparr>t_users := t_users d @ [u]\<rparr>"
    and fresh: "\<forall>w \<in> set (t_users d). u_id w \<noteq> u_id u \<and> u_username w \<noteq> u_username u \<and> u_email w \<noteq> u_email u"
    using assms(2) by (auto simp: insert_user_def list_ex_iff split: if_splits)
  then show ?thesis using assms(1) by (auto simp: db_ok_def keys_ok_def)
qed

lemma db_ok_insert_api_key:
  assumes "db_ok d" and "insert_api_key k d = (r, d')"
  shows "db_ok d'"
proof (cases r)
  case (Inl e)
  then show ?thesis using assms by (auto simp: insert_api_key_def split: if_splits)
next
  case (Inr x)
  then have d': "d' = d\<lparr>t_api_keys := t_api_keys d @ [k]\<rparr>"
    and fresh: "\<forall>w \<in> set (t_api_keys d). k_id w \<noteq> k_id k \<and> k_key_hash w \<noteq> k_key_hash k"
    using assms(2) by (auto simp: insert_api_key_def list_ex_iff split: if_splits)
  then show ?thesis using assms(1) by (auto simp: db_ok_def keys_ok_def)
qed

lemma db_ok_api_keys:
  assumes "db_ok d" and "map k_id ks = map k_id (t_api_keys d)"
    and "map k_key_hash ks = map k_key_hash (t_api_keys d)"
  shows "db_ok (d\<lparr>t_api_keys := ks\<rparr>)"
  using assms by (simp add: db_ok_def keys_ok_def)

end
