(* ===== verification/Settings.thy ===== *)
theory Settings
  imports Prelude
begin

text \<open>
  \<open>shared/config.py\<close>: the settings in the order of the class, their defaults, and the checks of
  its field constraints and validators. What pydantic reads from the environment replaces the
  defaults field by field; the operations of the model take the resulting record.
\<close>

record settings =
  api_host :: string
  api_port :: int
  api_debug :: bool
  api_workers :: int
  api_cors_origins :: "string list"
  secret_key :: string
  algorithm :: string
  access_token_expire_minutes :: int
  refresh_token_expire_days :: int
  database_url :: string
  database_url_sync :: string
  database_pool_size :: int
  database_max_overflow :: int
  database_pool_timeout :: int
  redis_url :: string
  redis_max_connections :: int
  redis_socket_timeout :: int
  redis_socket_connect_timeout :: int
  queue_default_timeout :: int
  queue_max_retries :: int
  queue_retry_delay :: int
  queue_dlq_name :: string
  minio_endpoint :: string
  minio_access_key :: string
  minio_secret_key :: string
  minio_secure :: bool
  minio_bucket_artifacts :: string
  minio_bucket_packages :: string
  worker_concurrency :: int
  worker_heartbeat_interval :: int
  worker_shutdown_timeout :: int
  worker_queue_poll_interval :: int
  worker_stale_recovery_interval :: int
  worker_stale_timeout_grace :: int
  cfg_worker_id :: string
  sandbox_enabled :: bool
  sandbox_namespace :: string
  sandbox_runtime_class :: string
  sandbox_image :: string
  sandbox_image_pull_policy :: string
  sandbox_default_timeout :: int
  sandbox_max_timeout :: int
  sandbox_cpu_request :: string
  sandbox_cpu_limit :: string
  sandbox_memory_request :: string
  sandbox_memory_limit :: string
  sandbox_service_account :: string
  ephemeral_local_execution_enabled :: bool
  ephemeral_rate_limit_per_minute :: int
  ephemeral_concurrency_limit :: nat
  ephemeral_max_code_bytes :: nat
  otel_exporter_otlp_endpoint :: string
  otel_service_name :: string
  log_level :: string
  log_format :: string
  scheduler_enabled :: bool
  scheduler_poll_interval :: int
  scheduler_max_missed_runs :: int
  max_function_size_bytes :: nat
  max_payload_size_bytes :: nat
  max_execution_timeout :: int
  max_functions_per_user :: nat
  max_versions_per_function :: nat

text \<open>The fields without a default are the arguments; the worker's id is random by default.\<close>

definition settings_of ::
  "string \<Rightarrow> string \<Rightarrow> string \<Rightarrow> string \<Rightarrow> string \<Rightarrow> string \<Rightarrow> string \<Rightarrow> string \<Rightarrow> settings" where
  "settings_of secret db_url db_url_sync r_url m_endpoint m_access m_secret wid =
     \<lparr>api_host = ''0.0.0.0'', api_port = 8000, api_debug = False, api_workers = 4,
      api_cors_origins = [''http://localhost:3000''],
      secret_key = secret, algorithm = ''HS256'', access_token_expire_minutes = 60,
      refresh_token_expire_days = 7,
      database_url = db_url, database_url_sync = db_url_sync, database_pool_size = 20,
      database_max_overflow = 10, database_pool_timeout = 30,
      redis_url = r_url, redis_max_connections = 20, redis_socket_timeout = 5,
      redis_socket_connect_timeout = 5, queue_default_timeout = 300, queue_max_retries = 3,
      queue_retry_delay = 60, queue_dlq_name = ''sopm:dlq'',
      minio_endpoint = m_endpoint, minio_access_key = m_access, minio_secret_key = m_secret,
      minio_secure = False, minio_bucket_artifacts = ''sopm-artifacts'',
      minio_bucket_packages = ''sopm-packages'',
      worker_concurrency = 4, worker_heartbeat_interval = 30, worker_shutdown_timeout = 60,
      worker_queue_poll_interval = 1, worker_stale_recovery_interval = 60,
      worker_stale_timeout_grace = 60, cfg_worker_id = wid,
      sandbox_enabled = True, sandbox_namespace = ''sopm-sandbox'',
      sandbox_runtime_class = ''gvisor'', sandbox_image = ''sopm/runner:latest'',
      sandbox_image_pull_policy = ''IfNotPresent'', sandbox_default_timeout = 300,
      sandbox_max_timeout = 3600, sandbox_cpu_request = ''100m'', sandbox_cpu_limit = ''500m'',
      sandbox_memory_request = ''128Mi'', sandbox_memory_limit = ''512Mi'',
      sandbox_service_account = ''sopm-runner'',
      ephemeral_local_execution_enabled = False, ephemeral_rate_limit_per_minute = 20,
      ephemeral_concurrency_limit = 3, ephemeral_max_code_bytes = 64 * 1024,
      otel_exporter_otlp_endpoint = ''http://localhost:4317'', otel_service_name = ''sopm-api'',
      log_level = ''INFO'', log_format = ''json'',
      scheduler_enabled = True, scheduler_poll_interval = 30, scheduler_max_missed_runs = 3,
      max_function_size_bytes = 10 * 1024 * 1024, max_payload_size_bytes = 1024 * 1024,
      max_execution_timeout = 3600, max_functions_per_user = 100, max_versions_per_function = 50\<rparr>"

text \<open>The field constraints and validators, in the order of the fields.\<close>

definition validate_settings :: "settings \<Rightarrow> settings result" where
  "validate_settings cfg =
     (if length (secret_key cfg) < 32 then Inl (ValidationError ''secret_key'')
      else if database_url cfg = [] then Inl (ValidationError ''DATABASE_URL must be set'')
      else if database_url_sync cfg = [] then Inl (ValidationError ''DATABASE_URL must be set'')
      else if redis_url cfg = [] then Inl (ValidationError ''REDIS_URL must be set'')
      else if log_level cfg \<notin> {''DEBUG'', ''INFO'', ''WARNING'', ''ERROR'', ''CRITICAL''}
      then Inl (ValidationError ''log_level'')
      else if log_format cfg \<notin> {''json'', ''text''} then Inl (ValidationError ''log_format'')
      else Inr cfg)"

text \<open>The defaults, with placeholder credentials, for the examples.\<close>

definition default_settings :: settings where
  "default_settings = settings_of ''0123456789abcdef0123456789abcdef'' ''postgresql://db'' ''postgresql://db''
     ''redis://redis'' ''minio:9000'' ''access'' ''secret'' ''worker''"

lemma default_settings_simps [simp]:
  "access_token_expire_minutes default_settings = 60" "refresh_token_expire_days default_settings = 7"
  "minio_bucket_artifacts default_settings = ''sopm-artifacts''"
  "minio_bucket_packages default_settings = ''sopm-packages''"
  "worker_queue_poll_interval default_settings = 1" "worker_stale_timeout_grace default_settings = 60"
  "sandbox_enabled default_settings" "sandbox_namespace default_settings = ''sopm-sandbox''"
  "sandbox_runtime_class default_settings = ''gvisor''"
  "sandbox_default_timeout default_settings = 300" "sandbox_memory_request default_settings = ''128Mi''"
  "sandbox_memory_limit default_settings = ''512Mi''"
  "\<not> ephemeral_local_execution_enabled default_settings"
  "ephemeral_rate_limit_per_minute default_settings = 20" "ephemeral_concurrency_limit default_settings = 3"
  "ephemeral_max_code_bytes default_settings = 65536"
  "scheduler_poll_interval default_settings = 30" "scheduler_max_missed_runs default_settings = 3"
  "max_function_size_bytes default_settings = 10485760" "max_payload_size_bytes default_settings = 1048576"
  "max_functions_per_user default_settings = 100" "max_versions_per_function default_settings = 50"
  by (simp_all add: default_settings_def settings_of_def)

lemma default_settings_valid: "validate_settings default_settings = Inr default_settings"
  by (simp add: validate_settings_def default_settings_def settings_of_def)

end
