(* ===== verification/Schemas.thy ===== *)
theory Schemas
  imports Models Settings
begin

text \<open>
  The request models of \<open>api/schemas/schemas.py\<close> and of the routers: each validator returns
  the request or the validation error. \<open>croniter\<close> and the e-mail validator are third-party and
  appear as arguments; Pydantic collects every error of a request, the model returns the first. Python's \<open>re\<close> lets \<open>$\<close> match before a final newline
  (\<open>re_dollar\<close>); the \<open>pattern=\<close> of a Pydantic field does not.
\<close>

section \<open>Patterns\<close>

definition is_letter :: "char \<Rightarrow> bool" where
  "is_letter c \<longleftrightarrow> (65 \<le> char_code c \<and> char_code c \<le> 90) \<or> (97 \<le> char_code c \<and> char_code c \<le> 122)"

definition is_upper :: "char \<Rightarrow> bool" where
  "is_upper c \<longleftrightarrow> 65 \<le> char_code c \<and> char_code c \<le> 90"

definition newline :: char where
  "newline = CHR 0x0A"

definition re_dollar :: "(string \<Rightarrow> bool) \<Rightarrow> string \<Rightarrow> bool" where
  "re_dollar p s \<longleftrightarrow> p s \<or> (s \<noteq> [] \<and> last s = newline \<and> p (butlast s))"

definition name_char :: "char \<Rightarrow> bool" where
  "name_char c \<longleftrightarrow> is_letter c \<or> is_digit c \<or> c = CHR ''_'' \<or> c = CHR ''-''"

text \<open>\<open>^[a-zA-Z][a-zA-Z0-9_-]{0,127}$\<close>\<close>

definition plain_name :: "string \<Rightarrow> bool" where
  "plain_name s \<longleftrightarrow> s \<noteq> [] \<and> is_letter (hd s) \<and> list_all name_char (tl s) \<and> length (tl s) \<le> 127"

definition function_name_re :: "string \<Rightarrow> bool" where
  "function_name_re s \<longleftrightarrow> re_dollar plain_name s"

text \<open>\<open>^[a-zA-Z_][a-zA-Z0-9_.]*\.[a-zA-Z_][a-zA-Z0-9_]*$\<close>: the last dot ends the module path.\<close>

definition ident_start :: "char \<Rightarrow> bool" where
  "ident_start c \<longleftrightarrow> is_letter c \<or> c = CHR ''_''"

definition ident_char :: "char \<Rightarrow> bool" where
  "ident_char c \<longleftrightarrow> ident_start c \<or> is_digit c"

definition entrypoint_pattern :: "string \<Rightarrow> bool" where
  "entrypoint_pattern s \<longleftrightarrow>
     (case rsplit1 (CHR ''.'') s of
        None \<Rightarrow> False
      | Some (m, f) \<Rightarrow>
          m \<noteq> [] \<and> ident_start (hd m) \<and> list_all (\<lambda>c. ident_char c \<or> c = CHR ''.'') m \<and>
          f \<noteq> [] \<and> ident_start (hd f) \<and> list_all ident_char f)"

text \<open>\<open>^[A-Z_][A-Z0-9_]*$\<close> with \<open>re.match\<close>\<close>

definition plain_env_key :: "string \<Rightarrow> bool" where
  "plain_env_key s \<longleftrightarrow>
     s \<noteq> [] \<and> (is_upper (hd s) \<or> hd s = CHR ''_'') \<and>
     list_all (\<lambda>c. is_upper c \<or> is_digit c \<or> c = CHR ''_'') (tl s)"

definition env_key_re :: "string \<Rightarrow> bool" where
  "env_key_re s \<longleftrightarrow> re_dollar plain_env_key s"

definition username_pattern :: "string \<Rightarrow> bool" where
  "username_pattern s \<longleftrightarrow> s \<noteq> [] \<and> list_all name_char s"

text \<open>\<open>str.split()\<close>: the words between runs of white space.\<close>

fun split_ws_acc :: "string \<Rightarrow> string \<Rightarrow> string list" where
  "split_ws_acc acc [] = (if acc = [] then [] else [rev acc])"
| "split_ws_acc acc (c # cs) =
     (if is_space c then (if acc = [] then split_ws_acc [] cs else rev acc # split_ws_acc [] cs)
      else split_ws_acc (c # acc) cs)"

definition split_ws :: "string \<Rightarrow> string list" where
  "split_ws s = split_ws_acc [] s"

section \<open>Requests\<close>

record user_register =
  ur_username :: string
  ur_email :: string
  ur_password :: string

record function_create =
  fc_name :: string
  fc_description :: "string option"
  fc_tags :: "(string \<times> string) list"

record function_update =
  fu_description :: "string option"
  fu_status :: "function_status option"
  fu_tags :: "(string \<times> string) list option"

record version_create =
  vc_entrypoint :: string
  vc_environment :: "(string \<times> json) list"
  vc_timeout :: int
  vc_memory_mb :: int
  vc_change_notes :: "string option"

record canary_update =
  cu_version_id :: "uuid option"
  cu_percent :: int

record execution_trigger =
  et_payload :: json
  et_version_id :: "uuid option"
  et_timeout :: "int option"

record schedule_create =
  sc_name :: string
  sc_cron_expression :: string
  sc_payload :: json

record schedule_update =
  su_name :: "string option"
  su_cron_expression :: "string option"
  su_payload :: "json option"
  su_status :: "schedule_status option"

record ephemeral_request =
  er_code :: string
  er_entrypoint :: string
  er_event :: json
  er_timeout :: int
  er_memory_mb :: int

definition opt_max :: "nat \<Rightarrow> string option \<Rightarrow> bool" where
  "opt_max n s \<longleftrightarrow> (case s of None \<Rightarrow> True | Some t \<Rightarrow> length t \<le> n)"

definition between :: "int \<Rightarrow> int \<Rightarrow> int \<Rightarrow> bool" where
  "between lo hi x \<longleftrightarrow> lo \<le> x \<and> x \<le> hi"

definition validate_user_register :: "(string \<Rightarrow> bool) \<Rightarrow> user_register \<Rightarrow> user_register result" where
  "validate_user_register email_ok b =
     (if length (ur_username b) < 3 \<or> 64 < length (ur_username b) \<or> \<not> username_pattern (ur_username b)
      then Inl (ValidationError ''username'')
      else if \<not> email_ok (ur_email b) then Inl (ValidationError ''email'')
      else if length (ur_password b) < 8 \<or> 128 < length (ur_password b)
      then Inl (ValidationError ''password'')
      else Inr b)"

definition validate_function_create :: "function_create \<Rightarrow> function_create result" where
  "validate_function_create b =
     (if length (fc_name b) < 1 \<or> 128 < length (fc_name b) \<or> \<not> function_name_re (fc_name b)
      then Inl (ValidationError ''name'')
      else if \<not> opt_max 1024 (fc_description b) then Inl (ValidationError ''description'')
      else Inr b)"

definition validate_function_update :: "function_update \<Rightarrow> function_update result" where
  "validate_function_update b =
     (if \<not> opt_max 1024 (fu_description b) then Inl (ValidationError ''description'') else Inr b)"

text \<open>The values of \<open>environment: dict[str, str]\<close>.\<close>

definition is_jstr :: "json \<Rightarrow> bool" where
  "is_jstr v \<longleftrightarrow> (case v of JStr s \<Rightarrow> True | _ \<Rightarrow> False)"

definition validate_version_create :: "version_create \<Rightarrow> version_create result" where
  "validate_version_create b =
     (if \<not> entrypoint_pattern (vc_entrypoint b) then Inl (ValidationError ''entrypoint'')
      else if 50 < length (vc_environment b) \<or>
              \<not> list_all (\<lambda>(k, v). env_key_re k \<and> is_jstr v) (vc_environment b)
      then Inl (ValidationError ''environment'')
      else if \<not> between 1 3600 (vc_timeout b) then Inl (ValidationError ''timeout'')
      else if \<not> between 64 3072 (vc_memory_mb b) then Inl (ValidationError ''memory_mb'')
      else if \<not> opt_max 512 (vc_change_notes b) then Inl (ValidationError ''change_notes'')
      else Inr b)"

definition validate_canary_update :: "canary_update \<Rightarrow> canary_update result" where
  "validate_canary_update b =
     (if \<not> between 0 100 (cu_percent b) then Inl (ValidationError ''canary_percent'') else Inr b)"

text \<open>A field of type \<open>dict[str, Any]\<close>. \<open>json.dumps\<close> writes ASCII only, so its UTF-8 length is its length.\<close>

definition is_jobj :: "json \<Rightarrow> bool" where
  "is_jobj v \<longleftrightarrow> (case v of JObj kvs \<Rightarrow> True | _ \<Rightarrow> False)"

definition validate_execution_trigger :: "execution_trigger \<Rightarrow> execution_trigger result" where
  "validate_execution_trigger b =
     (if \<not> is_jobj (et_payload b) \<or> 1048576 < length (dumps (et_payload b)) then Inl (ValidationError ''payload'')
      else if (case et_timeout b of None \<Rightarrow> False | Some t \<Rightarrow> \<not> between 1 3600 t)
      then Inl (ValidationError ''timeout'')
      else Inr b)"

definition cron_parts :: nat where
  "cron_parts = 5"

definition validate_schedule_create :: "(string \<Rightarrow> bool) \<Rightarrow> schedule_create \<Rightarrow> schedule_create result" where
  "validate_schedule_create cron_ok b =
     (if length (sc_name b) < 1 \<or> 128 < length (sc_name b) then Inl (ValidationError ''name'')
      else if \<not> cron_ok (sc_cron_expression b) then Inl (ValidationError ''Invalid cron expression'')
      else if length (split_ws (strip (sc_cron_expression b))) \<noteq> cron_parts
      then Inl (ValidationError ''Cron expression must have exactly 5 parts'')
      else if \<not> is_jobj (sc_payload b) then Inl (ValidationError ''payload'')
      else Inr b)"

definition validate_schedule_update :: "(string \<Rightarrow> bool) \<Rightarrow> schedule_update \<Rightarrow> schedule_update result" where
  "validate_schedule_update cron_ok b =
     (if (case su_name b of None \<Rightarrow> False | Some n \<Rightarrow> length n < 1 \<or> 128 < length n)
      then Inl (ValidationError ''name'')
      else if (case su_cron_expression b of None \<Rightarrow> False | Some v \<Rightarrow> \<not> cron_ok v)
      then Inl (ValidationError ''Invalid cron expression'')
      else if (case su_payload b of None \<Rightarrow> False | Some v \<Rightarrow> \<not> is_jobj v) then Inl (ValidationError ''payload'')
      else Inr b)"

text \<open>\<open>utf8\<close> gives the encoded length of the code, whose characters need not be ASCII.\<close>

definition utf8_length :: "string \<Rightarrow> nat" where
  "utf8_length s = sum_list (map (\<lambda>c. if char_code c < 128 then 1 else 2) s)"

definition validate_ephemeral :: "settings \<Rightarrow> ephemeral_request \<Rightarrow> ephemeral_request result" where
  "validate_ephemeral cfg b =
     (if length (er_code b) < 1 \<or> ephemeral_max_code_bytes cfg < utf8_length (er_code b)
      then Inl (ValidationError ''code'')
      else if \<not> entrypoint_pattern (er_entrypoint b) then Inl (ValidationError ''entrypoint'')
      else if \<not> is_jobj (er_event b) \<or> max_payload_size_bytes cfg < length (dumps (er_event b))
      then Inl (ValidationError ''event'')
      else if \<not> between 1 300 (er_timeout b) then Inl (ValidationError ''timeout'')
      else if \<not> between 64 1024 (er_memory_mb b) then Inl (ValidationError ''memory_mb'')
      else Inr b)"

text \<open>The bodies of \<open>POST /keys\<close> and of an invocation.\<close>

definition validate_key_create :: "string \<Rightarrow> string result" where
  "validate_key_create name =
     (if length name < 1 \<or> 128 < length name then Inl (ValidationError ''name'') else Inr name)"

definition validate_invoke :: "json \<Rightarrow> json result" where
  "validate_invoke payload = (if is_jobj payload then Inr payload else Inl (ValidationError ''payload''))"

text \<open>\<open>pagination_params\<close>: a page number from 1 and a page size of at most 100.\<close>

definition pagination_params :: "int \<Rightarrow> int \<Rightarrow> (nat \<times> nat) result" where
  "pagination_params page page_size =
     (if page < 1 then Inl (ValidationError ''page'')
      else if \<not> between 1 100 page_size then Inl (ValidationError ''page_size'')
      else Inr (nat ((page - 1) * page_size), nat page_size))"

section \<open>Facts\<close>

lemma validate_canary_update_Inr:
  "validate_canary_update b = Inr b' \<longleftrightarrow> b' = b \<and> 0 \<le> cu_percent b \<and> cu_percent b \<le> 100"
  by (auto simp: validate_canary_update_def between_def)

lemma validate_version_create_Inr:
  "validate_version_create b = Inr b' \<Longrightarrow>
   b' = b \<and> entrypoint_pattern (vc_entrypoint b) \<and> 1 \<le> vc_timeout b \<and> vc_timeout b \<le> 3600 \<and>
   64 \<le> vc_memory_mb b \<and> vc_memory_mb b \<le> 3072"
  by (auto simp: validate_version_create_def between_def split: if_splits)

lemma pagination_params_Inr:
  "pagination_params page sz = Inr (offset, limit) \<Longrightarrow>
   1 \<le> limit \<and> limit \<le> 100 \<and> int offset = (page - 1) * sz \<and> limit = nat sz \<and> 1 \<le> page"
  by (auto simp: pagination_params_def between_def split: if_splits)

end
