(* ===== verification/Storage.thy ===== *)
theory Storage
  imports Settings
begin

text \<open>
  \<open>shared/storage/artifact_storage.py\<close> over a MinIO client. The client is a parameter: a
  record of its calls over a state \<open>'s\<close>, each of which returns or raises and may change the
  state. The locale \<open>object_store\<close> states the documented behaviour the service relies on
  (a successful \<open>put\<close> is what a later \<open>get\<close> reads, a successful \<open>remove\<close> removes one object,
  a call that raises leaves the other objects alone); \<open>artifact_store\<close> is the contract of the
  service itself, and the first gives the second.
\<close>

section \<open>The client and the service\<close>

record 's minio =
  put_object :: "string \<Rightarrow> string \<Rightarrow> string \<Rightarrow> 's \<Rightarrow> unit result \<times> 's"
  get_object :: "string \<Rightarrow> string \<Rightarrow> 's \<Rightarrow> string result \<times> 's"
  remove_object :: "string \<Rightarrow> string \<Rightarrow> 's \<Rightarrow> unit result \<times> 's"
  bucket_exists :: "string \<Rightarrow> 's \<Rightarrow> bool result \<times> 's"
  make_bucket :: "string \<Rightarrow> 's \<Rightarrow> unit result \<times> 's"

definition artifact_path_of :: "uuid \<Rightarrow> uuid \<Rightarrow> string" where
  "artifact_path_of function_id version_id =
     ''functions/'' @ str_nat function_id @ ''/'' @ str_nat version_id @ ''/source.zip''"

definition compute_hash :: "(string \<Rightarrow> string) \<Rightarrow> string \<Rightarrow> string" where
  "compute_hash sha256 data = sha256 data"

definition upload_artifact ::
  "settings \<Rightarrow> (string \<Rightarrow> string) \<Rightarrow> 's minio \<Rightarrow> uuid \<Rightarrow> uuid \<Rightarrow> string \<Rightarrow> 's \<Rightarrow>
   (string \<times> string \<times> nat) result \<times> 's" where
  "upload_artifact cfg sha256 M function_id version_id data s =
     (let h = sha256 data; path = artifact_path_of function_id version_id; size = length data
      in seq (put_object M (minio_bucket_artifacts cfg) path data s) (\<lambda>_ s'. (Inr (path, h, size), s')))"

definition download_artifact :: "settings \<Rightarrow> 's minio \<Rightarrow> string \<Rightarrow> 's \<Rightarrow> string result \<times> 's" where
  "download_artifact cfg M artifact_path s = get_object M (minio_bucket_artifacts cfg) artifact_path s"

text \<open>Only an \<open>S3Error\<close> with another code than \<open>NoSuchKey\<close>, or another exception, gets out.\<close>

definition delete_artifact :: "settings \<Rightarrow> 's minio \<Rightarrow> string \<Rightarrow> 's \<Rightarrow> unit result \<times> 's" where
  "delete_artifact cfg M artifact_path s =
     (case remove_object M (minio_bucket_artifacts cfg) artifact_path s of
        (Inl (S3Error code), s') \<Rightarrow> if code \<noteq> ''NoSuchKey'' then (Inl (S3Error code), s') else (Inr (), s')
      | other \<Rightarrow> other)"

definition verify_artifact_hash ::
  "settings \<Rightarrow> (string \<Rightarrow> string) \<Rightarrow> 's minio \<Rightarrow> string \<Rightarrow> string \<Rightarrow> 's \<Rightarrow> bool result \<times> 's" where
  "verify_artifact_hash cfg sha256 M artifact_path expected s =
     seq (download_artifact cfg M artifact_path s) (\<lambda>data s'. (Inr (sha256 data = expected), s'))"

fun ensure_buckets_loop :: "'s minio \<Rightarrow> string list \<Rightarrow> 's \<Rightarrow> unit result \<times> 's" where
  "ensure_buckets_loop M [] s = (Inr (), s)"
| "ensure_buckets_loop M (b # bs) s =
     seq (bucket_exists M b s) (\<lambda>there s1.
       seq (if \<not> there then make_bucket M b s1 else (Inr (), s1)) (\<lambda>_ s2.
         ensure_buckets_loop M bs s2))"

definition ensure_buckets :: "settings \<Rightarrow> 's minio \<Rightarrow> 's \<Rightarrow> unit result \<times> 's" where
  "ensure_buckets cfg M s =
     ensure_buckets_loop M [minio_bucket_artifacts cfg, minio_bucket_packages cfg] s"

section \<open>Contracts\<close>

text \<open>\<open>objs s b p\<close> is the object stored under path \<open>p\<close> of bucket \<open>b\<close>.\<close>

locale object_store =
  fixes M :: "'s minio" and objs :: "'s \<Rightarrow> string \<Rightarrow> string \<Rightarrow> string option"
  assumes put_ok:
    "put_object M b p x s = (Inr u, s') \<Longrightarrow>
     objs s' b' q = (if b' = b \<and> q = p then Some x else objs s b' q)"
  and put_frame:
    "put_object M b p x s = (Inl e, s') \<Longrightarrow> \<not> (b' = b \<and> q = p) \<Longrightarrow> objs s' b' q = objs s b' q"
  and get_ok: "get_object M b p s = (Inr x, s') \<Longrightarrow> objs s b p = Some x \<and> objs s' = objs s"
  and get_err: "get_object M b p s = (Inl e, s') \<Longrightarrow> objs s' = objs s"
  and remove_ok:
    "remove_object M b p s = (Inr u, s') \<Longrightarrow>
     objs s' b' q = (if b' = b \<and> q = p then None else objs s b' q)"
  and remove_missing:
    "remove_object M b p s = (Inl (S3Error ''NoSuchKey''), s') \<Longrightarrow> objs s b p = None \<and> objs s' = objs s"
  and remove_frame:
    "remove_object M b p s = (Inl e, s') \<Longrightarrow> \<not> (b' = b \<and> q = p) \<Longrightarrow> objs s' b' q = objs s b' q"

locale artifact_store =
  fixes upload :: "uuid \<Rightarrow> uuid \<Rightarrow> string \<Rightarrow> 's \<Rightarrow> (string \<times> string \<times> nat) result \<times> 's"
    and download :: "string \<Rightarrow> 's \<Rightarrow> string result \<times> 's"
    and delete :: "string \<Rightarrow> 's \<Rightarrow> unit result \<times> 's"
    and path :: "uuid \<Rightarrow> uuid \<Rightarrow> string"
    and hash :: "string \<Rightarrow> string"
    and arts :: "'s \<Rightarrow> string \<Rightarrow> string option"
  assumes upload_ok:
    "upload f v x s = (Inr r, s') \<Longrightarrow>
     r = (path f v, hash x, length x) \<and> arts s' = (arts s)(path f v := Some x)"
  and upload_frame: "upload f v x s = (Inl e, s') \<Longrightarrow> q \<noteq> path f v \<Longrightarrow> arts s' q = arts s q"
  and download_ok: "download p s = (Inr x, s') \<Longrightarrow> arts s p = Some x \<and> arts s' = arts s"
  and delete_ok: "delete p s = (Inr u, s') \<Longrightarrow> arts s' = (arts s)(p := None)"
  and delete_frame: "delete p s = (Inl e, s') \<Longrightarrow> q \<noteq> p \<Longrightarrow> arts s' q = arts s q"
  and path_inj: "path f v = path f' v' \<Longrightarrow> f = f' \<and> v = v'"
begin

text \<open>What was uploaded is what is downloaded, and its hash verifies.\<close>

lemma upload_download:
  assumes "upload f v x s = (Inr (p, h, n), s')" and "download p s' = (Inr y, s'')"
  shows "y = x \<and> hash y = h \<and> n = length y"
  using upload_ok [OF assms(1)] download_ok [OF assms(2)] by auto

text \<open>Two versions never share an object: an upload leaves the other versions' archives alone.\<close>

lemma upload_keeps_others:
  assumes "upload f v x s = (r, s')" and "(f', v') \<noteq> (f, v)"
  shows "arts s' (path f' v') = arts s (path f' v')"
proof -
  have ne: "path f' v' \<noteq> path f v" using assms(2) path_inj by blast
  show ?thesis
    using assms(1) ne upload_ok upload_frame by (cases r) fastforce+
qed

end

section \<open>Paths\<close>

lemma takeWhile_digits:
  "takeWhile is_digit (str_nat n @ CHR ''/'' # r) = str_nat n"
  "dropWhile is_digit (str_nat n @ CHR ''/'' # r) = CHR ''/'' # r"
proof -
  have d: "\<forall>c \<in> set (str_nat n). is_digit c" by (rule str_nat_digits)
  have "\<not> is_digit (CHR ''/'')" by (simp add: is_digit_def char_code_def)
  with d show "takeWhile is_digit (str_nat n @ CHR ''/'' # r) = str_nat n"
    "dropWhile is_digit (str_nat n @ CHR ''/'' # r) = CHR ''/'' # r"
    by (simp_all add: takeWhile_append2 dropWhile_append2)
qed

lemma str_nat_slash_inj:
  "str_nat m @ CHR ''/'' # r = str_nat n @ CHR ''/'' # r' \<Longrightarrow> m = n \<and> r = r'"
  by (metis list.inject str_nat_inj takeWhile_digits)

lemma artifact_path_inj:
  "artifact_path_of f v = artifact_path_of f' v' \<Longrightarrow> f = f' \<and> v = v'"
proof -
  assume "artifact_path_of f v = artifact_path_of f' v'"
  then have "str_nat f @ CHR ''/'' # (str_nat v @ CHR ''/'' # ''source.zip'')
      = str_nat f' @ CHR ''/'' # (str_nat v' @ CHR ''/'' # ''source.zip'')"
    by (simp add: artifact_path_of_def)
  then show ?thesis using str_nat_slash_inj by blast
qed

section \<open>The service keeps its contract over any object store\<close>

sublocale object_store \<subseteq> store: artifact_store
  "\<lambda>f v x s. upload_artifact cfg sha256 M f v x s" "\<lambda>p s. download_artifact cfg M p s"
  "\<lambda>p s. delete_artifact cfg M p s" artifact_path_of sha256
  "\<lambda>s p. objs s (minio_bucket_artifacts cfg) p" for cfg sha256
proof (unfold_locales, goal_cases)
  case (1 f v x s r s')
  then show ?case
    by (auto simp: upload_artifact_def Let_def seq_Inr_iff put_ok fun_eq_iff)
next
  case (2 f v x s e s' q)
  then show ?case
    by (auto simp: upload_artifact_def Let_def put_frame split: sum.splits
        elim!: seq.elims)
next
  case (3 p s x s')
  then show ?case by (auto simp: download_artifact_def dest: get_ok)
next
  case (4 p s u s')
  then show ?case
    by (auto simp: delete_artifact_def remove_ok fun_eq_iff remove_missing
        split: prod.splits sum.splits exn.splits if_splits dest: remove_missing)
next
  case (5 p s e s' q)
  then show ?case
    by (auto simp: delete_artifact_def remove_frame
        split: prod.splits sum.splits exn.splits if_splits)
next
  case (6 f v f' v')
  then show ?case by (rule artifact_path_inj)
qed

section \<open>A store in memory\<close>

text \<open>
  A client over an association from (bucket, path) to contents: it meets the contract, so the
  hypothesis \<open>object_store\<close> of the properties can hold.
\<close>

type_synonym memory = "((string \<times> string) \<times> string) list"

definition memory_minio :: "memory minio" where
  "memory_minio =
     \<lparr>put_object = (\<lambda>b p x s. (Inr (), ((b, p), x) # s)),
      get_object = (\<lambda>b p s. (case map_of s (b, p) of
                              None \<Rightarrow> (Inl (S3Error ''NoSuchKey''), s) | Some x \<Rightarrow> (Inr x, s))),
      remove_object = (\<lambda>b p s. (Inr (), filter (\<lambda>kv. fst kv \<noteq> (b, p)) s)),
      bucket_exists = (\<lambda>b s. (Inr True, s)),
      make_bucket = (\<lambda>b s. (Inr (), s))\<rparr>"

definition memory_objs :: "memory \<Rightarrow> string \<Rightarrow> string \<Rightarrow> string option" where
  "memory_objs s b p = map_of s (b, p)"

lemma map_of_filter_key:
  "map_of (filter (\<lambda>kv. fst kv \<noteq> k) s) q = (if q = k then None else map_of s q)"
  by (induction s) auto

interpretation mem: object_store memory_minio memory_objs
  by unfold_locales
     (auto simp: memory_minio_def memory_objs_def map_of_filter_key split: option.splits)

end
