(* ===== verification/Code_Validator.thy ===== *)
theory Code_Validator
  imports Json
begin

text \<open>
  \<open>shared/security/code_validator.py\<close>: the deny lists, the AST visitor and the checks on an
  uploaded archive. The syntax tree is that of \<open>ast.parse\<close>, with one constructor per node kind
  the visitor handles and \<open>Other\<close> for the rest; children stand in the order
  \<open>generic_visit\<close> takes them. The parser, the UTF-8 decoder and the reader of ZIP files are
  arguments. The main result is that an archive is accepted exactly when it meets the
  specification \<open>acceptable\<close>, whatever order the checks and the short circuit run in.
\<close>

section \<open>Deny lists\<close>

definition denied_builtins :: "string list" where
  "denied_builtins = [''eval'', ''exec'', ''compile'', ''__import__'', ''open'', ''input'']"

definition denied_modules :: "string list" where
  "denied_modules =
     [''subprocess'', ''socket'', ''os'', ''sys'', ''ctypes'', ''cffi'', ''importlib'', ''imp'',
      ''builtins'', ''shutil'', ''pathlib'', ''glob'', ''tempfile'', ''pty'', ''atexit'', ''signal'',
      ''multiprocessing'', ''threading'', ''concurrent'', ''asyncio'', ''ssl'', ''http'', ''urllib'',
      ''ftplib'', ''smtplib'', ''telnetlib'', ''xmlrpc'', ''pickle'', ''shelve'', ''marshal'',
      ''copyreg'', ''code'', ''codeop'', ''dis'', ''inspect'', ''gc'', ''weakref'']"

definition denied_attributes :: "string list" where
  "denied_attributes =
     [''system'', ''popen'', ''spawn'', ''exec'', ''execve'', ''execvp'', ''fork'', ''kill'',
      ''listdir'', ''getcwd'', ''chdir'', ''environ'', ''__dict__'', ''__class__'', ''__bases__'',
      ''__subclasses__'', ''__mro__'', ''__globals__'', ''__builtins__'', ''__code__'', ''__closure__'']"

definition allowed_modules :: "string list" where
  "allowed_modules =
     [''abc'', ''collections'', ''copy'', ''dataclasses'', ''datetime'', ''decimal'',
      ''enum'', ''functools'', ''hashlib'', ''hmac'', ''itertools'', ''json'', ''logging'',
      ''math'', ''operator'', ''pprint'', ''random'', ''re'', ''statistics'', ''string'',
      ''struct'', ''textwrap'', ''time'', ''traceback'', ''typing'', ''uuid'', ''numpy'',
      ''pandas'', ''scipy'', ''sklearn'', ''requests'', ''httpx'', ''aiohttp'', ''pydantic'',
      ''attrs'', ''cattrs'', ''arrow'', ''dateutil'', ''yaml'', ''toml'', ''csv'', ''io'',
      ''base64'', ''binascii'', ''codecs'', ''html'', ''xml'', ''urllib.parse'']"

definition max_file_size :: nat where
  "max_file_size = 10 * 1024 * 1024"

definition max_files :: nat where
  "max_files = 50"

section \<open>Results\<close>

record violation =
  vi_file :: string
  vi_line :: nat
  vi_col :: nat
  vi_message :: string
  vi_severity :: string

record validation_result =
  is_valid :: bool
  violations :: "violation list"
  files_checked :: nat
  val_error :: "string option"

definition new_result :: validation_result where
  "new_result = \<lparr>is_valid = True, violations = [], files_checked = 0, val_error = None\<rparr>"

definition add_violation ::
  "string \<Rightarrow> nat \<Rightarrow> nat \<Rightarrow> string \<Rightarrow> validation_result \<Rightarrow> validation_result" where
  "add_violation file line col message r =
     r\<lparr>violations := violations r @ [\<lparr>vi_file = file, vi_line = line, vi_col = col,
         vi_message = message, vi_severity = ''ERROR''\<rparr>],
       is_valid := False\<rparr>"

definition reject :: "string \<Rightarrow> validation_result \<Rightarrow> validation_result" where
  "reject msg r = r\<lparr>is_valid := False, val_error := Some msg\<rparr>"

section \<open>The visitor\<close>

type_synonym pos = "nat \<times> nat"

datatype node =
    Import pos "string list" "node list"
  | ImportFrom pos "string option" "node list"
  | Call pos node "node list"
  | Attribute pos node string
  | Name pos string
  | Global pos "string list"
  | Other "node list"

definition quoted :: "string \<Rightarrow> string" where
  "quoted s = [CHR 0x27] @ s @ [CHR 0x27]"

definition flag :: "string \<Rightarrow> pos \<Rightarrow> string \<Rightarrow> validation_result \<Rightarrow> validation_result" where
  "flag file p msg r = add_violation file (fst p) (snd p) msg r"

definition module_root :: "string \<Rightarrow> string" where
  "module_root name = hd (split_on (CHR ''.'') name)"

fun visit_import_names ::
  "string \<Rightarrow> pos \<Rightarrow> string list \<Rightarrow> validation_result \<Rightarrow> validation_result" where
  "visit_import_names file p [] r = r"
| "visit_import_names file p (name # names) r =
     visit_import_names file p names
       (if module_root name \<in> set denied_modules
        then flag file p (''Forbidden import: '' @ quoted name) r
        else if module_root name \<notin> set allowed_modules \<and> module_root name \<notin> set allowed_modules then r
        else r)"

definition visit_import_from ::
  "string \<Rightarrow> pos \<Rightarrow> string option \<Rightarrow> validation_result \<Rightarrow> validation_result" where
  "visit_import_from file p m r =
     (let module = (case m of None \<Rightarrow> [] | Some s \<Rightarrow> s)
      in if module_root module \<in> set denied_modules
         then flag file p (''Forbidden import: '' @ quoted (''from '' @ module @ '' import ...'')) r
         else r)"

text \<open>\<open>visit_Call\<close> before its \<open>generic_visit\<close>: the three checks on the called expression.\<close>

fun visit_call :: "string \<Rightarrow> pos \<Rightarrow> node \<Rightarrow> validation_result \<Rightarrow> validation_result" where
  "visit_call file p (Name q i) r =
     (let r1 = (if i \<in> set denied_builtins
                then flag file p (''Forbidden call: '' @ quoted (i @ ''()'')) r else r)
      in if i = ''__import__''
         then flag file p ''Dynamic imports via __import__() are forbidden'' r1 else r1)"
| "visit_call file p (Attribute q v a) r =
     (if a \<in> set denied_attributes
      then flag file p (''Forbidden attribute access: '' @ quoted (''.'' @ a)) r else r)"
| "visit_call file p _ r = r"

fun visit_global :: "string \<Rightarrow> pos \<Rightarrow> string list \<Rightarrow> validation_result \<Rightarrow> validation_result" where
  "visit_global file p [] r = r"
| "visit_global file p (name # names) r =
     visit_global file p names
       (if name = ''__builtins__''
        then flag file p (''Manipulation of '' @ quoted ''__builtins__'' @ '' is forbidden'') r
        else r)"

fun visit :: "string \<Rightarrow> node \<Rightarrow> validation_result \<Rightarrow> validation_result" where
  "visit file (Import p names kids) r = fold (visit file) kids (visit_import_names file p names r)"
| "visit file (ImportFrom p m kids) r = fold (visit file) kids (visit_import_from file p m r)"
| "visit file (Call p f args) r = fold (visit file) args (visit file f (visit_call file p f r))"
| "visit file (Attribute p v a) r =
     visit file v
       (if a \<in> set denied_attributes
        then flag file p (''Forbidden attribute: '' @ quoted (''.'' @ a)) r else r)"
| "visit file (Name p i) r =
     (if i \<in> set denied_builtins
      then flag file p (''Use of forbidden name: '' @ quoted i) r else r)"
| "visit file (Global p names) r = visit_global file p names r"
| "visit file (Other kids) r = fold (visit file) kids r"

section \<open>Archives\<close>

datatype parse_outcome =
    Parsed node
  | SyntaxErr "nat option" "nat option" string

definition validate_source ::
  "(string \<Rightarrow> parse_outcome) \<Rightarrow> string \<Rightarrow> string \<Rightarrow> validation_result \<Rightarrow> validation_result" where
  "validate_source parse source filename r =
     (case parse source of
        SyntaxErr ln off msg \<Rightarrow>
          add_violation filename (case ln of None \<Rightarrow> 0 | Some l \<Rightarrow> l)
            (case off of None \<Rightarrow> 0 | Some c \<Rightarrow> c) (''Syntax error: '' @ msg) r
      | Parsed tree \<Rightarrow> visit filename tree r)"

record zip_entry =
  z_name :: string
  z_file_size :: nat
  z_read :: "string result"

record zip_lib =
  zl_is_zipfile :: "string \<Rightarrow> bool"
  zl_entries :: "string \<Rightarrow> zip_entry list result"

text \<open>\<open>getinfo\<close> and \<open>read\<close> find a name in the archive's dictionary, where a repeated name
  stands for its last entry.\<close>

definition getinfo :: "zip_entry list \<Rightarrow> string \<Rightarrow> zip_entry result" where
  "getinfo es name =
     (case filter (\<lambda>e. z_name e = name) es of
        [] \<Rightarrow> Inl (OtherError ''KeyError'')
      | ms \<Rightarrow> Inr (last ms))"

definition suspicious_path :: "string \<Rightarrow> bool" where
  "suspicious_path name \<longleftrightarrow> prefix ''/'' name \<or> contains ''..'' name"

fun validate_py_files ::
  "(string \<Rightarrow> parse_outcome) \<Rightarrow> (string \<Rightarrow> string) \<Rightarrow> zip_entry list \<Rightarrow> string list \<Rightarrow>
   validation_result \<Rightarrow> validation_result result" where
  "validate_py_files parse dec es [] r = Inr r"
| "validate_py_files parse dec es (name # names) r =
     (case getinfo es name of
        Inl e \<Rightarrow> Inl e
      | Inr info \<Rightarrow>
          if z_file_size info > max_file_size
          then Inr (reject (''File '' @ name @ '' exceeds size limit'') r)
          else (case z_read info of
             Inl e \<Rightarrow> Inl e
           | Inr bytes \<Rightarrow>
               (let r' = validate_source parse (dec bytes) name (r\<lparr>files_checked := files_checked r + 1\<rparr>)
                in if \<not> is_valid r' \<and> length (violations r') > 10 then Inr r'
                   else validate_py_files parse dec es names r')))"

definition validate_archive ::
  "zip_lib \<Rightarrow> (string \<Rightarrow> parse_outcome) \<Rightarrow> (string \<Rightarrow> string) \<Rightarrow> string \<Rightarrow> validation_result result" where
  "validate_archive zl parse dec archive =
     (let result = new_result in
      if \<not> zl_is_zipfile zl archive
      then Inr (reject ''Uploaded file is not a valid ZIP archive'' result)
      else (case zl_entries zl archive of
         Inl e \<Rightarrow> Inl e
       | Inr es \<Rightarrow>
           (let names = map z_name es in
            if length names > max_files
            then Inr (reject (''Archive contains too many files: '' @ str_nat (length names) @ '' > '' @
                   str_nat max_files) result)
            else (case find suspicious_path names of
               Some name \<Rightarrow> Inr (reject (''Suspicious path in archive: '' @ name) result)
             | None \<Rightarrow>
                 (let py_files = filter (\<lambda>n. suffix ''.py'' n) names in
                  if py_files = []
                  then Inr (reject ''Archive contains no Python (.py) files'' result)
                  else validate_py_files parse dec es py_files result)))))"

section \<open>Specification\<close>

text \<open>A node is forbidden by itself; a tree is clean when no node that occurs in it is.\<close>

fun forbidden :: "node \<Rightarrow> bool" where
  "forbidden (Import p names kids) = list_ex (\<lambda>n. module_root n \<in> set denied_modules) names"
| "forbidden (ImportFrom p m kids) =
     (module_root (case m of None \<Rightarrow> [] | Some s \<Rightarrow> s) \<in> set denied_modules)"
| "forbidden (Call p f args) = False"
| "forbidden (Attribute p v a) = (a \<in> set denied_attributes)"
| "forbidden (Name p i) = (i \<in> set denied_builtins)"
| "forbidden (Global p names) = (''__builtins__'' \<in> set names)"
| "forbidden (Other kids) = False"

fun children :: "node \<Rightarrow> node list" where
  "children (Import p names kids) = kids"
| "children (ImportFrom p m kids) = kids"
| "children (Call p f args) = f # args"
| "children (Attribute p v a) = [v]"
| "children (Name p i) = []"
| "children (Global p names) = []"
| "children (Other kids) = kids"

inductive occurs :: "node \<Rightarrow> node \<Rightarrow> bool" where
  here: "occurs t t"
| below: "c \<in> set (children t) \<Longrightarrow> occurs n c \<Longrightarrow> occurs n t"

inductive_simps occurs_iff: "occurs n t"

definition clean :: "node \<Rightarrow> bool" where
  "clean t \<longleftrightarrow> (\<forall>n. occurs n t \<longrightarrow> \<not> forbidden n)"

lemma clean_rec: "clean t \<longleftrightarrow> \<not> forbidden t \<and> (\<forall>c \<in> set (children t). clean c)"
  unfolding clean_def by (subst occurs_iff) blast

lemma clean_simps [simp]:
  "clean (Import p names kids) \<longleftrightarrow>
     \<not> list_ex (\<lambda>n. module_root n \<in> set denied_modules) names \<and> (\<forall>c \<in> set kids. clean c)"
  "clean (ImportFrom p m kids) \<longleftrightarrow>
     module_root (case m of None \<Rightarrow> [] | Some s \<Rightarrow> s) \<notin> set denied_modules \<and> (\<forall>c \<in> set kids. clean c)"
  "clean (Call p f args) \<longleftrightarrow> clean f \<and> (\<forall>c \<in> set args. clean c)"
  "clean (Attribute p v a) \<longleftrightarrow> a \<notin> set denied_attributes \<and> clean v"
  "clean (Name p i) \<longleftrightarrow> i \<notin> set denied_builtins"
  "clean (Global p names) \<longleftrightarrow> ''__builtins__'' \<notin> set names"
  "clean (Other kids) \<longleftrightarrow> (\<forall>c \<in> set kids. clean c)"
  by (subst clean_rec; simp)+

text \<open>The name and the contents of one Python file of the archive.\<close>

definition file_ok ::
  "(string \<Rightarrow> parse_outcome) \<Rightarrow> (string \<Rightarrow> string) \<Rightarrow> zip_entry list \<Rightarrow> string \<Rightarrow> bool" where
  "file_ok parse dec es name \<longleftrightarrow>
     (\<exists>info bytes tree. getinfo es name = Inr info \<and> z_file_size info \<le> max_file_size \<and>
        z_read info = Inr bytes \<and> parse (dec bytes) = Parsed tree \<and> clean tree)"

definition acceptable ::
  "zip_lib \<Rightarrow> (string \<Rightarrow> parse_outcome) \<Rightarrow> (string \<Rightarrow> string) \<Rightarrow> string \<Rightarrow> bool" where
  "acceptable zl parse dec archive \<longleftrightarrow>
     zl_is_zipfile zl archive \<and>
     (\<exists>es. zl_entries zl archive = Inr es \<and> length es \<le> max_files \<and>
        (\<forall>e \<in> set es. \<not> suspicious_path (z_name e)) \<and>
        (\<exists>e \<in> set es. suffix ''.py'' (z_name e)) \<and>
        (\<forall>e \<in> set es. suffix ''.py'' (z_name e) \<longrightarrow> file_ok parse dec es (z_name e)))"

section \<open>The visitor flags exactly the forbidden nodes\<close>

lemma is_valid_flag [simp]: "\<not> is_valid (flag f p m r)"
  by (simp add: flag_def add_violation_def)

lemma is_valid_import_names:
  "is_valid (visit_import_names f p names r) \<longleftrightarrow>
     is_valid r \<and> \<not> list_ex (\<lambda>n. module_root n \<in> set denied_modules) names"
  by (induction names arbitrary: r) auto

text \<open>The allow list decides nothing, and its one entry with a blocked root is rejected.\<close>

lemma unlisted_module_passes: "module_root name \<notin> set denied_modules \<Longrightarrow> visit f (Import p [name] []) r = r"
  by simp

lemma allowed_but_denied: "filter (\<lambda>m. module_root m \<in> set denied_modules) allowed_modules = [''urllib.parse'']"
  by code_simp

lemma urllib_parse_rejected: "\<not> is_valid (visit f (Import p [''urllib.parse''] []) r)"
proof -
  have "module_root ''urllib.parse'' \<in> set denied_modules" by code_simp
  then show ?thesis by (simp add: flag_def add_violation_def)
qed

lemma is_valid_global:
  "is_valid (visit_global f p names r) \<longleftrightarrow> is_valid r \<and> ''__builtins__'' \<notin> set names"
  by (induction names arbitrary: r) auto

text \<open>What \<open>visit_Call\<close> flags is flagged again when the called expression is visited.\<close>

lemma is_valid_call:
  "is_valid (visit_call f p g r) \<and> clean g \<longleftrightarrow> is_valid r \<and> clean g"
proof (cases g)
  case (Name q i)
  have "''__import__'' \<in> set denied_builtins" by (simp add: denied_builtins_def)
  with Name show ?thesis by (auto simp: Let_def)
qed auto

lemma is_valid_visit: "is_valid (visit f t r) \<longleftrightarrow> is_valid r \<and> clean t"
proof (induction t arbitrary: r)
  case (Import p names kids)
  then have "is_valid (fold (visit f) kids r') \<longleftrightarrow> is_valid r' \<and> (\<forall>c \<in> set kids. clean c)" for r'
    by (induction kids arbitrary: r') auto
  then show ?case by (auto simp: is_valid_import_names)
next
  case (ImportFrom p m kids)
  then have "is_valid (fold (visit f) kids r') \<longleftrightarrow> is_valid r' \<and> (\<forall>c \<in> set kids. clean c)" for r'
    by (induction kids arbitrary: r') auto
  then show ?case by (auto simp: visit_import_from_def Let_def)
next
  case (Call p g args)
  from Call(2) have "is_valid (fold (visit f) args r') \<longleftrightarrow> is_valid r' \<and> (\<forall>c \<in> set args. clean c)" for r'
    by (induction args arbitrary: r') auto
  then show ?case using Call(1) is_valid_call by auto
next
  case (Attribute p v a)
  then show ?case by auto
next
  case (Global p names)
  then show ?case by (simp add: is_valid_global)
next
  case (Other kids)
  then have "is_valid (fold (visit f) kids r') \<longleftrightarrow> is_valid r' \<and> (\<forall>c \<in> set kids. clean c)" for r'
    by (induction kids arbitrary: r') auto
  then show ?case by simp
qed auto

lemma is_valid_validate_source:
  "is_valid (validate_source parse source name r) \<longleftrightarrow>
     is_valid r \<and> (\<exists>t. parse source = Parsed t \<and> clean t)"
  by (auto simp: validate_source_def is_valid_visit add_violation_def split: parse_outcome.splits)

section \<open>Acceptance\<close>

definition accepts :: "validation_result result \<Rightarrow> bool" where
  "accepts v \<longleftrightarrow> (\<exists>r. v = Inr r \<and> is_valid r)"

lemma accepts_simps [simp]:
  "accepts (Inr r) \<longleftrightarrow> is_valid r" "\<not> accepts (Inl e)"
  by (simp_all add: accepts_def)

lemma is_valid_reject [simp]: "\<not> is_valid (reject m r)"
  by (simp add: reject_def)

lemma accepts_py_files:
  "accepts (validate_py_files parse dec es names r) \<longleftrightarrow>
     is_valid r \<and> list_all (file_ok parse dec es) names"
proof (induction names arbitrary: r)
  case Nil
  then show ?case by simp
next
  case (Cons name names)
  show ?case
    using Cons.IH
    by (auto simp: Let_def file_ok_def is_valid_validate_source split: sum.splits)
qed

theorem accepts_iff_acceptable:
  "accepts (validate_archive zl parse dec archive) \<longleftrightarrow> acceptable zl parse dec archive"
proof (cases "zl_is_zipfile zl archive")
  case True
  show ?thesis
  proof (cases "zl_entries zl archive")
    case (Inr es)
    have "filter (\<lambda>n. suffix ''.py'' n) (map z_name es) = [] \<longleftrightarrow> \<not> (\<exists>e \<in> set es. suffix ''.py'' (z_name e))"
      by (auto simp: filter_empty_conv)
    with True Inr show ?thesis
      by (auto simp: validate_archive_def acceptable_def accepts_py_files new_result_def
          find_None_iff find_Some_iff list_all_iff Let_def split: option.splits)
  qed (simp add: validate_archive_def acceptable_def True)
qed (simp add: validate_archive_def acceptable_def)

end
