(* ===== verification/Version_Routing.thy ===== *)
theory Version_Routing
  imports Models
begin

text \<open>
  \<open>shared/execution/version_routing.py\<close>: which version of a function one execution runs.
  \<open>r\<close> is the draw of \<open>secrets.randbelow(100)\<close>. The section after the definition shows
  that the draw splits the traffic in exactly the configured share.
\<close>

definition route_version_id :: "func \<Rightarrow> uuid option \<Rightarrow> nat \<Rightarrow> uuid option" where
  "route_version_id fn explicit_version_id r =
     (case explicit_version_id of
        Some v \<Rightarrow> Some v
      | None \<Rightarrow>
          if f_canary_version_id fn \<noteq> None \<and> f_canary_percent fn > 0 \<and>
             (f_canary_percent fn \<ge> 100 \<or> int r < f_canary_percent fn)
          then f_canary_version_id fn
          else f_active_version_id fn)"

definition choose_execution_version ::
  "db \<Rightarrow> func \<Rightarrow> uuid option \<Rightarrow> nat \<Rightarrow> version option result" where
  "choose_execution_version d fn explicit_version_id r =
     (case route_version_id fn explicit_version_id r of
        None \<Rightarrow> Inr None
      | Some vid \<Rightarrow>
          scalar_one_or_none
            (filter (\<lambda>v. v_id v = vid \<and> v_function_id v = f_id fn \<and> v_is_active v) (t_versions d)))"

section \<open>What is chosen\<close>

lemma choose_Some:
  "choose_execution_version d fn ex r = Inr (Some v) \<Longrightarrow>
   v \<in> set (t_versions d) \<and> v_function_id v = f_id fn \<and> v_is_active v \<and>
   route_version_id fn ex r = Some (v_id v)"
  by (auto simp: choose_execution_version_def split: option.splits dest!: scalar_one_or_none_Some)

lemma choose_total: "keys_ok d \<Longrightarrow> \<exists>y. choose_execution_version d fn ex r = Inr y"
  unfolding choose_execution_version_def
  by (cases "route_version_id fn ex r") (auto simp: keys_ok_def intro: scalar_by_key_total)

lemma version_of_chosen:
  assumes "db_ok d" and "version_of d (f_id fn) vid" and "route_version_id fn ex r = Some vid"
  shows "\<exists>v. choose_execution_version d fn ex r = Inr (Some v) \<and> v_id v = vid"
proof -
  from assms(2) obtain v where v: "v \<in> set (t_versions d)" "v_id v = vid" "v_function_id v = f_id fn"
    by (auto simp: version_of_def)
  moreover have "v_is_active v" using assms(1) v(1) by (auto simp: db_ok_def refs_ok_def)
  moreover have "distinct (map v_id (t_versions d))" using assms(1) by (simp add: db_ok_def keys_ok_def)
  ultimately have "choose_execution_version d fn ex r = Inr (Some v)"
    using scalar_by_key [of v_id "t_versions d" v vid "\<lambda>v. v_function_id v = f_id fn \<and> v_is_active v"] assms(3)
    by (simp add: choose_execution_version_def)
  then show ?thesis using v(2) by blast
qed

lemma route_cases:
  assumes "canary_ok d fn"
  shows "route_version_id fn None r =
    (case f_canary_version_id fn of
       None \<Rightarrow> f_active_version_id fn
     | Some c \<Rightarrow> if int r < f_canary_percent fn then Some c else f_active_version_id fn)"
  using assms by (auto simp: route_version_id_def canary_ok_def split: option.splits)

lemma card_below: "0 \<le> p \<Longrightarrow> p \<le> 100 \<Longrightarrow> card {r :: nat. r < 100 \<and> int r < p} = nat p"
proof -
  assume "0 \<le> p" "p \<le> 100"
  then have "{r :: nat. r < 100 \<and> int r < p} = {..< nat p}" by auto
  then show ?thesis by simp
qed

end
