(* ===== verification/Functions_Router.thy ===== *)
theory Functions_Router
  imports Schemas Storage Code_Validator Version_Routing
begin

text \<open>
  \<open>api/routers/functions.py\<close>: function CRUD, version upload, activation and the canary. A
  handler takes the session's database and returns the response (the row) or the exception with
  the database as far as it was changed; \<open>get_db\<close> and \<open>get_db_with\<close> of \<open>Models\<close>
  commit or roll back. Fresh UUIDs and the clock are arguments.
\<close>

section \<open>Handlers\<close>

definition get_function_or_404 :: "uuid \<Rightarrow> uuid \<Rightarrow> db \<Rightarrow> func result" where
  "get_function_or_404 function_id owner_id d =
     (case scalar_one_or_none
             (filter (\<lambda>f. f_id f = function_id \<and> f_owner_id f = owner_id) (t_functions d)) of
        Inl e \<Rightarrow> Inl e
      | Inr None \<Rightarrow> Inl (HTTPException 404 ''Function not found'')
      | Inr (Some fn) \<Rightarrow> Inr fn)"

definition record_activation ::
  "func \<Rightarrow> uuid \<Rightarrow> string \<Rightarrow> uuid option \<Rightarrow> uuid option \<Rightarrow> uuid option \<Rightarrow> int \<Rightarrow> time \<Rightarrow> db \<Rightarrow> db" where
  "record_activation fn actor action previous activated canary percent now d =
     d\<lparr>t_activations := t_activations d @
         [\<lparr>a_function_id = f_id fn, a_actor_id = Some actor, a_previous_version_id = previous,
           a_activated_version_id = activated, a_canary_version_id = canary,
           a_canary_percent = percent, a_action = action, a_created_at = now\<rparr>]\<rparr>"

record 'a listing =
  li_items :: "'a list"
  li_total :: nat
  li_page :: nat
  li_page_size :: nat

definition list_functions ::
  "uuid \<Rightarrow> nat \<times> nat \<Rightarrow> function_status option \<Rightarrow> db \<Rightarrow> func listing" where
  "list_functions user pagination status_filter d =
     (let (offset, limit) = pagination;
          sel = (\<lambda>f. f_owner_id f = user \<and>
                   (case status_filter of None \<Rightarrow> True | Some st \<Rightarrow> f_status f = st))
      in \<lparr>li_items = page_of offset limit (order_by_desc f_created_at (filter sel (t_functions d))),
          li_total = count_where sel (t_functions d),
          li_page = offset div limit + 1, li_page_size = limit\<rparr>)"

definition new_function_row :: "uuid \<Rightarrow> function_create \<Rightarrow> uuid \<Rightarrow> time \<Rightarrow> func" where
  "new_function_row user body fresh now =
     \<lparr>f_id = fresh, f_owner_id = user, f_name = fc_name body, f_description = fc_description body,
      f_runtime = ''python3.12'', f_status = F_ACTIVE, f_active_version_id = None,
      f_canary_version_id = None, f_canary_percent = 0, f_tags = fc_tags body, f_created_at = now\<rparr>"

definition create_function ::
  "settings \<Rightarrow> uuid \<Rightarrow> function_create \<Rightarrow> uuid \<Rightarrow> time \<Rightarrow> db \<Rightarrow> func result \<times> db" where
  "create_function cfg user body fresh now d =
     (let count = count_where (\<lambda>f. f_owner_id f = user \<and> f_status f \<noteq> F_DEPRECATED) (t_functions d) in
      if count \<ge> max_functions_per_user cfg
      then (Inl (HTTPException 429 (''Maximum of '' @ str_nat (max_functions_per_user cfg) @
               '' functions per user'')), d)
      else (case scalar_one_or_none
                   (filter (\<lambda>f. f_owner_id f = user \<and> f_name f = fc_name body) (t_functions d)) of
         Inl e \<Rightarrow> (Inl e, d)
       | Inr (Some _) \<Rightarrow>
           (Inl (HTTPException 409 (''Function '' @ quoted (fc_name body) @ '' already exists'')), d)
       | Inr None \<Rightarrow>
           (let fn = new_function_row user body fresh now
            in seq (insert_function fn d) (\<lambda>_ d'. (Inr fn, d')))))"

definition get_function :: "uuid \<Rightarrow> uuid \<Rightarrow> db \<Rightarrow> func result" where
  "get_function function_id user d = get_function_or_404 function_id user d"

definition update_function ::
  "uuid \<Rightarrow> uuid \<Rightarrow> function_update \<Rightarrow> db \<Rightarrow> func result \<times> db" where
  "update_function function_id user body d =
     (case get_function_or_404 function_id user d of
        Inl e \<Rightarrow> (Inl e, d)
      | Inr fn \<Rightarrow>
          (let fn1 = (case fu_description body of None \<Rightarrow> fn | Some x \<Rightarrow> fn\<lparr>f_description := Some x\<rparr>);
               fn2 = (case fu_status body of None \<Rightarrow> fn1 | Some x \<Rightarrow> fn1\<lparr>f_status := x\<rparr>);
               fn3 = (case fu_tags body of None \<Rightarrow> fn2 | Some x \<Rightarrow> fn2\<lparr>f_tags := x\<rparr>)
           in (Inr fn3, set_func (f_id fn) (\<lambda>_. fn3) d)))"

fun delete_artifacts :: "settings \<Rightarrow> 's minio \<Rightarrow> string list \<Rightarrow> 's \<Rightarrow> unit result \<times> 's" where
  "delete_artifacts cfg M [] s = (Inr (), s)"
| "delete_artifacts cfg M (p # ps) s =
     (case delete_artifact cfg M p s of
        (Inl e, s') \<Rightarrow> (Inl (HTTPException 502 (''Failed to delete function artifact: '' @ p)), s')
      | (Inr _, s') \<Rightarrow> delete_artifacts cfg M ps s')"

definition active_statuses :: "execution_status list" where
  "active_statuses = [PENDING, QUEUED, RUNNING]"

text \<open>The writes of \<open>delete_function\<close> on the database, in the code's order.\<close>

definition detach_and_delete :: "func \<Rightarrow> uuid \<Rightarrow> db \<Rightarrow> db" where
  "detach_and_delete fn user d =
     (let version_ids = map v_id (filter (\<lambda>v. v_function_id v = f_id fn) (t_versions d));
          d1 = d\<lparr>t_executions := update_where (\<lambda>e. e_function_id e = Some (f_id fn))
                  (\<lambda>e. e\<lparr>e_function_id := None, e_function_version_id := None,
                         e_schedule_id := None, e_triggered_by := Some user\<rparr>) (t_executions d)\<rparr>;
          d2 = (if version_ids = [] then d1
                else d1\<lparr>t_executions := update_where
                       (\<lambda>e. \<exists>i \<in> set version_ids. e_function_version_id e = Some i)
                       (\<lambda>e. e\<lparr>e_function_version_id := None\<rparr>) (t_executions d1)\<rparr>);
          d3 = set_func (f_id fn) (\<lambda>f. f\<lparr>f_active_version_id := None, f_canary_version_id := None,
                  f_canary_percent := 0\<rparr>) d2;
          d4 = delete_schedules (\<lambda>s. s_function_id s = f_id fn) d3;
          d5 = d4\<lparr>t_activations := delete_where (\<lambda>a. a_function_id a = f_id fn) (t_activations d4)\<rparr>;
          d6 = delete_versions (\<lambda>v. v_function_id v = f_id fn) d5
      in d6\<lparr>t_functions := delete_where (\<lambda>f. f_id f = f_id fn) (t_functions d6)\<rparr>)"

definition delete_function ::
  "settings \<Rightarrow> 's minio \<Rightarrow> uuid \<Rightarrow> uuid \<Rightarrow> db \<times> 's \<Rightarrow> unit result \<times> db \<times> 's" where
  "delete_function cfg M function_id user ds =
     (let (d, s) = ds in
      case get_function_or_404 function_id user d of
        Inl e \<Rightarrow> (Inl e, d, s)
      | Inr fn \<Rightarrow>
          if count_where (\<lambda>e. e_function_id e = Some (f_id fn) \<and> e_status e \<in> set active_statuses)
               (t_executions d) \<noteq> 0
          then (Inl (HTTPException 409 (''Function has active executions. '' @
                   ''Wait for them to finish or cancel them before deleting.'')), d, s)
          else (let paths = map v_artifact_path (filter (\<lambda>v. v_function_id v = f_id fn) (t_versions d));
                    d' = detach_and_delete fn user d
                in case delete_artifacts cfg M paths s of (r, s') \<Rightarrow> (r, d', s')))"

definition join_with :: "string \<Rightarrow> string list \<Rightarrow> string" where
  "join_with sep ws = concat (case ws of [] \<Rightarrow> [] | w # rest \<Rightarrow> w # map (\<lambda>x. sep @ x) rest)"

definition violations_summary :: "validation_result \<Rightarrow> string" where
  "violations_summary r =
     join_with ''; '' (map (\<lambda>v. vi_file v @ '':'' @ str_nat (vi_line v) @ '' - '' @ vi_message v)
       (take 5 (violations r)))"

definition rejection_detail :: "validation_result \<Rightarrow> string" where
  "rejection_detail r =
     ''Security validation failed: '' @
     (if violations_summary r \<noteq> [] then violations_summary r
      else case val_error r of None \<Rightarrow> ''None'' | Some m \<Rightarrow> m)"

definition next_version_number :: "db \<Rightarrow> uuid \<Rightarrow> nat" where
  "next_version_number d fid =
     foldr max (map v_version_number (filter (\<lambda>v. v_function_id v = fid) (t_versions d))) 0 + 1"

definition new_version_row ::
  "func \<Rightarrow> version_create \<Rightarrow> uuid \<Rightarrow> string \<Rightarrow> string \<Rightarrow> nat \<Rightarrow> nat \<Rightarrow> time \<Rightarrow> version" where
  "new_version_row fn params version_id path h sz next_version now =
     \<lparr>v_id = version_id, v_function_id = f_id fn, v_version_number = next_version,
      v_entrypoint = vc_entrypoint params, v_artifact_path = path, v_artifact_hash = h,
      v_artifact_size = sz, v_environment = vc_environment params, v_timeout = vc_timeout params,
      v_memory_mb = vc_memory_mb params, v_is_active = True,
      v_change_notes = vc_change_notes params, v_created_at = now\<rparr>"

text \<open>The form fields of an upload; there is none for the environment, which keeps its default.\<close>

record version_form =
  vf_entrypoint :: string
  vf_timeout :: int
  vf_memory_mb :: int
  vf_change_notes :: "string option"

definition version_request :: "version_form \<Rightarrow> version_create" where
  "version_request form =
     \<lparr>vc_entrypoint = vf_entrypoint form, vc_environment = [], vc_timeout = vf_timeout form,
      vc_memory_mb = vf_memory_mb form, vc_change_notes = vf_change_notes form\<rparr>"

text \<open>
  \<open>create_version\<close>. The request model is built inside the handler, so a bad form field is
  Pydantic's own exception there, which no handler of the application turns into a 422.
\<close>

definition create_version ::
  "settings \<Rightarrow> (string \<Rightarrow> string) \<Rightarrow> 's minio \<Rightarrow> (string \<Rightarrow> validation_result result) \<Rightarrow>
   uuid \<Rightarrow> uuid \<Rightarrow> string \<Rightarrow> version_form \<Rightarrow> uuid \<Rightarrow> time \<Rightarrow> db \<times> 's \<Rightarrow> version result \<times> db \<times> 's" where
  "create_version cfg sha256 M validate function_id user archive form version_id now ds =
     (let (d, s) = ds in
      case get_function_or_404 function_id user d of
        Inl e \<Rightarrow> (Inl e, d, s)
      | Inr fn \<Rightarrow>
      (case validate_version_create (version_request form) of
        Inl e \<Rightarrow> (Inl e, d, s)
      | Inr params \<Rightarrow>
      if length archive > max_function_size_bytes cfg
      then (Inl (HTTPException 413 (''Archive exceeds maximum size of '' @
               str_nat (max_function_size_bytes cfg) @ '' bytes'')), d, s)
      else (case validate archive of
        Inl e \<Rightarrow> (Inl e, d, s)
      | Inr validation \<Rightarrow>
      if \<not> is_valid validation then (Inl (HTTPException 422 (rejection_detail validation)), d, s)
      else if count_where (\<lambda>v. v_function_id v = f_id fn) (t_versions d) \<ge> max_versions_per_function cfg
      then (Inl (HTTPException 429 (''Maximum of '' @ str_nat (max_versions_per_function cfg) @
               '' versions per function'')), d, s)
      else (case upload_artifact cfg sha256 M function_id version_id archive s of
        (Inl e, s') \<Rightarrow> (Inl e, d, s')
      | (Inr (artifact_path, artifact_hash, artifact_size), s') \<Rightarrow>
          (let v = new_version_row fn params version_id artifact_path artifact_hash artifact_size
                     (next_version_number d (f_id fn)) now
           in case insert_version v d of
                (Inl e, d') \<Rightarrow> (Inl e, d', s')
              | (Inr _, d') \<Rightarrow>
                  (Inr v, set_func (f_id fn) (\<lambda>f. f\<lparr>f_active_version_id := Some version_id\<rparr>) d', s'))))))"

definition list_versions :: "uuid \<Rightarrow> uuid \<Rightarrow> db \<Rightarrow> (version list \<times> nat) result" where
  "list_versions function_id user d =
     (case get_function_or_404 function_id user d of
        Inl e \<Rightarrow> Inl e
      | Inr fn \<Rightarrow>
          (let vs = order_by_desc (\<lambda>v. int (v_version_number v))
                      (filter (\<lambda>v. v_function_id v = f_id fn) (t_versions d))
           in Inr (vs, length vs)))"

definition get_version :: "uuid \<Rightarrow> uuid \<Rightarrow> uuid \<Rightarrow> db \<Rightarrow> version result" where
  "get_version function_id version_id user d =
     (case get_function_or_404 function_id user d of
        Inl e \<Rightarrow> Inl e
      | Inr fn \<Rightarrow>
          (case scalar_one_or_none
                  (filter (\<lambda>v. v_id v = version_id \<and> v_function_id v = f_id fn) (t_versions d)) of
             Inl e \<Rightarrow> Inl e
           | Inr None \<Rightarrow> Inl (HTTPException 404 ''Version not found'')
           | Inr (Some v) \<Rightarrow> Inr v))"

definition find_active_version :: "db \<Rightarrow> func \<Rightarrow> uuid \<Rightarrow> version result" where
  "find_active_version d fn version_id =
     (case scalar_one_or_none
             (filter (\<lambda>v. v_id v = version_id \<and> v_function_id v = f_id fn \<and> v_is_active v) (t_versions d)) of
        Inl e \<Rightarrow> Inl e
      | Inr None \<Rightarrow> Inl (HTTPException 404 ''Version not found'')
      | Inr (Some v) \<Rightarrow> Inr v)"

definition activate_version ::
  "uuid \<Rightarrow> uuid \<Rightarrow> uuid \<Rightarrow> time \<Rightarrow> db \<Rightarrow> func result \<times> db" where
  "activate_version function_id version_id user now d =
     (case get_function_or_404 function_id user d of
        Inl e \<Rightarrow> (Inl e, d)
      | Inr fn \<Rightarrow>
          (case find_active_version d fn version_id of
             Inl e \<Rightarrow> (Inl e, d)
           | Inr v \<Rightarrow>
               (let d1 = set_func (f_id fn) (\<lambda>f. f\<lparr>f_active_version_id := Some version_id,
                           f_canary_version_id := None, f_canary_percent := 0\<rparr>) d;
                    d2 = record_activation fn user ''activate'' (f_active_version_id fn)
                           (Some version_id) None 0 now d1
                in (get_function_or_404 function_id user d2, d2))))"

definition update_canary ::
  "uuid \<Rightarrow> canary_update \<Rightarrow> uuid \<Rightarrow> time \<Rightarrow> db \<Rightarrow> func result \<times> db" where
  "update_canary function_id body user now d =
     (case get_function_or_404 function_id user d of
        Inl e \<Rightarrow> (Inl e, d)
      | Inr fn \<Rightarrow>
          (let previous = f_active_version_id fn;
               finish = (\<lambda>d'. (get_function_or_404 function_id user d', d'))
           in case (if cu_percent body = 0 then None else cu_version_id body) of
                None \<Rightarrow>
                  finish (record_activation fn user ''canary_clear'' previous None None 0 now
                    (set_func (f_id fn) (\<lambda>f. f\<lparr>f_canary_version_id := None, f_canary_percent := 0\<rparr>) d))
              | Some cv \<Rightarrow>
                  (case find_active_version d fn cv of
                     Inl e \<Rightarrow> (Inl e, d)
                   | Inr v \<Rightarrow>
                       if Some cv = f_active_version_id fn \<and> cu_percent body < 100
                       then (Inl (HTTPException 422 ''Canary version must differ from active version''), d)
                       else if cu_percent body = 100
                       then finish (record_activation fn user ''promote'' previous (Some cv) None 0 now
                              (set_func (f_id fn) (\<lambda>f. f\<lparr>f_active_version_id := Some cv,
                                 f_canary_version_id := None, f_canary_percent := 0\<rparr>) d))
                       else finish (record_activation fn user ''canary_update'' previous
                              (f_active_version_id fn) (Some cv) (cu_percent body) now
                              (set_func (f_id fn) (\<lambda>f. f\<lparr>f_canary_version_id := Some cv,
                                 f_canary_percent := cu_percent body\<rparr>) d)))))"

definition list_activations :: "uuid \<Rightarrow> uuid \<Rightarrow> db \<Rightarrow> activation list result" where
  "list_activations function_id user d =
     (case get_function_or_404 function_id user d of
        Inl e \<Rightarrow> Inl e
      | Inr fn \<Rightarrow>
          Inr (take 100 (order_by_desc a_created_at
                 (filter (\<lambda>a. a_function_id a = f_id fn) (t_activations d)))))"

section \<open>Looking a function up\<close>

lemma get_function_Inr:
  "get_function_or_404 fid user d = Inr fn \<Longrightarrow>
   fn \<in> set (t_functions d) \<and> f_id fn = fid \<and> f_owner_id fn = user"
  by (auto simp: get_function_or_404_def split: sum.splits option.splits dest!: scalar_one_or_none_Some)

lemma get_function_eq:
  assumes "keys_ok d"
  shows "get_function_or_404 fid user d =
    (case find (\<lambda>f. f_id f = fid \<and> f_owner_id f = user) (t_functions d) of
       None \<Rightarrow> Inl (HTTPException 404 ''Function not found'')
     | Some fn \<Rightarrow> Inr fn)"
proof (cases "find (\<lambda>f. f_id f = fid \<and> f_owner_id f = user) (t_functions d)")
  case None
  then have "scalar_one_or_none (filter (\<lambda>f. f_id f = fid \<and> f_owner_id f = user) (t_functions d)) = Inr None"
    by (auto simp: scalar_one_or_none_None find_None_iff)
  then show ?thesis using None by (simp add: get_function_or_404_def)
next
  case (Some fn)
  then have "fn \<in> set (t_functions d)" "f_id fn = fid" "f_owner_id fn = user"
    by (auto simp: find_Some_iff)
  then have "scalar_one_or_none (filter (\<lambda>f. f_id f = fid \<and> f_owner_id f = user) (t_functions d)) = Inr (Some fn)"
    using assms by (intro scalar_by_key) (auto simp: row_keys)
  then show ?thesis using Some by (simp add: get_function_or_404_def)
qed

lemma get_function_found:
  assumes "keys_ok d" and "fn \<in> set (t_functions d)"
  shows "get_function_or_404 (f_id fn) (f_owner_id fn) d = Inr fn"
proof -
  have "scalar_one_or_none (filter (\<lambda>f. f_id f = f_id fn \<and> f_owner_id f = f_owner_id fn) (t_functions d))
      = Inr (Some fn)"
    using assms by (intro scalar_by_key) (auto simp: row_keys)
  then show ?thesis by (simp add: get_function_or_404_def)
qed

lemma get_function_owner:
  "get_function_or_404 fid user d = Inr fn \<Longrightarrow> f_owner_id fn \<noteq> other \<Longrightarrow> keys_ok d \<Longrightarrow>
   get_function_or_404 fid other d = Inl (HTTPException 404 ''Function not found'')"
proof -
  assume a: "get_function_or_404 fid user d = Inr fn" "f_owner_id fn \<noteq> other" "keys_ok d"
  then have "fn \<in> set (t_functions d)" "f_id fn = fid" by (auto dest: get_function_Inr)
  with a have "\<forall>f \<in> set (t_functions d). f_id f = fid \<longrightarrow> f_owner_id f \<noteq> other"
    using distinct_key_unique keys_ok_functions by metis
  then have "find (\<lambda>f. f_id f = fid \<and> f_owner_id f = other) (t_functions d) = None"
    by (auto simp: find_None_iff)
  then show ?thesis by (simp add: get_function_eq [OF a(3)])
qed

lemma find_active_version_Inr:
  "find_active_version d fn vid = Inr v \<Longrightarrow>
   v \<in> set (t_versions d) \<and> v_id v = vid \<and> v_function_id v = f_id fn \<and> v_is_active v"
  by (auto simp: find_active_version_def split: sum.splits option.splits dest!: scalar_one_or_none_Some)

lemma find_active_version_of: "find_active_version d fn vid = Inr v \<Longrightarrow> version_of d (f_id fn) vid"
  by (auto dest: find_active_version_Inr simp: version_of_def)

lemma canary_of:
  "db_ok d \<Longrightarrow> get_function_or_404 fid user d = Inr fn \<Longrightarrow> canary_ok d fn"
  by (auto dest: get_function_Inr simp: db_ok_def refs_ok_def)

section \<open>Every handler keeps the database invariant\<close>

lemma db_ok_record_activation [simp]:
  "db_ok (record_activation fn u act p a c pct now d) = db_ok d"
  by (simp add: record_activation_def)

text \<open>The outcomes of \<open>create_function\<close> and of \<open>create_version\<close>.\<close>

lemma create_function_Inl: "create_function cfg user body i now d = (Inl e, d') \<Longrightarrow> d' = d"
  by (auto simp: create_function_def insert_function_def Let_def split: if_splits sum.splits option.splits)

lemma create_function_Inr:
  assumes "create_function cfg user body i now d = (Inr fn, d')"
  shows "count_where (\<lambda>f. f_owner_id f = user \<and> f_status f \<noteq> F_DEPRECATED) (t_functions d)
            < max_functions_per_user cfg"
    and "\<forall>f \<in> set (t_functions d). \<not> (f_owner_id f = user \<and> f_name f = fc_name body)"
    and "fn = new_function_row user body i now"
    and "insert_function fn d = (Inr (), d')"
proof -
  let ?p = "\<lambda>f. f_owner_id f = user \<and> f_name f = fc_name body"
  have "scalar_one_or_none (filter ?p (t_functions d)) = Inr None"
    using assms by (auto simp: create_function_def Let_def split: if_splits sum.splits option.splits)
  then show "\<forall>f \<in> set (t_functions d). \<not> ?p f" by (simp add: scalar_one_or_none_None)
  show "count_where (\<lambda>f. f_owner_id f = user \<and> f_status f \<noteq> F_DEPRECATED) (t_functions d)
            < max_functions_per_user cfg"
    "fn = new_function_row user body i now" "insert_function fn d = (Inr (), d')"
    using assms
    by (auto simp: create_function_def Let_def seq_Inr_iff split: if_splits sum.splits option.splits)
qed

lemma create_function_db_ok [inv_intros]:
  assumes "db_ok d" and "create_function cfg user body i now d = (r, d')"
  shows "db_ok d'"
proof (cases r)
  case (Inl e)
  then show ?thesis using assms create_function_Inl by blast
next
  case (Inr fn)
  then show ?thesis
    using assms create_function_Inr(3,4) [of cfg user body i now d fn d']
    by (auto simp: new_function_row_def intro: db_ok_insert_function)
qed

lemma update_function_db_ok [inv_intros]:
  assumes ok: "db_ok d" and up: "update_function fid user body d = (r, d')"
  shows "db_ok d'"
proof (cases "get_function_or_404 fid user d")
  case (Inl e)
  then show ?thesis using assms by (simp add: update_function_def)
next
  case (Inr fn)
  define fn3 where "fn3 = (let fn1 = (case fu_description body of None \<Rightarrow> fn | Some x \<Rightarrow> fn\<lparr>f_description := Some x\<rparr>);
               fn2 = (case fu_status body of None \<Rightarrow> fn1 | Some x \<Rightarrow> fn1\<lparr>f_status := x\<rparr>)
           in (case fu_tags body of None \<Rightarrow> fn2 | Some x \<Rightarrow> fn2\<lparr>f_tags := x\<rparr>))"
  have fn: "fn \<in> set (t_functions d)" using Inr by (blast dest: get_function_Inr)
  have d': "d' = set_func (f_id fn) (\<lambda>_. fn3) d"
    using up Inr by (simp add: update_function_def fn3_def Let_def)
  have same: "f_id fn3 = f_id fn" "f_owner_id fn3 = f_owner_id fn" "f_name fn3 = f_name fn"
    "f_active_version_id fn3 = f_active_version_id fn" "f_canary_version_id fn3 = f_canary_version_id fn"
    "f_canary_percent fn3 = f_canary_percent fn"
    by (simp_all add: fn3_def Let_def split: option.splits)
  have "canary_ok d fn3" using canary_of [OF ok Inr] same
    by (simp add: canary_ok_def split: option.splits)
  then show ?thesis unfolding d' using ok fn same by (intro db_ok_set_func) simp_all
qed

lemma next_version_number_fresh:
  "v \<in> set (t_versions d) \<Longrightarrow> v_function_id v = fid \<Longrightarrow> v_version_number v < next_version_number d fid"
proof -
  have "x \<in> set xs \<Longrightarrow> x \<le> foldr max xs (0 :: nat)" for x xs
    by (induction xs) auto
  then show "v \<in> set (t_versions d) \<Longrightarrow> v_function_id v = fid \<Longrightarrow> v_version_number v < next_version_number d fid"
    by (auto simp: next_version_number_def less_Suc_eq_le)
qed

lemma version_of_new:
  "insert_version v d = (Inr u, d') \<Longrightarrow> version_of d' (v_function_id v) (v_id v)"
  by (auto simp: insert_version_def version_of_def split: if_splits)

lemma insert_version_functions:
  "insert_version v d = (r, d') \<Longrightarrow> t_functions d' = t_functions d"
  by (auto simp: insert_version_def split: if_splits)

lemma insert_version_fresh:
  "db_ok d \<Longrightarrow> insert_version v d = (Inr u, d') \<Longrightarrow> \<not> version_of d fid (v_id v)"
  by (auto simp: insert_version_def version_of_def list_ex_iff split: if_splits)

lemma canary_ok_new_active:
  assumes ok: "db_ok d" and fn: "fn \<in> set (t_functions d)" and ins: "insert_version v d = (Inr u, d')"
    and v: "v_function_id v = f_id fn"
  shows "canary_ok d' (fn\<lparr>f_active_version_id := Some (v_id v)\<rparr>)"
proof -
  have c: "canary_ok d fn" using ok fn by (simp add: db_ok_def refs_ok_def)
  have mono: "version_of d (f_id fn) x \<Longrightarrow> version_of d' (f_id fn) x" for x
    using ins by (auto simp: insert_version_def version_of_def split: if_splits)
  show ?thesis
    using c version_of_new [OF ins] insert_version_fresh [OF ok ins, of "f_id fn"] v mono
    by (auto simp: canary_ok_def split: option.splits)
qed

lemma insert_version_Inl: "insert_version v d = (Inl e, d') \<Longrightarrow> d' = d"
  by (auto simp: insert_version_def split: if_splits)

lemma create_version_outcome:
  assumes "create_version cfg sha M validate fid user archive form vid now (d, s) = (r, d', s')"
  shows "(\<exists>e. r = Inl e \<and> d' = d) \<or>
    (\<exists>fn path h sz d1. get_function_or_404 fid user d = Inr fn \<and>
       validate_version_create (version_request form) = Inr (version_request form) \<and>
       length archive \<le> max_function_size_bytes cfg \<and>
       (\<exists>val. validate archive = Inr val \<and> is_valid val) \<and>
       count_where (\<lambda>v. v_function_id v = f_id fn) (t_versions d) < max_versions_per_function cfg \<and>
       upload_artifact cfg sha M fid vid archive s = (Inr (path, h, sz), s') \<and>
       r = Inr (new_version_row fn (version_request form) vid path h sz (next_version_number d (f_id fn)) now) \<and>
       insert_version (new_version_row fn (version_request form) vid path h sz (next_version_number d (f_id fn)) now) d = (Inr (), d1) \<and>
       d' = set_func (f_id fn) (\<lambda>f. f\<lparr>f_active_version_id := Some vid\<rparr>) d1)"
proof (cases "get_function_or_404 fid user d")
  case (Inr fn)
  note fn = this
  show ?thesis
  proof (cases "validate_version_create (version_request form)")
    case (Inr params)
    note form = this
    then have pf: "params = version_request form" by (blast dest: validate_version_create_Inr)
    show ?thesis
    proof (cases "validate archive")
      case (Inr val)
      note val = this
      obtain up s1 where up: "upload_artifact cfg sha M fid vid archive s = (up, s1)" by fastforce
      show ?thesis
      proof (cases up)
        case (Inr res)
        obtain path h sz where res: "res = (path, h, sz)" by (cases res)
        let ?v = "new_version_row fn (version_request form) vid path h sz (next_version_number d (f_id fn)) now"
        obtain ir d1 where ins: "insert_version ?v d = (ir, d1)" by fastforce
        show ?thesis
          using assms fn form pf val up Inr res ins insert_version_Inl [of ?v d _ d1]
          by (cases ir) (auto simp: create_version_def Let_def split: if_splits)
      qed (use assms fn form val up in \<open>auto simp: create_version_def split: if_splits\<close>)
    qed (use assms fn form in \<open>auto simp: create_version_def split: if_splits\<close>)
  qed (use assms fn in \<open>auto simp: create_version_def\<close>)
qed (use assms in \<open>auto simp: create_version_def\<close>)

lemma create_version_db_ok [inv_intros]:
  assumes ok: "db_ok d"
    and cv: "create_version cfg sha M validate fid user archive form vid now (d, s) = (r, d', s')"
  shows "db_ok d'"
  using create_version_outcome [OF cv]
proof (elim disjE exE conjE)
  fix fn path h sz d1
  let ?v = "new_version_row fn (version_request form) vid path h sz (next_version_number d (f_id fn)) now"
  assume fn: "get_function_or_404 fid user d = Inr fn" and i: "insert_version ?v d = (Inr (), d1)"
    and d': "d' = set_func (f_id fn) (\<lambda>f. f\<lparr>f_active_version_id := Some vid\<rparr>) d1"
  have mem: "fn \<in> set (t_functions d)" using fn by (blast dest: get_function_Inr)
  have v: "v_function_id ?v = f_id fn" "v_is_active ?v" "v_id ?v = vid"
    by (simp_all add: new_version_row_def)
  have "db_ok d1" using db_ok_insert_version [OF ok i v(2)] v mem by auto
  moreover have "fn \<in> set (t_functions d1)" using mem insert_version_functions [OF i] by simp
  moreover have "canary_ok d1 (fn\<lparr>f_active_version_id := Some vid\<rparr>)"
    using canary_ok_new_active [OF ok mem i v(1)] v(3) by simp
  ultimately show ?thesis unfolding d' by (intro db_ok_set_func) simp_all
qed (use ok in simp)

lemma activate_version_db_ok [inv_intros]:
  assumes ok: "db_ok d" and av: "activate_version fid vid user now d = (r, d')"
  shows "db_ok d'"
proof (cases "d' = d")
  case False
  then obtain fn v where fn: "get_function_or_404 fid user d = Inr fn"
    and v: "find_active_version d fn vid = Inr v"
    and d': "d' = record_activation fn user ''activate'' (f_active_version_id fn) (Some vid) None 0 now
       (set_func (f_id fn) (\<lambda>f. f\<lparr>f_active_version_id := Some vid, f_canary_version_id := None,
          f_canary_percent := 0\<rparr>) d)"
    using av by (auto simp: activate_version_def Let_def split: sum.splits)
  have "fn \<in> set (t_functions d)" using fn by (blast dest: get_function_Inr)
  moreover have "canary_ok d (fn\<lparr>f_active_version_id := Some vid, f_canary_version_id := None, f_canary_percent := 0\<rparr>)"
    using find_active_version_of [OF v] by (simp add: canary_ok_def)
  ultimately show ?thesis unfolding d' db_ok_record_activation using ok by (intro db_ok_set_func) simp_all
qed (simp add: ok)

lemma update_canary_db_ok [inv_intros]:
  assumes ok: "db_ok d" and body: "validate_canary_update body = Inr body'"
    and uc: "update_canary fid body user now d = (r, d')"
  shows "db_ok d'"
proof (cases "get_function_or_404 fid user d")
  case (Inl e)
  then show ?thesis using uc ok by (simp add: update_canary_def)
next
  case (Inr fn)
  have mem: "fn \<in> set (t_functions d)" and can: "canary_ok d fn"
    using Inr canary_of [OF ok Inr] by (auto dest: get_function_Inr)
  have rng: "0 \<le> cu_percent body" "cu_percent body \<le> 100"
    using body by (simp_all add: validate_canary_update_Inr)
  have upd: "db_ok (set_func (f_id fn) g d)" if "canary_ok d (g fn)" "f_id (g fn) = f_id fn"
    "f_owner_id (g fn) = f_owner_id fn" "f_name (g fn) = f_name fn" for g
    using ok mem that by (intro db_ok_set_func)
  show ?thesis
  proof (cases "if cu_percent body = 0 then None else cu_version_id body")
    case None
    have "canary_ok d (fn\<lparr>f_canary_version_id := None, f_canary_percent := 0\<rparr>)"
      using can by (simp add: canary_ok_def)
    then show ?thesis using uc Inr None upd by (auto simp: update_canary_def Let_def)
  next
    case (Some cv)
    then have pos: "0 < cu_percent body" using rng by (auto split: if_splits)
    show ?thesis
    proof (cases "find_active_version d fn cv")
      case (Inl e)
      then show ?thesis using uc ok Inr Some by (auto simp: update_canary_def Let_def)
    next
      case v: (Inr v)
      have "version_of d (f_id fn) cv" using v by (rule find_active_version_of)
      then have c1: "canary_ok d (fn\<lparr>f_active_version_id := Some cv, f_canary_version_id := None, f_canary_percent := 0\<rparr>)"
        and c2: "f_active_version_id fn \<noteq> Some cv \<Longrightarrow> cu_percent body < 100 \<Longrightarrow>
          canary_ok d (fn\<lparr>f_canary_version_id := Some cv, f_canary_percent := cu_percent body\<rparr>)"
        using can pos by (auto simp: canary_ok_def)
      then show ?thesis
        using uc ok Inr Some v upd rng
        by (fastforce simp: update_canary_def Let_def split: if_splits)
    qed
  qed
qed

section \<open>Deleting a function\<close>

text \<open>What becomes of one execution row.\<close>

definition detached :: "func \<Rightarrow> uuid \<Rightarrow> db \<Rightarrow> execution \<Rightarrow> execution" where
  "detached fn user d e =
     (let gone_v = (\<lambda>i. version_of d (f_id fn) i);
          gone_s = (\<lambda>i. \<exists>s \<in> set (t_schedules d). s_id s = i \<and> s_function_id s = f_id fn)
      in if e_function_id e = Some (f_id fn)
         then e\<lparr>e_function_id := None, e_function_version_id := None, e_schedule_id := None,
                e_triggered_by := Some user\<rparr>
         else e\<lparr>e_function_version_id := null_if gone_v (e_function_version_id e),
                e_schedule_id := null_if gone_s (e_schedule_id e)\<rparr>)"

lemma null_if_None [simp]: "null_if p None = None"
  by (simp add: null_if_def)

lemma null_if_False [simp]: "null_if (\<lambda>i. False) x = x"
  by (cases x) (simp_all add: null_if_def)

lemma delete_schedules_simps [simp]:
  "t_users (delete_schedules p d) = t_users d" "t_api_keys (delete_schedules p d) = t_api_keys d"
  "t_functions (delete_schedules p d) = t_functions d" "t_versions (delete_schedules p d) = t_versions d"
  "t_activations (delete_schedules p d) = t_activations d"
  "t_schedules (delete_schedules p d) = delete_where p (t_schedules d)"
  "t_executions (delete_schedules p d) = map (\<lambda>e. e\<lparr>e_schedule_id :=
     null_if (\<lambda>i. \<exists>s \<in> set (t_schedules d). s_id s = i \<and> p s) (e_schedule_id e)\<rparr>) (t_executions d)"
  by (auto simp: delete_schedules_def Let_def null_if_def split: option.splits)

lemma delete_versions_simps [simp]:
  "t_users (delete_versions p d) = t_users d" "t_api_keys (delete_versions p d) = t_api_keys d"
  "t_functions (delete_versions p d) = t_functions d" "t_schedules (delete_versions p d) = t_schedules d"
  "t_versions (delete_versions p d) = delete_where p (t_versions d)"
  "t_executions (delete_versions p d) = map (\<lambda>e. e\<lparr>e_function_version_id :=
     null_if (\<lambda>i. \<exists>v \<in> set (t_versions d). v_id v = i \<and> p v) (e_function_version_id e)\<rparr>) (t_executions d)"
  by (auto simp: delete_versions_def Let_def null_if_def split: option.splits)

text \<open>The detaching update of the version references is a null operation when there is no version.\<close>

lemma detach_version_ids:
  "(if ids = [] then d
    else d\<lparr>t_executions := update_where (\<lambda>e. \<exists>i \<in> set ids. e_function_version_id e = Some i)
                       (\<lambda>e. e\<lparr>e_function_version_id := None\<rparr>) (t_executions d)\<rparr>)
   = d\<lparr>t_executions := map (\<lambda>e. e\<lparr>e_function_version_id := null_if (\<lambda>i. i \<in> set ids) (e_function_version_id e)\<rparr>)
        (t_executions d)\<rparr>"
proof -
  have *: "(if \<exists>i \<in> set ids. e_function_version_id e = Some i then e\<lparr>e_function_version_id := None\<rparr> else e)
      = e\<lparr>e_function_version_id := null_if (\<lambda>i. i \<in> set ids) (e_function_version_id e)\<rparr>" for e
    by (cases "e_function_version_id e") (auto simp: null_if_def)
  show ?thesis by (simp add: update_where_def *)
qed

lemma detach_and_delete_simps:
  "t_users (detach_and_delete fn user d) = t_users d"
  "t_api_keys (detach_and_delete fn user d) = t_api_keys d"
  "t_versions (detach_and_delete fn user d) = delete_where (\<lambda>v. v_function_id v = f_id fn) (t_versions d)"
  "t_schedules (detach_and_delete fn user d) = delete_where (\<lambda>s. s_function_id s = f_id fn) (t_schedules d)"
  "t_functions (detach_and_delete fn user d) = delete_where (\<lambda>f. f_id f = f_id fn) (t_functions d)"
proof -
  have upd: "delete_where (\<lambda>f. f_id f = i) (update_where (\<lambda>f. f_id f = i) g fs) = delete_where (\<lambda>f. f_id f = i) fs"
    if "\<And>f. f_id (g f) = f_id f" for g i fs
    using that by (induction fs) (auto simp: delete_where_def update_where_def)
  show "t_functions (detach_and_delete fn user d) = delete_where (\<lambda>f. f_id f = f_id fn) (t_functions d)"
    unfolding detach_and_delete_def Let_def detach_version_ids by (simp add: set_func_def upd)
qed (simp_all add: detach_and_delete_def Let_def detach_version_ids)

lemma detach_executions:
  "t_executions (detach_and_delete fn user d) = map (detached fn user d) (t_executions d)"
  unfolding detach_and_delete_def Let_def detach_version_ids
  by (auto simp: update_where_def detached_def Let_def null_if_def version_of_def split: option.splits)

lemma null_if_Some: "null_if p x = Some a \<longleftrightarrow> x = Some a \<and> \<not> p a"
  by (cases x) (auto simp: null_if_def)

lemma detached_simps [simp]:
  "e_id (detached fn user d e) = e_id e" "e_status (detached fn user d e) = e_status e"
  "e_payload (detached fn user d e) = e_payload e" "e_result (detached fn user d e) = e_result e"
  by (simp_all add: detached_def Let_def)

lemma distinct_map_delete_where: "distinct (map k xs) \<Longrightarrow> distinct (map k (delete_where p xs))"
  by (rule distinct_delete_where)

lemma detach_and_delete_db_ok:
  assumes ok: "db_ok d"
  shows "db_ok (detach_and_delete fn user d)"
proof -
  let ?d = "detach_and_delete fn user d"
  have "keys_ok ?d"
    using db_ok_keys [OF ok] unfolding keys_ok_def detach_and_delete_simps detach_executions
    by (auto simp: distinct_delete_where comp_def)
  moreover have "canary_ok ?d f" if "f \<in> set (t_functions d)" "f_id f \<noteq> f_id fn" for f
  proof -
    have "canary_ok d f" using ok that(1) by (simp add: db_ok_def refs_ok_def)
    moreover have "version_of ?d (f_id f) i = version_of d (f_id f) i" for i
      using that(2) by (auto simp: version_of_def detach_and_delete_simps)
    ultimately show ?thesis by (simp add: canary_ok_def split: option.splits)
  qed
  ultimately show ?thesis
    using db_ok_refs [OF ok] by (auto simp: db_ok_def refs_ok_def detach_and_delete_simps) metis+
qed

text \<open>No row refers to the deleted function any more.\<close>

definition unreferenced :: "uuid \<Rightarrow> db \<Rightarrow> db \<Rightarrow> bool" where
  "unreferenced fid d0 d \<longleftrightarrow>
     (\<forall>f \<in> set (t_functions d). f_id f \<noteq> fid) \<and>
     (\<forall>v \<in> set (t_versions d). v_function_id v \<noteq> fid) \<and>
     (\<forall>s \<in> set (t_schedules d). s_function_id s \<noteq> fid) \<and>
     (\<forall>e \<in> set (t_executions d). e_function_id e \<noteq> Some fid \<and>
        (\<forall>i. e_function_version_id e = Some i \<longrightarrow> \<not> version_of d0 fid i))"

lemma detach_unreferenced: "unreferenced (f_id fn) d (detach_and_delete fn user d)"
  by (auto simp: unreferenced_def detach_and_delete_simps detach_executions detached_def Let_def null_if_Some)

section \<open>Removing the archives\<close>

context object_store begin

text \<open>A failure at one archive leaves those before it removed and those after it in place.\<close>

lemma delete_artifacts_all:
  "delete_artifacts cfg M ps s = (Inr u, s') \<Longrightarrow>
   objs s' (minio_bucket_artifacts cfg) q =
     (if q \<in> set ps then None else objs s (minio_bucket_artifacts cfg) q)"
proof (induction ps arbitrary: s)
  case (Cons p ps)
  then obtain w s1 where "delete_artifact cfg M p s = (Inr w, s1)"
    and "delete_artifacts cfg M ps s1 = (Inr u, s')"
    by (auto split: prod.splits sum.splits)
  with Cons.IH [of s1] store.delete_ok [of cfg p s w s1] show ?case by (auto simp: fun_eq_iff)
qed simp

lemma delete_artifacts_failed:
  "delete_artifacts cfg M ps s = (Inl e, s') \<Longrightarrow>
   \<exists>k < length ps. e = HTTPException 502 (''Failed to delete function artifact: '' @ ps ! k) \<and>
     (\<forall>q. q \<noteq> ps ! k \<longrightarrow> objs s' (minio_bucket_artifacts cfg) q =
        (if q \<in> set (take k ps) then None else objs s (minio_bucket_artifacts cfg) q))"
proof (induction ps arbitrary: s)
  case (Cons p ps)
  obtain r s1 where del: "delete_artifact cfg M p s = (r, s1)" by fastforce
  show ?case
  proof (cases r)
    case (Inl x)
    then have "e = HTTPException 502 (''Failed to delete function artifact: '' @ p)" "s' = s1"
      using Cons.prems del by auto
    then show ?thesis using del Inl store.delete_frame [of cfg p s x s1] by (intro exI [of _ 0]) auto
  next
    case (Inr w)
    then have "delete_artifacts cfg M ps s1 = (Inl e, s')" using Cons.prems del by simp
    from Cons.IH [OF this] obtain k where "k < length ps"
      "e = HTTPException 502 (''Failed to delete function artifact: '' @ ps ! k)"
      "\<forall>q. q \<noteq> ps ! k \<longrightarrow> objs s' (minio_bucket_artifacts cfg) q =
        (if q \<in> set (take k ps) then None else objs s1 (minio_bucket_artifacts cfg) q)" by blast
    then show ?thesis using del Inr store.delete_ok [of cfg p s w s1]
      by (intro exI [of _ "Suc k"]) (auto simp: fun_eq_iff)
  qed
qed simp

end

lemma active_not_terminal: "x \<in> set active_statuses \<longleftrightarrow> \<not> is_terminal x"
  by (cases x) (simp_all add: active_statuses_def)

lemma delete_function_outcome:
  assumes "delete_function cfg M fid user (d, s) = (r, d', s')"
  shows "(\<exists>e. r = Inl e \<and> d' = d \<and> s' = s) \<or>
    (\<exists>fn. get_function_or_404 fid user d = Inr fn \<and>
       (\<forall>e \<in> set (t_executions d). e_function_id e = Some fid \<longrightarrow> is_terminal (e_status e)) \<and>
       d' = detach_and_delete fn user d \<and>
       delete_artifacts cfg M (map v_artifact_path (filter (\<lambda>v. v_function_id v = fid) (t_versions d))) s = (r, s'))"
proof (cases "get_function_or_404 fid user d")
  case (Inr fn)
  have "f_id fn = fid" using Inr by (blast dest: get_function_Inr)
  then show ?thesis
    using assms Inr
    by (auto simp: delete_function_def Let_def count_where_0 active_not_terminal split: if_splits prod.splits)
qed (use assms in \<open>auto simp: delete_function_def\<close>)

section \<open>What a successful upload leaves\<close>

lemma new_version_row_simps [simp]:
  "v_id (new_version_row fn params i path h sz n now) = i"
  "v_function_id (new_version_row fn params i path h sz n now) = f_id fn"
  "v_version_number (new_version_row fn params i path h sz n now) = n"
  "v_artifact_path (new_version_row fn params i path h sz n now) = path"
  "v_artifact_hash (new_version_row fn params i path h sz n now) = h"
  "v_is_active (new_version_row fn params i path h sz n now)"
  by (simp_all add: new_version_row_def)

lemma insert_version_Inr: "insert_version v d = (Inr u, d') \<Longrightarrow> d' = d\<lparr>t_versions := t_versions d @ [v]\<rparr>"
  by (auto simp: insert_version_def split: if_splits)

lemma create_version_rows:
  assumes "create_version cfg sha M validate fid user archive form vid now (d, s) = (Inr v, d', s')"
  shows "t_versions d' = t_versions d @ [v] \<and> v_function_id v = fid \<and> v_id v = vid \<and>
    v_version_number v = next_version_number d fid \<and>
    (\<forall>f \<in> set (t_functions d'). f_id f = fid \<longrightarrow> f_active_version_id f = Some vid) \<and>
    (\<exists>r. validate archive = Inr r \<and> is_valid r)"
proof -
  from create_version_outcome [OF assms] obtain fn path h sz d1
    where fn: "get_function_or_404 fid user d = Inr fn" and val: "\<exists>r. validate archive = Inr r \<and> is_valid r"
      and v: "v = new_version_row fn (version_request form) vid path h sz (next_version_number d (f_id fn)) now"
      and ins: "insert_version v d = (Inr (), d1)"
      and d': "d' = set_func (f_id fn) (\<lambda>f. f\<lparr>f_active_version_id := Some vid\<rparr>) d1" by auto
  have "f_id fn = fid" using fn by (blast dest: get_function_Inr)
  moreover have "t_versions d' = t_versions d @ [v]" using insert_version_Inr [OF ins] by (simp add: d')
  moreover have "\<forall>f \<in> set (t_functions d'). f_id f = fid \<longrightarrow> f_active_version_id f = Some vid"
    using \<open>f_id fn = fid\<close> by (auto simp: d' set_func_def set_update_where)
  ultimately show ?thesis using v val by simp
qed

context object_store begin

lemma create_version_stored:
  assumes "create_version cfg sha M validate fid user archive form vid now (d, s) = (Inr v, d', s')"
  shows "v_artifact_path v = artifact_path_of fid vid \<and> v_artifact_hash v = sha archive \<and>
    objs s' (minio_bucket_artifacts cfg) = (objs s (minio_bucket_artifacts cfg))(artifact_path_of fid vid := Some archive)"
proof -
  from create_version_outcome [OF assms] obtain fn path h sz
    where up: "upload_artifact cfg sha M fid vid archive s = (Inr (path, h, sz), s')"
      and v: "v = new_version_row fn (version_request form) vid path h sz (next_version_number d (f_id fn)) now" by auto
  show ?thesis using store.upload_ok [OF up] v by simp
qed

text \<open>A failed upload touches no other version's archive.\<close>

lemma create_version_frame:
  assumes "create_version cfg sha M validate fid user archive form vid now (d, s) = (r, d', s')"
    and "p \<noteq> artifact_path_of fid vid"
  shows "objs s' (minio_bucket_artifacts cfg) p = objs s (minio_bucket_artifacts cfg) p"
proof (cases "s' = s")
  case False
  then obtain up where "upload_artifact cfg sha M fid vid archive s = (up, s')"
    using assms(1) by (auto simp: create_version_def Let_def split: sum.splits if_splits prod.splits)
  then show ?thesis using store.upload_ok store.upload_frame assms(2) by (cases up) fastforce+
qed simp

end

end
