(* ===== verification/Demo.thy ===== *)
theory Demo
  imports Functions_Router
begin

text \<open>
  A small installation that the witnesses of the properties run on: one user with an API key, a
  function with two versions and a canary on 30 percent of its traffic, a second function of
  another user, one schedule and one execution in each of three states.
\<close>

definition demo_user :: user where
  "demo_user = \<lparr>u_id = 1, u_username = ''ann'', u_email = ''a@x.io'', u_hashed_password = ''plain:secret99'',
     u_is_active = True, u_is_superuser = False, u_created_at = 0\<rparr>"

definition demo_key :: api_key where
  "demo_key = \<lparr>k_id = 5, k_owner_id = 1, k_name = ''ci'', k_key_hash = ''sopm_k1'', k_key_prefix = ''sopm_k1'',
     k_revoked_at = None, k_last_used_at = None, k_created_at = 0\<rparr>"

definition demo_fn :: func where
  "demo_fn = \<lparr>f_id = 10, f_owner_id = 1, f_name = ''resize'', f_description = None, f_runtime = ''python3.12'',
     f_status = F_ACTIVE, f_active_version_id = Some 20, f_canary_version_id = Some 21,
     f_canary_percent = 30, f_tags = [], f_created_at = 0\<rparr>"

definition demo_other_fn :: func where
  "demo_other_fn = demo_fn\<lparr>f_id := 11, f_owner_id := 2, f_active_version_id := None,
     f_canary_version_id := None, f_canary_percent := 0\<rparr>"

definition demo_version :: "uuid \<Rightarrow> nat \<Rightarrow> version" where
  "demo_version i n = \<lparr>v_id = i, v_function_id = 10, v_version_number = n, v_entrypoint = ''main.run'',
     v_artifact_path = artifact_path_of 10 i, v_artifact_hash = ''h'', v_artifact_size = 3,
     v_environment = [], v_timeout = 60, v_memory_mb = 128, v_is_active = True, v_change_notes = None,
     v_created_at = 0\<rparr>"

definition demo_execution :: "uuid \<Rightarrow> execution_status \<Rightarrow> execution" where
  "demo_execution i st = (new_execution i 0)\<lparr>e_function_id := Some 10, e_function_version_id := Some 20,
     e_triggered_by := Some 1, e_status := st, e_timeout := 60, e_started_at := Some 0\<rparr>"

definition demo_schedule :: schedule where
  "demo_schedule = \<lparr>s_id = 40, s_function_id = 10, s_owner_id = 1, s_name = ''nightly'',
     s_cron_expression = ''0 0 * * *'', s_payload = JObj [], s_status = S_ACTIVE, s_next_run_at = Some 100,
     s_last_run_at = None, s_last_execution_id = None, s_missed_runs = 0, s_created_at = 0\<rparr>"

definition demo_db :: db where
  "demo_db = \<lparr>t_users = [demo_user], t_api_keys = [demo_key], t_functions = [demo_fn, demo_other_fn],
     t_versions = [demo_version 20 1, demo_version 21 2], t_activations = [],
     t_executions = [demo_execution 30 QUEUED, demo_execution 31 RUNNING, demo_execution 32 COMPLETED],
     t_logs = [], t_schedules = [demo_schedule]\<rparr>"

lemmas demo_defs = demo_user_def demo_key_def demo_fn_def demo_other_fn_def demo_version_def
  demo_execution_def demo_schedule_def demo_db_def new_execution_def

lemma demo_fn_simps [simp]:
  "f_id demo_fn = 10" "f_owner_id demo_fn = 1" "f_active_version_id demo_fn = Some 20"
  "f_canary_version_id demo_fn = Some 21" "f_canary_percent demo_fn = 30" "f_name demo_fn = ''resize''"
  "f_status demo_fn = F_ACTIVE"
  by (simp_all add: demo_fn_def)

lemma demo_other_fn_simps [simp]:
  "f_id demo_other_fn = 11" "f_owner_id demo_other_fn = 2" "f_active_version_id demo_other_fn = None"
  "f_canary_version_id demo_other_fn = None" "f_canary_percent demo_other_fn = 0"
  "f_name demo_other_fn = ''resize''" "f_status demo_other_fn = F_ACTIVE"
  by (simp_all add: demo_other_fn_def)

lemma demo_schedule_simps [simp]:
  "s_id demo_schedule = 40" "s_function_id demo_schedule = 10" "s_owner_id demo_schedule = 1"
  "s_status demo_schedule = S_ACTIVE" "s_next_run_at demo_schedule = Some 100"
  "s_cron_expression demo_schedule = ''0 0 * * *''" "s_payload demo_schedule = JObj []"
  by (simp_all add: demo_schedule_def)

lemma demo_version_simps [simp]:
  "v_id (demo_version i n) = i" "v_function_id (demo_version i n) = 10" "v_version_number (demo_version i n) = n"
  "v_is_active (demo_version i n)" "v_artifact_path (demo_version i n) = artifact_path_of 10 i"
  by (simp_all add: demo_version_def)

lemma demo_execution_simps [simp]:
  "e_id (demo_execution i st) = i" "e_status (demo_execution i st) = st"
  "e_function_id (demo_execution i st) = Some 10" "e_function_version_id (demo_execution i st) = Some 20"
  "e_triggered_by (demo_execution i st) = Some 1" "e_started_at (demo_execution i st) = Some 0"
  "e_timeout (demo_execution i st) = 60"
  by (simp_all add: demo_execution_def new_execution_def)

lemma demo_db_simps [simp]:
  "t_users demo_db = [demo_user]" "t_api_keys demo_db = [demo_key]"
  "t_functions demo_db = [demo_fn, demo_other_fn]"
  "t_versions demo_db = [demo_version 20 1, demo_version 21 2]"
  "t_executions demo_db = [demo_execution 30 QUEUED, demo_execution 31 RUNNING, demo_execution 32 COMPLETED]"
  "t_logs demo_db = []" "t_schedules demo_db = [demo_schedule]" "t_activations demo_db = []"
  by (simp_all add: demo_db_def)

lemma demo_db_ok: "db_ok demo_db"
proof -
  have "keys_ok demo_db" by (simp add: keys_ok_def demo_defs)
  moreover have "refs_ok demo_db" by (simp add: refs_ok_def canary_ok_def version_of_def demo_defs)
  ultimately show ?thesis by (simp add: db_ok_def)
qed

lemma demo_keys_ok: "keys_ok demo_db"
  by (rule db_ok_keys [OF demo_db_ok])

lemma db_ok_demo_executions: "distinct (map e_id es) \<Longrightarrow> db_ok (demo_db\<lparr>t_executions := es\<rparr>)"
  using demo_db_ok canary_ok_cong [of "demo_db\<lparr>t_executions := es\<rparr>" demo_db]
  by (simp add: db_ok_def keys_ok_def refs_ok_def)

lemma demo_lookup: "get_function_or_404 10 1 demo_db = Inr demo_fn"
  by (simp add: get_function_or_404_def demo_defs)

end
