(* ===== verification/Function_Properties.thy ===== *)
theory Function_Properties
  imports Demo
begin

text \<open>
  The properties of function management and of version routing, each with a witness on the
  sample installation.
\<close>

section \<open>Routing\<close>

text \<open>C13: Of the 100 draws of the router exactly \<open>canary_percent\<close> go to the canary version and
  the others to the active version; an explicitly requested version is taken as it is.\<close>

theorem traffic_split:
  assumes "db_ok d" and "fn \<in> set (t_functions d)" and "f_canary_version_id fn = Some c"
  shows "card {r. r < 100 \<and> route_version_id fn None r = Some c} = nat (f_canary_percent fn) \<and>
    card {r. r < 100 \<and> route_version_id fn None r = f_active_version_id fn} = 100 - nat (f_canary_percent fn) \<and>
    route_version_id fn (Some v) r = Some v"
proof -
  have c: "canary_ok d fn" using assms by (simp add: db_ok_def refs_ok_def)
  then have p: "0 \<le> f_canary_percent fn" "f_canary_percent fn \<le> 100" and ne: "f_active_version_id fn \<noteq> Some c"
    using assms(3) by (auto simp: canary_ok_def)
  have route: "route_version_id fn None r = (if int r < f_canary_percent fn then Some c else f_active_version_id fn)" for r
    using route_cases [OF c] assms(3) by simp
  have "{r. r < 100 \<and> route_version_id fn None r = Some c} = {r. r < 100 \<and> int r < f_canary_percent fn}"
    and "{r. r < 100 \<and> route_version_id fn None r = f_active_version_id fn} =
      {..< 100} - {r. r < 100 \<and> int r < f_canary_percent fn}"
    using ne by (auto simp: route)
  moreover have "card ({..< 100} - {r :: nat. r < 100 \<and> int r < f_canary_percent fn}) = 100 - nat (f_canary_percent fn)"
    using card_below [OF p] by (subst card_Diff_subset) auto
  ultimately show ?thesis using card_below [OF p] by (simp add: route_version_id_def)
qed

theorem traffic_split_witness:
  "card {r. r < 100 \<and> route_version_id demo_fn None r = Some 21} = nat 30"
  using traffic_split [OF demo_db_ok, of demo_fn 21] by simp

text \<open>A function with an active version can always be executed: whatever the draw, the router
  finds a version, and it is the active or the canary version of that function.\<close>

lemma active_function_executable:
  assumes "db_ok d" and "fn \<in> set (t_functions d)" and "f_active_version_id fn = Some a"
  shows "\<exists>v \<in> set (t_versions d). choose_execution_version d fn None r = Inr (Some v) \<and>
    v_function_id v = f_id fn \<and> v_is_active v \<and> (v_id v = a \<or> Some (v_id v) = f_canary_version_id fn)"
proof -
  have c: "canary_ok d fn" using assms by (simp add: db_ok_def refs_ok_def)
  have "\<exists>vid. route_version_id fn None r = Some vid \<and> version_of d (f_id fn) vid \<and>
      (vid = a \<or> Some vid = f_canary_version_id fn)"
    using c assms(3) unfolding route_cases [OF c] by (auto simp: canary_ok_def split: option.splits)
  then obtain vid where vid: "route_version_id fn None r = Some vid" "version_of d (f_id fn) vid"
    "vid = a \<or> Some vid = f_canary_version_id fn" by blast
  from version_of_chosen [OF assms(1) vid(2,1)] obtain v
    where "choose_execution_version d fn None r = Inr (Some v)" "v_id v = vid" by blast
  then show ?thesis using choose_Some vid(3) by blast
qed

text \<open>An explicit version is executed only when it is an active version of that very function;
  a version of another function gives no version at all.\<close>

lemma explicit_version_checked:
  assumes "keys_ok d"
  shows "choose_execution_version d fn (Some vid) r = Inr (Some v) \<longleftrightarrow>
    v \<in> set (t_versions d) \<and> v_id v = vid \<and> v_function_id v = f_id fn \<and> v_is_active v"
proof
  assume "choose_execution_version d fn (Some vid) r = Inr (Some v)"
  then show "v \<in> set (t_versions d) \<and> v_id v = vid \<and> v_function_id v = f_id fn \<and> v_is_active v"
    using choose_Some by (fastforce simp: route_version_id_def)
next
  assume "v \<in> set (t_versions d) \<and> v_id v = vid \<and> v_function_id v = f_id fn \<and> v_is_active v"
  then show "choose_execution_version d fn (Some vid) r = Inr (Some v)"
    using scalar_by_key [of v_id "t_versions d" v vid "\<lambda>v. v_function_id v = f_id fn \<and> v_is_active v"]
      keys_ok_versions [OF assms]
    by (simp add: choose_execution_version_def route_version_id_def)
qed

text \<open>A function with an active version can always be executed: whatever the draw, the router finds a
  version, and it is the active or the canary version of that function. An explicitly requested
  version is executed exactly when it is an active version of that very function.\<close>

theorem version_choice:
  assumes "db_ok d" and "fn \<in> set (t_functions d)" and "f_active_version_id fn = Some a"
  shows "(\<exists>v \<in> set (t_versions d). choose_execution_version d fn None r = Inr (Some v) \<and>
      v_function_id v = f_id fn \<and> v_is_active v \<and> (v_id v = a \<or> Some (v_id v) = f_canary_version_id fn)) \<and>
    (choose_execution_version d fn (Some vid) r = Inr (Some v) \<longleftrightarrow>
      v \<in> set (t_versions d) \<and> v_id v = vid \<and> v_function_id v = f_id fn \<and> v_is_active v)"
  using active_function_executable [OF assms] explicit_version_checked [OF db_ok_keys [OF assms(1)]] by blast

theorem version_choice_witness:
  "\<exists>v \<in> set (t_versions demo_db). choose_execution_version demo_db demo_fn None 55 = Inr (Some v)"
  using version_choice [OF demo_db_ok, of demo_fn 20 55] by auto

section \<open>Ownership\<close>

text \<open>C26: A function is found by its owner alone: for anyone else every handler that looks it up
  answers 404 and leaves the database as it was.\<close>

theorem function_isolation:
  assumes "keys_ok d" and "fn \<in> set (t_functions d)"
  shows "get_function_or_404 (f_id fn) user d =
      (if user = f_owner_id fn then Inr fn else Inl (HTTPException 404 ''Function not found'')) \<and>
    (user \<noteq> f_owner_id fn \<longrightarrow>
       update_function (f_id fn) user upd d = (Inl (HTTPException 404 ''Function not found''), d) \<and>
       activate_version (f_id fn) vid user now d = (Inl (HTTPException 404 ''Function not found''), d) \<and>
       update_canary (f_id fn) body user now d = (Inl (HTTPException 404 ''Function not found''), d) \<and>
       create_version cfg sha M val (f_id fn) user archive form i now (d, s) =
         (Inl (HTTPException 404 ''Function not found''), d, s) \<and>
       delete_function cfg M (f_id fn) user (d, s) = (Inl (HTTPException 404 ''Function not found''), d, s))"
proof -
  have found: "get_function_or_404 (f_id fn) (f_owner_id fn) d = Inr fn" by (rule get_function_found [OF assms])
  show ?thesis
    using found get_function_owner [OF found _ assms(1)]
    by (auto simp: update_function_def activate_version_def update_canary_def create_version_def delete_function_def)
qed

theorem function_isolation_witness:
  "get_function_or_404 10 2 demo_db = Inl (HTTPException 404 ''Function not found'')"
  using function_isolation [OF demo_keys_ok, of demo_fn 2, THEN conjunct1] by simp

section \<open>Creating functions and versions\<close>

text \<open>\<open>create_function\<close> succeeds exactly when the user is below the limit on functions that are
  not deprecated, has no function of that name, and the fresh id is unused; otherwise the database
  is unchanged.\<close>

theorem create_function_spec:
  assumes "keys_ok d"
  shows "create_function cfg user body i now d =
    (if max_functions_per_user cfg \<le> count_where (\<lambda>f. f_owner_id f = user \<and> f_status f \<noteq> F_DEPRECATED) (t_functions d)
     then (Inl (HTTPException 429 (''Maximum of '' @ str_nat (max_functions_per_user cfg) @ '' functions per user'')), d)
     else if \<exists>f \<in> set (t_functions d). f_owner_id f = user \<and> f_name f = fc_name body
     then (Inl (HTTPException 409 (''Function '' @ quoted (fc_name body) @ '' already exists'')), d)
     else if \<exists>f \<in> set (t_functions d). f_id f = i then (Inl (IntegrityError ''functions''), d)
     else (Inr (new_function_row user body i now),
           d\<lparr>t_functions := t_functions d @ [new_function_row user body i now]\<rparr>))"
proof -
  let ?p = "\<lambda>f. f_owner_id f = user \<and> f_name f = fc_name body"
  have one: "scalar_one_or_none (filter ?p (t_functions d)) = Inr (Some f)"
    if "f \<in> set (t_functions d)" "?p f" for f
  proof -
    have "distinct (map (\<lambda>f. (f_owner_id f, f_name f)) (t_functions d))" using assms by (simp add: keys_ok_def)
    from distinct_key_filter [OF this that(1), of "\<lambda>_. True"] that(2)
    have "filter ?p (t_functions d) = [f]" by simp
    then show ?thesis by simp
  qed
  have none: "scalar_one_or_none (filter ?p (t_functions d)) = Inr None"
    if "\<not> (\<exists>f \<in> set (t_functions d). ?p f)" using that by (simp add: scalar_one_or_none_None)
  show ?thesis
  proof (cases "\<exists>f \<in> set (t_functions d). ?p f")
    case True
    then show ?thesis using one by (auto simp: create_function_def Let_def)
  next
    case False
    then have "list_ex (\<lambda>g. f_id g = i \<or> (f_owner_id g = user \<and> f_name g = fc_name body)) (t_functions d)
        = (\<exists>f \<in> set (t_functions d). f_id f = i)" by (auto simp: list_ex_iff)
    then show ?thesis using none False
      by (auto simp: create_function_def Let_def insert_function_def new_function_row_def)
  qed
qed

theorem create_function_spec_witness:
  "create_function default_settings 1 \<lparr>fc_name = ''resize'', fc_description = None, fc_tags = []\<rparr> 77 0 demo_db
   = (Inl (HTTPException 409 (''Function '' @ quoted ''resize'' @ '' already exists'')), demo_db)"
  using create_function_spec [OF demo_keys_ok, of default_settings 1 "\<lparr>fc_name = ''resize'', fc_description = None, fc_tags = []\<rparr>" 77 0]
  by (simp add: demo_other_fn_def)

end
