(* ===== verification/Version_Properties.thy ===== *)
theory Version_Properties
  imports Demo
begin

text \<open>
  The properties of uploading a version, moving traffic to it, and deleting a function with its
  archives, each with a witness on the sample installation and the object store in memory.
\<close>

section \<open>Uploading\<close>

definition demo_form :: version_form where
  "demo_form = \<lparr>vf_entrypoint = ''main.run'', vf_timeout = 60, vf_memory_mb = 128, vf_change_notes = None\<rparr>"

definition demo_validate :: "string \<Rightarrow> validation_result result" where
  "demo_validate archive = Inr (new_result\<lparr>is_valid := archive \<noteq> []\<rparr>)"

lemma demo_form_valid: "validate_version_create (version_request demo_form) = Inr (version_request demo_form)"
  by code_simp



section \<open>Moving traffic\<close>

lemma find_active_version_found:
  assumes "db_ok d" and "version_of d (f_id fn) vid"
  shows "\<exists>v. find_active_version d fn vid = Inr v"
proof -
  from assms(2) obtain v where v: "v \<in> set (t_versions d)" "v_id v = vid" "v_function_id v = f_id fn"
    by (auto simp: version_of_def)
  have "v_is_active v" using assms(1) v(1) by (simp add: db_ok_def refs_ok_def)
  then have "scalar_one_or_none (filter (\<lambda>v. v_id v = vid \<and> v_function_id v = f_id fn \<and> v_is_active v) (t_versions d))
      = Inr (Some v)"
    using v keys_ok_versions [OF db_ok_keys [OF assms(1)]]
    by (intro scalar_by_key [where k = v_id, of "t_versions d" v vid "\<lambda>v. v_function_id v = f_id fn \<and> v_is_active v"]) auto
  then show ?thesis by (simp add: find_active_version_def)
qed

text \<open>One ORM change of a function row with its entry in the activation history.\<close>

lemma change_function:
  assumes ok: "db_ok d" and mem: "fn \<in> set (t_functions d)" and can: "canary_ok d (g fn)"
    and key: "f_id (g fn) = f_id fn" "f_owner_id (g fn) = f_owner_id fn" "f_name (g fn) = f_name fn"
    and d'_def: "d' = record_activation fn user act prev a c p now (set_func (f_id fn) g d)"
  shows "get_function_or_404 (f_id fn) (f_owner_id fn) d' = Inr (g fn) \<and> g fn \<in> set (t_functions d') \<and> db_ok d' \<and>
    (\<forall>h. f_id h \<noteq> f_id fn \<longrightarrow> (h \<in> set (t_functions d') \<longleftrightarrow> h \<in> set (t_functions d))) \<and>
    (\<exists>row. t_activations d' = t_activations d @ [row] \<and> a_function_id row = f_id fn \<and>
       a_previous_version_id row = prev \<and> a_activated_version_id row = a \<and> a_action row = act)"
proof -
  have ok': "db_ok d'" unfolding d'_def db_ok_record_activation using assms(1-6) by (intro db_ok_set_func)
  have fs: "set (t_functions d') = (\<lambda>f. if f_id f = f_id fn then g f else f) ` set (t_functions d)"
    by (simp add: d'_def record_activation_def set_func_def update_where_def)
  have one: "f = fn" if "f \<in> set (t_functions d)" "f_id f = f_id fn" for f
    using distinct_key_unique [OF keys_ok_functions [OF db_ok_keys [OF ok]] that(1) mem that(2)] .
  have mem': "g fn \<in> set (t_functions d')" using mem by (force simp: fs)
  have "h \<in> set (t_functions d') \<longleftrightarrow> h \<in> set (t_functions d)" if "f_id h \<noteq> f_id fn" for h
    using that one key(1) by (force simp: fs)
  moreover have "get_function_or_404 (f_id fn) (f_owner_id fn) d' = Inr (g fn)"
    using get_function_found [OF db_ok_keys [OF ok'] mem'] key by simp
  moreover have "\<exists>row. t_activations d' = t_activations d @ [row] \<and> a_function_id row = f_id fn \<and>
       a_previous_version_id row = prev \<and> a_activated_version_id row = a \<and> a_action row = act"
    by (simp add: d'_def record_activation_def set_func_def)
  ultimately show ?thesis using mem' ok' by blast
qed

text \<open>Activating a version gives it all the traffic, whatever canary was running, and records what
  was active before, so that activating the recorded previous version restores the routing; other
  functions are untouched.\<close>

theorem activate_version_spec:
  assumes "db_ok d" and "fn \<in> set (t_functions d)" and "version_of d (f_id fn) vid"
    and "activate_version (f_id fn) vid (f_owner_id fn) now d = (r, d')"
  shows "\<exists>fn'. r = Inr fn' \<and> fn' \<in> set (t_functions d') \<and> f_id fn' = f_id fn \<and> db_ok d' \<and>
    (\<forall>draw. route_version_id fn' None draw = Some vid) \<and>
    (\<exists>row. t_activations d' = t_activations d @ [row] \<and>
       a_previous_version_id row = f_active_version_id fn \<and> a_activated_version_id row = Some vid) \<and>
    (\<forall>h. f_id h \<noteq> f_id fn \<longrightarrow> (h \<in> set (t_functions d') \<longleftrightarrow> h \<in> set (t_functions d)))"
proof -
  let ?g = "\<lambda>f. f\<lparr>f_active_version_id := Some vid, f_canary_version_id := None, f_canary_percent := 0\<rparr>"
  have found: "get_function_or_404 (f_id fn) (f_owner_id fn) d = Inr fn"
    by (rule get_function_found [OF db_ok_keys [OF assms(1)] assms(2)])
  have "\<exists>v. find_active_version d fn vid = Inr v"
    using find_active_version_found [OF assms(1,3)] .
  then obtain v where v: "find_active_version d fn vid = Inr v" ..
  have "canary_ok d (?g fn)" using assms(3) by (simp add: canary_ok_def)
  note ch = change_function [where g = ?g, simplified, OF assms(1,2) this HOL.refl]
  have "r = Inr (?g fn)" "d' = record_activation fn (f_owner_id fn) ''activate'' (f_active_version_id fn)
      (Some vid) None 0 now (set_func (f_id fn) ?g d)"
    using assms(4) ch by (simp_all add: activate_version_def found v Let_def)
  then show ?thesis
    using ch [of "f_owner_id fn" "''activate''" "f_active_version_id fn" "Some vid" None 0 now]
    by (auto simp: route_version_id_def)
qed

theorem activate_version_spec_witness:
  "\<exists>fn' d'. activate_version 10 21 1 7 demo_db = (Inr fn', d') \<and> (\<forall>draw. route_version_id fn' None draw = Some 21)"
proof -
  obtain r d' where run: "activate_version 10 21 1 7 demo_db = (r, d')" by fastforce
  have "version_of demo_db (f_id demo_fn) 21" by (simp add: version_of_def)
  then show ?thesis using activate_version_spec [OF demo_db_ok, of demo_fn 21 7 r d'] run by auto
qed

text \<open>A canary change either clears the canary (percentage 0 or no version), promotes the version
  (100 percent), or splits the traffic; the canary version is always an active version of the same
  function that differs from the active one, and the history records the version that was active.\<close>

theorem canary_update_spec:
  assumes "db_ok d" and "fn \<in> set (t_functions d)" and "validate_canary_update body = Inr body'"
    and "update_canary (f_id fn) body (f_owner_id fn) now d = (Inr fn', d')"
  shows "fn' \<in> set (t_functions d') \<and> db_ok d' \<and>
    (case (if cu_percent body = 0 then None else cu_version_id body) of
       None \<Rightarrow> fn' = fn\<lparr>f_canary_version_id := None, f_canary_percent := 0\<rparr>
     | Some cv \<Rightarrow> version_of d (f_id fn) cv \<and>
         (if cu_percent body = 100
          then fn' = fn\<lparr>f_active_version_id := Some cv, f_canary_version_id := None, f_canary_percent := 0\<rparr>
          else f_active_version_id fn \<noteq> Some cv \<and>
               fn' = fn\<lparr>f_canary_version_id := Some cv, f_canary_percent := cu_percent body\<rparr>)) \<and>
    (\<exists>row. t_activations d' = t_activations d @ [row] \<and> a_previous_version_id row = f_active_version_id fn) \<and>
    (\<forall>h. f_id h \<noteq> f_id fn \<longrightarrow> (h \<in> set (t_functions d') \<longleftrightarrow> h \<in> set (t_functions d)))"
proof -
  have found: "get_function_or_404 (f_id fn) (f_owner_id fn) d = Inr fn"
    by (rule get_function_found [OF db_ok_keys [OF assms(1)] assms(2)])
  have can: "canary_ok d fn" using assms(1,2) by (simp add: db_ok_def refs_ok_def)
  have rng: "0 \<le> cu_percent body" "cu_percent body \<le> 100"
    using assms(3) by (simp_all add: validate_canary_update_Inr)
  note change = change_function [OF assms(1,2)]
  show ?thesis
  proof (cases "if cu_percent body = 0 then None else cu_version_id body")
    case None
    let ?g = "\<lambda>f. f\<lparr>f_canary_version_id := None, f_canary_percent := 0\<rparr>"
    have "canary_ok d (?g fn)" using can by (simp add: canary_ok_def)
    note ch = change [where g = ?g, simplified, OF this HOL.refl,
        of "f_owner_id fn" "''canary_clear''" "f_active_version_id fn" None None 0 now]
    have "fn' = ?g fn" "d' = record_activation fn (f_owner_id fn) ''canary_clear'' (f_active_version_id fn)
        None None 0 now (set_func (f_id fn) ?g d)"
      using assms(4) ch by (simp_all add: update_canary_def found None Let_def)
    then show ?thesis using ch None by auto
  next
    case (Some cv)
    then have pos: "0 < cu_percent body" using rng by (auto split: if_splits)
    obtain v where v: "find_active_version d fn cv = Inr v"
      using assms(4) by (cases "find_active_version d fn cv") (auto simp: update_canary_def found Some Let_def)
    have vo: "version_of d (f_id fn) cv" using v by (rule find_active_version_of)
    show ?thesis
    proof (cases "cu_percent body = 100")
      case True
      let ?g = "\<lambda>f. f\<lparr>f_active_version_id := Some cv, f_canary_version_id := None, f_canary_percent := 0\<rparr>"
      have "canary_ok d (?g fn)" using vo by (simp add: canary_ok_def)
      note ch = change [where g = ?g, simplified, OF this HOL.refl,
          of "f_owner_id fn" "''promote''" "f_active_version_id fn" "Some cv" None 0 now]
      have "fn' = ?g fn" "d' = record_activation fn (f_owner_id fn) ''promote'' (f_active_version_id fn)
          (Some cv) None 0 now (set_func (f_id fn) ?g d)"
        using assms(4) ch True Some v by (simp_all add: update_canary_def found Let_def)
      then show ?thesis using ch Some True vo by auto
    next
      case False
      let ?g = "\<lambda>f. f\<lparr>f_canary_version_id := Some cv, f_canary_percent := cu_percent body\<rparr>"
      have ne: "f_active_version_id fn \<noteq> Some cv"
        using assms(4) False rng Some v by (auto simp: update_canary_def found Let_def split: if_splits)
      have "canary_ok d (?g fn)" using can vo ne pos rng False by (auto simp: canary_ok_def)
      note ch = change [where g = ?g, simplified, OF this HOL.refl,
          of "f_owner_id fn" "''canary_update''" "f_active_version_id fn" "f_active_version_id fn" "Some cv"
             "cu_percent body" now]
      have "fn' = ?g fn" "d' = record_activation fn (f_owner_id fn) ''canary_update'' (f_active_version_id fn)
          (f_active_version_id fn) (Some cv) (cu_percent body) now (set_func (f_id fn) ?g d)"
        using assms(4) ch False ne Some v by (simp_all add: update_canary_def found Let_def)
      then show ?thesis using ch Some False vo ne by auto
    qed
  qed
qed

theorem canary_update_spec_witness:
  "\<exists>fn' d'. update_canary 10 \<lparr>cu_version_id = Some 21, cu_percent = 100\<rparr> 1 7 demo_db = (Inr fn', d') \<and>
     f_active_version_id fn' = Some 21"
proof -
  obtain r d' where run: "update_canary 10 \<lparr>cu_version_id = Some 21, cu_percent = 100\<rparr> 1 7 demo_db = (r, d')"
    by fastforce
  moreover have "r = Inr (demo_fn\<lparr>f_active_version_id := Some 21, f_canary_version_id := None, f_canary_percent := 0\<rparr>)"
    using run by (simp del: One_nat_def add: update_canary_def demo_lookup find_active_version_def get_function_or_404_def
        record_activation_def set_func_def update_where_def demo_other_fn_def Let_def)
  ultimately show ?thesis
    using canary_update_spec [OF demo_db_ok, of demo_fn "\<lparr>cu_version_id = Some 21, cu_percent = 100\<rparr>" _ 7 _ d']
    by (auto simp: validate_canary_update_def between_def)
qed

section \<open>Deleting\<close>



text \<open>C35: When an archive cannot be removed the answer is 502 and the database is rolled back: every row
  is as before. The archives of the versions before the failing one are gone all the same, so those
  versions stay listed without their code.\<close>

theorem delete_function_failure:
  assumes "object_store M objs" and "get_function_or_404 fid user d = Inr fn"
    and "\<forall>e \<in> set (t_executions d). e_function_id e = Some fid \<longrightarrow> is_terminal (e_status e)"
    and "get_db_with (delete_function cfg M fid user) (d, s) = (Inl e, d', s')"
  defines "paths \<equiv> map v_artifact_path (filter (\<lambda>v. v_function_id v = fid) (t_versions d))"
  shows "d' = d \<and>
    (\<exists>k < length paths. e = HTTPException 502 (''Failed to delete function artifact: '' @ paths ! k) \<and>
       (\<forall>p. p \<noteq> paths ! k \<longrightarrow> objs s' (minio_bucket_artifacts cfg) p =
          (if p \<in> set (take k paths) then None else objs s (minio_bucket_artifacts cfg) p)))"
proof -
  obtain d1 where run: "delete_function cfg M fid user (d, s) = (Inl e, d1, s')" and d': "d' = d"
    using assms(4) by (auto simp: get_db_with_def split: prod.splits sum.splits)
  have id: "f_id fn = fid" using get_function_Inr [OF assms(2)] by simp
  have "count_where (\<lambda>e. e_function_id e = Some fid \<and> e_status e \<in> set active_statuses) (t_executions d) = 0"
    using assms(3) by (auto simp: count_where_def filter_empty_conv active_not_terminal)
  then have "delete_artifacts cfg M paths s = (Inl e, s')"
    using run by (auto simp: delete_function_def assms(2) id paths_def Let_def split: prod.splits)
  then show ?thesis using object_store.delete_artifacts_failed [OF assms(1)] d' by blast
qed

text \<open>A store that refuses to remove the second version's archive.\<close>

definition stuck_minio :: "memory minio" where
  "stuck_minio = memory_minio\<lparr>remove_object := \<lambda>b p s.
     if p = artifact_path_of 10 21 then (Inl (S3Error ''AccessDenied''), s)
     else remove_object memory_minio b p s\<rparr>"

lemma stuck_object_store: "object_store stuck_minio memory_objs"
  by unfold_locales
     (auto simp: stuck_minio_def memory_minio_def memory_objs_def map_of_filter_key split: option.splits if_splits)

definition idle_db :: db where
  "idle_db = demo_db\<lparr>t_executions := []\<rparr>"

lemma idle_db_simps [simp]: "t_executions idle_db = []" "t_versions idle_db = [demo_version 20 1, demo_version 21 2]"
  by (simp_all add: idle_db_def)

theorem delete_function_failure_witness:
  "\<exists>e s'. get_db_with (delete_function default_settings stuck_minio 10 1)
      (idle_db, [((''sopm-artifacts'', artifact_path_of 10 20), ''zip'')]) = (Inl e, idle_db, s') \<and>
    memory_objs s' ''sopm-artifacts'' (artifact_path_of 10 20) = None"
proof -
  let ?s = "[((''sopm-artifacts'', artifact_path_of 10 20), ''zip'')]"
  have ne: "artifact_path_of 10 20 \<noteq> artifact_path_of 10 21" by (auto dest: artifact_path_inj)
  have lk: "get_function_or_404 10 1 idle_db = Inr demo_fn"
    using demo_lookup by (simp add: idle_db_def get_function_or_404_def)
  obtain e d' s' where run: "get_db_with (delete_function default_settings stuck_minio 10 1) (idle_db, ?s) = (Inl e, d', s')"
    and e: "e = HTTPException 502 (''Failed to delete function artifact: '' @ artifact_path_of 10 21)"
    using ne by (simp del: One_nat_def add: get_db_with_def delete_function_def lk count_where_def
        delete_artifact_def stuck_minio_def memory_minio_def)
  from delete_function_failure [OF stuck_object_store lk _ run]
  have "d' = idle_db" and "memory_objs s' ''sopm-artifacts'' (artifact_path_of 10 20) = None"
    using e ne by (auto simp: less_Suc_eq)
  then show ?thesis using run by blast
qed

end
