(* ===== verification/Redis_Queue.thy ===== *)
theory Redis_Queue
  imports Json Settings "HOL-Library.Monad_Syntax"
begin

text \<open>
  \<open>shared/queue/redis_client.py\<close> over a Redis client. The client is a parameter: a record of
  the commands the code sends, over a server state \<open>'r\<close>; a command returns or raises, and one
  that raises may or may not have been carried out. The locale \<open>redis_server\<close> states the
  documented effect of each command, \<open>job_queue\<close> the contract of the queue helpers and
  \<open>lock_service\<close> the contract of the distributed lock; the first gives the other two. Scores are
  integer microseconds (the code uses a double).
\<close>

section \<open>Commands\<close>

record 'r redis =
  r_zadd :: "string \<Rightarrow> string \<Rightarrow> int \<Rightarrow> 'r \<Rightarrow> unit result \<times> 'r"
  r_bzpopmin :: "string \<Rightarrow> int \<Rightarrow> 'r \<Rightarrow> (string \<times> int) option result \<times> 'r"
  r_zscan :: "string \<Rightarrow> nat \<Rightarrow> 'r \<Rightarrow> (nat \<times> (string \<times> int) list) result \<times> 'r"
  r_zrem :: "string \<Rightarrow> string \<Rightarrow> 'r \<Rightarrow> unit result \<times> 'r"
  r_zcard :: "string \<Rightarrow> 'r \<Rightarrow> nat result \<times> 'r"
  r_set_nx :: "string \<Rightarrow> string \<Rightarrow> int \<Rightarrow> 'r \<Rightarrow> bool result \<times> 'r"
  r_set :: "string \<Rightarrow> string \<Rightarrow> int \<Rightarrow> 'r \<Rightarrow> unit result \<times> 'r"
  r_get :: "string \<Rightarrow> 'r \<Rightarrow> string option result \<times> 'r"
  r_del :: "string \<Rightarrow> 'r \<Rightarrow> nat result \<times> 'r"
  r_eval :: "('r \<Rightarrow> nat result \<times> 'r) \<Rightarrow> 'r \<Rightarrow> nat result \<times> 'r"
  r_incr :: "string \<Rightarrow> 'r \<Rightarrow> int result \<times> 'r"
  r_expire :: "string \<Rightarrow> int \<Rightarrow> 'r \<Rightarrow> unit result \<times> 'r"
  r_keys :: "string \<Rightarrow> 'r \<Rightarrow> string list result \<times> 'r"
  r_ping :: "'r \<Rightarrow> unit result \<times> 'r"

section \<open>Retries\<close>

text \<open>
  \<open>redis_retry\<close>: three attempts, the last exception is raised again. An attempt is given its
  number, since it reads the clock afresh; it may not end (\<open>None\<close>).
\<close>

fun retry_loop ::
  "nat \<Rightarrow> nat \<Rightarrow> (nat \<Rightarrow> 's \<Rightarrow> ('a result \<times> 's) option) \<Rightarrow> 's \<Rightarrow> ('a result \<times> 's) option" where
  "retry_loop 0 i f s = f i s"
| "retry_loop (Suc left) i f s =
     (case f i s of
        None \<Rightarrow> None
      | Some (Inl e, s') \<Rightarrow> retry_loop left (Suc i) f s'
      | Some (Inr a, s') \<Rightarrow> Some (Inr a, s'))"

definition max_attempts :: nat where
  "max_attempts = 3"

definition redis_retry :: "(nat \<Rightarrow> 's \<Rightarrow> ('a result \<times> 's) option) \<Rightarrow> 's \<Rightarrow> ('a result \<times> 's) option" where
  "redis_retry f s = retry_loop (max_attempts - 1) 0 f s"

definition redis_retry_total :: "(nat \<Rightarrow> 's \<Rightarrow> 'a result \<times> 's) \<Rightarrow> 's \<Rightarrow> 'a result \<times> 's" where
  "redis_retry_total f s = the (redis_retry (\<lambda>i s. Some (f i s)) s)"

section \<open>Queue helpers\<close>

definition queue_name :: string where
  "queue_name = ''sopm:queue''"

definition processing_set :: string where
  "processing_set = ''sopm:processing''"

text \<open>\<open>{"job_id": job_id, **payload}\<close>\<close>

definition job_object :: "string \<Rightarrow> (string \<times> json) list \<Rightarrow> json" where
  "job_object job_id payload =
     JObj (foldl (\<lambda>d (k, v). dict_set k v d) [(''job_id'', JStr job_id)] payload)"

definition job_score :: "time \<Rightarrow> int \<Rightarrow> int" where
  "job_score now priority = now - seconds (priority * 1000000)"

definition enqueue_job ::
  "'r redis \<Rightarrow> (nat \<Rightarrow> time) \<Rightarrow> string \<Rightarrow> (string \<times> json) list \<Rightarrow> int \<Rightarrow> 'r \<Rightarrow> unit result \<times> 'r" where
  "enqueue_job R clock job_id payload priority =
     redis_retry_total (\<lambda>i s.
       r_zadd R queue_name (dumps (job_object job_id payload)) (job_score (clock i) priority) s)"

definition dequeue_attempt :: "'r redis \<Rightarrow> int \<Rightarrow> 'r \<Rightarrow> json option result \<times> 'r" where
  "dequeue_attempt R timeout s =
     seq (r_bzpopmin R queue_name timeout s) (\<lambda>popped s1.
       case popped of
         None \<Rightarrow> (Inr None, s1)
       | Some (job, score) \<Rightarrow>
           seq (r_zadd R processing_set job score s1) (\<lambda>_ s2.
             case loads job of
               None \<Rightarrow> (Inl JSONDecodeError, s2)
             | Some j \<Rightarrow> (Inr (Some j), s2)))"

definition dequeue_job :: "'r redis \<Rightarrow> int \<Rightarrow> 'r \<Rightarrow> json option result \<times> 'r" where
  "dequeue_job R timeout = redis_retry_total (\<lambda>_. dequeue_attempt R timeout)"

text \<open>\<open>data.get("job_id") == job_id\<close>; a member that does not parse or is no object is passed over.\<close>

definition has_job_id :: "string \<Rightarrow> string \<Rightarrow> bool" where
  "has_job_id job_id member =
     (case loads member of
        Some (JObj kvs) \<Rightarrow> map_of kvs ''job_id'' = Some (JStr job_id)
      | _ \<Rightarrow> False)"

fun ack_members :: "'r redis \<Rightarrow> string \<Rightarrow> (string \<times> int) list \<Rightarrow> 'r \<Rightarrow> bool result \<times> 'r" where
  "ack_members R job_id [] s = (Inr False, s)"
| "ack_members R job_id ((member, sc) # ms) s =
     (if has_job_id job_id member
      then seq (r_zrem R processing_set member s) (\<lambda>_ s'. (Inr True, s'))
      else ack_members R job_id ms s)"

text \<open>The scan: the page at the cursor, then the next cursor until it is 0.\<close>

partial_function (option) ack_scan ::
  "'r redis \<Rightarrow> string \<Rightarrow> nat \<Rightarrow> 'r \<Rightarrow> (unit result \<times> 'r) option" where
  "ack_scan R job_id cursor s =
     (case r_zscan R processing_set cursor s of
        (Inl e, s1) \<Rightarrow> Some (Inl e, s1)
      | (Inr page, s1) \<Rightarrow>
          (case ack_members R job_id (snd page) s1 of
             (Inl e, s2) \<Rightarrow> Some (Inl e, s2)
           | (Inr found, s2) \<Rightarrow>
               if found \<or> fst page = 0 then Some (Inr (), s2)
               else ack_scan R job_id (fst page) s2))"

definition ack_job :: "'r redis \<Rightarrow> string \<Rightarrow> 'r \<Rightarrow> (unit result \<times> 'r) option" where
  "ack_job R job_id = redis_retry (\<lambda>_. ack_scan R job_id 0)"

definition queue_depth :: "'r redis \<Rightarrow> 'r \<Rightarrow> nat result \<times> 'r" where
  "queue_depth R = redis_retry_total (\<lambda>_. r_zcard R queue_name)"

definition heartbeat_key :: "string \<Rightarrow> string" where
  "heartbeat_key worker_id = ''sopm:worker:'' @ worker_id @ '':heartbeat''"

definition heartbeat :: "'r redis \<Rightarrow> time \<Rightarrow> string \<Rightarrow> int \<Rightarrow> 'r \<Rightarrow> unit result \<times> 'r" where
  "heartbeat R now worker_id ttl s = r_set R (heartbeat_key worker_id) (str_int (now div 1000000)) ttl s"

section \<open>The distributed lock\<close>

definition lock_prefix :: string where
  "lock_prefix = ''sopm:lock:''"

record lock =
  lk_name :: string
  lk_timeout :: int
  lk_wait :: int
  lk_token :: "string option"

definition new_lock :: "string \<Rightarrow> int \<Rightarrow> int \<Rightarrow> lock" where
  "new_lock name timeout wait =
     \<lparr>lk_name = lock_prefix @ name, lk_timeout = timeout, lk_wait = wait, lk_token = None\<rparr>"

text \<open>
  \<open>acquire\<close>: \<open>start\<close> is the monotonic reading the deadline is set from and \<open>clock i\<close> the
  one before attempt \<open>i\<close>; \<open>sleep i\<close> is what the other
  clients do to the server during the pause after it.
\<close>

partial_function (option) acquire_loop ::
  "'r redis \<Rightarrow> lock \<Rightarrow> string \<Rightarrow> (nat \<Rightarrow> time) \<Rightarrow> time \<Rightarrow> (nat \<Rightarrow> 'r \<Rightarrow> 'r) \<Rightarrow> nat \<Rightarrow> 'r \<Rightarrow>
   (bool result \<times> 'r) option" where
  "acquire_loop R lk token clock deadline sleep i s =
     (if clock i < deadline
      then (case r_set_nx R (lk_name lk) token (lk_timeout lk) s of
              (Inl e, s') \<Rightarrow> Some (Inl e, s')
            | (Inr acquired, s') \<Rightarrow>
                if acquired then Some (Inr True, s')
                else acquire_loop R lk token clock deadline sleep (Suc i) (sleep i s'))
      else Some (Inr False, s))"

definition acquire ::
  "'r redis \<Rightarrow> lock \<Rightarrow> string \<Rightarrow> time \<Rightarrow> (nat \<Rightarrow> time) \<Rightarrow> (nat \<Rightarrow> 'r \<Rightarrow> 'r) \<Rightarrow> 'r \<Rightarrow>
   ((bool result \<times> 'r) option) \<times> lock" where
  "acquire R lk token start clock sleep s =
     (acquire_loop R lk token clock (start + seconds (lk_wait lk)) sleep 0 s,
      lk\<lparr>lk_token := Some token\<rparr>)"

text \<open>The Lua script of \<open>release\<close>, run atomically by \<open>EVAL\<close>.\<close>

definition release_script :: "'r redis \<Rightarrow> string \<Rightarrow> string \<Rightarrow> 'r \<Rightarrow> nat result \<times> 'r" where
  "release_script R key token s =
     seq (r_get R key s) (\<lambda>v s1.
       if v = Some token then r_del R key s1 else (Inr 0, s1))"

definition release :: "'r redis \<Rightarrow> lock \<Rightarrow> 'r \<Rightarrow> unit result \<times> 'r" where
  "release R lk s =
     (case lk_token lk of
        None \<Rightarrow> (Inr (), s)
      | Some token \<Rightarrow>
          (case r_eval R (release_script R (lk_name lk) token) s of
             (Inl (RedisError m), s') \<Rightarrow> (Inr (), s')
           | (Inl e, s') \<Rightarrow> (Inl e, s')
           | (Inr _, s') \<Rightarrow> (Inr (), s')))"


section \<open>What the server does\<close>

text \<open>The patterns of \<open>KEYS\<close> the code uses: literal characters and \<open>*\<close>.\<close>

fun glob :: "string \<Rightarrow> string \<Rightarrow> bool" where
  "glob [] s = (s = [])"
| "glob (p # ps) [] = (p = CHR ''*'' \<and> glob ps [])"
| "glob (p # ps) (c # cs) =
     (if p = CHR ''*'' then glob ps (c # cs) \<or> glob (p # ps) cs else c = p \<and> glob ps cs)"

type_synonym zsets = "string \<Rightarrow> string \<Rightarrow> int option"

definition zput :: "string \<Rightarrow> string \<Rightarrow> int \<Rightarrow> zsets \<Rightarrow> zsets" where
  "zput k m sc z = z(k := (z k)(m \<mapsto> sc))"

definition zdel :: "string \<Rightarrow> string \<Rightarrow> zsets \<Rightarrow> zsets" where
  "zdel k m z = z(k := (z k)(m := None))"

text \<open>
  \<open>zs s k\<close> is the sorted set under key \<open>k\<close>, \<open>kv s k\<close> the string under it. \<open>rest s k c\<close> are the
  members a scan at cursor \<open>c\<close> has still to return and \<open>rank\<close> counts the pages left: Redis
  promises that a full iteration ends and returns every member that is there throughout.
\<close>

locale redis_server =
  fixes R :: "'r redis"
    and zs :: "'r \<Rightarrow> zsets"
    and kv :: "'r \<Rightarrow> string \<Rightarrow> string option"
    and rest :: "'r \<Rightarrow> string \<Rightarrow> nat \<Rightarrow> string set"
    and rank :: "'r \<Rightarrow> string \<Rightarrow> nat \<Rightarrow> nat"
  assumes zadd_ok:
      "r_zadd R k m sc s = (Inr u, s') \<Longrightarrow> zs s' = zput k m sc (zs s) \<and> kv s' = kv s"
    and zadd_err:
      "r_zadd R k m sc s = (Inl e, s') \<Longrightarrow> (zs s' = zs s \<or> zs s' = zput k m sc (zs s)) \<and> kv s' = kv s"
    and pop_some:
      "r_bzpopmin R k t s = (Inr (Some (m, sc)), s') \<Longrightarrow>
       zs s k m = Some sc \<and> (\<forall>m' sc'. zs s k m' = Some sc' \<longrightarrow> sc \<le> sc') \<and>
       zs s' = zdel k m (zs s) \<and> kv s' = kv s"
    and pop_none:
      "r_bzpopmin R k t s = (Inr None, s') \<Longrightarrow> (\<forall>m. zs s k m = None) \<and> zs s' = zs s \<and> kv s' = kv s"
    and pop_err:
      "r_bzpopmin R k t s = (Inl e, s') \<Longrightarrow>
       (zs s' = zs s \<or> (\<exists>m. zs s' = zdel k m (zs s))) \<and> kv s' = kv s"
    and scan_ok:
      "r_zscan R k c s = (Inr (c', ms), s') \<Longrightarrow>
       zs s' = zs s \<and> kv s' = kv s \<and> (\<forall>(m, sc) \<in> set ms. zs s k m = Some sc) \<and>
       (\<forall>m \<in> rest s k c. m \<in> fst ` set ms \<or> (c' \<noteq> 0 \<and> m \<in> rest s' k c')) \<and>
       (c' \<noteq> 0 \<longrightarrow> rank s' k c' < rank s k c)"
    and scan_start: "rest s k 0 = dom (zs s k)"
    and scan_err: "r_zscan R k c s = (Inl e, s') \<Longrightarrow> zs s' = zs s \<and> kv s' = kv s"
    and zrem_ok: "r_zrem R k m s = (Inr u, s') \<Longrightarrow> zs s' = zdel k m (zs s) \<and> kv s' = kv s"
    and zrem_err:
      "r_zrem R k m s = (Inl e, s') \<Longrightarrow> (zs s' = zs s \<or> zs s' = zdel k m (zs s)) \<and> kv s' = kv s"
    and zcard_ok: "r_zcard R k s = (Inr n, s') \<Longrightarrow> n = card (dom (zs s k)) \<and> zs s' = zs s \<and> kv s' = kv s"
    and zcard_err: "r_zcard R k s = (Inl e, s') \<Longrightarrow> zs s' = zs s \<and> kv s' = kv s"
    and set_nx_ok:
      "r_set_nx R k v t s = (Inr b, s') \<Longrightarrow>
       zs s' = zs s \<and> b = (kv s k = None) \<and> kv s' = (if b then (kv s)(k \<mapsto> v) else kv s)"
    and set_nx_err:
      "r_set_nx R k v t s = (Inl e, s') \<Longrightarrow>
       zs s' = zs s \<and> (kv s' = kv s \<or> (kv s k = None \<and> kv s' = (kv s)(k \<mapsto> v)))"
    and get_ok: "r_get R k s = (Inr x, s') \<Longrightarrow> x = kv s k \<and> zs s' = zs s \<and> kv s' = kv s"
    and get_err: "r_get R k s = (Inl e, s') \<Longrightarrow> zs s' = zs s \<and> kv s' = kv s"
    and del_ok: "r_del R k s = (Inr n, s') \<Longrightarrow> zs s' = zs s \<and> kv s' = (kv s)(k := None)"
    and del_err:
      "r_del R k s = (Inl e, s') \<Longrightarrow> zs s' = zs s \<and> (kv s' = kv s \<or> kv s' = (kv s)(k := None))"
    and eval_ok: "r_eval R script s = (Inr n, s') \<Longrightarrow> script s = (Inr n, s')"
    and eval_err: "r_eval R script s = (Inl e, s') \<Longrightarrow> s' = s \<or> s' = snd (script s)"
    and incr_ok:
      "r_incr R k s = (Inr count, s') \<Longrightarrow>
       count = (case kv s k of None \<Rightarrow> 1 | Some x \<Rightarrow> int (nat_of_digits x) + 1) \<and>
       kv s' = (kv s)(k \<mapsto> str_int count) \<and> zs s' = zs s"
    and keys_ok:
      "r_keys R pat s = (Inr ks, s') \<Longrightarrow>
       distinct ks \<and> set ks = {k. kv s k \<noteq> None \<and> glob pat k} \<and> kv s' = kv s \<and> zs s' = zs s"
    and expire_ok: "r_expire R k t s = (r, s') \<Longrightarrow> kv s' = kv s \<and> zs s' = zs s"

section \<open>Retried calls\<close>

text \<open>
  What holds before a retried call and is kept by a failed attempt holds when the call fails;
  what a successful attempt started there establishes holds when it succeeds.
\<close>

lemma retry_loop_inv:
  assumes "retry_loop n i f s = Some (r, s')" and "i + n < max_attempts" and "I s"
    and keep: "\<And>i s e s1. i < max_attempts \<Longrightarrow> I s \<Longrightarrow> f i s = Some (Inl e, s1) \<Longrightarrow> I s1"
    and fin: "\<And>i s a s1. i < max_attempts \<Longrightarrow> I s \<Longrightarrow> f i s = Some (Inr a, s1) \<Longrightarrow> Q a s1"
  shows "case r of Inl e \<Rightarrow> I s' | Inr a \<Rightarrow> Q a s'"
  using assms(1-3)
proof (induction n arbitrary: i s)
  case 0
  then have lt: "i < max_attempts" and f: "f i s = Some (r, s')" and inv: "I s" by simp_all
  show ?case
  proof (cases r)
    case (Inl e)
    show ?thesis using keep [OF lt inv f [unfolded Inl]] Inl by simp
  next
    case (Inr a)
    show ?thesis using fin [OF lt inv f [unfolded Inr]] Inr by simp
  qed
next
  case (Suc n)
  then obtain r1 s1 where f: "f i s = Some (r1, s1)" by (auto split: option.splits)
  show ?case
  proof (cases r1)
    case (Inl e)
    have lt: "i < max_attempts" "Suc i + n < max_attempts" using Suc.prems(2) by simp_all
    then have "I s1" using keep [OF lt(1) Suc.prems(3)] f Inl by blast
    then show ?thesis using Suc.IH [of "Suc i" s1] Suc.prems f Inl lt by simp
  next
    case (Inr a)
    then have "f i s = Some (Inr a, s1)" using f by simp
    then have "Q a s1" using fin [of i s a s1] Suc.prems(2,3) by simp
    then show ?thesis using Suc.prems(1) f Inr by auto
  qed
qed

lemmas redis_retry_inv =
  retry_loop_inv [where n = "max_attempts - 1" and i = 0, folded redis_retry_def]

lemma retry_loop_ends:
  assumes "\<And>i s. \<exists>r. f i s = Some r"
  shows "\<exists>r. retry_loop n i f s = Some r"
proof (induction n arbitrary: i s)
  case 0
  then show ?case using assms by simp
next
  case (Suc n)
  obtain r s1 where "f i s = Some (r, s1)" using assms by (metis prod.exhaust)
  then show ?case using Suc by (cases r) simp_all
qed

lemma redis_retry_ends: "(\<And>i s. \<exists>r. f i s = Some r) \<Longrightarrow> \<exists>r. redis_retry f s = Some r"
  unfolding redis_retry_def by (rule retry_loop_ends)

lemma redis_retry_total_eq: "redis_retry (\<lambda>i s. Some (f i s)) s = Some (redis_retry_total f s)"
  using redis_retry_ends [of "\<lambda>i s. Some (f i s)" s] by (auto simp: redis_retry_total_def)

lemma redis_retry_total_inv:
  assumes "redis_retry_total f s = (r, s')" and "I s"
    and "\<And>i s e s1. i < max_attempts \<Longrightarrow> I s \<Longrightarrow> f i s = (Inl e, s1) \<Longrightarrow> I s1"
    and "\<And>i s a s1. i < max_attempts \<Longrightarrow> I s \<Longrightarrow> f i s = (Inr a, s1) \<Longrightarrow> Q a s1"
  shows "case r of Inl e \<Rightarrow> I s' | Inr a \<Rightarrow> Q a s'"
  using redis_retry_inv [of "\<lambda>i s. Some (f i s)" s r s' I Q] assms redis_retry_total_eq [of f s]
  by (simp add: max_attempts_def)

lemma redis_retry_total_first:
  "f 0 s = (Inr a, s') \<Longrightarrow> redis_retry_total f s = (Inr a, s')"
  by (simp add: redis_retry_total_def redis_retry_def max_attempts_def numeral_2_eq_2)

end
