(* ===== verification/Queue_Contract.thy ===== *)
theory Queue_Contract
  imports Redis_Queue
begin

text \<open>
  The contracts of the queue helpers and of the distributed lock, shown for the code's own
  definitions over any Redis server that does what \<open>redis_server\<close> says, and a server in memory
  that meets those laws.
\<close>

section \<open>Contracts\<close>

text \<open>
  \<open>pend\<close> is the waiting set, \<open>proc\<close> the processing set, each a map from serialised jobs to scores.
\<close>

locale job_queue =
  fixes enq :: "(nat \<Rightarrow> time) \<Rightarrow> string \<Rightarrow> (string \<times> json) list \<Rightarrow> int \<Rightarrow> 's \<Rightarrow> unit result \<times> 's"
    and deq :: "int \<Rightarrow> 's \<Rightarrow> json option result \<times> 's"
    and ack :: "string \<Rightarrow> 's \<Rightarrow> (unit result \<times> 's) option"
    and pend :: "'s \<Rightarrow> string \<Rightarrow> int option"
    and proc :: "'s \<Rightarrow> string \<Rightarrow> int option"
  assumes enq_ok:
      "enq clock i p pr s = (Inr u, s') \<Longrightarrow>
       proc s' = proc s \<and>
       (\<exists>n < max_attempts. pend s' = (pend s)(dumps (job_object i p) \<mapsto> job_score (clock n) pr))"
    and enq_err:
      "enq clock i p pr s = (Inl e, s') \<Longrightarrow>
       proc s' = proc s \<and>
       (pend s' = pend s \<or>
        (\<exists>n < max_attempts. pend s' = (pend s)(dumps (job_object i p) \<mapsto> job_score (clock n) pr)))"
    and deq_some:
      "deq t s = (Inr (Some j), s') \<Longrightarrow>
       \<exists>m sc. loads m = Some j \<and> pend s m = Some sc \<and> proc s' m = Some sc \<and> pend s' m = None \<and>
         (\<forall>m' sc'. pend s' m' = Some sc' \<longrightarrow> sc \<le> sc') \<and> pend s' \<subseteq>\<^sub>m pend s"
    and deq_none: "deq t s = (Inr None, s') \<Longrightarrow> pend s' = Map.empty"
    and deq_shrinks: "deq t s = (r, s') \<Longrightarrow> pend s' \<subseteq>\<^sub>m pend s \<and> dom (proc s) \<subseteq> dom (proc s')"
    and ack_ends: "\<exists>r. ack i s = Some r"
    and ack_frame:
      "ack i s = Some (result, s') \<Longrightarrow>
       pend s' = pend s \<and> proc s' \<subseteq>\<^sub>m proc s \<and> (\<forall>m. \<not> has_job_id i m \<longrightarrow> proc s' m = proc s m)"
    and ack_ok:
      "ack i s = Some (Inr u, s') \<Longrightarrow> m \<in> dom (proc s) \<Longrightarrow> has_job_id i m \<Longrightarrow> proc s' \<noteq> proc s"
begin

text \<open>
  The job with the smaller score is taken first, whatever else is added: its score is bounded by
  that of every job still waiting.
\<close>

lemma deq_minimal:
  assumes "deq t s = (Inr (Some j), s')" and "pend s a = Some x" and "pend s' a = Some x"
  shows "\<exists>m sc. loads m = Some j \<and> pend s m = Some sc \<and> sc \<le> x"
  using deq_some [OF assms(1)] assms(3) by metis

text \<open>An acknowledged job that was enqueued once is no longer in processing.\<close>

lemma ack_removes:
  assumes "ack i s = Some (Inr u, s')" and "has_job_id i m" and "m \<in> dom (proc s)"
    and "\<And>m'. m' \<in> dom (proc s) \<Longrightarrow> has_job_id i m' \<Longrightarrow> m' = m"
  shows "proc s' = (proc s)(m := None)"
proof -
  note frame = ack_frame [OF assms(1)]
  have same: "proc s' m' = proc s m'" if "m' \<noteq> m" for m'
    using that frame assms(4) by (metis domIff map_le_def)
  have "proc s' m = None"
  proof (rule ccontr)
    assume "proc s' m \<noteq> None"
    then have "proc s' m = proc s m" using frame by (metis domIff map_le_def)
    then have "proc s' = proc s" using same by (metis ext)
    then show False using ack_ok [OF assms(1) assms(3) assms(2)] by blast
  qed
  then show ?thesis using same by auto
qed

end

text \<open>\<open>holder s k\<close> is the token stored under the key of a lock.\<close>

locale lock_service =
  fixes acq :: "lock \<Rightarrow> string \<Rightarrow> time \<Rightarrow> (nat \<Rightarrow> time) \<Rightarrow> (nat \<Rightarrow> 's \<Rightarrow> 's) \<Rightarrow> 's \<Rightarrow> ((bool result \<times> 's) option) \<times> lock"
    and rel :: "lock \<Rightarrow> 's \<Rightarrow> unit result \<times> 's"
    and holder :: "'s \<Rightarrow> string \<Rightarrow> string option"
  assumes acq_token: "acq lk token start clock sleep s = (outcome, lk') \<Longrightarrow> lk' = lk\<lparr>lk_token := Some token\<rparr>"
    and acq_got:
      "fst (acq lk token start clock sleep s) = Some (Inr True, s') \<Longrightarrow>
       \<exists>s0. holder s0 (lk_name lk) = None \<and> holder s' = (holder s0)(lk_name lk \<mapsto> token)"
    and acq_busy:
      "holder s (lk_name lk) = Some t \<Longrightarrow>
       (\<And>i x. holder x (lk_name lk) = Some t \<Longrightarrow> holder (sleep i x) (lk_name lk) = Some t) \<Longrightarrow>
       fst (acq lk token start clock sleep s) = Some (Inr b, s') \<Longrightarrow>
       \<not> b \<and> holder s' (lk_name lk) = Some t"
    and acq_ends:
      "(\<And>i. clock i + 100000 \<le> clock (Suc i)) \<Longrightarrow>
       \<exists>r. fst (acq lk token start clock sleep s) = Some r"
    and rel_own:
      "rel lk s = (r, s') \<Longrightarrow> lk_token lk = Some t \<Longrightarrow>
       holder s' = holder s \<or>
       (holder s (lk_name lk) = Some t \<and> holder s' = (holder s)(lk_name lk := None))"
begin

text \<open>A client whose lock expired and was taken over does not release the new holder's lock.\<close>

lemma rel_other:
  assumes "rel lk s = (r, s')" and "lk_token lk = Some t" and "holder s (lk_name lk) \<noteq> Some t"
  shows "holder s' = holder s"
  using rel_own [OF assms(1,2)] assms(3) by auto

end

section \<open>The helpers keep the contract\<close>

lemma zput_idem: "zput k m a (zput k m b z) = zput k m a z"
  by (simp add: zput_def)

lemma zput_apply: "zput k m a z k' = (if k' = k then (z k)(m \<mapsto> a) else z k')"
  by (simp add: zput_def)

lemma zdel_apply: "zdel k m z k' = (if k' = k then (z k)(m := None) else z k')"
  by (simp add: zdel_def)

lemma map_le_del: "f(m := None) \<subseteq>\<^sub>m f"
  by (auto simp: map_le_def)

lemma keys_differ [simp]: "queue_name \<noteq> processing_set" "processing_set \<noteq> queue_name"
  by (simp_all add: queue_name_def processing_set_def)

context redis_server begin

text \<open>What an enqueue leaves: the entry of one of its attempts, or nothing.\<close>

lemma enqueue_effect:
  assumes "enqueue_job R clock i p pr s = (r, s')"
  shows "kv s' = kv s \<and>
    ((\<exists>n < max_attempts. zs s' = zput queue_name (dumps (job_object i p)) (job_score (clock n) pr) (zs s)) \<or>
     zs s' = zs s \<and> (\<exists>e. r = Inl e))"
proof -
  let ?put = "\<lambda>x. \<exists>n < max_attempts. zs x = zput queue_name (dumps (job_object i p)) (job_score (clock n) pr) (zs s)"
  have "case r of Inl e \<Rightarrow> kv s' = kv s \<and> (?put s' \<or> zs s' = zs s) | Inr a \<Rightarrow> kv s' = kv s \<and> ?put s'"
  proof (rule redis_retry_total_inv [OF assms [unfolded enqueue_job_def],
        where I = "\<lambda>x. kv x = kv s \<and> (?put x \<or> zs x = zs s)" and Q = "\<lambda>a x. kv x = kv s \<and> ?put x"])
    fix n x e y
    assume "n < max_attempts" "kv x = kv s \<and> (?put x \<or> zs x = zs s)"
      "r_zadd R queue_name (dumps (job_object i p)) (job_score (clock n) pr) x = (Inl e, y)"
    then show "kv y = kv s \<and> (?put y \<or> zs y = zs s)" using zadd_err zput_idem by metis
  next
    fix n x a y
    assume "n < max_attempts" "kv x = kv s \<and> (?put x \<or> zs x = zs s)"
      "r_zadd R queue_name (dumps (job_object i p)) (job_score (clock n) pr) x = (Inr a, y)"
    then show "kv y = kv s \<and> ?put y" using zadd_ok zput_idem by metis
  qed simp
  then show ?thesis by (cases r) auto
qed

lemma dequeue_attempt_shrinks:
  assumes "dequeue_attempt R t s = (r, s')"
  shows "zs s' queue_name \<subseteq>\<^sub>m zs s queue_name \<and> dom (zs s processing_set) \<subseteq> dom (zs s' processing_set)"
proof -
  obtain r1 s1 where pop: "r_bzpopmin R queue_name t s = (r1, s1)" by fastforce
  have 1: "zs s1 queue_name \<subseteq>\<^sub>m zs s queue_name" "zs s1 processing_set = zs s processing_set"
    using pop_some [of queue_name t s _ _ s1] pop_none [of queue_name t s s1] pop_err [of queue_name t s _ s1] pop
    by (cases r1; force simp: zdel_apply map_le_del)+
  show ?thesis
  proof (cases "\<exists>m sc. r1 = Inr (Some (m, sc))")
    case True
    then obtain m sc where r1: "r1 = Inr (Some (m, sc))" by blast
    obtain r2 s2 where add: "r_zadd R processing_set m sc s1 = (r2, s2)" by fastforce
    have "zs s2 = zs s1 \<or> zs s2 = zput processing_set m sc (zs s1)"
      using add zadd_ok [of processing_set m sc s1 _ s2] zadd_err [of processing_set m sc s1 _ s2]
      by (cases r2) auto
    then have 2: "zs s2 queue_name = zs s1 queue_name" "dom (zs s1 processing_set) \<subseteq> dom (zs s2 processing_set)"
      by (auto simp: zput_apply)
    have "s' = s2" using assms pop r1 add
      by (cases r2) (auto simp: dequeue_attempt_def split: option.splits)
    then show ?thesis using 1 2 by simp
  next
    case False
    then have "s' = s1" using assms pop
      by (cases r1) (auto simp: dequeue_attempt_def split: option.splits)
    then show ?thesis using 1 by simp
  qed
qed

lemma dequeue_attempt_some:
  assumes "dequeue_attempt R t s = (Inr (Some j), s')"
  shows "\<exists>m sc. loads m = Some j \<and> zs s queue_name m = Some sc \<and>
    (\<forall>m' sc'. zs s queue_name m' = Some sc' \<longrightarrow> sc \<le> sc') \<and>
    zs s' = zput processing_set m sc (zdel queue_name m (zs s))"
proof -
  from assms obtain m sc s1 where pop: "r_bzpopmin R queue_name t s = (Inr (Some (m, sc)), s1)"
    and add: "r_zadd R processing_set m sc s1 = (Inr (), s')" and l: "loads m = Some j"
    by (auto simp: dequeue_attempt_def seq_Inr_iff split: option.splits prod.splits)
  show ?thesis using pop_some [OF pop] zadd_ok [OF add] l by auto
qed

lemma dequeue_attempt_none:
  assumes "dequeue_attempt R t s = (Inr None, s')"
  shows "zs s' queue_name = Map.empty"
proof -
  from assms obtain popped s1 where pop: "r_bzpopmin R queue_name t s = (Inr popped, s1)"
    by (auto simp: dequeue_attempt_def seq_Inr_iff)
  then have "r_bzpopmin R queue_name t s = (Inr None, s')" using assms
    by (cases popped) (auto simp: dequeue_attempt_def seq_Inr_iff split: option.splits)
  then show ?thesis using pop_none by (metis ext)
qed

text \<open>The retried call: its last attempt, after attempts that only took jobs away.\<close>

definition less_pending :: "'r \<Rightarrow> 'r \<Rightarrow> bool" where
  "less_pending a b \<longleftrightarrow> zs b queue_name \<subseteq>\<^sub>m zs a queue_name \<and>
     dom (zs a processing_set) \<subseteq> dom (zs b processing_set)"

lemma less_pending_attempt:
  "less_pending a b \<Longrightarrow> dequeue_attempt R t b = (r, c) \<Longrightarrow> less_pending a c"
  unfolding less_pending_def using dequeue_attempt_shrinks [of t b r c] by (blast intro: map_le_trans)

lemma dequeue_last:
  assumes "dequeue_job R t s = (r, s')"
  shows "less_pending s s' \<and> (\<forall>a. r = Inr a \<longrightarrow> (\<exists>s0. less_pending s s0 \<and> dequeue_attempt R t s0 = (r, s')))"
proof -
  have "case r of Inl e \<Rightarrow> less_pending s s'
    | Inr a \<Rightarrow> \<exists>s0. less_pending s s0 \<and> dequeue_attempt R t s0 = (Inr a, s')"
  proof (rule redis_retry_total_inv [OF assms [unfolded dequeue_job_def]])
    show "less_pending s s" by (simp add: less_pending_def)
  qed (blast intro: less_pending_attempt)+
  then show ?thesis using less_pending_attempt by (cases r) auto
qed

section \<open>Acknowledging\<close>

definition removes :: "string \<Rightarrow> 'r \<Rightarrow> 'r \<Rightarrow> bool" where
  "removes i a b \<longleftrightarrow> zs b queue_name = zs a queue_name \<and> zs b processing_set \<subseteq>\<^sub>m zs a processing_set \<and>
     (\<forall>m. \<not> has_job_id i m \<longrightarrow> zs b processing_set m = zs a processing_set m)"

lemma removes_refl: "zs b = zs a \<Longrightarrow> removes i a b"
  by (simp add: removes_def)

lemma removes_trans: "removes i a b \<Longrightarrow> removes i b c \<Longrightarrow> removes i a c"
  unfolding removes_def by (auto intro: map_le_trans)

lemma removes_zdel: "has_job_id i m \<Longrightarrow> zs b = zdel processing_set m (zs a) \<Longrightarrow> removes i a b"
  by (auto simp: removes_def zdel_apply map_le_del)

lemma ack_members_effect:
  assumes "ack_members R i ms s = (r, s')"
  shows "removes i s s' \<and>
    (r = Inr False \<longrightarrow> s' = s \<and> (\<forall>m \<in> fst ` set ms. \<not> has_job_id i m)) \<and>
    (r = Inr True \<longrightarrow> (\<exists>m \<in> fst ` set ms. zs s' = zdel processing_set m (zs s)))"
  using assms
proof (induction ms)
  case Nil
  then show ?case by (auto intro: removes_refl)
next
  case (Cons m ms)
  obtain member sc where m: "m = (member, sc)" by (cases m)
  show ?case
  proof (cases "has_job_id i member")
    case False
    then show ?thesis using Cons m by auto
  next
    case True
    obtain r1 s1 where rem: "r_zrem R processing_set member s = (r1, s1)" by fastforce
    then have "zs s1 = zs s \<or> zs s1 = zdel processing_set member (zs s)" "s' = s1"
      "r1 = Inr () \<Longrightarrow> zs s1 = zdel processing_set member (zs s) \<and> r = Inr True"
      "r1 \<noteq> Inr () \<Longrightarrow> \<exists>e. r = Inl e"
      using Cons.prems True m zrem_ok zrem_err by (cases r1; fastforce)+
    then show ?thesis using removes_refl removes_zdel [OF True] m by auto
  qed
qed

text \<open>The scan ends, and ends with a removal when a member it has still to see is the job.\<close>

lemma ack_scan_effect:
  "\<exists>r s'. ack_scan R i c s = Some (r, s') \<and> removes i s s' \<and>
     (r = Inr () \<longrightarrow> (\<exists>m \<in> rest s processing_set c. has_job_id i m) \<longrightarrow>
        zs s' processing_set \<noteq> zs s processing_set)"
proof (induction "rank s processing_set c" arbitrary: s c rule: less_induct)
  case less
  obtain rp s1 where scan: "r_zscan R processing_set c s = (rp, s1)" by fastforce
  show ?case
  proof (cases rp)
    case (Inl e)
    then have "ack_scan R i c s = Some (Inl e, s1)" "removes i s s1"
      using scan scan_err [of processing_set c s e s1] by (auto simp: ack_scan.simps removes_refl)
    then show ?thesis by auto
  next
    case (Inr page)
    obtain c' ms where page: "page = (c', ms)" by (cases page)
    note sc = scan_ok [OF scan [unfolded Inr page]]
    obtain ra s2 where am: "ack_members R i ms s1 = (ra, s2)" by fastforce
    note eff = ack_members_effect [OF am]
    have r2: "removes i s s2" using eff sc by (auto simp: removes_def)
    consider (err) e where "ra = Inl e" | (found) "ra = Inr True" | (last) "ra = Inr False" "c' = 0"
      | (more) "ra = Inr False" "c' \<noteq> 0" by (cases ra) auto
    then show ?thesis
    proof cases
      case err
      then show ?thesis using scan Inr page am r2 by (auto simp: ack_scan.simps [of R i c])
    next
      case found
      then obtain m where m: "m \<in> fst ` set ms" "zs s2 = zdel processing_set m (zs s)" using eff sc by auto
      then have "zs s processing_set m \<noteq> None" using sc by auto
      then have "zs s2 processing_set \<noteq> zs s processing_set" using m(2) by (auto simp: zdel_apply fun_eq_iff)
      then show ?thesis using found scan Inr page am r2 by (auto simp: ack_scan.simps [of R i c])
    next
      case last
      then have "\<forall>m \<in> rest s processing_set c. \<not> has_job_id i m" using eff sc by auto
      then show ?thesis using last scan Inr page am r2 by (auto simp: ack_scan.simps [of R i c])
    next
      case more
      then have z: "s2 = s1" "\<forall>m \<in> fst ` set ms. \<not> has_job_id i m" using eff by auto
      have zs: "zs s1 = zs s" and rank: "rank s1 processing_set c' < rank s processing_set c"
        and rest: "\<forall>m \<in> rest s processing_set c. m \<in> fst ` set ms \<or> m \<in> rest s1 processing_set c'"
        using sc more by auto
      from less [OF rank] obtain r s' where it: "ack_scan R i c' s1 = Some (r, s')" "removes i s1 s'"
        "r = Inr () \<longrightarrow> (\<exists>m \<in> rest s1 processing_set c'. has_job_id i m) \<longrightarrow>
          zs s' processing_set \<noteq> zs s1 processing_set" by blast
      have "ack_scan R i c s = Some (r, s')"
        using more scan Inr page am z it(1) by (simp add: ack_scan.simps [of R i c])
      moreover have "removes i s s'" using it(2) zs by (simp add: removes_def)
      moreover have "r = Inr () \<longrightarrow> (\<exists>m \<in> rest s processing_set c. has_job_id i m) \<longrightarrow>
          zs s' processing_set \<noteq> zs s processing_set"
        using it(3) z(2) rest unfolding zs by blast
      ultimately show ?thesis by blast
    qed
  qed
qed

lemma ack_job_ends: "\<exists>r. ack_job R i s = Some r"
  unfolding ack_job_def
  by (rule redis_retry_ends) (use ack_scan_effect in blast)

lemma ack_job_effect:
  assumes "ack_job R i s = Some (r, s')"
  shows "removes i s s' \<and>
    (\<forall>u. r = Inr u \<longrightarrow> (\<exists>m \<in> dom (zs s processing_set). has_job_id i m) \<longrightarrow>
       zs s' processing_set \<noteq> zs s processing_set)"
proof -
  have att: "removes i a b \<and> (x = Inr () \<longrightarrow> (\<exists>m \<in> dom (zs a processing_set). has_job_id i m) \<longrightarrow>
      zs b processing_set \<noteq> zs a processing_set)"
    if "ack_scan R i 0 a = Some (x, b)" for a x b
    using ack_scan_effect [of i 0 a] that by (auto simp: scan_start)
  let ?Q = "\<lambda>b. removes i s b \<and> ((\<exists>m \<in> dom (zs s processing_set). has_job_id i m) \<longrightarrow>
      zs b processing_set \<noteq> zs s processing_set)"
  have "case r of Inl e \<Rightarrow> removes i s s' | Inr a \<Rightarrow> ?Q s'"
  proof (rule redis_retry_inv [OF assms [unfolded ack_job_def]])
    show "0 + (max_attempts - 1) < max_attempts" by (simp add: max_attempts_def)
  next
    show "removes i s s" by (rule removes_refl) simp
  next
    fix n a e b
    assume "removes i s a" "ack_scan R i 0 a = Some (Inl e, b)"
    then show "removes i s b" using att removes_trans by blast
  next
    fix n a u b
    assume a: "removes i s a" and sc: "ack_scan R i 0 a = Some (Inr u, b)"
    note ab = att [OF sc]
    have "zs b processing_set \<noteq> zs s processing_set" if ex: "\<exists>m \<in> dom (zs s processing_set). has_job_id i m"
    proof
      assume eq: "zs b processing_set = zs s processing_set"
      have "zs b processing_set \<subseteq>\<^sub>m zs a processing_set" "zs a processing_set \<subseteq>\<^sub>m zs s processing_set"
        using a ab by (auto simp: removes_def)
      then have "zs a processing_set = zs s processing_set" using eq map_le_antisym by metis
      then show False using ab ex eq by auto
    qed
    then show "?Q b" using a ab removes_trans by blast
  qed
  then show ?thesis by (cases r) auto
qed

section \<open>The lock\<close>

lemma acquire_loop_got:
  assumes "acquire_loop R lk token clock dl sleep i s = Some y"
  shows "fst y = Inr True \<longrightarrow> (\<exists>s0. kv s0 (lk_name lk) = None \<and> kv (snd y) = (kv s0)(lk_name lk \<mapsto> token))"
proof (rule acquire_loop.raw_induct [where P = "\<lambda>R' lk token clock dl sleep i s y. R' = R \<longrightarrow> fst y = Inr True \<longrightarrow>
    (\<exists>s0. kv s0 (lk_name lk) = None \<and> kv (snd y) = (kv s0)(lk_name lk \<mapsto> token))", THEN mp, OF _ assms refl],
    intro impI)
  fix loop :: "'r redis \<Rightarrow> lock \<Rightarrow> string \<Rightarrow> (nat \<Rightarrow> time) \<Rightarrow> time \<Rightarrow> (nat \<Rightarrow> 'r \<Rightarrow> 'r) \<Rightarrow> nat \<Rightarrow> 'r \<Rightarrow> (bool result \<times> 'r) option"
    and R' lk token clock and dl :: time and sleep i s y
  assume IH: "\<And>R' lk token clock dl sleep i s y. loop R' lk token clock dl sleep i s = Some y \<Longrightarrow>
      R' = R \<longrightarrow> fst y = Inr True \<longrightarrow>
      (\<exists>s0. kv s0 (lk_name lk) = None \<and> kv (snd y) = (kv s0)(lk_name lk \<mapsto> token))"
    and run: "(if clock i < dl
        then case r_set_nx R' (lk_name lk) token (lk_timeout lk) s of
             (Inl e, s') \<Rightarrow> Some (Inl e, s')
           | (Inr acquired, s') \<Rightarrow>
               if acquired then Some (Inr True, s')
               else loop R' lk token clock dl sleep (Suc i) (sleep i s')
        else Some (Inr False, s)) = Some y"
    and R: "R' = R" and res: "fst y = Inr True"
  obtain r s1 where set: "r_set_nx R (lk_name lk) token (lk_timeout lk) s = (r, s1)" by fastforce
  have "clock i < dl" using run res by (auto split: if_splits)
  then consider (first) "r = Inr True" "y = (Inr True, s1)"
    | (again) "r = Inr False" "loop R' lk token clock dl sleep (Suc i) (sleep i s1) = Some y"
    using run res set R by (cases r) (auto split: if_splits)
  then show "\<exists>s0. kv s0 (lk_name lk) = None \<and> kv (snd y) = (kv s0)(lk_name lk \<mapsto> token)"
  proof cases
    case first
    then show ?thesis using set_nx_ok [of _ _ _ s True s1] set by (intro exI [of _ s]) auto
  next
    case again
    then show ?thesis using IH [OF again(2)] R res by blast
  qed
qed

text \<open>While another client's token stays under the key, no attempt succeeds, however long it goes on.\<close>

lemma acquire_loop_busy:
  assumes "acquire_loop R lk token clock dl sleep i s = Some y" and "kv s (lk_name lk) = Some t"
    and "\<And>n x. kv x (lk_name lk) = Some t \<Longrightarrow> kv (sleep n x) (lk_name lk) = Some t"
  shows "fst y = Inr b \<longrightarrow> \<not> b \<and> kv (snd y) (lk_name lk) = Some t"
proof -
  let ?kept = "\<lambda>lk sleep. \<forall>n x. kv x (lk_name lk) = Some t \<longrightarrow> kv (sleep n x) (lk_name lk) = Some t"
  let ?P = "\<lambda>R' lk token clock dl sleep i s y. R' = R \<and> kv s (lk_name lk) = Some t \<and> ?kept lk sleep \<longrightarrow>
      fst y = Inr b \<longrightarrow> \<not> b \<and> kv (snd y) (lk_name lk) = Some t"
  have "?P R lk token clock dl sleep i s y"
  proof (rule acquire_loop.raw_induct [where P = ?P, OF _ assms(1)], intro impI)
    fix loop :: "'r redis \<Rightarrow> lock \<Rightarrow> string \<Rightarrow> (nat \<Rightarrow> time) \<Rightarrow> time \<Rightarrow> (nat \<Rightarrow> 'r \<Rightarrow> 'r) \<Rightarrow> nat \<Rightarrow> 'r \<Rightarrow> (bool result \<times> 'r) option"
      and R' lk token clock and dl :: time and sleep i s y
    assume IH: "\<And>R' lk token clock dl sleep i s y. loop R' lk token clock dl sleep i s = Some y \<Longrightarrow>
        ?P R' lk token clock dl sleep i s y"
      and run: "(if clock i < dl
          then case r_set_nx R' (lk_name lk) token (lk_timeout lk) s of
               (Inl e, s') \<Rightarrow> Some (Inl e, s')
             | (Inr acquired, s') \<Rightarrow>
                 if acquired then Some (Inr True, s')
                 else loop R' lk token clock dl sleep (Suc i) (sleep i s')
          else Some (Inr False, s)) = Some y"
      and held: "R' = R \<and> kv s (lk_name lk) = Some t \<and> ?kept lk sleep" and res: "fst y = Inr b"
    obtain r s1 where set: "r_set_nx R (lk_name lk) token (lk_timeout lk) s = (r, s1)" by fastforce
    show "\<not> b \<and> kv (snd y) (lk_name lk) = Some t"
    proof (cases "clock i < dl")
      case False
      then show ?thesis using run held res by auto
    next
      case True
      then obtain x where rx: "r = Inr x" using run held set res by (cases r) auto
      have r: "r = Inr False" "kv s1 = kv s"
        using set_nx_ok [OF set [unfolded rx]] held rx by auto
      then have "loop R' lk token clock dl sleep (Suc i) (sleep i s1) = Some y"
        using run set True held by (auto split: if_splits)
      moreover have "kv (sleep i s1) (lk_name lk) = Some t" using r held by auto
      ultimately show ?thesis using IH held res by blast
    qed
  qed
  then show ?thesis using assms(2,3) by blast
qed

lemma acquire_loop_ends:
  assumes adv: "\<And>i. clock i + 100000 \<le> clock (Suc i)"
  shows "\<exists>r. acquire_loop R lk token clock dl sleep i s = Some r"
proof (induction "nat (dl - clock i)" arbitrary: i s rule: less_induct)
  case less
  obtain r s1 where set: "r_set_nx R (lk_name lk) token (lk_timeout lk) s = (r, s1)" by fastforce
  show ?case
  proof (cases "clock i < dl \<and> r = Inr False")
    case True
    then have "nat (dl - clock (Suc i)) < nat (dl - clock i)" using adv [of i] by simp
    from less [OF this, of "sleep i s1"] show ?thesis
      using True set by (simp add: acquire_loop.simps [of R lk token clock dl sleep i])
  next
    case False
    then show ?thesis using set
      by (cases r) (auto simp: acquire_loop.simps [of R lk token clock dl sleep i])
  qed
qed

lemma release_own:
  assumes "release R lk s = (r, s')" and "lk_token lk = Some t"
  shows "kv s' = kv s \<or> (kv s (lk_name lk) = Some t \<and> kv s' = (kv s)(lk_name lk := None))"
proof -
  let ?scr = "release_script R (lk_name lk) t"
  have scr: "kv b = kv a \<or> (kv a (lk_name lk) = Some t \<and> kv b = (kv a)(lk_name lk := None))"
    if "?scr a = (x, b)" for a x b
  proof -
    obtain g a1 where get: "r_get R (lk_name lk) a = (g, a1)" by fastforce
    have same: "kv a1 = kv a" "\<And>v. g = Inr v \<Longrightarrow> v = kv a (lk_name lk)"
      using get get_ok get_err by (cases g; blast)+
    obtain dr a2 where del: "r_del R (lk_name lk) a1 = (dr, a2)" by fastforce
    have "kv a2 = kv a1 \<or> kv a2 = (kv a1)(lk_name lk := None)"
      using del del_ok del_err by (cases dr) blast+
    then show ?thesis using that get same del
      by (cases g) (auto simp: release_script_def split: if_splits)
  qed
  obtain x b where ev: "r_eval R ?scr s = (x, b)" by fastforce
  have "s' = b" using assms ev by (auto simp: release_def split: sum.splits exn.splits)
  then show ?thesis using ev eval_ok [of ?scr s _ b] eval_err [of ?scr s _ b] scr
    by (cases x) (metis prod.collapse)+
qed

end

section \<open>Any Redis server gives both services\<close>

sublocale redis_server \<subseteq> queue: job_queue "enqueue_job R" "dequeue_job R" "ack_job R"
  "\<lambda>s. zs s queue_name" "\<lambda>s. zs s processing_set"
proof (unfold_locales, goal_cases)
  case (1 clock i p pr s u s')
  then show ?case using enqueue_effect [OF 1] by (auto simp: zput_apply)
next
  case (2 clock i p pr s e s')
  then show ?case using enqueue_effect [OF 2] by (auto simp: zput_apply)
next
  case (3 t s j s')
  from dequeue_last [OF 3] obtain s0 where lp: "less_pending s s0"
    and at: "dequeue_attempt R t s0 = (Inr (Some j), s')" by blast
  from dequeue_attempt_some [OF at] obtain m sc where m: "loads m = Some j" "zs s0 queue_name m = Some sc"
    "\<forall>m' sc'. zs s0 queue_name m' = Some sc' \<longrightarrow> sc \<le> sc'"
    "zs s' = zput processing_set m sc (zdel queue_name m (zs s0))" by blast
  moreover have "zs s queue_name m = Some sc" using lp m(2) by (auto simp: less_pending_def map_le_def dom_def)
  moreover have "zs s' queue_name \<subseteq>\<^sub>m zs s queue_name"
    using dequeue_last [OF 3] by (simp add: less_pending_def)
  ultimately show ?case by (intro exI [of _ m] exI [of _ sc]) (auto simp: zput_apply zdel_apply)
next
  case (4 t s s')
  then show ?case using dequeue_last [OF 4] dequeue_attempt_none by blast
next
  case (5 t s r s')
  then show ?case using dequeue_last [OF 5] by (simp add: less_pending_def)
next
  case (6 i s)
  then show ?case by (rule ack_job_ends)
next
  case (7 i s r s')
  then show ?case using ack_job_effect [OF 7] by (simp add: removes_def)
next
  case (8 i s u s' m)
  then show ?case using ack_job_effect [OF 8(1)] by blast
qed

sublocale redis_server \<subseteq> locks: lock_service "acquire R" "release R" kv
proof (unfold_locales, goal_cases)
  case (1 lk token start clock sleep s r lk')
  then show ?case by (simp add: acquire_def)
next
  case (2 lk token start clock sleep s s')
  then show ?case using acquire_loop_got [of lk token clock _ sleep 0 s "(Inr True, s')"]
    by (simp add: acquire_def)
next
  case (3 s lk t sleep token start clock b s')
  then show ?case
    using acquire_loop_busy [of lk token clock "start + seconds (lk_wait lk)" sleep 0 s "(Inr b, s')" t b]
    by (auto simp: acquire_def)
next
  case (4 clock lk token start sleep s)
  then show ?case using acquire_loop_ends by (simp add: acquire_def)
next
  case (5 lk s r s' t)
  then show ?case by (rule release_own)
qed

section \<open>A server in memory\<close>

text \<open>
  Sorted sets and strings as association lists; no command fails and no key expires by itself. It
  meets the laws, so the hypothesis \<open>redis_server\<close> of the properties can hold.
\<close>

record mem_state =
  ms_zsets :: "string \<Rightarrow> (string \<times> int) list"
  ms_strings :: "(string \<times> string) list"

definition mem_empty :: mem_state where
  "mem_empty = \<lparr>ms_zsets = (\<lambda>_. []), ms_strings = []\<rparr>"

definition al_del :: "string \<Rightarrow> (string \<times> 'v) list \<Rightarrow> (string \<times> 'v) list" where
  "al_del k kvs = filter (\<lambda>kv. fst kv \<noteq> k) kvs"

fun min_entry :: "(string \<times> int) list \<Rightarrow> (string \<times> int) option" where
  "min_entry [] = None"
| "min_entry ((m, sc) # es) =
     (case min_entry es of
        None \<Rightarrow> Some (m, sc)
      | Some (m', sc') \<Rightarrow> if sc \<le> sc' then Some (m, sc) else Some (m', sc'))"

definition live :: "(string \<times> int) list \<Rightarrow> (string \<times> int) list" where
  "live es = filter (\<lambda>(m, sc). map_of es m = Some sc) es"

definition mem_zset :: "string \<Rightarrow> (string \<times> int) list \<Rightarrow> mem_state \<Rightarrow> mem_state" where
  "mem_zset k es s = s\<lparr>ms_zsets := (ms_zsets s)(k := es)\<rparr>"

definition mem_get :: "string \<Rightarrow> mem_state \<Rightarrow> string option" where
  "mem_get k s = map_of (ms_strings s) k"

definition mem_put :: "string \<Rightarrow> string \<Rightarrow> mem_state \<Rightarrow> mem_state" where
  "mem_put k v s = s\<lparr>ms_strings := (k, v) # al_del k (ms_strings s)\<rparr>"

definition mem_redis :: "mem_state redis" where
  "mem_redis =
     \<lparr>r_zadd = (\<lambda>k m sc s. (Inr (), mem_zset k ((m, sc) # al_del m (ms_zsets s k)) s)),
      r_bzpopmin = (\<lambda>k t s. (case min_entry (live (ms_zsets s k)) of
                       None \<Rightarrow> (Inr None, s)
                     | Some (m, sc) \<Rightarrow> (Inr (Some (m, sc)), mem_zset k (al_del m (ms_zsets s k)) s))),
      r_zscan = (\<lambda>k c s. (Inr (0, live (ms_zsets s k)), s)),
      r_zrem = (\<lambda>k m s. (Inr (), mem_zset k (al_del m (ms_zsets s k)) s)),
      r_zcard = (\<lambda>k s. (Inr (length (remdups (map fst (ms_zsets s k)))), s)),
      r_set_nx = (\<lambda>k v t s. if mem_get k s = None then (Inr True, mem_put k v s) else (Inr False, s)),
      r_set = (\<lambda>k v t s. (Inr (), mem_put k v s)),
      r_get = (\<lambda>k s. (Inr (mem_get k s), s)),
      r_del = (\<lambda>k s. (Inr (if mem_get k s = None then 0 else 1), s\<lparr>ms_strings := al_del k (ms_strings s)\<rparr>)),
      r_eval = (\<lambda>script s. script s),
      r_incr = (\<lambda>k s. (let n = (case mem_get k s of None \<Rightarrow> 1 | Some x \<Rightarrow> int (nat_of_digits x) + 1)
                       in (Inr n, mem_put k (str_int n) s))),
      r_expire = (\<lambda>k t s. (Inr (), s)),
      r_keys = (\<lambda>pat s. (Inr (filter (glob pat) (remdups (map fst (ms_strings s)))), s)),
      r_ping = (\<lambda>s. (Inr (), s))\<rparr>"

definition mem_zs :: "mem_state \<Rightarrow> zsets" where
  "mem_zs s k m = map_of (ms_zsets s k) m"

definition mem_kv :: "mem_state \<Rightarrow> string \<Rightarrow> string option" where
  "mem_kv s k = mem_get k s"

definition mem_rest :: "mem_state \<Rightarrow> string \<Rightarrow> nat \<Rightarrow> string set" where
  "mem_rest s k c = (if c = 0 then dom (mem_zs s k) else {})"

lemma map_of_al_del: "map_of (al_del k kvs) q = (if q = k then None else map_of kvs q)"
  by (induction kvs) (auto simp: al_del_def)

lemma min_entry_None: "min_entry es = None \<longleftrightarrow> es = []"
  by (cases es rule: min_entry.cases) (auto split: option.splits)

lemma min_entry_Some:
  "min_entry es = Some (m, sc) \<Longrightarrow> (m, sc) \<in> set es \<and> (\<forall>(m', sc') \<in> set es. sc \<le> sc')"
proof (induction es arbitrary: m sc)
  case (Cons e es)
  show ?case
  proof (cases "min_entry es")
    case None
    then show ?thesis using Cons.prems by (cases e) (auto simp: min_entry_None)
  next
    case (Some p)
    obtain m1 sc1 where p: "p = (m1, sc1)" by (cases p)
    have "(m1, sc1) \<in> set es \<and> (\<forall>(m', sc') \<in> set es. sc1 \<le> sc')" using Cons.IH Some p by simp
    then show ?thesis using Cons.prems Some p by (cases e) (auto split: if_splits)
  qed
qed simp

lemma set_live: "(m, sc) \<in> set (live es) \<longleftrightarrow> map_of es m = Some sc"
  by (auto simp: live_def dest: map_of_SomeD)

lemma image_live: "fst ` set (live es) = dom (map_of es)"
proof -
  have "m \<in> fst ` set (live es) \<longleftrightarrow> (\<exists>sc. (m, sc) \<in> set (live es))" for m by force
  then show ?thesis by (auto simp: set_live)
qed

lemma mem_zs_zset: "mem_zs (mem_zset k es s) = (mem_zs s)(k := map_of es)"
  by (auto simp: mem_zs_def mem_zset_def fun_eq_iff)

lemma map_of_zset: "map_of (ms_zsets s k) = mem_zs s k"
  by (simp add: mem_zs_def fun_eq_iff)

lemma mem_kv_simps [simp]:
  "mem_kv (mem_zset k es s) = mem_kv s" "mem_zs (mem_put k v s) = mem_zs s"
  "mem_kv (mem_put k v s) = (mem_kv s)(k \<mapsto> v)"
  "mem_zs (s\<lparr>ms_strings := x\<rparr>) = mem_zs s"
  "mem_kv (s\<lparr>ms_strings := al_del k (ms_strings s)\<rparr>) = (mem_kv s)(k := None)"
  by (auto simp: mem_kv_def mem_get_def mem_zset_def mem_put_def mem_zs_def map_of_al_del fun_eq_iff)

interpretation mem: redis_server mem_redis mem_zs mem_kv mem_rest "\<lambda>_ _ _. 0"
proof (unfold_locales, goal_cases)
  case (1 k m sc s u s')
  then show ?case by (auto simp: mem_redis_def mem_zs_zset map_of_al_del zput_def map_of_zset fun_eq_iff)
next
  case (3 k t s m sc s')
  then have mn: "min_entry (live (ms_zsets s k)) = Some (m, sc)"
    and s': "s' = mem_zset k (al_del m (ms_zsets s k)) s"
    by (auto simp: mem_redis_def split: option.splits)
  show ?case
    using min_entry_Some [OF mn] unfolding s'
    by (fastforce simp: set_live mem_zs_zset map_of_al_del zdel_def map_of_zset fun_eq_iff)
next
  case (4 k t s s')
  then have "min_entry (live (ms_zsets s k)) = None" "s' = s"
    by (auto simp: mem_redis_def split: option.splits)
  then have "\<forall>m sc. (m, sc) \<notin> set (live (ms_zsets s k))" by (simp add: min_entry_None)
  then show ?case using \<open>s' = s\<close> by (simp add: set_live map_of_zset)
next
  case (6 k c s c' ms s')
  then have p: "c' = 0" "ms = live (ms_zsets s k)" "s' = s" by (auto simp: mem_redis_def)
  then show ?case
    by (auto simp: mem_rest_def set_live map_of_zset image_live split: if_splits)
next
  case (7 s k)
  then show ?case by (simp add: mem_rest_def)
next
  case (9 k m s u s')
  then show ?case by (auto simp: mem_redis_def mem_zs_zset map_of_al_del zdel_def map_of_zset fun_eq_iff)
next
  case (11 k s n s')
  then have "n = length (remdups (map fst (ms_zsets s k)))" "s' = s" by (auto simp: mem_redis_def)
  moreover have "dom (mem_zs s k) = fst ` set (ms_zsets s k)"
    by (simp add: map_of_zset [symmetric] dom_map_of_conv_image_fst)
  ultimately show ?case by (simp add: length_remdups_card_conv)
next
  case (22 pat s ks s')
  then have "ks = filter (glob pat) (remdups (map fst (ms_strings s)))" "s' = s"
    by (auto simp: mem_redis_def)
  moreover have "mem_kv s x \<noteq> None \<longleftrightarrow> x \<in> fst ` set (ms_strings s)" for x
    by (simp add: mem_kv_def mem_get_def map_of_eq_None_iff)
  ultimately show ?case by auto
qed (auto simp: mem_redis_def mem_kv_def mem_get_def Let_def split: if_splits option.splits)

end
