(* ===== verification/Executions_Router.thy ===== *)
theory Executions_Router
  imports Functions_Router Queue_Contract
begin

text \<open>
  \<open>api/routers/executions.py\<close>. Triggering an execution takes three steps on shared state: the row
  is committed as QUEUED, the job is pushed on the queue, and when that raises the row is written
  again as FAILED. They are separate definitions, since other processes run between them;
  \<open>trigger_execution\<close> is the handler without interference.
\<close>

section \<open>Ownership and reads\<close>

text \<open>The outer join with \<open>functions\<close>, and the owner clause over the joined row.\<close>

definition execution_owner_clause :: "db \<Rightarrow> uuid \<Rightarrow> execution \<Rightarrow> bool" where
  "execution_owner_clause d user e \<longleftrightarrow>
     list_ex (\<lambda>f. e_function_id e = Some (f_id f) \<and> f_owner_id f = user) (t_functions d) \<or>
     e_triggered_by e = Some user"

definition get_execution :: "uuid \<Rightarrow> uuid \<Rightarrow> db \<Rightarrow> execution result" where
  "get_execution execution_id user d =
     (case scalar_one_or_none
             (filter (\<lambda>e. e_id e = execution_id \<and> execution_owner_clause d user e) (t_executions d)) of
        Inl x \<Rightarrow> Inl x
      | Inr None \<Rightarrow> Inl (HTTPException 404 ''Execution not found'')
      | Inr (Some e) \<Rightarrow> Inr e)"

definition failure_kinds :: "string \<Rightarrow> string list" where
  "failure_kinds s = filter (\<lambda>k. k \<noteq> []) (map strip (split_on (CHR '','') s))"

text \<open>The filters of \<open>list_executions\<close>; an empty string and \<open>None\<close> both mean no filter.\<close>

definition execution_filter ::
  "uuid option \<Rightarrow> execution_status option \<Rightarrow> string option \<Rightarrow> string option \<Rightarrow> execution \<Rightarrow> bool" where
  "execution_filter function_id st failure_kind source e \<longleftrightarrow>
     (case function_id of None \<Rightarrow> True | Some i \<Rightarrow> e_function_id e = Some i) \<and>
     (case st of None \<Rightarrow> True | Some x \<Rightarrow> e_status e = x) \<and>
     (case failure_kind of None \<Rightarrow> True
      | Some s \<Rightarrow> failure_kinds s = [] \<or>
          (case e_failure_kind e of None \<Rightarrow> False | Some k \<Rightarrow> k \<in> set (failure_kinds s))) \<and>
     (case source of None \<Rightarrow> True | Some t \<Rightarrow> e_execution_type e = t)"

definition list_executions ::
  "uuid \<Rightarrow> nat \<times> nat \<Rightarrow> uuid option \<Rightarrow> execution_status option \<Rightarrow> string option \<Rightarrow> string option \<Rightarrow>
   db \<Rightarrow> execution listing" where
  "list_executions user pagination function_id st failure_kind source d =
     (let (offset, limit) = pagination;
          sel = (\<lambda>e. execution_owner_clause d user e \<and>
                   execution_filter function_id st failure_kind source e)
      in \<lparr>li_items = page_of offset limit (order_by_desc e_created_at (filter sel (t_executions d))),
          li_total = count_where sel (t_executions d),
          li_page = offset div limit + 1, li_page_size = limit\<rparr>)"

text \<open>\<open>ORDER BY sequence, timestamp\<close>\<close>

definition order_logs :: "exec_log list \<Rightarrow> exec_log list" where
  "order_logs ls = sort_key (\<lambda>l. int (l_sequence l)) (sort_key l_timestamp ls)"

definition logs_page :: "uuid \<Rightarrow> nat \<Rightarrow> nat \<Rightarrow> db \<Rightarrow> exec_log list \<times> nat" where
  "logs_page execution_id limit offset d =
     (let mine = filter (\<lambda>l. l_execution_id l = execution_id) (t_logs d)
      in (page_of offset limit (order_logs mine), length mine))"

definition get_execution_logs ::
  "uuid \<Rightarrow> uuid \<Rightarrow> nat \<Rightarrow> nat \<Rightarrow> db \<Rightarrow> (exec_log list \<times> nat) result" where
  "get_execution_logs execution_id user limit offset d =
     (case get_execution execution_id user d of
        Inl x \<Rightarrow> Inl x
      | Inr _ \<Rightarrow> Inr (logs_page execution_id limit offset d))"

section \<open>Triggering\<close>

definition no_version :: exn where
  "no_version = HTTPException 422
     ''Function has no executable version; upload or activate a version first''"

definition trigger_timeout :: "execution_trigger \<Rightarrow> version \<Rightarrow> int" where
  "trigger_timeout body v =
     (case et_timeout body of None \<Rightarrow> v_timeout v | Some t \<Rightarrow> if t = 0 then v_timeout v else t)"

definition function_execution ::
  "func \<Rightarrow> version \<Rightarrow> uuid \<Rightarrow> uuid option \<Rightarrow> json \<Rightarrow> int \<Rightarrow> uuid \<Rightarrow> time \<Rightarrow> execution" where
  "function_execution fn v user key payload timeout i now =
     (new_execution i now)\<lparr>e_function_id := Some (f_id fn), e_function_version_id := Some (v_id v),
        e_triggered_by := Some user, e_api_key_id := key, e_execution_type := ''function'',
        e_status := QUEUED, e_payload := payload, e_queued_at := Some now, e_timeout := timeout\<rparr>"

text \<open>The message pushed on the queue.\<close>

definition function_job :: "execution \<Rightarrow> func \<Rightarrow> version \<Rightarrow> (string \<times> json) list" where
  "function_job e fn v =
     [(''execution_id'', JStr (str_nat (e_id e))), (''function_id'', JStr (str_nat (f_id fn))),
      (''version_id'', JStr (str_nat (v_id v))), (''artifact_path'', JStr (v_artifact_path v)),
      (''entrypoint'', JStr (v_entrypoint v)), (''payload'', e_payload e),
      (''timeout'', JInt (e_timeout e)), (''environment'', JObj (v_environment v)),
      (''memory_mb'', JInt (v_memory_mb v)), (''execution_type'', JStr ''function'')]"

definition trigger_begin ::
  "uuid \<Rightarrow> uuid \<Rightarrow> execution_trigger \<Rightarrow> nat \<Rightarrow> uuid \<Rightarrow> time \<Rightarrow> db \<Rightarrow>
   (execution \<times> (string \<times> json) list) result \<times> db" where
  "trigger_begin function_id user body r i now d =
     (case get_function_or_404 function_id user d of
        Inl e \<Rightarrow> (Inl e, d)
      | Inr fn \<Rightarrow>
          (case choose_execution_version d fn (et_version_id body) r of
             Inl e \<Rightarrow> (Inl e, d)
           | Inr None \<Rightarrow> (Inl no_version, d)
           | Inr (Some v) \<Rightarrow>
               (let e = function_execution fn v user None (et_payload body) (trigger_timeout body v) i now
                in case insert_execution e d of
                     (Inl x, d') \<Rightarrow> (Inl x, d')
                   | (Inr _, d') \<Rightarrow> (Inr (e, function_job e fn v), d'))))"

text \<open>The handler's write after a failed enqueue: it does not go through \<open>transition_to\<close>.\<close>

definition queue_failed :: "exn \<Rightarrow> execution \<Rightarrow> execution" where
  "queue_failed x e =
     e\<lparr>e_status := FAILED, e_error_message := Some (''Failed to enqueue: '' @ exn_str x),
       e_failure_kind := Some ''queue''\<rparr>"

definition mark_queue_failed :: "uuid \<Rightarrow> exn \<Rightarrow> db \<Rightarrow> db" where
  "mark_queue_failed i x d = set_execution i (queue_failed x) d"

definition submit_job ::
  "'r redis \<Rightarrow> (nat \<Rightarrow> time) \<Rightarrow> execution \<Rightarrow> (string \<times> json) list \<Rightarrow> db \<times> 'r \<Rightarrow> execution \<times> db \<times> 'r" where
  "submit_job R clock e job dr =
     (let (d, s) = dr in
      case enqueue_job R clock (str_nat (e_id e)) job 0 s of
        (Inl x, s') \<Rightarrow> (queue_failed x e, mark_queue_failed (e_id e) x d, s')
      | (Inr _, s') \<Rightarrow> (e, d, s'))"

definition trigger_execution ::
  "'r redis \<Rightarrow> (nat \<Rightarrow> time) \<Rightarrow> uuid \<Rightarrow> uuid \<Rightarrow> execution_trigger \<Rightarrow> nat \<Rightarrow> uuid \<Rightarrow> time \<Rightarrow>
   db \<times> 'r \<Rightarrow> execution result \<times> db \<times> 'r" where
  "trigger_execution R clock function_id user body r i now ds =
     (let (d, s) = ds in
      case trigger_begin function_id user body r i now d of
        (Inl e, d') \<Rightarrow> (Inl e, d', s)
      | (Inr (e, job), d') \<Rightarrow>
          (case submit_job R clock e job (d', s) of (e', d'', s') \<Rightarrow> (Inr e', d'', s')))"

section \<open>Cancelling\<close>

definition cancel_execution :: "uuid \<Rightarrow> uuid \<Rightarrow> db \<Rightarrow> unit result \<times> db" where
  "cancel_execution execution_id user d =
     (case get_execution execution_id user d of
        Inl x \<Rightarrow> (Inl x, d)
      | Inr e \<Rightarrow>
          (case transition_to CANCELLED e of
             Inl x \<Rightarrow> (Inl (HTTPException 409 (exn_str x)), d)
           | Inr e' \<Rightarrow> (Inr (), set_execution execution_id (\<lambda>_. e') d)))"

section \<open>Lemmas\<close>

lemma owner_clause_iff:
  "execution_owner_clause d user e \<longleftrightarrow>
     (\<exists>f \<in> set (t_functions d). e_function_id e = Some (f_id f) \<and> f_owner_id f = user) \<or>
     e_triggered_by e = Some user"
  by (simp add: execution_owner_clause_def list_ex_iff)

lemma get_execution_Inr:
  "get_execution i user d = Inr e \<Longrightarrow>
   e \<in> set (t_executions d) \<and> e_id e = i \<and> execution_owner_clause d user e"
  by (auto simp: get_execution_def split: sum.splits option.splits dest!: scalar_one_or_none_Some)

lemma get_execution_found:
  assumes "keys_ok d" and "e \<in> set (t_executions d)" and "execution_owner_clause d user e"
  shows "get_execution (e_id e) user d = Inr e"
proof -
  have "scalar_one_or_none (filter (\<lambda>x. e_id x = e_id e \<and> execution_owner_clause d user x) (t_executions d))
      = Inr (Some e)"
    using assms by (intro scalar_by_key) (auto simp: row_keys)
  then show ?thesis by (simp add: get_execution_def)
qed

lemma get_execution_hidden:
  assumes "\<forall>e \<in> set (t_executions d). e_id e = i \<longrightarrow> \<not> execution_owner_clause d user e"
  shows "get_execution i user d = Inl (HTTPException 404 ''Execution not found'')"
proof -
  have "scalar_one_or_none (filter (\<lambda>x. e_id x = i \<and> execution_owner_clause d user x) (t_executions d))
      = Inr None"
    using assms by (auto simp: scalar_one_or_none_None)
  then show ?thesis by (simp add: get_execution_def)
qed

lemma set_execution_executions:
  assumes "keys_ok d" and "e \<in> set (t_executions d)"
  shows "t_executions (set_execution (e_id e) g d) = map (\<lambda>x. if x = e then g e else x) (t_executions d)"
  using assms by (auto simp: set_execution_def update_where_def dest: keys_ok_executions distinct_key_unique)

lemma insert_execution_Inr:
  "insert_execution e d = (Inr u, d') \<longleftrightarrow>
   (\<forall>x \<in> set (t_executions d). e_id x \<noteq> e_id e) \<and> d' = d\<lparr>t_executions := t_executions d @ [e]\<rparr>"
  by (auto simp: insert_execution_def list_ex_iff)

lemma insert_execution_Inl: "insert_execution e d = (Inl x, d') \<Longrightarrow> d' = d"
  by (auto simp: insert_execution_def split: if_splits)

lemma function_execution_simps [simp]:
  "e_id (function_execution fn v user key p t i now) = i"
  "e_status (function_execution fn v user key p t i now) = QUEUED"
  "e_function_id (function_execution fn v user key p t i now) = Some (f_id fn)"
  "e_function_version_id (function_execution fn v user key p t i now) = Some (v_id v)"
  "e_triggered_by (function_execution fn v user key p t i now) = Some user"
  "e_api_key_id (function_execution fn v user key p t i now) = key"
  "e_payload (function_execution fn v user key p t i now) = p"
  "e_timeout (function_execution fn v user key p t i now) = t"
  "e_execution_type (function_execution fn v user key p t i now) = ''function''"
  by (simp_all add: function_execution_def new_execution_def)

text \<open>The outcomes of the first phase.\<close>

lemma trigger_begin_Inl: "trigger_begin fid user body r i now d = (Inl x, d') \<Longrightarrow> d' = d"
  by (auto simp: trigger_begin_def Let_def dest: insert_execution_Inl
      split: sum.splits option.splits prod.splits)

lemma trigger_begin_Inr:
  assumes "trigger_begin fid user body r i now d = (Inr (e, job), d')"
  obtains fn v where "get_function_or_404 fid user d = Inr fn"
    "choose_execution_version d fn (et_version_id body) r = Inr (Some v)"
    "e = function_execution fn v user None (et_payload body) (trigger_timeout body v) i now"
    "job = function_job e fn v" "insert_execution e d = (Inr (), d')"
  using assms
  by (auto simp: trigger_begin_def Let_def split: sum.splits option.splits prod.splits)

lemma trigger_begin_db_ok [inv_intros]:
  assumes "db_ok d" and "trigger_begin fid user body r i now d = (res, d')"
  shows "db_ok d'"
proof (cases res)
  case (Inl x)
  then show ?thesis using assms trigger_begin_Inl by blast
next
  case (Inr p)
  obtain e job where p: "p = (e, job)" by (cases p)
  show ?thesis
    by (rule trigger_begin_Inr [OF assms(2) [unfolded Inr p]]) (use assms(1) db_ok_insert_execution in blast)
qed

lemma db_ok_mark_queue_failed [simp]: "db_ok (mark_queue_failed i x d) = db_ok d"
  unfolding mark_queue_failed_def by (rule db_ok_set_execution) (simp add: queue_failed_def)

lemma submit_job_db: "submit_job R clock e job (d, s) = (e', d', s') \<Longrightarrow> db_ok d' = db_ok d"
  by (auto simp: submit_job_def split: prod.splits sum.splits)

lemma trigger_execution_db_ok [inv_intros]:
  assumes "db_ok d" and "trigger_execution R clock fid user body r i now (d, s) = (res, d', s')"
  shows "db_ok d'"
proof -
  obtain b d1 where b: "trigger_begin fid user body r i now d = (b, d1)" by fastforce
  then have "db_ok d1" using assms(1) trigger_begin_db_ok by blast
  then show ?thesis using assms(2) b
    by (cases b) (auto simp: trigger_execution_def submit_job_db split: prod.splits)
qed

lemma cancel_execution_Inr:
  assumes "cancel_execution i user d = (Inr u, d')"
  shows "\<exists>e. get_execution i user d = Inr e \<and> CANCELLED \<in> set (valid_transitions (e_status e)) \<and>
    d' = set_execution i (\<lambda>_. e\<lparr>e_status := CANCELLED\<rparr>) d"
  using assms by (auto simp: cancel_execution_def transition_to_Inr split: sum.splits)

lemma cancel_execution_Inl: "cancel_execution i user d = (Inl x, d') \<Longrightarrow> d' = d"
  by (auto simp: cancel_execution_def split: sum.splits)

lemma db_ok_set_execution_row:
  assumes "get_execution i user d = Inr e" and "e_id e' = e_id e"
  shows "db_ok (set_execution i (\<lambda>_. e') d) = db_ok d"
proof -
  have "map e_id (update_where (\<lambda>x. e_id x = i) (\<lambda>_. e') (t_executions d)) = map e_id (t_executions d)"
    using get_execution_Inr [OF assms(1)] assms(2) by (auto simp: update_where_def)
  then show ?thesis unfolding set_execution_def by (rule db_ok_executions)
qed

lemma cancel_execution_db_ok [inv_intros]:
  assumes "db_ok d" and "cancel_execution i user d = (r, d')"
  shows "db_ok d'"
proof (cases r)
  case (Inl x)
  then show ?thesis using assms cancel_execution_Inl by blast
next
  case (Inr u)
  then show ?thesis using assms cancel_execution_Inr [of i user d u d'] db_ok_set_execution_row by fastforce
qed

end
