(* ===== verification/Sandbox.thy ===== *)
theory Sandbox
  imports Settings Json
begin

text \<open>
  \<open>sandbox/k8s_sandbox.py\<close>. The Kubernetes client is a parameter: a record of the calls over a
  cluster state \<open>'k\<close>. A job specification is the decoded queue message, a dictionary of JSON
  values (its numbers are integers). Python raises where a key is missing or has another type; those are branches of the
  model too. The subprocess of the local mode is a parameter.
\<close>

section \<open>Results and the cluster\<close>

record log_entry =
  le_level :: string
  le_stream :: string
  le_message :: string

text \<open>\<open>error\<close> is text in the cluster mode; in the local mode it is what the handler reported.\<close>

record sandbox_result =
  sr_success :: bool
  sr_result :: "json option"
  sr_error :: "json option"
  sr_logs :: "log_entry list"
  sr_duration_ms :: "int option"
  sr_timed_out :: bool
  sr_k8s_job_name :: "string option"

definition failure :: "string \<Rightarrow> log_entry list \<Rightarrow> sandbox_result" where
  "failure msg logs =
     \<lparr>sr_success = False, sr_result = None, sr_error = Some (JStr msg), sr_logs = logs,
      sr_duration_ms = None, sr_timed_out = False, sr_k8s_job_name = None\<rparr>"

datatype env_value = EValue string | ESecret string string

record job_manifest =
  jm_name :: string
  jm_namespace :: string
  jm_labels :: "(string \<times> string) list"
  jm_annotations :: "(string \<times> string) list"
  jm_backoff_limit :: int
  jm_active_deadline :: int
  jm_ttl :: int
  jm_runtime_class :: string
  jm_service_account :: string
  jm_automount_token :: bool
  jm_restart_policy :: string
  jm_image :: string
  jm_pull_policy :: string
  jm_env :: "(string \<times> env_value) list"
  jm_requests :: "(string \<times> string) list"
  jm_limits :: "(string \<times> string) list"
  jm_run_as_non_root :: bool
  jm_run_as_user :: int
  jm_privileged :: bool
  jm_read_only_root :: bool
  jm_privilege_escalation :: bool
  jm_dropped_capabilities :: "string list"
  jm_seccomp :: string
  jm_volumes :: "(string \<times> string \<times> string) list"

record job_state =
  js_succeeded :: bool
  js_failed :: bool
  js_conditions :: "(string \<times> string) list"

text \<open>The termination reasons of a pod's containers: no state, or terminated with a reason.\<close>

record pod =
  pd_name :: string
  pd_terminated :: "string option list"

record 'k kube =
  read_runtime_class :: "string \<Rightarrow> 'k \<Rightarrow> unit result \<times> 'k"
  create_namespaced_job :: "job_manifest \<Rightarrow> 'k \<Rightarrow> unit result \<times> 'k"
  read_namespaced_job :: "string \<Rightarrow> 'k \<Rightarrow> job_state result \<times> 'k"
  list_namespaced_pod :: "string \<Rightarrow> 'k \<Rightarrow> pod list result \<times> 'k"
  read_namespaced_pod_log :: "string \<Rightarrow> nat \<Rightarrow> 'k \<Rightarrow> string option result \<times> 'k"
  delete_namespaced_job :: "string \<Rightarrow> 'k \<Rightarrow> unit result \<times> 'k"

type_synonym job_spec = "(string \<times> json) list"

section \<open>Reading the specification\<close>

definition need_str :: "string \<Rightarrow> job_spec \<Rightarrow> string result" where
  "need_str k spec =
     (case map_of spec k of
        None \<Rightarrow> Inl (OtherError (''KeyError: '' @ k))
      | Some (JStr s) \<Rightarrow> Inr s
      | Some _ \<Rightarrow> Inl (OtherError ''TypeError''))"

definition spec_timeout :: "int \<Rightarrow> job_spec \<Rightarrow> int result" where
  "spec_timeout dflt spec =
     (case map_of spec ''timeout'' of
        None \<Rightarrow> Inr dflt
      | Some (JInt n) \<Rightarrow> Inr n
      | Some _ \<Rightarrow> Inl (OtherError ''TypeError''))"

text \<open>\<open>int(s)\<close> on a string of digits with white space and a sign around it.\<close>

definition py_int :: "string \<Rightarrow> int option" where
  "py_int s =
     (let t = strip s;
          (neg, ds) = (if t \<noteq> [] \<and> hd t = CHR ''-'' then (True, tl t)
                       else if t \<noteq> [] \<and> hd t = CHR ''+'' then (False, tl t) else (False, t))
      in if ds \<noteq> [] \<and> list_all is_digit ds
         then Some (if neg then - int (nat_of_digits ds) else int (nat_of_digits ds))
         else None)"

definition removesuffix :: "string \<Rightarrow> string \<Rightarrow> string" where
  "removesuffix suf s = (if suffix suf s then take (length s - length suf) s else s)"

definition memory_limit :: "settings \<Rightarrow> job_spec \<Rightarrow> string result" where
  "memory_limit cfg spec =
     (case map_of spec ''memory_mb'' of
        None \<Rightarrow> Inr (sandbox_memory_limit cfg)
      | Some JNull \<Rightarrow> Inr (sandbox_memory_limit cfg)
      | Some (JBool b) \<Rightarrow> Inr (if b then ''1Mi'' else sandbox_memory_limit cfg)
      | Some (JInt n) \<Rightarrow> Inr (if n \<le> 0 then sandbox_memory_limit cfg else str_int n @ ''Mi'')
      | Some (JStr s) \<Rightarrow>
          if s = [] then Inr (sandbox_memory_limit cfg)
          else (case py_int s of
             None \<Rightarrow> Inl (ValueError ''invalid literal for int()'')
           | Some n \<Rightarrow> Inr (if n \<le> 0 then sandbox_memory_limit cfg else str_int n @ ''Mi''))
      | Some _ \<Rightarrow> Inl (OtherError ''TypeError''))"

definition memory_request :: "settings \<Rightarrow> string \<Rightarrow> string" where
  "memory_request cfg limit =
     (case py_int (removesuffix ''Mi'' limit) of
        None \<Rightarrow> sandbox_memory_request cfg
      | Some n \<Rightarrow> str_int (min n 128) @ ''Mi'')"

section \<open>Logs\<close>

definition result_prefix :: string where
  "result_prefix = ''SOPM_RESULT:''"

definition none_if_null :: "json \<Rightarrow> json option" where
  "none_if_null j = (if j = JNull then None else Some j)"

text \<open>The lines from the last to the first; one that does not parse is passed over.\<close>

fun parse_result_lines :: "string list \<Rightarrow> json option" where
  "parse_result_lines [] = None"
| "parse_result_lines (line # lines) =
     (if prefix result_prefix line
      then (case loads (drop (length result_prefix) line) of
              Some j \<Rightarrow> none_if_null j
            | None \<Rightarrow> parse_result_lines lines)
      else parse_result_lines lines)"

definition parse_result_from_logs :: "string \<Rightarrow> json option" where
  "parse_result_from_logs logs = parse_result_lines (rev (splitlines logs))"

definition format_logs :: "string \<Rightarrow> log_entry list" where
  "format_logs raw =
     map (\<lambda>line. \<lparr>le_level = ''INFO'', le_stream = ''stdout'', le_message = line\<rparr>)
       (filter (\<lambda>line. \<not> prefix result_prefix line) (splitlines raw))"

section \<open>The Kubernetes job\<close>

text \<open>The second component says that the runtime class has been checked.\<close>

definition ensure_runtime_class :: "settings \<Rightarrow> 'k kube \<Rightarrow> bool \<Rightarrow> 'k \<Rightarrow> unit result \<times> bool \<times> 'k" where
  "ensure_runtime_class cfg K checked k =
     (if checked then (Inr (), checked, k)
      else if sandbox_runtime_class cfg = []
      then (Inl (ApiException 400 ''SANDBOX_RUNTIME_CLASS is required''), checked, k)
      else (case read_runtime_class K (sandbox_runtime_class cfg) k of
              (Inl (ApiException code reason), k') \<Rightarrow>
                (Inl (if code = 404
                      then ApiException 404 (''RuntimeClass '' @ [CHR 0x27] @ sandbox_runtime_class cfg @
                             [CHR 0x27] @ '' is not registered; install gVisor/runsc first'')
                      else ApiException code reason), checked, k')
            | (Inl e, k') \<Rightarrow> (Inl e, checked, k')
            | (Inr _, k') \<Rightarrow> (Inr (), True, k')))"

definition minio_env :: "(string \<times> env_value) list" where
  "minio_env =
     [(''MINIO_ENDPOINT'', ESecret ''sopm-secrets'' ''minio-endpoint''),
      (''MINIO_ACCESS_KEY'', ESecret ''sopm-secrets'' ''minio-access-key''),
      (''MINIO_SECRET_KEY'', ESecret ''sopm-secrets'' ''minio-secret-key'')]"

text \<open>\<open>str(v)\<close> of a value; \<open>rep\<close> prints a list, a dictionary or a float.\<close>

fun py_str :: "(json \<Rightarrow> string) \<Rightarrow> json \<Rightarrow> string" where
  "py_str rep JNull = ''None''"
| "py_str rep (JBool b) = (if b then ''True'' else ''False'')"
| "py_str rep (JInt i) = str_int i"
| "py_str rep (JStr s) = s"
| "py_str rep j = rep j"

definition user_env :: "(json \<Rightarrow> string) \<Rightarrow> job_spec \<Rightarrow> (string \<times> string) list result" where
  "user_env rep spec =
     (case map_of spec ''environment'' of
        None \<Rightarrow> Inr []
      | Some JNull \<Rightarrow> Inr []
      | Some (JObj kvs) \<Rightarrow> Inr (map (\<lambda>(k, v). (k, py_str rep v)) kvs)
      | Some _ \<Rightarrow> Inl (OtherError ''AttributeError''))"

definition opt_str_or :: "string \<Rightarrow> json option \<Rightarrow> string result" where
  "opt_str_or dflt x =
     (case x of None \<Rightarrow> Inr dflt | Some (JStr s) \<Rightarrow> Inr s | Some _ \<Rightarrow> Inl (OtherError ''TypeError''))"

text \<open>The variables of the container: the platform's, the inline source, then the user's.\<close>

definition platform_env ::
  "(json \<Rightarrow> string) \<Rightarrow> string \<Rightarrow> string \<Rightarrow> string \<Rightarrow> job_spec \<Rightarrow> (string \<times> env_value) list" where
  "platform_env rep execution_id artifact_path entrypoint spec =
     [(''SOPM_EXECUTION_ID'', EValue execution_id), (''SOPM_ARTIFACT_PATH'', EValue artifact_path),
      (''SOPM_ENTRYPOINT'', EValue entrypoint),
      (''SOPM_PAYLOAD'', EValue (dumps (case map_of spec ''payload'' of None \<Rightarrow> JObj [] | Some p \<Rightarrow> p))),
      (''SOPM_TIMEOUT'', EValue (py_str rep (case map_of spec ''timeout'' of None \<Rightarrow> JInt 300 | Some t \<Rightarrow> t))),
      (''HOME'', EValue ''/tmp''), (''PIP_CACHE_DIR'', EValue ''/tmp/pip-cache''),
      (''PYTHONPYCACHEPREFIX'', EValue ''/tmp/pycache'')] @ minio_env"

definition source_env :: "job_spec \<Rightarrow> (string \<times> env_value) list" where
  "source_env spec =
     (case map_of spec ''source_code'' of
        Some (JStr s) \<Rightarrow> [(''SOPM_SOURCE_CODE'', EValue s)]
      | _ \<Rightarrow> [])"

definition build_manifest ::
  "settings \<Rightarrow> string \<Rightarrow> string \<Rightarrow> string \<Rightarrow> string \<Rightarrow> int \<Rightarrow> (string \<times> env_value) list \<Rightarrow> job_manifest" where
  "build_manifest cfg job_name execution_id function_id mem deadline env =
     \<lparr>jm_name = job_name, jm_namespace = sandbox_namespace cfg,
      jm_labels = [(''app.kubernetes.io/component'', ''sandbox''),
        (''sopm/network-profile'', ''artifact-only''),
        (''sopm/execution-id'', take 63 execution_id), (''sopm/function-id'', take 63 function_id)],
      jm_annotations = [(''sopm/execution-id'', execution_id), (''sopm/function-id'', function_id)],
      jm_backoff_limit = 0, jm_active_deadline = deadline, jm_ttl = 300,
      jm_runtime_class = sandbox_runtime_class cfg, jm_service_account = sandbox_service_account cfg,
      jm_automount_token = False, jm_restart_policy = ''Never'',
      jm_image = sandbox_image cfg, jm_pull_policy = sandbox_image_pull_policy cfg, jm_env = env,
      jm_requests = [(''cpu'', sandbox_cpu_request cfg), (''memory'', memory_request cfg mem)],
      jm_limits = [(''cpu'', sandbox_cpu_limit cfg), (''memory'', mem)],
      jm_run_as_non_root = True, jm_run_as_user = 65534, jm_privileged = False,
      jm_read_only_root = True, jm_privilege_escalation = False, jm_dropped_capabilities = [''ALL''],
      jm_seccomp = ''RuntimeDefault'',
      jm_volumes = [(''tmp'', ''/tmp'', ''100Mi''), (''work'', ''/work'', ''500Mi'')]\<rparr>"

fun chain :: "'a result \<Rightarrow> ('a \<Rightarrow> 'b result) \<Rightarrow> 'b result" where
  "chain (Inl e) f = Inl e"
| "chain (Inr a) f = f a"

definition job_manifest_of :: "settings \<Rightarrow> (json \<Rightarrow> string) \<Rightarrow> string \<Rightarrow> job_spec \<Rightarrow> job_manifest result" where
  "job_manifest_of cfg rep job_name spec =
     chain (need_str ''execution_id'' spec) (\<lambda>execution_id.
     chain (opt_str_or [] (map_of spec ''artifact_path'')) (\<lambda>artifact_path.
     chain (need_str ''entrypoint'' spec) (\<lambda>entrypoint.
     chain (user_env rep spec) (\<lambda>uenv.
     chain (memory_limit cfg spec) (\<lambda>mem.
     chain (need_str ''function_id'' spec) (\<lambda>function_id.
     chain (spec_timeout (sandbox_default_timeout cfg) spec) (\<lambda>deadline.
       Inr (build_manifest cfg job_name execution_id function_id mem deadline
              (platform_env rep execution_id artifact_path entrypoint spec @ source_env spec @
               map (\<lambda>(k, v). (k, EValue v)) uenv)))))))))"

definition create_job :: "settings \<Rightarrow> (json \<Rightarrow> string) \<Rightarrow> 'k kube \<Rightarrow> string \<Rightarrow> job_spec \<Rightarrow> 'k \<Rightarrow> unit result \<times> 'k" where
  "create_job cfg rep K job_name spec k =
     (case job_manifest_of cfg rep job_name spec of
        Inl e \<Rightarrow> (Inl e, k)
      | Inr m \<Rightarrow> create_namespaced_job K m k)"

definition log_tail :: nat where
  "log_tail = 1000"

text \<open>Any exception while the logs are fetched gives no logs.\<close>

definition get_pod_logs :: "'k kube \<Rightarrow> string \<Rightarrow> 'k \<Rightarrow> string \<times> 'k" where
  "get_pod_logs K job_name k =
     (case list_namespaced_pod K (''job-name='' @ job_name) k of
        (Inl e, k1) \<Rightarrow> ([], k1)
      | (Inr [], k1) \<Rightarrow> ([], k1)
      | (Inr (p # ps), k1) \<Rightarrow>
          (case read_namespaced_pod_log K (pd_name p) log_tail k1 of
             (Inr (Some l), k2) \<Rightarrow> (l, k2)
           | (_, k2) \<Rightarrow> ([], k2)))"

text \<open>The first container that terminated with a reason decides.\<close>

definition classify_pods :: "pod list \<Rightarrow> string option" where
  "classify_pods pods =
     (case filter (\<lambda>x. x \<noteq> None \<and> x \<noteq> Some []) (concat (map pd_terminated pods)) of
        Some reason # _ \<Rightarrow>
          Some (if reason = ''OOMKilled'' then ''Execution exceeded memory limit''
                else ''Execution failed: '' @ reason)
      | _ \<Rightarrow> None)"

definition classify_failed_job :: "'k kube \<Rightarrow> string \<Rightarrow> job_state \<Rightarrow> string \<Rightarrow> 'k \<Rightarrow> sandbox_result \<times> 'k" where
  "classify_failed_job K job_name job logs k =
     (if list_ex (\<lambda>(ty, reason). ty = ''Failed'' \<and> reason = ''DeadlineExceeded'') (js_conditions job)
      then ((failure ''Execution timed out'' (format_logs logs))\<lparr>sr_timed_out := True\<rparr>, k)
      else (case list_namespaced_pod K (''job-name='' @ job_name) k of
              (Inl e, k1) \<Rightarrow> (failure ''Execution failed'' (format_logs logs), k1)
            | (Inr pods, k1) \<Rightarrow>
                (case classify_pods pods of
                   None \<Rightarrow> (failure ''Execution failed'' (format_logs logs), k1)
                 | Some msg \<Rightarrow> (failure msg (format_logs logs), k1))))"

definition succeeded :: "json option \<Rightarrow> log_entry list \<Rightarrow> sandbox_result" where
  "succeeded res logs =
     \<lparr>sr_success = True, sr_result = res, sr_error = None, sr_logs = logs, sr_duration_ms = None,
      sr_timed_out = False, sr_k8s_job_name = None\<rparr>"

definition wait_timed_out :: sandbox_result where
  "wait_timed_out =
     (failure ''Worker-side timeout waiting for Kubernetes Job'' [])\<lparr>sr_timed_out := True\<rparr>"

text \<open>The polling loop; \<open>clock i\<close> is the reading before poll \<open>i\<close>.\<close>

partial_function (option) wait_loop ::
  "'k kube \<Rightarrow> string \<Rightarrow> (nat \<Rightarrow> time) \<Rightarrow> time \<Rightarrow> nat \<Rightarrow> 'k \<Rightarrow> (sandbox_result result \<times> 'k) option" where
  "wait_loop K job_name clock deadline i k =
     (if clock i < deadline
      then (case read_namespaced_job K job_name k of
              (Inl e, k1) \<Rightarrow> Some (Inl e, k1)
            | (Inr job, k1) \<Rightarrow>
                if js_succeeded job
                then (case get_pod_logs K job_name k1 of
                        (logs, k2) \<Rightarrow> Some (Inr (succeeded (parse_result_from_logs logs) (format_logs logs)), k2))
                else if js_failed job
                then (case get_pod_logs K job_name k1 of
                        (logs, k2) \<Rightarrow>
                          (case classify_failed_job K job_name job logs k2 of (r, k3) \<Rightarrow> Some (Inr r, k3)))
                else wait_loop K job_name clock deadline (Suc i) k1)
      else Some (Inr wait_timed_out, k))"

definition wait_for_job ::
  "'k kube \<Rightarrow> string \<Rightarrow> int \<Rightarrow> time \<Rightarrow> (nat \<Rightarrow> time) \<Rightarrow> 'k \<Rightarrow> (sandbox_result result \<times> 'k) option" where
  "wait_for_job K job_name timeout start clock k =
     wait_loop K job_name clock (start + seconds timeout + seconds 10) 0 k"

text \<open>\<open>int(time.monotonic() * 1000)\<close>\<close>

definition millis :: "time \<Rightarrow> int" where
  "millis t = t div 1000"

definition job_name_of :: "string \<Rightarrow> string \<Rightarrow> string" where
  "job_name_of execution_id suffix6 = ''sopm-exec-'' @ take 8 execution_id @ ''-'' @ suffix6"

text \<open>
  The clock readings of one run: the start, the start of the wait, the polls, the end, and the
  random suffix of the job's name.
\<close>

record run_inputs =
  ri_suffix :: string
  ri_start :: time
  ri_wait_start :: time
  ri_polls :: "nat \<Rightarrow> time"
  ri_end :: time

definition api_failure :: "string \<Rightarrow> string \<Rightarrow> int \<Rightarrow> sandbox_result" where
  "api_failure reason job_name ms =
     (failure (''Kubernetes API error: '' @ reason) [])\<lparr>sr_duration_ms := Some ms,
        sr_k8s_job_name := Some job_name\<rparr>"

text \<open>The body of the \<open>try\<close>: \<open>None\<close> when the polling does not end.\<close>

definition run_job ::
  "settings \<Rightarrow> (json \<Rightarrow> string) \<Rightarrow> 'k kube \<Rightarrow> run_inputs \<Rightarrow> string \<Rightarrow> int \<Rightarrow> job_spec \<Rightarrow> bool \<times> 'k \<Rightarrow>
   (sandbox_result result \<times> bool \<times> 'k) option" where
  "run_job cfg rep K inp job_name timeout spec ck =
     (case ensure_runtime_class cfg K (fst ck) (snd ck) of
        (Inl e, c1, k1) \<Rightarrow> Some (Inl e, c1, k1)
      | (Inr _, c1, k1) \<Rightarrow>
          (case create_job cfg rep K job_name spec k1 of
             (Inl e, k2) \<Rightarrow> Some (Inl e, c1, k2)
           | (Inr _, k2) \<Rightarrow>
               (case wait_for_job K job_name timeout (ri_wait_start inp) (ri_polls inp) k2 of
                  None \<Rightarrow> None
                | Some (Inl e, k3) \<Rightarrow> Some (Inl e, c1, k3)
                | Some (Inr r, k3) \<Rightarrow>
                    Some (Inr (r\<lparr>sr_k8s_job_name := Some job_name,
                                sr_duration_ms := Some (millis (ri_end inp) - millis (ri_start inp))\<rparr>),
                          c1, k3))))"

text \<open>The cluster mode of \<open>execute\<close>: the job is deleted whatever happened, errors ignored.\<close>

definition cluster_execute ::
  "settings \<Rightarrow> (json \<Rightarrow> string) \<Rightarrow> 'k kube \<Rightarrow> run_inputs \<Rightarrow> job_spec \<Rightarrow> bool \<times> 'k \<Rightarrow>
   (sandbox_result result \<times> bool \<times> 'k) option" where
  "cluster_execute cfg rep K inp spec ck =
     (case (need_str ''execution_id'' spec, spec_timeout (sandbox_default_timeout cfg) spec) of
        (Inl e, _) \<Rightarrow> Some (Inl e, ck)
      | (_, Inl e) \<Rightarrow> Some (Inl e, ck)
      | (Inr execution_id, Inr timeout) \<Rightarrow>
          (let job_name = job_name_of execution_id (ri_suffix inp) in
           case run_job cfg rep K inp job_name timeout spec ck of
             None \<Rightarrow> None
           | Some (r, c', k') \<Rightarrow>
               (let (_, k'') = delete_namespaced_job K job_name k';
                    r' = (case r of
                            Inl (ApiException code reason) \<Rightarrow>
                              Inr (api_failure reason job_name (millis (ri_end inp) - millis (ri_start inp)))
                          | other \<Rightarrow> other)
                in Some (r', c', k''))))"

section \<open>The local mode\<close>

datatype proc_outcome = Exited int string | Killed string

definition env_set :: "(string \<times> string) list \<Rightarrow> (string \<times> string) list \<Rightarrow> (string \<times> string) list" where
  "env_set env kvs = foldl (\<lambda>m (k, v). dict_set k v m) env kvs"

definition env_pop :: "string \<Rightarrow> (string \<times> string) list \<Rightarrow> (string \<times> string) list" where
  "env_pop k env = filter (\<lambda>(k', v). k' \<noteq> k) env"

definition local_platform_env ::
  "(json \<Rightarrow> string) \<Rightarrow> string \<Rightarrow> string \<Rightarrow> string \<Rightarrow> int \<Rightarrow> job_spec \<Rightarrow> (string \<times> string) list" where
  "local_platform_env rep execution_id artifact_path entrypoint timeout spec =
     (let ver = (case map_of spec ''version_id'' of None \<Rightarrow> ''unknown'' | Some v \<Rightarrow> py_str rep v) in
      [(''SOPM_EXECUTION_ID'', execution_id), (''SOPM_ARTIFACT_PATH'', artifact_path),
       (''SOPM_ENTRYPOINT'', entrypoint),
       (''SOPM_PAYLOAD'', dumps (case map_of spec ''payload'' of None \<Rightarrow> JObj [] | Some p \<Rightarrow> p)),
       (''SOPM_TIMEOUT'', str_int timeout), (''SOPM_WORK_DIR'', ''/tmp/sopm-exec-'' @ execution_id),
       (''SOPM_VERSION_ID'', ver), (''SOPM_CACHE_DIR'', ''/tmp/sopm-cache-'' @ ver),
       (''HOME'', ''/tmp''), (''PIP_CACHE_DIR'', ''/tmp/pip-cache''),
       (''PYTHONPYCACHEPREFIX'', ''/tmp/pycache'')])"

definition local_env ::
  "(json \<Rightarrow> string) \<Rightarrow> (string \<times> string) list \<Rightarrow> int \<Rightarrow> job_spec \<Rightarrow> (string \<times> string) list result" where
  "local_env rep base timeout spec =
     chain (need_str ''execution_id'' spec) (\<lambda>execution_id.
     chain (opt_str_or [] (map_of spec ''artifact_path'')) (\<lambda>artifact_path.
     chain (opt_str_or ''handler.handler'' (map_of spec ''entrypoint'')) (\<lambda>entrypoint.
     chain (user_env rep spec) (\<lambda>uenv.
       (let env1 = env_set base (local_platform_env rep execution_id artifact_path entrypoint timeout spec);
            env2 = (case map_of spec ''source_code'' of
                      None \<Rightarrow> env1
                    | Some JNull \<Rightarrow> env1
                    | Some s \<Rightarrow> env_pop ''SOPM_CACHE_DIR'' (env_set env1 [(''SOPM_SOURCE_CODE'', py_str rep s)]))
        in Inr (env_set env2 uenv))))))"

text \<open>\<open>parsed_result.get("error") or "Execution failed"\<close>\<close>

definition reported_error :: "json option \<Rightarrow> json" where
  "reported_error parsed =
     (case parsed of
        Some (JObj kvs) \<Rightarrow>
          (case map_of kvs ''error'' of
             None \<Rightarrow> JStr ''Execution failed''
           | Some e \<Rightarrow>
               if e \<in> {JNull, JBool False, JInt 0, JStr [], JList [], JObj []}
               then JStr ''Execution failed'' else e)
      | _ \<Rightarrow> JStr ''Execution failed'')"

definition local_result :: "int \<Rightarrow> proc_outcome \<Rightarrow> sandbox_result" where
  "local_result ms out =
     (case out of
        Killed raw \<Rightarrow>
          (failure ''Execution timed out'' (format_logs raw))\<lparr>sr_timed_out := True, sr_duration_ms := Some ms\<rparr>
      | Exited code raw \<Rightarrow>
          (let parsed = parse_result_from_logs raw
           in \<lparr>sr_success = (code = 0), sr_result = parsed,
               sr_error = (if code = 0 then None else Some (reported_error parsed)),
               sr_logs = format_logs raw, sr_duration_ms = Some ms, sr_timed_out = False,
               sr_k8s_job_name = None\<rparr>))"

definition local_execute ::
  "settings \<Rightarrow> (json \<Rightarrow> string) \<Rightarrow> (string \<times> string) list \<Rightarrow>
   ((string \<times> string) list \<Rightarrow> int \<Rightarrow> proc_outcome) \<Rightarrow> int \<Rightarrow> job_spec \<Rightarrow> sandbox_result result" where
  "local_execute cfg rep base run_process ms spec =
     chain (spec_timeout (sandbox_default_timeout cfg) spec) (\<lambda>timeout.
     chain (local_env rep base timeout spec) (\<lambda>env.
       Inr (local_result ms (run_process env (timeout + 5)))))"

definition sandbox_execute ::
  "settings \<Rightarrow> (json \<Rightarrow> string) \<Rightarrow> 'k kube \<Rightarrow> (string \<times> string) list \<Rightarrow>
   ((string \<times> string) list \<Rightarrow> int \<Rightarrow> proc_outcome) \<Rightarrow> run_inputs \<Rightarrow> job_spec \<Rightarrow> bool \<times> 'k \<Rightarrow>
   (sandbox_result result \<times> bool \<times> 'k) option" where
  "sandbox_execute cfg rep K base run_process inp spec ck =
     (if \<not> sandbox_enabled cfg
      then Some (local_execute cfg rep base run_process (millis (ri_end inp) - millis (ri_start inp)) spec, ck)
      else cluster_execute cfg rep K inp spec ck)"

end
