(* ===== verification/Sandbox_Facts.thy ===== *)
theory Sandbox_Facts
  imports Sandbox
begin

text \<open>
  Facts on the sandbox: the result line survives whatever the handler prints, the job is refused
  when the runtime class is not there, the polling ends, an error of the Kubernetes API never
  leaves \<open>execute\<close>, and what the container's environment and memory request come to.
\<close>

section \<open>The result line\<close>

lemma no_break_iff: "is_line_break c \<longleftrightarrow> char_code c \<in> {10, 11, 12, 13, 28, 29, 30, 133}"
  by (simp add: is_line_break_def)

text \<open>A line ended by a newline is split off whatever stands before and after it.\<close>

lemma splitlines_acc_append:
  "char_code nl = 10 \<Longrightarrow>
   splitlines_acc acc (xs @ nl # ys) = splitlines_acc acc (xs @ [nl]) @ splitlines ys"
proof (induction acc xs rule: splitlines_acc.induct)
  case (1 acc)
  then show ?case by (simp add: splitlines_def is_line_break_def)
next
  case (2 acc c cs)
  have hd: "hd (cs @ nl # ys) = hd (cs @ [nl])" by (cases cs) auto
  consider (crlf) "char_code c = 13" "char_code (hd (cs @ [nl])) = 10"
    | (break) "\<not> (char_code c = 13 \<and> char_code (hd (cs @ [nl])) = 10)" "is_line_break c"
    | (char) "\<not> (char_code c = 13 \<and> char_code (hd (cs @ [nl])) = 10)" "\<not> is_line_break c"
    by blast
  then show ?case
  proof cases
    case crlf
    then have "splitlines_acc acc (cs @ nl # ys) = splitlines_acc acc (cs @ [nl]) @ splitlines ys"
      using 2 by (cases cs) (auto simp: splitlines_def is_line_break_def)
    then show ?thesis using crlf hd by simp
  next
    case break
    then have "splitlines_acc [] (cs @ nl # ys) = splitlines_acc [] (cs @ [nl]) @ splitlines ys"
      using 2 by (cases cs) (auto simp: splitlines_def is_line_break_def)
    then show ?thesis using break hd by auto
  next
    case char
    then have "splitlines_acc (c # acc) (cs @ nl # ys) = splitlines_acc (c # acc) (cs @ [nl]) @ splitlines ys"
      using 2 by (cases cs) (auto simp: splitlines_def is_line_break_def)
    then show ?thesis using char hd by auto
  qed
qed

lemma splitlines_acc_line:
  "\<forall>c \<in> set line. \<not> is_line_break c \<Longrightarrow> char_code nl = 10 \<Longrightarrow>
   splitlines_acc acc (line @ [nl]) = [rev acc @ line]"
proof (induction line arbitrary: acc)
  case (Cons c line)
  then have "char_code c \<noteq> 13" by (auto simp: is_line_break_def)
  then show ?case using Cons by simp
qed (simp add: is_line_break_def)

lemma char_code_newline: "char_code (CHR 0x0A) = 10"
  by (simp add: char_code_def)

lemma splitlines_last:
  assumes "pre = [] \<or> last pre = CHR 0x0A" and "\<forall>c \<in> set line. \<not> is_line_break c"
  shows "splitlines (pre @ line @ [CHR 0x0A]) = splitlines pre @ [line]"
proof (cases "pre = []")
  case True
  then show ?thesis using splitlines_acc_line [OF assms(2) char_code_newline, of "[]"] by (simp add: splitlines_def)
next
  case False
  define b where "b = butlast pre"
  have pre: "pre = b @ [CHR 0x0A]" using assms(1) False unfolding b_def by (metis append_butlast_last_id)
  have "splitlines_acc [] (b @ CHR 0x0A # line @ [CHR 0x0A]) =
      splitlines_acc [] (b @ [CHR 0x0A]) @ splitlines (line @ [CHR 0x0A])"
    by (rule splitlines_acc_append) (rule char_code_newline)
  moreover have "splitlines (line @ [CHR 0x0A]) = [line]"
    using splitlines_acc_line [OF assms(2) char_code_newline, of "[]"] by (simp add: splitlines_def)
  ultimately show ?thesis unfolding pre by (simp add: splitlines_def)
qed

text \<open>What \<open>json.dumps\<close> writes is printable ASCII, so it is one line.\<close>

definition plain_char :: "char \<Rightarrow> bool" where
  "plain_char c \<longleftrightarrow> 32 \<le> char_code c \<and> char_code c \<le> 126"

lemma plain_no_break: "plain_char c \<Longrightarrow> \<not> is_line_break c"
  by (auto simp: plain_char_def is_line_break_def)

lemma plain_digit: "is_digit c \<Longrightarrow> plain_char c"
  by (simp add: is_digit_def plain_char_def)

lemma plain_str_int: "\<forall>c \<in> set (str_int i). plain_char c"
proof -
  have "plain_char (CHR ''-'')" by (simp add: plain_char_def char_code_def)
  then show ?thesis using str_nat_digits plain_digit by (auto simp: str_int_def)
qed

lemma plain_hex: "d < 16 \<Longrightarrow> plain_char (hex_char d)"
  by (auto simp: hex_char_def plain_char_def char_code_def)

lemma plain_esc: "\<forall>x \<in> set (esc_char c). plain_char x"
proof -
  have "char_code c div 16 < 16" "char_code c mod 16 < 16" using char_code_less [of c] by auto
  then show ?thesis
    using plain_hex by (auto simp: esc_char_def Let_def plain_char_def char_code_def)
qed

lemma plain_dumps_str: "\<forall>x \<in> set (dumps_str s). plain_char x"
  using plain_esc by (auto simp: dumps_str_def plain_char_def char_code_def)

lemma plain_seps: "plain_char (CHR '':'')" "plain_char (CHR '' '')" "plain_char (CHR '','')"
  "plain_char (CHR ''['')" "plain_char (CHR '']'')" "plain_char (CHR ''{'')" "plain_char (CHR ''}'')"
  by (simp_all add: plain_char_def char_code_def)

lemma plain_join: "\<forall>x \<in> set xs. \<forall>c \<in> set x. plain_char c \<Longrightarrow> \<forall>c \<in> set (join_comma xs). plain_char c"
  by (induction xs rule: join_comma.induct) (simp_all add: ball_Un plain_seps)

lemma plain_number_char: "number_char c \<Longrightarrow> plain_char c"
  by (auto simp: number_char_def plain_char_def is_digit_def char_code_def)

lemma plain_number: "list_all number_char t \<Longrightarrow> \<forall>c \<in> set t. plain_char c"
  by (auto simp: list_all_iff plain_number_char)

lemma plain_words: "\<forall>c \<in> set ''null''. plain_char c" "\<forall>c \<in> set ''true''. plain_char c"
  "\<forall>c \<in> set ''false''. plain_char c"
  by (simp_all add: plain_char_def char_code_def)

lemma plain_dumps: "wf_json j \<Longrightarrow> \<forall>c \<in> set (dumps j). plain_char c"
proof (induction j)
  case (JObj kvs)
  have v: "\<forall>c \<in> set (dumps v). plain_char c" if "(k, v) \<in> set kvs" for k v
    using JObj.IH [of "(k, v)" v] JObj.prems that by (auto simp: list_all_iff)
  have "\<forall>x \<in> set (map (\<lambda>(k, v). dumps_str k @ '': '' @ dumps v) kvs). \<forall>c \<in> set x. plain_char c"
    using v plain_dumps_str plain_seps by auto
  from plain_join [OF this] show ?case using plain_seps by auto
next
  case (JList xs)
  have "\<forall>x \<in> set (map dumps xs). \<forall>c \<in> set x. plain_char c" using JList by (auto simp: list_all_iff)
  from plain_join [OF this] show ?case using plain_seps by auto
next
  case (JBool b)
  show ?case using plain_words by (cases b) (simp_all only: dumps.simps if_True if_False)
next
  case JNull
  show ?case using plain_words by (simp only: dumps.simps)
next
  case (JFloat t)
  then have "list_all number_char t" by simp
  from plain_number [OF this] show ?case by simp
qed (simp_all add: plain_str_int plain_dumps_str)

lemma plain_prefix: "\<forall>c \<in> set result_prefix. plain_char c"
  by (simp add: result_prefix_def plain_char_def char_code_def)

text \<open>The last line the runner prints is what the worker reads, whatever was printed before.\<close>

lemma parse_result_last:
  assumes "pre = [] \<or> last pre = CHR 0x0A" and "wf_json j"
  shows "parse_result_from_logs (pre @ result_prefix @ dumps j @ [CHR 0x0A]) = none_if_null j"
proof -
  have "\<forall>c \<in> set (result_prefix @ dumps j). \<not> is_line_break c"
    using plain_prefix plain_dumps [OF assms(2)] plain_no_break by auto
  from splitlines_last [OF assms(1) this]
  have "splitlines (pre @ result_prefix @ dumps j @ [CHR 0x0A]) = splitlines pre @ [result_prefix @ dumps j]" by simp
  then show ?thesis using loads_dumps [OF assms(2)] by (simp add: parse_result_from_logs_def)
qed

text \<open>The stored logs are the other lines, in order.\<close>

lemma format_logs_messages:
  "map le_message (format_logs raw) = filter (\<lambda>l. \<not> prefix result_prefix l) (splitlines raw)"
  by (simp add: format_logs_def comp_def)

section \<open>Running a job\<close>

lemma ensure_runtime_class_Inr:
  "ensure_runtime_class cfg K c k = (Inr u, c', k') \<Longrightarrow>
   c' \<and> (c \<or> (sandbox_runtime_class cfg \<noteq> [] \<and>
               read_runtime_class K (sandbox_runtime_class cfg) k = (Inr (), k')))"
  by (auto simp: ensure_runtime_class_def split: if_splits prod.splits sum.splits exn.splits)

lemma ensure_runtime_class_Inl:
  "ensure_runtime_class cfg K c k = (Inl e, c', k') \<Longrightarrow> \<not> c \<and> c' = c"
  by (auto simp: ensure_runtime_class_def split: if_splits prod.splits sum.splits exn.splits)

text \<open>Nothing runs before the runtime class is confirmed.\<close>

lemma run_job_refused:
  assumes "ensure_runtime_class cfg K c k = (Inl e, c', k')"
  shows "run_job cfg rep K inp name timeout spec (c, k) = Some (Inl e, c', k')"
  using assms by (simp add: run_job_def)

lemma run_job_Inr:
  assumes "run_job cfg rep K inp name timeout spec (c, k) = Some (Inr r, c', k')"
  shows "\<exists>k1 m k2 r0. ensure_runtime_class cfg K c k = (Inr (), True, k1) \<and> c' \<and>
    job_manifest_of cfg rep name spec = Inr m \<and> create_namespaced_job K m k1 = (Inr (), k2) \<and>
    wait_for_job K name timeout (ri_wait_start inp) (ri_polls inp) k2 = Some (Inr r0, k') \<and>
    r = r0\<lparr>sr_k8s_job_name := Some name,
           sr_duration_ms := Some (millis (ri_end inp) - millis (ri_start inp))\<rparr>"
proof -
  obtain x c1 k1 where en: "ensure_runtime_class cfg K c k = (x, c1, k1)" by (metis prod_cases3)
  obtain y k2 where cr: "create_job cfg rep K name spec k1 = (y, k2)" by fastforce
  have x: "x = Inr ()" using assms en by (cases x) (auto simp: run_job_def)
  then have c1: "c1" using ensure_runtime_class_Inr [of cfg K c k _ c1 k1] en by simp
  have y: "y = Inr ()" using assms en cr x by (cases y) (auto simp: run_job_def)
  then obtain m where m: "job_manifest_of cfg rep name spec = Inr m" "create_namespaced_job K m k1 = (Inr (), k2)"
    using cr by (auto simp: create_job_def split: sum.splits)
  show ?thesis
    using assms en cr x y c1 m
    by (auto simp: run_job_def split: option.splits prod.splits sum.splits)
qed

text \<open>\<open>ApiException\<close> becomes a failed result.\<close>

lemma cluster_execute_no_api_exception:
  assumes "cluster_execute cfg rep K inp spec ck = Some (Inl e, c', k')"
  shows "\<not> (\<exists>code reason. e = ApiException code reason)"
proof -
  have ns: "need_str k spec = Inl x \<Longrightarrow> \<exists>m. x = OtherError m" for k x
    by (auto simp: need_str_def split: option.splits json.splits)
  have st: "spec_timeout n spec = Inl x \<Longrightarrow> \<exists>m. x = OtherError m" for n x
    by (auto simp: spec_timeout_def split: option.splits json.splits)
  show ?thesis
    using assms
    by (auto simp: cluster_execute_def Let_def dest: ns st
        split: sum.splits option.splits prod.splits exn.splits)
qed

lemma cluster_execute_success:
  assumes "cluster_execute cfg rep K inp spec (c, k) = Some (Inr r, c', k')" and "sr_success r"
  shows "\<exists>k1. ensure_runtime_class cfg K c k = (Inr (), True, k1) \<and> c'"
proof -
  have "\<not> sr_success (api_failure reason name ms)" for reason name ms
    by (simp add: api_failure_def failure_def)
  with assms obtain name timeout k1 where run: "run_job cfg rep K inp name timeout spec (c, k) = Some (Inr r, c', k1)"
    by (auto simp: cluster_execute_def Let_def split: sum.splits option.splits prod.splits exn.splits)
  show ?thesis using run_job_Inr [OF run] by auto
qed

text \<open>The polling ends when each poll takes at least its quarter of a second.\<close>

lemma job_wait_ends:
  assumes adv: "\<And>i. clock i + 250000 \<le> clock (Suc i)"
  shows "\<exists>r. wait_loop K name clock deadline i k = Some r"
proof (induction "nat (deadline - clock i)" arbitrary: i k rule: less_induct)
  case less
  obtain r k1 where rd: "read_namespaced_job K name k = (r, k1)" by fastforce
  show ?case
  proof (cases "clock i < deadline \<and> (\<exists>job. r = Inr job \<and> \<not> js_succeeded job \<and> \<not> js_failed job)")
    case True
    then have "nat (deadline - clock (Suc i)) < nat (deadline - clock i)" using adv [of i] by simp
    from less [OF this, of k1] show ?thesis
      using True rd by (auto simp: wait_loop.simps [of K name clock deadline i])
  next
    case False
    then show ?thesis using rd
      by (cases r) (auto simp: wait_loop.simps [of K name clock deadline i] split: prod.splits)
  qed
qed

section \<open>Environment and memory\<close>

text \<open>When a variable is listed twice the container sees the last entry.\<close>

definition effective :: "(string \<times> 'v) list \<Rightarrow> string \<Rightarrow> 'v option" where
  "effective env k = map_of (rev env) k"

lemma effective_append: "effective (a @ b) k = (case effective b k of Some v \<Rightarrow> Some v | None \<Rightarrow> effective a k)"
  by (simp add: effective_def map_add_def split: option.split)

lemma memory_request_of_limit: "memory_request cfg (str_int n @ ''Mi'') = str_int (min n 128) @ ''Mi''"
  if "0 \<le> n"
proof -
  have sp: "\<not> is_space c" if "is_digit c" for c
    using that by (auto simp: is_space_def is_digit_def)
  have d: "\<forall>c \<in> set (str_nat (nat n)). is_digit c" by (rule str_nat_digits)
  have hd: "hd (str_nat (nat n)) \<in> set (str_nat (nat n))" by (simp add: str_nat_nonempty)
  have no: "\<not> is_space (hd (str_nat (nat n)))" "hd (str_nat (nat n)) \<noteq> CHR ''-''" "hd (str_nat (nat n)) \<noteq> CHR ''+''"
    using bspec [OF d hd] sp by (auto simp: is_digit_def char_code_def)
  have dw: "dropWhile is_space xs = xs" if "\<forall>c \<in> set xs. is_digit c" for xs
    using that sp by (cases xs) auto
  have st: "strip (str_nat (nat n)) = str_nat (nat n)" using d by (simp add: strip_def dw)
  have rs: "removesuffix ''Mi'' (str_int n @ ''Mi'') = str_int n" by (simp add: removesuffix_def suffix_def)
  have si: "str_int n = str_nat (nat n)" using \<open>0 \<le> n\<close> by (simp add: str_int_def)
  have "py_int (str_int n) = Some n"
    using d no \<open>0 \<le> n\<close> by (simp add: py_int_def si st list_all_iff nat_of_str_nat)
  then show ?thesis by (simp add: memory_request_def rs)
qed

lemma chain_Inr: "chain x f = Inr b \<longleftrightarrow> (\<exists>a. x = Inr a \<and> f a = Inr b)"
  by (cases x) auto

lemma job_manifest_of_Inr:
  assumes "job_manifest_of cfg rep name spec = Inr m"
  shows "\<exists>eid art ep uenv mem fid dl.
    need_str ''execution_id'' spec = Inr eid \<and> opt_str_or [] (map_of spec ''artifact_path'') = Inr art \<and>
    need_str ''entrypoint'' spec = Inr ep \<and> user_env rep spec = Inr uenv \<and>
    memory_limit cfg spec = Inr mem \<and> spec_timeout (sandbox_default_timeout cfg) spec = Inr dl \<and>
    m = build_manifest cfg name eid fid mem dl
          (platform_env rep eid art ep spec @ source_env spec @ map (\<lambda>(k, v). (k, EValue v)) uenv)"
proof -
  show ?thesis using assms unfolding job_manifest_of_def chain_Inr by blast
qed

end
