(* ===== verification/Worker.thy ===== *)
theory Worker
  imports Executions_Router Sandbox_Facts
begin

text \<open>
  \<open>worker/worker.py\<close>. Processing a job is two transactions with the sandbox run between them:
  \<open>worker_begin\<close> claims the execution, \<open>worker_finish\<close> writes the result back; whatever other
  processes do to the database meanwhile is the argument \<open>other\<close> of \<open>process_job\<close>.
  \<open>recover_stale\<close> is the recovery of executions whose worker never reported back.
\<close>

section \<open>Claiming the execution\<close>

text \<open>\<open>True\<close> when the worker goes on to run the job.\<close>

definition worker_begin :: "string \<Rightarrow> time \<Rightarrow> uuid \<Rightarrow> db \<Rightarrow> bool result \<times> db" where
  "worker_begin worker_id now i d =
     (case scalar_one_or_none (filter (\<lambda>e. e_id e = i) (t_executions d)) of
        Inl x \<Rightarrow> (Inl x, d)
      | Inr None \<Rightarrow> (Inr False, d)
      | Inr (Some e) \<Rightarrow>
          if e_status e = CANCELLED then (Inr False, d)
          else (case transition_to RUNNING e of
             Inl x \<Rightarrow> (Inr False, d)
           | Inr e' \<Rightarrow>
               (Inr True, set_execution i
                  (\<lambda>_. e'\<lparr>e_started_at := Some now, e_worker_id := Some worker_id\<rparr>) d)))"

section \<open>The outcome of the run\<close>

text \<open>What \<open>asyncio.wait_for\<close> gives: the sandbox's return or exception, or its timer.\<close>

datatype sandbox_outcome = Returned sandbox_result | Raised exn | TookTooLong

definition run_outcome ::
  "bool \<Rightarrow> (sandbox_result result \<times> bool \<times> 'k) option \<Rightarrow> sandbox_outcome" where
  "run_outcome timer_first r =
     (case r of
        None \<Rightarrow> TookTooLong
      | Some (x, _) \<Rightarrow>
          if timer_first then TookTooLong
          else (case x of Inl e \<Rightarrow> Raised e | Inr sr \<Rightarrow> Returned sr))"

definition settle :: "int \<Rightarrow> sandbox_outcome \<Rightarrow> sandbox_result" where
  "settle elapsed_ms outcome =
     (let timeout = (failure ''Execution timed out (worker timeout)'' [])\<lparr>sr_duration_ms := Some elapsed_ms\<rparr>
      in case outcome of
           Returned sr \<Rightarrow> sr
         | TookTooLong \<Rightarrow> timeout
         | Raised (TimeoutError m) \<Rightarrow> timeout
         | Raised e \<Rightarrow> (failure (''Sandbox error: '' @ exn_str e) [])\<lparr>sr_duration_ms := Some elapsed_ms\<rparr>)"

definition final_status :: "sandbox_result \<Rightarrow> execution_status" where
  "final_status sr =
     (if sr_timed_out sr then TIMED_OUT else if sr_success sr then COMPLETED else FAILED)"

text \<open>
  An error that is not text cannot be searched or stored: the transaction raises.
\<close>

definition error_text :: "json option \<Rightarrow> string option result" where
  "error_text x =
     (case x of None \<Rightarrow> Inr None | Some (JStr s) \<Rightarrow> Inr (Some s) | Some _ \<Rightarrow> Inl (OtherError ''TypeError''))"

definition failure_kind_of :: "bool \<Rightarrow> string option \<Rightarrow> string option" where
  "failure_kind_of success error =
     (if success then None
      else (case error of
              None \<Rightarrow> Some ''handler''
            | Some e \<Rightarrow>
                if e \<noteq> [] \<and> (contains ''Sandbox error'' e \<or> contains ''Kubernetes API'' e \<or>
                              contains ''worker timeout'' e)
                then Some ''infra'' else Some ''handler''))"

definition duration_of :: "int \<Rightarrow> sandbox_result \<Rightarrow> int" where
  "duration_of elapsed_ms sr =
     (case sr_duration_ms sr of None \<Rightarrow> elapsed_ms | Some n \<Rightarrow> if n = 0 then elapsed_ms else n)"

section \<open>Writing the result back\<close>

text \<open>A refused transition is swallowed; the other columns are written all the same.\<close>

definition move_status :: "execution_status \<Rightarrow> execution \<Rightarrow> execution" where
  "move_status st e = (case transition_to st e of Inl _ \<Rightarrow> e | Inr e' \<Rightarrow> e')"

definition finished_row ::
  "sandbox_result \<Rightarrow> string option \<Rightarrow> int \<Rightarrow> time \<Rightarrow> execution \<Rightarrow> execution" where
  "finished_row sr error elapsed_ms now e =
     (move_status (final_status sr) e)\<lparr>e_completed_at := Some now,
        e_duration_ms := Some (duration_of elapsed_ms sr), e_result := sr_result sr,
        e_error_message := error, e_failure_kind := failure_kind_of (sr_success sr) error,
        e_k8s_job_name := sr_k8s_job_name sr\<rparr>"

definition log_rows :: "uuid \<Rightarrow> time \<Rightarrow> log_entry list \<Rightarrow> exec_log list" where
  "log_rows i now entries =
     map (\<lambda>(seq, le). \<lparr>l_execution_id = i, l_timestamp = now, l_level = le_level le,
            l_stream = le_stream le, l_message = le_message le, l_sequence = seq\<rparr>)
       (zip [0..<length entries] entries)"

definition worker_finish :: "sandbox_result \<Rightarrow> int \<Rightarrow> time \<Rightarrow> uuid \<Rightarrow> db \<Rightarrow> unit result \<times> db" where
  "worker_finish sr elapsed_ms now i d =
     (case scalar_one_or_none (filter (\<lambda>e. e_id e = i) (t_executions d)) of
        Inl x \<Rightarrow> (Inl x, d)
      | Inr None \<Rightarrow> (Inr (), d)
      | Inr (Some e) \<Rightarrow>
          (case error_text (sr_error sr) of
             Inl x \<Rightarrow> (Inl x, d)
           | Inr error \<Rightarrow>
               (Inr (), (set_execution i (\<lambda>_. finished_row sr error elapsed_ms now e) d)\<lparr>t_logs :=
                  t_logs d @ log_rows i now (sr_logs sr)\<rparr>)))"

section \<open>One job\<close>

definition job_id_of :: "json \<Rightarrow> string result" where
  "job_id_of job =
     (case job of JObj spec \<Rightarrow> need_str ''job_id'' spec | _ \<Rightarrow> Inl (OtherError ''TypeError''))"

definition job_dict :: "json \<Rightarrow> job_spec" where
  "job_dict job = (case job of JObj spec \<Rightarrow> spec | _ \<Rightarrow> [])"

record processing =
  wp_worker_id :: string
  wp_begin :: time
  wp_run :: "job_spec \<Rightarrow> sandbox_outcome"
  wp_elapsed_ms :: int
  wp_end :: time
  wp_other :: "db \<Rightarrow> db"

definition process_job :: "processing \<Rightarrow> json \<Rightarrow> db \<Rightarrow> unit result \<times> db" where
  "process_job w job d =
     (case chain (job_id_of job) uuid_of of
        Inl e \<Rightarrow> (Inl e, d)
      | Inr i \<Rightarrow>
          (case get_db (worker_begin (wp_worker_id w) (wp_begin w) i) d of
             (Inl e, d1) \<Rightarrow> (Inl e, d1)
           | (Inr go, d1) \<Rightarrow>
               if \<not> go then (Inr (), d1)
               else get_db (worker_finish (settle (wp_elapsed_ms w) (wp_run w (job_dict job)))
                              (wp_elapsed_ms w) (wp_end w) i) (wp_other w d1)))"

text \<open>One poll: a job that raises is not acknowledged. \<open>None\<close> when the acknowledgement does not end.\<close>

definition poll_once ::
  "settings \<Rightarrow> 'r redis \<Rightarrow> processing \<Rightarrow> db \<times> 'r \<Rightarrow> (unit result \<times> db \<times> 'r) option" where
  "poll_once cfg R w ds =
     (let (d, s) = ds in
      case dequeue_job R (max 1 (worker_queue_poll_interval cfg)) s of
        (Inl e, s1) \<Rightarrow> Some (Inl e, d, s1)
      | (Inr None, s1) \<Rightarrow> Some (Inr (), d, s1)
      | (Inr (Some job), s1) \<Rightarrow>
          (case queue_depth R s1 of
             (Inl e, s2) \<Rightarrow> Some (Inl e, d, s2)
           | (Inr depth, s2) \<Rightarrow>
               (case process_job w job d of
                  (Inl e, d') \<Rightarrow> Some (Inl e, d', s2)
                | (Inr _, d') \<Rightarrow>
                    (case job_id_of job of
                       Inl e \<Rightarrow> Some (Inl e, d', s2)
                     | Inr jid \<Rightarrow>
                         (case ack_job R jid s2 of
                            None \<Rightarrow> None
                          | Some (r, s3) \<Rightarrow> Some (r, d', s3))))))"

section \<open>Recovery\<close>

definition stale_after :: "settings \<Rightarrow> execution \<Rightarrow> time" where
  "stale_after cfg e = seconds (max 1 (e_timeout e) * 2 + worker_stale_timeout_grace cfg)"

definition is_stale :: "settings \<Rightarrow> time \<Rightarrow> execution \<Rightarrow> bool" where
  "is_stale cfg now e \<longleftrightarrow>
     e_status e = RUNNING \<and>
     (case e_started_at e of None \<Rightarrow> False | Some t \<Rightarrow> \<not> t > now - stale_after cfg e)"

definition recovered_row :: "time \<Rightarrow> execution \<Rightarrow> execution" where
  "recovered_row now e =
     (case transition_to FAILED e of
        Inl _ \<Rightarrow> e
      | Inr e' \<Rightarrow>
          e'\<lparr>e_completed_at := Some now, e_failure_kind := Some ''infra'',
             e_error_message := Some ''Worker did not report completion before stale recovery deadline'',
             e_duration_ms := (case e_started_at e of None \<Rightarrow> e_duration_ms e
                               | Some t \<Rightarrow> Some ((now - t) div 1000))\<rparr>)"

definition recovery_log :: "time \<Rightarrow> execution \<Rightarrow> exec_log" where
  "recovery_log now e =
     \<lparr>l_execution_id = e_id e, l_timestamp = now, l_level = ''ERROR'', l_stream = ''system'',
      l_message = ''Stale execution recovered: worker did not report completion'', l_sequence = 0\<rparr>"

definition recover_stale :: "settings \<Rightarrow> time \<Rightarrow> db \<Rightarrow> nat \<times> db" where
  "recover_stale cfg now d =
     (count_where (is_stale cfg now) (t_executions d),
      d\<lparr>t_executions := update_where (is_stale cfg now) (recovered_row now) (t_executions d),
        t_logs := t_logs d @ map (recovery_log now) (filter (is_stale cfg now) (t_executions d))\<rparr>)"

section \<open>Lemmas\<close>

lemma execution_by_id:
  assumes "keys_ok d" and "e \<in> set (t_executions d)"
  shows "scalar_one_or_none (filter (\<lambda>x. e_id x = e_id e) (t_executions d)) = Inr (Some e)"
  using assms scalar_by_key [of e_id "t_executions d" e "e_id e" "\<lambda>_. True"] by (simp add: row_keys)

lemma set_row_ids:
  assumes "\<And>e. e \<in> set (t_executions d) \<Longrightarrow> e_id e = i \<Longrightarrow> e_id (g e) = i"
  shows "db_ok (set_execution i g d) = db_ok d"
proof -
  have "map e_id (update_where (\<lambda>x. e_id x = i) g (t_executions d)) = map e_id (t_executions d)"
    using assms by (auto simp: update_where_def)
  then show ?thesis unfolding set_execution_def by (rule db_ok_executions)
qed

text \<open>Only a QUEUED execution is claimed, and only its row changes.\<close>

lemma worker_begin_row:
  assumes "keys_ok d" and "e \<in> set (t_executions d)"
  shows "worker_begin wid now (e_id e) d =
    (if e_status e = QUEUED
     then (Inr True, set_execution (e_id e)
             (\<lambda>_. e\<lparr>e_status := RUNNING, e_started_at := Some now, e_worker_id := Some wid\<rparr>) d)
     else (Inr False, d))"
  using execution_by_id [OF assms]
  by (cases "e_status e") (simp_all add: worker_begin_def transition_to_def validate_transition_def)

lemma worker_begin_cases:
  assumes "worker_begin wid now i d = (r, d')"
  shows "d' = d \<and> r \<noteq> Inr True \<or>
    (\<exists>e \<in> set (t_executions d). e_id e = i \<and> e_status e = QUEUED \<and> r = Inr True \<and>
       d' = set_execution i (\<lambda>_. e\<lparr>e_status := RUNNING, e_started_at := Some now, e_worker_id := Some wid\<rparr>) d)"
proof (cases "scalar_one_or_none (filter (\<lambda>e. e_id e = i) (t_executions d))")
  case (Inr eo)
  show ?thesis
  proof (cases eo)
    case (Some e)
    then have "e \<in> set (t_executions d)" "e_id e = i" using Inr by (auto dest: scalar_one_or_none_Some)
    then show ?thesis using assms Inr Some
      by (cases "e_status e") (auto simp: worker_begin_def transition_to_def validate_transition_def)
  qed (use assms Inr in \<open>auto simp: worker_begin_def\<close>)
qed (use assms in \<open>auto simp: worker_begin_def\<close>)

lemma worker_begin_db_ok [inv_intros]:
  assumes "db_ok d" and "worker_begin wid now i d = (r, d')"
  shows "db_ok d'"
  using worker_begin_cases [OF assms(2)] assms(1) by (auto simp: set_row_ids)

lemma move_status_cases:
  "move_status st e = (if st \<in> set (valid_transitions (e_status e)) then e\<lparr>e_status := st\<rparr> else e)"
  by (simp add: move_status_def transition_to_def validate_transition_def)

lemma move_status_id [simp]: "e_id (move_status st e) = e_id e"
  by (simp add: move_status_cases)

lemma move_status_terminal: "is_terminal (e_status e) \<Longrightarrow> move_status st e = e"
  by (simp add: move_status_cases terminal_no_transition)

lemma finished_row_simps [simp]:
  "e_id (finished_row sr err ms now e) = e_id e"
  "e_status (finished_row sr err ms now e) = e_status (move_status (final_status sr) e)"
  "e_result (finished_row sr err ms now e) = sr_result sr"
  "e_error_message (finished_row sr err ms now e) = err"
  by (simp_all add: finished_row_def)

lemma final_status_terminal: "is_terminal (final_status sr)"
  by (simp add: final_status_def)

lemma final_from_running: "final_status sr \<in> set (valid_transitions RUNNING)"
  by (simp add: final_status_def)

lemma worker_finish_row:
  assumes "keys_ok d" and "e \<in> set (t_executions d)" and "error_text (sr_error sr) = Inr err"
  shows "worker_finish sr ms now (e_id e) d =
    (Inr (), (set_execution (e_id e) (\<lambda>_. finished_row sr err ms now e) d)\<lparr>t_logs :=
       t_logs d @ log_rows (e_id e) now (sr_logs sr)\<rparr>)"
  using execution_by_id [OF assms(1,2)] assms(3) by (simp add: worker_finish_def)

lemma worker_finish_cases:
  assumes "worker_finish sr ms now i d = (r, d')"
  shows "d' = d \<or> (\<exists>e \<in> set (t_executions d). \<exists>err. e_id e = i \<and>
    d' = (set_execution i (\<lambda>_. finished_row sr err ms now e) d)\<lparr>t_logs := t_logs d @ log_rows i now (sr_logs sr)\<rparr>)"
  using assms
  by (auto simp: worker_finish_def split: sum.splits option.splits dest!: scalar_one_or_none_Some)

lemma worker_finish_db_ok [inv_intros]:
  assumes "db_ok d" and "worker_finish sr ms now i d = (r, d')"
  shows "db_ok d'"
  using worker_finish_cases [OF assms(2)] assms(1) by (auto simp: set_row_ids)

lemma recovered_row_stale:
  "is_stale cfg now e \<Longrightarrow> recovered_row now e = e\<lparr>e_status := FAILED, e_completed_at := Some now,
     e_failure_kind := Some ''infra'',
     e_error_message := Some ''Worker did not report completion before stale recovery deadline'',
     e_duration_ms := (case e_started_at e of None \<Rightarrow> e_duration_ms e | Some t \<Rightarrow> Some ((now - t) div 1000))\<rparr>"
  by (simp add: recovered_row_def is_stale_def transition_to_def validate_transition_def)

lemma recovered_row_id [simp]: "e_id (recovered_row now e) = e_id e"
  by (auto simp: recovered_row_def transition_to_Inr split: sum.split)

lemma recover_stale_db_ok [inv_intros]:
  assumes "db_ok d" and "recover_stale cfg now d = (n, d')"
  shows "db_ok d'"
proof -
  have "db_ok (d\<lparr>t_executions := update_where (is_stale cfg now) (recovered_row now) (t_executions d)\<rparr>)"
    using assms(1) by (simp add: db_ok_executions map_key_update_where)
  then show ?thesis using assms(2) by (auto simp: recover_stale_def)
qed

end
