(* ===== verification/Auth.thy ===== *)
theory Auth
  imports Schemas
begin

text \<open>
  \<open>shared/security/auth.py\<close>, \<open>api/dependencies/deps.py\<close>, \<open>api/dependencies/api_keys.py\<close>,
  \<open>api/routers/auth.py\<close> and \<open>api/routers/keys.py\<close>: passwords, tokens, the two ways a request is
  authenticated, and the management of accounts and API keys. \<open>bcrypt\<close> and \<open>jose\<close> are parameters;
  the locale \<open>auth_lib\<close> states what the code relies on.
\<close>

section \<open>Tokens and passwords\<close>

record claims =
  c_sub :: "string option"
  c_exp :: time
  c_type :: "string option"

record security =
  hashpw :: "string \<Rightarrow> string \<Rightarrow> string"
  checkpw :: "string \<Rightarrow> string \<Rightarrow> bool"
  jwt_encode :: "claims \<Rightarrow> string"
  jwt_decode :: "time \<Rightarrow> string \<Rightarrow> claims result"

definition hash_password :: "security \<Rightarrow> string \<Rightarrow> string \<Rightarrow> string" where
  "hash_password S salt password = hashpw S password salt"

definition verify_password :: "security \<Rightarrow> string \<Rightarrow> string \<Rightarrow> bool" where
  "verify_password S plain hashed = checkpw S plain hashed"

definition create_access_token :: "settings \<Rightarrow> security \<Rightarrow> time \<Rightarrow> string \<Rightarrow> string" where
  "create_access_token cfg S now subject =
     jwt_encode S \<lparr>c_sub = Some subject,
       c_exp = now + seconds (access_token_expire_minutes cfg * 60), c_type = Some ''access''\<rparr>"

definition create_refresh_token :: "settings \<Rightarrow> security \<Rightarrow> time \<Rightarrow> string \<Rightarrow> string" where
  "create_refresh_token cfg S now subject =
     jwt_encode S \<lparr>c_sub = Some subject,
       c_exp = now + seconds (refresh_token_expire_days cfg * 86400), c_type = Some ''refresh''\<rparr>"

definition decode_token :: "security \<Rightarrow> time \<Rightarrow> string \<Rightarrow> claims result" where
  "decode_token S now token = jwt_decode S now token"

section \<open>The authenticated user\<close>

definition credentials_exception :: exn where
  "credentials_exception = HTTPException 401 ''Could not validate credentials''"

text \<open>Only \<open>JWTError\<close> is turned into the 401; a malformed subject is the \<open>ValueError\<close> of \<open>UUID\<close>.\<close>

definition get_current_user :: "security \<Rightarrow> time \<Rightarrow> string \<Rightarrow> db \<Rightarrow> user result" where
  "get_current_user S now token d =
     (case decode_token S now token of
        Inl JWTError \<Rightarrow> Inl credentials_exception
      | Inl e \<Rightarrow> Inl e
      | Inr c \<Rightarrow>
          if c_type c \<noteq> Some ''access'' then Inl credentials_exception
          else (case c_sub c of
             None \<Rightarrow> Inl credentials_exception
           | Some sub \<Rightarrow>
               (case uuid_of sub of
                  Inl e \<Rightarrow> Inl e
                | Inr uid \<Rightarrow>
                    (case scalar_one_or_none (filter (\<lambda>u. u_id u = uid) (t_users d)) of
                       Inl e \<Rightarrow> Inl e
                     | Inr None \<Rightarrow> Inl credentials_exception
                     | Inr (Some u) \<Rightarrow> if \<not> u_is_active u then Inl credentials_exception else Inr u))))"

definition get_current_superuser :: "user \<Rightarrow> user result" where
  "get_current_superuser u =
     (if \<not> u_is_superuser u then Inl (HTTPException 403 ''Superuser privileges required'') else Inr u)"

section \<open>Accounts\<close>

record token_response =
  tr_access_token :: string
  tr_refresh_token :: string
  tr_expires_in :: int

definition new_user_row :: "security \<Rightarrow> string \<Rightarrow> user_register \<Rightarrow> uuid \<Rightarrow> time \<Rightarrow> user" where
  "new_user_row S salt body i now =
     \<lparr>u_id = i, u_username = ur_username body, u_email = ur_email body,
      u_hashed_password = hash_password S salt (ur_password body), u_is_active = True,
      u_is_superuser = False, u_created_at = now\<rparr>"

definition register ::
  "security \<Rightarrow> string \<Rightarrow> user_register \<Rightarrow> uuid \<Rightarrow> time \<Rightarrow> db \<Rightarrow> user result \<times> db" where
  "register S salt body i now d =
     (case scalar_one_or_none
             (filter (\<lambda>u. u_username u = ur_username body \<or> u_email u = ur_email body) (t_users d)) of
        Inl e \<Rightarrow> (Inl e, d)
      | Inr (Some _) \<Rightarrow> (Inl (HTTPException 409 ''Username or email already registered''), d)
      | Inr None \<Rightarrow>
          seq (insert_user (new_user_row S salt body i now) d)
            (\<lambda>_ d'. (Inr (new_user_row S salt body i now), d')))"

definition issue_tokens :: "settings \<Rightarrow> security \<Rightarrow> time \<Rightarrow> user \<Rightarrow> token_response" where
  "issue_tokens cfg S now u =
     \<lparr>tr_access_token = create_access_token cfg S now (str_nat (u_id u)),
      tr_refresh_token = create_refresh_token cfg S now (str_nat (u_id u)),
      tr_expires_in = access_token_expire_minutes cfg * 60\<rparr>"

definition login :: "settings \<Rightarrow> security \<Rightarrow> time \<Rightarrow> string \<Rightarrow> string \<Rightarrow> db \<Rightarrow> token_response result" where
  "login cfg S now username password d =
     (case scalar_one_or_none (filter (\<lambda>u. u_username u = username) (t_users d)) of
        Inl e \<Rightarrow> Inl e
      | Inr None \<Rightarrow> Inl (HTTPException 401 ''Incorrect username or password'')
      | Inr (Some u) \<Rightarrow>
          if \<not> verify_password S password (u_hashed_password u)
          then Inl (HTTPException 401 ''Incorrect username or password'')
          else if \<not> u_is_active u then Inl (HTTPException 403 ''Account is inactive'')
          else Inr (issue_tokens cfg S now u))"

definition invalid_refresh :: exn where
  "invalid_refresh = HTTPException 401 ''Invalid refresh token''"

definition refresh_token :: "settings \<Rightarrow> security \<Rightarrow> time \<Rightarrow> string \<Rightarrow> db \<Rightarrow> token_response result" where
  "refresh_token cfg S now token d =
     (case decode_token S now token of
        Inl JWTError \<Rightarrow> Inl invalid_refresh
      | Inl e \<Rightarrow> Inl e
      | Inr c \<Rightarrow>
          if c_type c \<noteq> Some ''refresh'' then Inl invalid_refresh
          else (case c_sub c of
             None \<Rightarrow> Inl invalid_refresh
           | Some sub \<Rightarrow>
               if sub = [] then Inl invalid_refresh
               else (case uuid_of sub of
                  Inl e \<Rightarrow> Inl e
                | Inr uid \<Rightarrow>
                    (case scalar_one_or_none (filter (\<lambda>u. u_id u = uid) (t_users d)) of
                       Inl e \<Rightarrow> Inl e
                     | Inr None \<Rightarrow> Inl invalid_refresh
                     | Inr (Some u) \<Rightarrow>
                         if \<not> u_is_active u then Inl invalid_refresh
                         else Inr (issue_tokens cfg S now u)))))"

section \<open>API keys\<close>

definition hash_api_key :: "(string \<Rightarrow> string) \<Rightarrow> string \<Rightarrow> string" where
  "hash_api_key sha256 value = sha256 value"

definition list_keys :: "uuid \<Rightarrow> db \<Rightarrow> api_key list" where
  "list_keys user d = order_by_desc k_created_at (filter (\<lambda>k. k_owner_id k = user) (t_api_keys d))"

text \<open>\<open>secret\<close> is the output of \<open>secrets.token_urlsafe(32)\<close>.\<close>

definition new_key_row :: "(string \<Rightarrow> string) \<Rightarrow> uuid \<Rightarrow> string \<Rightarrow> string \<Rightarrow> uuid \<Rightarrow> time \<Rightarrow> api_key" where
  "new_key_row sha256 user name raw_key i now =
     \<lparr>k_id = i, k_owner_id = user, k_name = name, k_key_hash = hash_api_key sha256 raw_key,
      k_key_prefix = take 12 raw_key, k_revoked_at = None, k_last_used_at = None, k_created_at = now\<rparr>"

definition create_key ::
  "(string \<Rightarrow> string) \<Rightarrow> uuid \<Rightarrow> string \<Rightarrow> string \<Rightarrow> uuid \<Rightarrow> time \<Rightarrow> db \<Rightarrow> (api_key \<times> string) result \<times> db" where
  "create_key sha256 user name secret i now d =
     (let raw_key = ''sopm_'' @ secret; k = new_key_row sha256 user name raw_key i now
      in seq (insert_api_key k d) (\<lambda>_ d'. (Inr (k, raw_key), d')))"

definition revoke_key :: "uuid \<Rightarrow> uuid \<Rightarrow> time \<Rightarrow> db \<Rightarrow> unit result \<times> db" where
  "revoke_key key_id user now d =
     (case scalar_one_or_none (filter (\<lambda>k. k_id k = key_id \<and> k_owner_id k = user) (t_api_keys d)) of
        Inl e \<Rightarrow> (Inl e, d)
      | Inr None \<Rightarrow> (Inl (HTTPException 404 ''API key not found''), d)
      | Inr (Some _) \<Rightarrow>
          (Inr (), d\<lparr>t_api_keys := update_where (\<lambda>k. k_id k = key_id) (\<lambda>k. k\<lparr>k_revoked_at := Some now\<rparr>)
                       (t_api_keys d)\<rparr>))"

record principal =
  p_key :: api_key
  p_user :: user

text \<open>The inner join of keys and owners, in the order of the key table; \<open>first()\<close> takes the head.\<close>

definition key_rows :: "db \<Rightarrow> (api_key \<Rightarrow> bool) \<Rightarrow> (api_key \<times> user) list" where
  "key_rows d p = concat (map (\<lambda>k. map (\<lambda>u. (k, u)) (filter (\<lambda>u. u_id u = k_owner_id k) (t_users d)))
     (filter p (t_api_keys d)))"

definition get_api_key_principal ::
  "(string \<Rightarrow> string) \<Rightarrow> string option \<Rightarrow> time \<Rightarrow> db \<Rightarrow> principal result \<times> db" where
  "get_api_key_principal sha256 x_sopm_key now d =
     (if x_sopm_key = None \<or> x_sopm_key = Some [] then (Inl (HTTPException 401 ''Missing API key''), d)
      else (case key_rows d (\<lambda>k. k_key_hash k = hash_api_key sha256 (the x_sopm_key) \<and> k_revoked_at k = None) of
         [] \<Rightarrow> (Inl (HTTPException 401 ''Invalid API key''), d)
       | (k, u) # _ \<Rightarrow>
           (Inr \<lparr>p_key = k\<lparr>k_last_used_at := Some now\<rparr>, p_user = u\<rparr>,
            d\<lparr>t_api_keys := update_where (\<lambda>x. k_id x = k_id k) (\<lambda>x. x\<lparr>k_last_used_at := Some now\<rparr>)
                (t_api_keys d)\<rparr>)))"

section \<open>What the libraries promise\<close>

text \<open>
  A password checks against its own hash. A token decodes to the subject and type it was made
  from until the second of its expiry, and raises \<open>JWTError\<close> after it.
\<close>

locale auth_lib =
  fixes S :: security
  assumes checkpw_hashpw: "checkpw S p (hashpw S p salt)"
    and decode_valid:
      "now div 1000000 \<le> c_exp c div 1000000 \<Longrightarrow>
       \<exists>c'. jwt_decode S now (jwt_encode S c) = Inr c' \<and> c_sub c' = c_sub c \<and> c_type c' = c_type c"
    and decode_expired:
      "c_exp c div 1000000 < now div 1000000 \<Longrightarrow> jwt_decode S now (jwt_encode S c) = Inl JWTError"
begin

definition lookup_active :: "exn \<Rightarrow> uuid \<Rightarrow> db \<Rightarrow> user result" where
  "lookup_active err uid d =
     (case scalar_one_or_none (filter (\<lambda>u. u_id u = uid) (t_users d)) of
        Inl e \<Rightarrow> Inl e
      | Inr None \<Rightarrow> Inl err
      | Inr (Some u) \<Rightarrow> if \<not> u_is_active u then Inl err else Inr u)"

text \<open>An access token is the user's identity until it expires; a refresh token never is.\<close>

lemma access_token_user:
  assumes "0 \<le> access_token_expire_minutes cfg"
  shows "get_current_user S later (create_access_token cfg S now (str_nat uid)) d =
    (if later div 1000000 \<le> now div 1000000 + access_token_expire_minutes cfg * 60
     then lookup_active credentials_exception uid d else Inl credentials_exception)"
proof -
  let ?c = "\<lparr>c_sub = Some (str_nat uid), c_exp = now + seconds (access_token_expire_minutes cfg * 60),
    c_type = Some ''access''\<rparr>"
  have e: "c_exp ?c div 1000000 = now div 1000000 + access_token_expire_minutes cfg * 60" by simp
  show ?thesis
    using decode_valid [of later ?c] decode_expired [of ?c later] unfolding e
    by (auto simp: get_current_user_def decode_token_def create_access_token_def lookup_active_def)
qed

lemma refresh_token_rejected:
  "get_current_user S later (create_refresh_token cfg S now sub) d = Inl credentials_exception"
proof -
  let ?c = "\<lparr>c_sub = Some sub, c_exp = now + seconds (refresh_token_expire_days cfg * 86400),
    c_type = Some ''refresh''\<rparr>"
  show ?thesis
    using decode_valid [of later ?c] decode_expired [of ?c later]
    by (cases "later div 1000000 \<le> c_exp ?c div 1000000")
       (auto simp: get_current_user_def decode_token_def create_refresh_token_def)
qed

lemma access_token_no_refresh:
  "refresh_token cfg S later (create_access_token cfg' S now sub) d = Inl invalid_refresh"
proof -
  let ?c = "\<lparr>c_sub = Some sub, c_exp = now + seconds (access_token_expire_minutes cfg' * 60),
    c_type = Some ''access''\<rparr>"
  show ?thesis
    using decode_valid [of later ?c] decode_expired [of ?c later]
    by (cases "later div 1000000 \<le> c_exp ?c div 1000000")
       (auto simp: refresh_token_def decode_token_def create_access_token_def)
qed

end

section \<open>Accounts\<close>

lemma new_user_row_simps [simp]:
  "u_id (new_user_row S salt body i now) = i"
  "u_username (new_user_row S salt body i now) = ur_username body"
  "u_email (new_user_row S salt body i now) = ur_email body"
  "u_hashed_password (new_user_row S salt body i now) = hash_password S salt (ur_password body)"
  "u_is_active (new_user_row S salt body i now)"
  "\<not> u_is_superuser (new_user_row S salt body i now)"
  by (simp_all add: new_user_row_def)

lemma insert_user_Inr:
  "insert_user u d = (Inr x, d') \<longleftrightarrow>
   (\<forall>w \<in> set (t_users d). u_id w \<noteq> u_id u \<and> u_username w \<noteq> u_username u \<and> u_email w \<noteq> u_email u) \<and>
   d' = d\<lparr>t_users := t_users d @ [u]\<rparr>"
  by (auto simp: insert_user_def list_ex_iff)

lemma register_Inl: "register S salt body i now d = (Inl e, d') \<Longrightarrow> d' = d"
  by (auto simp: register_def insert_user_def split: sum.splits option.splits if_splits)

lemma register_Inr:
  assumes "register S salt body i now d = (Inr u, d')"
  shows "u = new_user_row S salt body i now" and "insert_user u d = (Inr (), d')"
    and "\<forall>w \<in> set (t_users d). u_username w \<noteq> ur_username body \<and> u_email w \<noteq> ur_email body"
proof -
  show u: "u = new_user_row S salt body i now" and ins: "insert_user u d = (Inr (), d')"
    using assms by (auto simp: register_def seq_Inr_iff split: sum.splits option.splits)
  show "\<forall>w \<in> set (t_users d). u_username w \<noteq> ur_username body \<and> u_email w \<noteq> ur_email body"
    using ins u by (auto simp: insert_user_Inr)
qed

lemma register_db_ok [inv_intros]:
  "db_ok d \<Longrightarrow> register S salt body i now d = (r, d') \<Longrightarrow> db_ok d'"
  using register_Inl register_Inr(2) db_ok_insert_user by (cases r) blast+

lemma login_Inr:
  assumes "login cfg S now username password d = Inr tokens"
  shows "\<exists>u \<in> set (t_users d). u_username u = username \<and> u_is_active u \<and>
    verify_password S password (u_hashed_password u) \<and> tokens = issue_tokens cfg S now u"
  using assms by (auto simp: login_def split: sum.splits option.splits if_splits dest!: scalar_one_or_none_Some)

text \<open>Queries for one user, by id and by name.\<close>

lemma user_by_id:
  assumes "keys_ok d" and "u \<in> set (t_users d)"
  shows "scalar_one_or_none (filter (\<lambda>w. u_id w = u_id u) (t_users d)) = Inr (Some u)"
  using assms scalar_by_key [of u_id "t_users d" u "u_id u" "\<lambda>_. True"] by (simp add: keys_ok_def)

lemma user_by_name:
  assumes "keys_ok d" and "u \<in> set (t_users d)"
  shows "scalar_one_or_none (filter (\<lambda>w. u_username w = u_username u) (t_users d)) = Inr (Some u)"
  using assms scalar_by_key [of u_username "t_users d" u "u_username u" "\<lambda>_. True"] by (simp add: keys_ok_def)

context auth_lib begin

text \<open>An account that was registered can log in with its password.\<close>

lemma login_registered:
  assumes ok: "db_ok d" and reg: "register S salt body i now d = (Inr u, d')"
  shows "login cfg S later (ur_username body) (ur_password body) d' = Inr (issue_tokens cfg S later u)"
proof -
  have u: "u = new_user_row S salt body i now" and d': "u \<in> set (t_users d')" "keys_ok d'"
    using register_Inr [OF reg] register_db_ok [OF ok reg] by (auto simp: insert_user_Inr db_ok_keys)
  then show ?thesis
    using user_by_name [OF d'(2,1)] checkpw_hashpw
    by (simp add: login_def verify_password_def hash_password_def)
qed

text \<open>The access token of an active user authenticates that user while it is valid.\<close>

lemma issued_token_user:
  assumes "keys_ok d" and "u \<in> set (t_users d)" and "u_is_active u"
    and "0 \<le> access_token_expire_minutes cfg"
    and "later div 1000000 \<le> now div 1000000 + access_token_expire_minutes cfg * 60"
  shows "get_current_user S later (tr_access_token (issue_tokens cfg S now u)) d = Inr u"
  using access_token_user [OF assms(4), of later now "u_id u" d] assms user_by_id [OF assms(1,2)]
  by (simp add: issue_tokens_def lookup_active_def)

end

section \<open>API keys\<close>

lemma insert_api_key_Inr:
  "insert_api_key k d = (Inr x, d') \<longleftrightarrow>
   (\<forall>w \<in> set (t_api_keys d). k_id w \<noteq> k_id k \<and> k_key_hash w \<noteq> k_key_hash k) \<and>
   d' = d\<lparr>t_api_keys := t_api_keys d @ [k]\<rparr>"
  by (auto simp: insert_api_key_def list_ex_iff)

lemma new_key_row_simps [simp]:
  "k_id (new_key_row h user name raw i now) = i" "k_owner_id (new_key_row h user name raw i now) = user"
  "k_key_hash (new_key_row h user name raw i now) = hash_api_key h raw"
  "k_revoked_at (new_key_row h user name raw i now) = None"
  by (simp_all add: new_key_row_def)

lemma create_key_Inr:
  assumes "create_key h user name secret i now d = (Inr (k, raw), d')"
  shows "raw = ''sopm_'' @ secret" and "k = new_key_row h user name raw i now"
    and "insert_api_key k d = (Inr (), d')"
  using assms by (auto simp: create_key_def Let_def seq_Inr_iff)

lemma create_key_db_ok [inv_intros]:
  assumes "db_ok d" and "create_key h user name secret i now d = (r, d')"
  shows "db_ok d'"
proof -
  obtain x d1 where "insert_api_key (new_key_row h user name (''sopm_'' @ secret) i now) d = (x, d1)" by fastforce
  then show ?thesis using assms db_ok_insert_api_key by (cases x) (auto simp: create_key_def Let_def)
qed

lemma revoke_key_db_ok [inv_intros]:
  assumes "db_ok d" and "revoke_key i user now d = (r, d')"
  shows "db_ok d'"
  using assms
  by (auto simp: revoke_key_def map_key_update_where intro!: db_ok_api_keys split: sum.splits option.splits)

lemma get_api_key_principal_db_ok [inv_intros]:
  assumes "db_ok d" and "get_api_key_principal h x now d = (r, d')"
  shows "db_ok d'"
  using assms
  by (auto simp: get_api_key_principal_def map_key_update_where intro!: db_ok_api_keys
      split: if_splits list.splits)

lemma key_rows_unique:
  assumes ok: "keys_ok d" and k: "k \<in> set (t_api_keys d)" and u: "u \<in> set (t_users d)" "u_id u = k_owner_id k"
    and "q k"
  shows "key_rows d (\<lambda>x. k_key_hash x = k_key_hash k \<and> q x) = [(k, u)]"
proof -
  have "filter (\<lambda>x. k_key_hash x = k_key_hash k \<and> q x) (t_api_keys d) = [k]"
    using ok k \<open>q k\<close> distinct_key_filter [of k_key_hash "t_api_keys d" k q] by (simp add: keys_ok_def)
  moreover have "filter (\<lambda>w. u_id w = k_owner_id k) (t_users d) = [u]"
    using ok u distinct_key_filter [of u_id "t_users d" u "\<lambda>_. True"] by (simp add: keys_ok_def)
  ultimately show ?thesis by (simp add: key_rows_def)
qed

lemma key_rows_Cons:
  "key_rows d p = (k, u) # rest \<Longrightarrow> k \<in> set (t_api_keys d) \<and> p k \<and> u \<in> set (t_users d) \<and> u_id u = k_owner_id k"
proof -
  assume "key_rows d p = (k, u) # rest"
  then have "(k, u) \<in> set (key_rows d p)" by simp
  then show ?thesis by (auto simp: key_rows_def)
qed

text \<open>A principal is the owner of a key that was never revoked.\<close>

lemma principal_Inr:
  assumes "get_api_key_principal h x now d = (Inr p, d')"
  shows "\<exists>k \<in> set (t_api_keys d). \<exists>raw. x = Some raw \<and> k_key_hash k = hash_api_key h raw \<and> k_revoked_at k = None \<and>
    p_key p = k\<lparr>k_last_used_at := Some now\<rparr> \<and> p_user p \<in> set (t_users d) \<and> u_id (p_user p) = k_owner_id k"
proof -
  let ?p = "\<lambda>k. k_key_hash k = hash_api_key h (the x) \<and> k_revoked_at k = None"
  from assms obtain k u rest where rows: "key_rows d ?p = (k, u) # rest"
    and p: "p = \<lparr>p_key = k\<lparr>k_last_used_at := Some now\<rparr>, p_user = u\<rparr>" and x: "x \<noteq> None"
    by (auto simp: get_api_key_principal_def split: if_splits list.splits)
  show ?thesis using key_rows_Cons [OF rows] p x by auto
qed

lemma principal_of_key:
  assumes ok: "keys_ok d" and k: "k \<in> set (t_api_keys d)" and u: "u \<in> set (t_users d)" "u_id u = k_owner_id k"
    and "k_key_hash k = hash_api_key h raw" and "k_revoked_at k = None" and "raw \<noteq> []"
  shows "fst (get_api_key_principal h (Some raw) now d) =
    Inr \<lparr>p_key = k\<lparr>k_last_used_at := Some now\<rparr>, p_user = u\<rparr>"
  using assms key_rows_unique [OF ok k u, of "\<lambda>x. k_revoked_at x = None"]
  by (simp add: get_api_key_principal_def)

lemma revoked_key_rejected:
  assumes ok: "keys_ok d" and k: "k \<in> set (t_api_keys d)" and "k_revoked_at k \<noteq> None"
    and "k_key_hash k = hash_api_key h raw" and "raw \<noteq> []"
  shows "get_api_key_principal h (Some raw) now d = (Inl (HTTPException 401 ''Invalid API key''), d)"
proof -
  have "filter (\<lambda>x. k_key_hash x = k_key_hash k \<and> k_revoked_at x = None) (t_api_keys d) = []"
    using ok k assms(3) distinct_key_filter [of k_key_hash "t_api_keys d" k "\<lambda>x. k_revoked_at x = None"]
    by (simp add: keys_ok_def)
  then show ?thesis using assms(4,5) by (simp add: get_api_key_principal_def key_rows_def)
qed

section \<open>Reference libraries\<close>

text \<open>
  Passwords tagged in clear and tokens as JSON with their expiry: they meet the promises, so
  \<open>auth_lib\<close> can hold. They stand for \<open>bcrypt\<close> and \<open>jose\<close> in the witnesses only.
\<close>

definition opt_str :: "string option \<Rightarrow> json" where
  "opt_str x = (case x of None \<Rightarrow> JNull | Some s \<Rightarrow> JStr s)"

definition str_opt :: "json \<Rightarrow> string option" where
  "str_opt j = (case j of JStr s \<Rightarrow> Some s | _ \<Rightarrow> None)"

definition plain_security :: security where
  "plain_security =
     \<lparr>hashpw = (\<lambda>p salt. ''plain:'' @ p), checkpw = (\<lambda>p h. h = ''plain:'' @ p),
      jwt_encode = (\<lambda>c. dumps (JList [opt_str (c_sub c), JInt (c_exp c div 1000000), opt_str (c_type c)])),
      jwt_decode = (\<lambda>now t. (case loads t of
         Some (JList [sub, JInt e, ty]) \<Rightarrow>
           if e < now div 1000000 then Inl JWTError
           else Inr \<lparr>c_sub = str_opt sub, c_exp = seconds e, c_type = str_opt ty\<rparr>
       | _ \<Rightarrow> Inl JWTError))\<rparr>"

interpretation plain: auth_lib plain_security
proof
  show "checkpw plain_security p (hashpw plain_security p salt)" for p salt
    by (simp add: plain_security_def)
  have l: "loads (dumps (JList [opt_str a, JInt e, opt_str b])) = Some (JList [opt_str a, JInt e, opt_str b])" for a b e
    by (rule loads_dumps) (simp add: opt_str_def split: option.split)
  have o: "str_opt (opt_str x) = x" for x
    by (simp add: str_opt_def opt_str_def split: option.split)
  show "now div 1000000 \<le> c_exp c div 1000000 \<Longrightarrow>
      \<exists>c'. jwt_decode plain_security now (jwt_encode plain_security c) = Inr c' \<and>
        c_sub c' = c_sub c \<and> c_type c' = c_type c" for now c
    by (simp add: plain_security_def l o del: dumps.simps)
  show "c_exp c div 1000000 < now div 1000000 \<Longrightarrow>
      jwt_decode plain_security now (jwt_encode plain_security c) = Inl JWTError" for now c
    by (simp add: plain_security_def l del: dumps.simps)
qed

end
