(* ===== verification/Invoke_Router.thy ===== *)
theory Invoke_Router
  imports Executions_Router Auth
begin

text \<open>
  \<open>api/routers/invoke.py\<close> and \<open>api/routers/ephemeral.py\<close>: execution on behalf of an API key, of
  a stored function or of raw code. Both handlers may wait for the result by polling the row;
  \<open>view i\<close> is the database at the \<open>i\<close>-th poll and \<open>clock i\<close> the loop's time before it.
\<close>

section \<open>Invoking a function\<close>

definition api_key_execution_owner_clause :: "principal \<Rightarrow> execution \<Rightarrow> bool" where
  "api_key_execution_owner_clause p e \<longleftrightarrow>
     e_api_key_id e = Some (k_id (p_key p)) \<or> e_triggered_by e = Some (u_id (p_user p))"

definition list_invokable_functions :: "principal \<Rightarrow> db \<Rightarrow> func listing" where
  "list_invokable_functions p d =
     (let items = order_by_desc f_created_at (filter (\<lambda>f. f_owner_id f = u_id (p_user p)) (t_functions d))
      in \<lparr>li_items = items, li_total = length items, li_page = 1, li_page_size = length items\<rparr>)"

definition get_invoked_execution :: "uuid \<Rightarrow> principal \<Rightarrow> db \<Rightarrow> execution result" where
  "get_invoked_execution execution_id p d =
     (case scalar_one_or_none
             (filter (\<lambda>e. e_id e = execution_id \<and> api_key_execution_owner_clause p e) (t_executions d)) of
        Inl x \<Rightarrow> Inl x
      | Inr None \<Rightarrow> Inl (HTTPException 404 ''Execution not found'')
      | Inr (Some e) \<Rightarrow> Inr e)"

definition get_invoked_execution_logs ::
  "uuid \<Rightarrow> principal \<Rightarrow> nat \<Rightarrow> nat \<Rightarrow> db \<Rightarrow> (exec_log list \<times> nat) result" where
  "get_invoked_execution_logs execution_id p limit offset d =
     (case get_invoked_execution execution_id p d of
        Inl x \<Rightarrow> Inl x
      | Inr _ \<Rightarrow> Inr (logs_page execution_id limit offset d))"

definition invoke_begin ::
  "uuid \<Rightarrow> principal \<Rightarrow> json \<Rightarrow> nat \<Rightarrow> uuid \<Rightarrow> time \<Rightarrow> db \<Rightarrow>
   (execution \<times> (string \<times> json) list) result \<times> db" where
  "invoke_begin function_id p payload r i now d =
     (case get_function_or_404 function_id (u_id (p_user p)) d of
        Inl e \<Rightarrow> (Inl e, d)
      | Inr fn \<Rightarrow>
          (case choose_execution_version d fn None r of
             Inl e \<Rightarrow> (Inl e, d)
           | Inr None \<Rightarrow> (Inl (HTTPException 422 ''Function has no executable version''), d)
           | Inr (Some v) \<Rightarrow>
               (let e = function_execution fn v (u_id (p_user p)) (Some (k_id (p_key p))) payload (v_timeout v) i now
                in case insert_execution e d of
                     (Inl x, d') \<Rightarrow> (Inl x, d')
                   | (Inr _, d') \<Rightarrow> (Inr (e, function_job e fn v), d'))))"

text \<open>A refresh of a row that is gone raises.\<close>

partial_function (option) wait_loop ::
  "uuid \<Rightarrow> (nat \<Rightarrow> time) \<Rightarrow> time \<Rightarrow> (nat \<Rightarrow> db) \<Rightarrow> nat \<Rightarrow> execution \<Rightarrow> execution result option" where
  "wait_loop i clock deadline view n e =
     (if clock n < deadline
      then (case find (\<lambda>x. e_id x = i) (t_executions (view n)) of
              None \<Rightarrow> Some (Inl (OtherError ''Could not refresh instance''))
            | Some e' \<Rightarrow>
                if is_terminal (e_status e') then Some (Inr e')
                else wait_loop i clock deadline view (Suc n) e')
      else Some (Inr e))"

definition invoke_function ::
  "'r redis \<Rightarrow> (nat \<Rightarrow> time) \<Rightarrow> uuid \<Rightarrow> principal \<Rightarrow> json \<Rightarrow> nat \<Rightarrow> uuid \<Rightarrow> time \<Rightarrow>
   db \<times> 'r \<Rightarrow> execution result \<times> db \<times> 'r" where
  "invoke_function R clock function_id p payload r i now ds =
     (let (d, s) = ds in
      case invoke_begin function_id p payload r i now d of
        (Inl e, d') \<Rightarrow> (Inl e, d', s)
      | (Inr (e, job), d') \<Rightarrow>
          (case submit_job R clock e job (d', s) of (e', d'', s') \<Rightarrow> (Inr e', d'', s')))"

text \<open>What the handler answers, with and without \<open>wait\<close>.\<close>

definition answer ::
  "bool \<Rightarrow> time \<Rightarrow> time \<Rightarrow> (nat \<Rightarrow> time) \<Rightarrow> (nat \<Rightarrow> db) \<Rightarrow> execution \<Rightarrow> execution result option" where
  "answer wait start wait_timeout clock view e =
     (if wait then wait_loop (e_id e) clock (start + wait_timeout) view 0 e else Some (Inr e))"

section \<open>Ephemeral code\<close>

definition enforce_ephemeral_gate :: "settings \<Rightarrow> unit result" where
  "enforce_ephemeral_gate cfg =
     (if sandbox_enabled cfg then Inr ()
      else if ephemeral_local_execution_enabled cfg then Inr ()
      else Inl (HTTPException 403 (''Ephemeral raw-code execution requires SANDBOX_ENABLED=true. '' @
              ''For local-only testing set EPHEMERAL_LOCAL_EXECUTION_ENABLED=true, '' @
              ''but do not use that mode for untrusted code.'')))"

text \<open>\<open>minute\<close> is the clock formatted as \<open>%Y%m%d%H%M\<close>.\<close>

definition rate_key :: "uuid \<Rightarrow> string \<Rightarrow> string" where
  "rate_key key_id minute = ''sopm:ephemeral:rate:'' @ str_nat key_id @ '':'' @ minute"

definition rate_exceeded :: "settings \<Rightarrow> exn" where
  "rate_exceeded cfg = HTTPException 429 (''Ephemeral execution rate limit exceeded ('' @
     str_int (ephemeral_rate_limit_per_minute cfg) @ ''/minute)'')"

definition concurrency_exceeded :: "settings \<Rightarrow> exn" where
  "concurrency_exceeded cfg = HTTPException 429 (''Ephemeral execution concurrency limit exceeded ('' @
     str_nat (ephemeral_concurrency_limit cfg) @ '')'')"

definition active_ephemeral :: "uuid \<Rightarrow> db \<Rightarrow> nat" where
  "active_ephemeral key_id d =
     count_where (\<lambda>e. e_api_key_id e = Some key_id \<and> e_execution_type e = ''ephemeral'' \<and>
       e_status e \<in> set active_statuses) (t_executions d)"

definition enforce_rate_limits ::
  "settings \<Rightarrow> 'r redis \<Rightarrow> uuid \<Rightarrow> string \<Rightarrow> db \<times> 'r \<Rightarrow> unit result \<times> 'r" where
  "enforce_rate_limits cfg R key_id minute ds =
     (let (d, s) = ds in
      seq (r_incr R (rate_key key_id minute) s) (\<lambda>count s1.
        seq (if count = 1 then r_expire R (rate_key key_id minute) 120 s1 else (Inr (), s1)) (\<lambda>_ s2.
          if count > ephemeral_rate_limit_per_minute cfg then (Inl (rate_exceeded cfg), s2)
          else if active_ephemeral key_id d \<ge> ephemeral_concurrency_limit cfg
          then (Inl (concurrency_exceeded cfg), s2)
          else (Inr (), s2))))"

definition ephemeral_execution :: "principal \<Rightarrow> ephemeral_request \<Rightarrow> uuid \<Rightarrow> time \<Rightarrow> execution" where
  "ephemeral_execution p body i now =
     (new_execution i now)\<lparr>e_triggered_by := Some (u_id (p_user p)), e_api_key_id := Some (k_id (p_key p)),
        e_execution_type := ''ephemeral'', e_status := QUEUED, e_payload := er_event body,
        e_queued_at := Some now, e_timeout := er_timeout body\<rparr>"

definition ephemeral_job :: "execution \<Rightarrow> ephemeral_request \<Rightarrow> (string \<times> json) list" where
  "ephemeral_job e body =
     [(''execution_id'', JStr (str_nat (e_id e))), (''function_id'', JStr ''ephemeral''),
      (''version_id'', JStr ''ephemeral''), (''entrypoint'', JStr (er_entrypoint body)),
      (''payload'', er_event body), (''timeout'', JInt (er_timeout body)), (''environment'', JObj []),
      (''memory_mb'', JInt (er_memory_mb body)), (''execution_type'', JStr ''ephemeral''),
      (''source_code'', JStr (er_code body))]"

definition execute_ephemeral ::
  "settings \<Rightarrow> 'r redis \<Rightarrow> (nat \<Rightarrow> time) \<Rightarrow> ephemeral_request \<Rightarrow> principal \<Rightarrow> string \<Rightarrow> uuid \<Rightarrow> time \<Rightarrow>
   db \<times> 'r \<Rightarrow> execution result \<times> db \<times> 'r" where
  "execute_ephemeral cfg R clock body p minute i now ds =
     (let (d, s) = ds in
      case enforce_ephemeral_gate cfg of
        Inl e \<Rightarrow> (Inl e, d, s)
      | Inr _ \<Rightarrow>
          (case enforce_rate_limits cfg R (k_id (p_key p)) minute (d, s) of
             (Inl e, s1) \<Rightarrow> (Inl e, d, s1)
           | (Inr _, s1) \<Rightarrow>
               (let e = ephemeral_execution p body i now
                in case insert_execution e d of
                     (Inl x, d') \<Rightarrow> (Inl x, d', s1)
                   | (Inr _, d') \<Rightarrow>
                       (case submit_job R clock e (ephemeral_job e body) (d', s1) of
                          (e', d'', s') \<Rightarrow> (Inr e', d'', s')))))"

section \<open>Lemmas\<close>

lemma invoke_begin_Inl: "invoke_begin fid p payload r i now d = (Inl x, d') \<Longrightarrow> d' = d"
  by (auto simp: invoke_begin_def Let_def dest: insert_execution_Inl
      split: sum.splits option.splits prod.splits)

lemma invoke_begin_Inr:
  assumes "invoke_begin fid p payload r i now d = (Inr (e, job), d')"
  obtains fn v where "get_function_or_404 fid (u_id (p_user p)) d = Inr fn"
    "choose_execution_version d fn None r = Inr (Some v)"
    "e = function_execution fn v (u_id (p_user p)) (Some (k_id (p_key p))) payload (v_timeout v) i now"
    "job = function_job e fn v" "insert_execution e d = (Inr (), d')"
  using assms
  by (auto simp: invoke_begin_def Let_def split: sum.splits option.splits prod.splits)

lemma invoke_begin_db_ok [inv_intros]:
  assumes "db_ok d" and "invoke_begin fid p payload r i now d = (res, d')"
  shows "db_ok d'"
proof (cases res)
  case (Inl x)
  then show ?thesis using assms invoke_begin_Inl by blast
next
  case (Inr q)
  obtain e job where q: "q = (e, job)" by (cases q)
  show ?thesis
    by (rule invoke_begin_Inr [OF assms(2) [unfolded Inr q]]) (use assms(1) db_ok_insert_execution in blast)
qed

lemma invoke_function_db_ok [inv_intros]:
  assumes "db_ok d" and "invoke_function R clock fid p payload r i now (d, s) = (res, d', s')"
  shows "db_ok d'"
proof -
  obtain b d1 where b: "invoke_begin fid p payload r i now d = (b, d1)" by fastforce
  then have "db_ok d1" using assms(1) invoke_begin_db_ok by blast
  then show ?thesis using assms(2) b
    by (cases b) (auto simp: invoke_function_def submit_job_db split: prod.splits)
qed

lemma ephemeral_execution_simps [simp]:
  "e_id (ephemeral_execution p body i now) = i" "e_status (ephemeral_execution p body i now) = QUEUED"
  "e_function_id (ephemeral_execution p body i now) = None"
  "e_execution_type (ephemeral_execution p body i now) = ''ephemeral''"
  "e_api_key_id (ephemeral_execution p body i now) = Some (k_id (p_key p))"
  "e_triggered_by (ephemeral_execution p body i now) = Some (u_id (p_user p))"
  by (simp_all add: ephemeral_execution_def new_execution_def)

lemma execute_ephemeral_outcome:
  assumes "execute_ephemeral cfg R clock body p minute i now (d, s) = (res, d', s')"
  shows "(\<exists>x. res = Inl x \<and> d' = d) \<or>
    (\<exists>e d1 s1. enforce_ephemeral_gate cfg = Inr () \<and>
       enforce_rate_limits cfg R (k_id (p_key p)) minute (d, s) = (Inr (), s1) \<and>
       insert_execution (ephemeral_execution p body i now) d = (Inr (), d1) \<and>
       submit_job R clock (ephemeral_execution p body i now)
         (ephemeral_job (ephemeral_execution p body i now) body) (d1, s1) = (e, d', s') \<and> res = Inr e)"
proof (cases "enforce_ephemeral_gate cfg")
  case (Inr g)
  obtain rl s1 where rl: "enforce_rate_limits cfg R (k_id (p_key p)) minute (d, s) = (rl, s1)" by fastforce
  obtain ir d1 where ir: "insert_execution (ephemeral_execution p body i now) d = (ir, d1)" by fastforce
  obtain e2 d2 s2 where sub: "submit_job R clock (ephemeral_execution p body i now)
      (ephemeral_job (ephemeral_execution p body i now) body) (d1, s1) = (e2, d2, s2)"
    by (metis prod_cases3)
  show ?thesis
  proof (cases rl)
    case (Inl x)
    then show ?thesis using assms Inr rl by (auto simp: execute_ephemeral_def)
  next
    case rl': (Inr u)
    show ?thesis
    proof (cases ir)
      case (Inl x)
      then have "d1 = d" using ir insert_execution_Inl by blast
      then show ?thesis using assms Inr rl rl' ir Inl by (auto simp: execute_ephemeral_def Let_def)
    next
      case ir': (Inr w)
      then have "res = Inr e2" "d' = d2" "s' = s2"
        using assms Inr rl rl' ir sub by (simp_all add: execute_ephemeral_def Let_def)
      then show ?thesis using Inr rl rl' ir ir' sub by auto
    qed
  qed
qed (use assms in \<open>auto simp: execute_ephemeral_def\<close>)

lemma execute_ephemeral_db_ok [inv_intros]:
  assumes "db_ok d" and "execute_ephemeral cfg R clock body p minute i now (d, s) = (res, d', s')"
  shows "db_ok d'"
  using execute_ephemeral_outcome [OF assms(2)]
proof (elim disjE exE conjE)
  fix e d1 s1
  let ?e = "ephemeral_execution p body i now"
  assume "insert_execution ?e d = (Inr (), d1)"
    and "submit_job R clock ?e (ephemeral_job ?e body) (d1, s1) = (e, d', s')"
  then show ?thesis using db_ok_insert_execution [OF assms(1)] submit_job_db by metis
qed (use assms(1) in simp)

text \<open>The polling ends once the clock passes the deadline, with the last row it read.\<close>

lemma wait_loop_ends:
  assumes adv: "\<And>n. clock n + 100000 \<le> clock (Suc n)"
  shows "\<exists>r. wait_loop i clock deadline view n e = Some r \<and>
    (\<forall>x. r = Inr x \<longrightarrow> x = e \<or> (\<exists>m. find (\<lambda>y. e_id y = i) (t_executions (view m)) = Some x))"
proof (induction "nat (deadline - clock n)" arbitrary: n e rule: less_induct)
  case less
  show ?case
  proof (cases "clock n < deadline")
    case True
    show ?thesis
    proof (cases "find (\<lambda>y. e_id y = i) (t_executions (view n))")
      case (Some e')
      have "nat (deadline - clock (Suc n)) < nat (deadline - clock n)" using True adv [of n] by simp
      from less [OF this, of e'] obtain r where r: "wait_loop i clock deadline view (Suc n) e' = Some r"
        "\<forall>x. r = Inr x \<longrightarrow> x = e' \<or> (\<exists>m. find (\<lambda>y. e_id y = i) (t_executions (view m)) = Some x)" by blast
      show ?thesis
      proof (cases "is_terminal (e_status e')")
        case True
        then show ?thesis using \<open>clock n < deadline\<close> Some
          by (auto simp: wait_loop.simps [of i clock deadline view n])
      next
        case False
        then have "wait_loop i clock deadline view n e = Some r"
          using True Some r(1) by (simp add: wait_loop.simps [of i clock deadline view n])
        then show ?thesis using r(2) Some by auto
      qed
    qed (use True in \<open>auto simp: wait_loop.simps [of i clock deadline view n]\<close>)
  qed (auto simp: wait_loop.simps [of i clock deadline view n])
qed

end
