(* ===== verification/Execution_Properties.thy ===== *)
theory Execution_Properties
  imports Worker Invoke_Router Demo
begin

text \<open>
  The life of an execution, from the request that creates it over the worker that runs it to the
  recovery of one whose worker never reported, each property with a witness on the sample
  installation and the Redis server in memory.
\<close>

section \<open>The state machine\<close>



section \<open>Who sees an execution\<close>



text \<open>Deleting a function hides none of its history from the user who deletes it: every execution
  that ran for the function is still readable for that user, detached from the function.\<close>

theorem deleted_history_visible:
  assumes "db_ok d" and "get_db_with (delete_function cfg M fid user) (d, s) = (Inr (), d', s')"
    and "e \<in> set (t_executions d)" and "e_function_id e = Some fid"
  shows "\<exists>e'. get_execution (e_id e) user d' = Inr e' \<and> e_function_id e' = None \<and>
    e_status e' = e_status e \<and> e_result e' = e_result e"
proof -
  have run: "delete_function cfg M fid user (d, s) = (Inr (), d', s')" using assms(2) by (simp add: get_db_with_Inr_iff)
  from delete_function_outcome [OF run] obtain fn where fn: "get_function_or_404 fid user d = Inr fn"
    and d': "d' = detach_and_delete fn user d" by auto
  have id: "f_id fn = fid" using get_function_Inr [OF fn] by simp
  let ?e = "detached fn user d e"
  have "?e \<in> set (t_executions d')" using assms(3) by (simp add: d' detach_executions)
  moreover have row: "e_function_id ?e = None" "e_triggered_by ?e = Some user"
    using assms(4) id by (simp_all add: detached_def Let_def)
  moreover have "keys_ok d'" using detach_and_delete_db_ok [OF assms(1)] by (simp add: d' db_ok_keys)
  ultimately have "get_execution (e_id ?e) user d' = Inr ?e"
    by (intro get_execution_found) (simp_all add: owner_clause_iff)
  then show ?thesis using row(1) by (intro exI [of _ ?e]) simp
qed

definition settled_db :: db where
  "settled_db = demo_db\<lparr>t_executions := [demo_execution 32 COMPLETED]\<rparr>"

lemma settled_db_simps [simp]:
  "t_executions settled_db = [demo_execution 32 COMPLETED]" "t_functions settled_db = [demo_fn, demo_other_fn]"
  "t_versions settled_db = [demo_version 20 1, demo_version 21 2]"
  by (simp_all add: settled_db_def)

lemma settled_db_ok: "db_ok settled_db"
  unfolding settled_db_def by (rule db_ok_demo_executions) simp

theorem deleted_history_visible_witness:
  "\<exists>d' s' e'. get_db_with (delete_function default_settings memory_minio 10 1) (settled_db, []) = (Inr (), d', s') \<and>
     get_execution 32 1 d' = Inr e' \<and> e_status e' = COMPLETED"
proof -
  have lk: "get_function_or_404 10 1 settled_db = Inr demo_fn"
    using demo_lookup by (simp add: get_function_or_404_def)
  obtain d' s' where run: "get_db_with (delete_function default_settings memory_minio 10 1) (settled_db, [])
      = (Inr (), d', s')"
    by (simp del: One_nat_def add: get_db_with_def delete_function_def lk count_where_def active_statuses_def
        delete_artifact_def memory_minio_def)
  from deleted_history_visible [OF settled_db_ok run, of "demo_execution 32 COMPLETED"] run show ?thesis by auto
qed

section \<open>Requesting an execution\<close>

lemma update_fresh_row:
  "\<forall>x \<in> set (t_executions d). e_id x \<noteq> i \<Longrightarrow> e_id e = i \<Longrightarrow>
   set_execution i g (d\<lparr>t_executions := t_executions d @ [e]\<rparr>) = d\<lparr>t_executions := t_executions d @ [g e]\<rparr>"
  by (simp add: set_execution_def update_where_def map_idI)

text \<open>The committed row and the queue after a submission, whether or not the push succeeded.\<close>

definition submitted ::
  "('r \<Rightarrow> zsets) \<Rightarrow> execution \<Rightarrow> (string \<times> json) list \<Rightarrow> (nat \<Rightarrow> time) \<Rightarrow> 'r \<Rightarrow> 'r \<Rightarrow> bool" where
  "submitted zs e job clock s s' \<longleftrightarrow>
     (\<exists>n < max_attempts. zs s' = zput queue_name (dumps (job_object (str_nat (e_id e)) job)) (job_score (clock n) 0) (zs s))"

lemma queue_failed_simps [simp]:
  "e_id (queue_failed x e) = e_id e" "e_status (queue_failed x e) = FAILED"
  "e_failure_kind (queue_failed x e) = Some ''queue''" "e_triggered_by (queue_failed x e) = e_triggered_by e"
  "e_function_version_id (queue_failed x e) = e_function_version_id e"
  "e_function_id (queue_failed x e) = e_function_id e"
  "function_job (queue_failed x e) fn v = function_job e fn v"
  "submitted zs (queue_failed x e) job clock s s' = submitted zs e job clock s s'"
  by (simp_all add: queue_failed_def function_job_def submitted_def)

context redis_server begin

lemma submit_job_outcome:
  assumes "insert_execution e0 d = (Inr (), d1)" and "submit_job R clock e0 job (d1, s) = (e, d', s')"
  shows "d' = d\<lparr>t_executions := t_executions d @ [e]\<rparr> \<and> kv s' = kv s \<and>
    (e = e0 \<and> submitted zs e0 job clock s s' \<or>
     (\<exists>x. e = queue_failed x e0) \<and> (submitted zs e0 job clock s s' \<or> zs s' = zs s))"
proof -
  obtain r s1 where enq: "enqueue_job R clock (str_nat (e_id e0)) job 0 s = (r, s1)" by fastforce
  have fresh: "\<forall>x \<in> set (t_executions d). e_id x \<noteq> e_id e0" and d1: "d1 = d\<lparr>t_executions := t_executions d @ [e0]\<rparr>"
    using assms(1) by (simp_all add: insert_execution_Inr)
  note eff = enqueue_effect [OF enq]
  show ?thesis
  proof (cases r)
    case (Inl x)
    then have "e = queue_failed x e0" "d' = mark_queue_failed (e_id e0) x d1" "s' = s1"
      using assms(2) enq by (simp_all add: submit_job_def)
    then show ?thesis using eff update_fresh_row [OF fresh] d1
      by (auto simp: mark_queue_failed_def submitted_def)
  next
    case (Inr u)
    then have "e = e0" "d' = d1" "s' = s1" using assms(2) enq by (simp_all add: submit_job_def)
    then show ?thesis using eff Inr d1 by (auto simp: submitted_def)
  qed
qed

end


definition demo_trigger :: execution_trigger where
  "demo_trigger = \<lparr>et_payload = JObj [], et_version_id = None, et_timeout = None\<rparr>"


section \<open>Cancelling\<close>

text \<open>C24: Cancelling a visible execution succeeds exactly while it is not settled; it changes that row's
  status alone, and the job that is still in the queue is then refused by every worker. A settled
  execution answers 409 and nothing changes.\<close>

theorem cancel_execution_spec:
  assumes "keys_ok d" and "e \<in> set (t_executions d)" and "execution_owner_clause d user e"
  shows "if is_terminal (e_status e)
    then \<exists>m. cancel_execution (e_id e) user d = (Inl (HTTPException 409 m), d)
    else cancel_execution (e_id e) user d = (Inr (), set_execution (e_id e) (\<lambda>_. e\<lparr>e_status := CANCELLED\<rparr>) d) \<and>
      t_executions (snd (cancel_execution (e_id e) user d)) =
        map (\<lambda>x. if x = e then e\<lparr>e_status := CANCELLED\<rparr> else x) (t_executions d) \<and>
      worker_begin wid now (e_id e) (snd (cancel_execution (e_id e) user d)) =
        (Inr False, snd (cancel_execution (e_id e) user d))"
proof -
  note found = get_execution_found [OF assms]
  show ?thesis
  proof (cases "is_terminal (e_status e)")
    case True
    then obtain x where "transition_to CANCELLED e = Inl x" using transition_to_terminal by blast
    then show ?thesis using True by (simp add: cancel_execution_def found)
  next
    case False
    let ?e = "e\<lparr>e_status := CANCELLED\<rparr>" and ?d = "set_execution (e_id e) (\<lambda>_. e\<lparr>e_status := CANCELLED\<rparr>) d"
    have "transition_to CANCELLED e = Inr ?e" using False by (cases "e_status e") (simp_all add: transition_to_Inr)
    then have run: "cancel_execution (e_id e) user d = (Inr (), ?d)" by (simp add: cancel_execution_def found)
    note rows = set_execution_executions [OF assms(1,2), of "\<lambda>_. ?e"]
    have "keys_ok ?d" using assms(1) by (simp add: keys_ok_def set_execution_def update_where_def comp_def if_distrib cong: if_cong)
    moreover have mem: "?e \<in> set (t_executions ?d)" using assms(2) by (force simp: rows)
    ultimately have "worker_begin wid now (e_id ?e) ?d = (Inr False, ?d)"
      by (subst worker_begin_row) simp_all
    then show ?thesis using False run rows by simp
  qed
qed

theorem cancel_execution_spec_witness:
  "fst (cancel_execution 31 1 demo_db) = Inr () \<and> (\<exists>m. cancel_execution 32 1 demo_db = (Inl (HTTPException 409 m), demo_db))"
proof -
  have own: "execution_owner_clause demo_db 1 (demo_execution i st)" for i st by (simp add: owner_clause_iff)
  show ?thesis
    using cancel_execution_spec [OF demo_keys_ok _ own, of 31 RUNNING] cancel_execution_spec [OF demo_keys_ok _ own, of 32 COMPLETED]
    by simp
qed

end
