(* ===== verification/Worker_Properties.thy ===== *)
theory Worker_Properties
  imports Worker Demo
begin

text \<open>
  What the worker does with a job: it claims an execution once, settles it whatever the sandbox
  does, never moves a settled one, and recovers exactly the overdue ones.
\<close>

section \<open>Claiming\<close>

lemma set_execution_keys:
  assumes "keys_ok d" and "e \<in> set (t_executions d)" and "e_id e' = e_id e"
  shows "keys_ok (set_execution (e_id e) (\<lambda>_. e') d) \<and> e' \<in> set (t_executions (set_execution (e_id e) (\<lambda>_. e') d))"
proof -
  have rows: "t_executions (set_execution (e_id e) (\<lambda>_. e') d) = map (\<lambda>x. if x = e then e' else x) (t_executions d)"
    by (rule set_execution_executions [OF assms(1,2)])
  have "map e_id (map (\<lambda>x. if x = e then e' else x) (t_executions d)) = map e_id (t_executions d)"
    using assms(3) by simp
  then have "distinct (map e_id (t_executions (set_execution (e_id e) (\<lambda>_. e') d)))"
    using assms(1) unfolding rows by (simp only: keys_ok_executions)
  then have "keys_ok (set_execution (e_id e) (\<lambda>_. e') d)"
    using assms(1) by (simp add: keys_ok_def set_execution_def)
  then show ?thesis using assms(2) by (force simp: rows)
qed

text \<open>C3: A worker claims an execution exactly when it is QUEUED, and then only that row changes: it is
  RUNNING under the worker's name. A second delivery of the same job, to any worker, claims nothing.\<close>

theorem claim_once:
  assumes "keys_ok d" and "e \<in> set (t_executions d)"
    and "worker_begin w1 t1 (e_id e) d = (r, d')"
  shows "r = Inr (e_status e = QUEUED) \<and> (e_status e \<noteq> QUEUED \<longrightarrow> d' = d) \<and>
    (e_status e = QUEUED \<longrightarrow>
       t_executions d' = map (\<lambda>x. if x = e then e\<lparr>e_status := RUNNING, e_started_at := Some t1, e_worker_id := Some w1\<rparr>
                                  else x) (t_executions d) \<and>
       worker_begin w2 t2 (e_id e) d' = (Inr False, d'))"
proof (cases "e_status e = QUEUED")
  case True
  let ?e = "e\<lparr>e_status := RUNNING, e_started_at := Some t1, e_worker_id := Some w1\<rparr>"
  have d': "r = Inr True" "d' = set_execution (e_id e) (\<lambda>_. ?e) d"
    using assms(3) True by (simp_all add: worker_begin_row [OF assms(1,2)])
  have "keys_ok d'" "?e \<in> set (t_executions d')"
    using set_execution_keys [OF assms(1,2), of ?e] by (simp_all add: d')
  then have "worker_begin w2 t2 (e_id ?e) d' = (Inr False, d')" by (subst worker_begin_row) simp_all
  then show ?thesis using True d' set_execution_executions [OF assms(1,2), of "\<lambda>_. ?e"] by simp
next
  case False
  then show ?thesis using assms(3) by (auto simp: worker_begin_row [OF assms(1,2)])
qed

theorem claim_once_witness:
  "fst (worker_begin ''w'' 5 30 demo_db) = Inr True \<and> fst (worker_begin ''w'' 5 31 demo_db) = Inr False"
proof -
  obtain r d' r2 d2 where run: "worker_begin ''w'' 5 (e_id (demo_execution 30 QUEUED)) demo_db = (r, d')"
    "worker_begin ''w'' 5 (e_id (demo_execution 31 RUNNING)) demo_db = (r2, d2)" by fastforce
  show ?thesis
    using claim_once [OF demo_keys_ok _ run(1)] claim_once [OF demo_keys_ok _ run(2)] run by simp
qed

section \<open>Running\<close>

lemma set_execution_twice:
  "e_id y = i \<Longrightarrow> set_execution i (\<lambda>_. z) (set_execution i (\<lambda>_. y) d) = set_execution i (\<lambda>_. z) d"
  by (simp add: set_execution_def update_where_def)

text \<open>What a run of a queued execution leaves, row and logs.\<close>

lemma process_job_row:
  fixes w :: processing and job :: json and e :: execution
  defines "sr \<equiv> settle (wp_elapsed_ms w) (wp_run w (job_dict job))"
    and "started \<equiv> e\<lparr>e_status := RUNNING, e_started_at := Some (wp_begin w), e_worker_id := Some (wp_worker_id w)\<rparr>"
  assumes "keys_ok d" and "e \<in> set (t_executions d)" and "e_status e = QUEUED"
    and "job_id_of job = Inr (str_nat (e_id e))" and "wp_other w = (\<lambda>d. d)"
    and "error_text (sr_error sr) = Inr err"
  shows "process_job w job d = (Inr (),
    (set_execution (e_id e) (\<lambda>_. finished_row sr err (wp_elapsed_ms w) (wp_end w) started) d)
      \<lparr>t_logs := t_logs d @ log_rows (e_id e) (wp_end w) (sr_logs sr)\<rparr>)"
proof -
  let ?d = "set_execution (e_id e) (\<lambda>_. started) d"
  have id: "e_id started = e_id e" by (simp add: started_def)
  have "worker_begin (wp_worker_id w) (wp_begin w) (e_id e) d = (Inr True, ?d)"
    using assms(5) by (simp add: worker_begin_row [OF assms(3,4)] started_def)
  moreover have k: "keys_ok ?d" "started \<in> set (t_executions ?d)"
    using set_execution_keys [OF assms(3,4) id] by simp_all
  then have "worker_finish sr (wp_elapsed_ms w) (wp_end w) (e_id started) ?d =
      (Inr (), (set_execution (e_id started) (\<lambda>_. finished_row sr err (wp_elapsed_ms w) (wp_end w) started) ?d)
         \<lparr>t_logs := t_logs ?d @ log_rows (e_id started) (wp_end w) (sr_logs sr)\<rparr>)"
    by (intro worker_finish_row) (simp_all add: assms(8))
  ultimately show ?thesis
    by (simp add: process_job_def assms(6,7) get_db_def id set_execution_twice flip: sr_def)
       (simp add: set_execution_def)
qed


definition demo_processing :: "sandbox_outcome \<Rightarrow> processing" where
  "demo_processing outcome = \<lparr>wp_worker_id = ''w'', wp_begin = 5, wp_run = (\<lambda>_. outcome), wp_elapsed_ms = 7,
     wp_end = 9, wp_other = (\<lambda>d. d)\<rparr>"

definition demo_job :: json where
  "demo_job = JObj [(''job_id'', JStr (str_nat 30))]"


section \<open>Late reports\<close>

text \<open>A report that arrives for a settled execution, one cancelled or recovered meanwhile, never
  changes its status; but the refused transition is swallowed and the result, the error, the failure
  kind and the completion time of the settled row are overwritten, and the log lines are added.\<close>

theorem late_report_keeps_status:
  assumes "keys_ok d" and "e \<in> set (t_executions d)" and "is_terminal (e_status e)"
    and "error_text (sr_error sr) = Inr err" and "worker_finish sr ms now (e_id e) d = (r, d')"
  shows "\<exists>e'. r = Inr () \<and> t_executions d' = map (\<lambda>x. if x = e then e' else x) (t_executions d) \<and>
    e_status e' = e_status e \<and> e_result e' = sr_result sr \<and> e_error_message e' = err \<and>
    e_failure_kind e' = failure_kind_of (sr_success sr) err \<and> e_completed_at e' = Some now \<and>
    t_logs d' = t_logs d @ log_rows (e_id e) now (sr_logs sr)"
proof -
  let ?f = "finished_row sr err ms now e"
  have d': "r = Inr ()"
    "d' = (set_execution (e_id e) (\<lambda>_. ?f) d)\<lparr>t_logs := t_logs d @ log_rows (e_id e) now (sr_logs sr)\<rparr>"
    using assms(5) by (simp_all add: worker_finish_row [OF assms(1,2,4)])
  have "e_status ?f = e_status e" by (simp add: move_status_terminal [OF assms(3)])
  then show ?thesis
    using set_execution_executions [OF assms(1,2), of "\<lambda>_. ?f"]
    by (intro exI [of _ ?f]) (simp add: d' finished_row_def move_status_terminal [OF assms(3)])
qed

theorem late_report_keeps_status_witness:
  "\<exists>d' e'. worker_finish (failure ''boom'' []) 3 9 32 demo_db = (Inr (), d') \<and> e' \<in> set (t_executions d') \<and>
     e_status e' = COMPLETED \<and> e_failure_kind e' = Some ''handler'' \<and> e_error_message e' = Some ''boom''"
proof -
  obtain r d' where run: "worker_finish (failure ''boom'' []) 3 9 (e_id (demo_execution 32 COMPLETED)) demo_db = (r, d')"
    by fastforce
  have err: "error_text (sr_error (failure ''boom'' [])) = Inr (Some ''boom'')"
    by (simp add: failure_def error_text_def)
  obtain e' where "r = Inr ()" "t_executions d' = map (\<lambda>x. if x = demo_execution 32 COMPLETED then e' else x) (t_executions demo_db)"
    "e_status e' = COMPLETED" "e_error_message e' = Some ''boom''"
    "e_failure_kind e' = failure_kind_of (sr_success (failure ''boom'' [])) (Some ''boom'')"
    using late_report_keeps_status [OF demo_keys_ok _ _ err run] by auto
  then show ?thesis using run
    by (intro exI [of _ d'] exI [of _ e']) (simp add: failure_kind_of_def failure_def)
qed

section \<open>Recovery\<close>

lemma is_stale_iff:
  "is_stale cfg now e \<longleftrightarrow> e_status e = RUNNING \<and>
     (\<exists>t. e_started_at e = Some t \<and> t + seconds (max 1 (e_timeout e) * 2 + worker_stale_timeout_grace cfg) \<le> now)"
  by (auto simp: is_stale_def stale_after_def split: option.splits)



section \<open>Acknowledgement\<close>

context redis_server begin

lemma queue_depth_same:
  assumes "queue_depth R s = (r, s')"
  shows "zs s' = zs s"
proof -
  have "case r of Inl e \<Rightarrow> zs s' = zs s | Inr a \<Rightarrow> zs s' = zs s"
  proof (rule redis_retry_total_inv [OF assms [unfolded queue_depth_def],
        where I = "\<lambda>x. zs x = zs s" and Q = "\<lambda>a x. zs x = zs s"])
  qed (auto dest: zcard_ok zcard_err)
  then show ?thesis by (cases r) simp_all
qed

end

text \<open>A job whose processing raised is not acknowledged: it has left the waiting set and stays in the
  processing set, from which nothing in the code takes it back.\<close>

theorem crashed_job_unacknowledged:
  assumes "redis_server R zs kv rest rank"
    and "dequeue_job R (max 1 (worker_queue_poll_interval cfg)) s = (Inr (Some job), s1)"
    and "process_job w job d = (Inl x, d1)"
    and "poll_once cfg R w (d, s) = Some (r, d', s')"
  shows "(\<exists>y. r = Inl y) \<and>
    (\<exists>m. loads m = Some job \<and> zs s queue_name m \<noteq> None \<and> zs s' queue_name m = None \<and> zs s' processing_set m \<noteq> None)"
proof -
  obtain q s2 where depth: "queue_depth R s1 = (q, s2)" by fastforce
  have same: "zs s2 = zs s1"
    using redis_server.queue_depth_same [OF assms(1) depth] .
  have out: "(\<exists>y. r = Inl y) \<and> s' = s2"
    using assms(4) by (cases q) (auto simp: poll_once_def assms(2,3) depth)
  from redis_server.dequeue_last [OF assms(1,2)] obtain s0
    where lp: "redis_server.less_pending zs s s0" and at: "dequeue_attempt R (max 1 (worker_queue_poll_interval cfg)) s0 = (Inr (Some job), s1)"
    by blast
  from redis_server.dequeue_attempt_some [OF assms(1) at] obtain m sc where m: "loads m = Some job"
    "zs s0 queue_name m = Some sc" "zs s1 = zput processing_set m sc (zdel queue_name m (zs s0))" by blast
  have "zs s queue_name m = Some sc"
    using lp m(2) by (auto simp: redis_server.less_pending_def [OF assms(1)] map_le_def dom_def)
  then show ?thesis using m out same
    by (auto simp: zput_apply zdel_apply queue_name_def processing_set_def)
qed

theorem crashed_job_unacknowledged_witness:
  "\<exists>m. loads m = Some (JObj []) \<and> mem_zs (mem_zset queue_name [(''{}'', 5)] mem_empty) queue_name m \<noteq> None"
proof -
  let ?s = "mem_zset queue_name [(''{}'', 5)] mem_empty" and ?w = "demo_processing TookTooLong"
  have l: "loads ''{}'' = Some (JObj [])" by code_simp
  obtain s1 where deq: "dequeue_job mem_redis (max 1 (worker_queue_poll_interval default_settings)) ?s = (Inr (Some (JObj [])), s1)"
    by (simp add: dequeue_job_def redis_retry_total_first dequeue_attempt_def mem_redis_def mem_zset_def mem_empty_def
        live_def l)
  have bad: "process_job ?w (JObj []) demo_db = (Inl (OtherError ''KeyError: job_id''), demo_db)"
    by (simp add: process_job_def job_id_of_def need_str_def)
  obtain q s2 where depth: "queue_depth mem_redis s1 = (q, s2)" by fastforce
  obtain r d' s' where run: "poll_once default_settings mem_redis ?w (demo_db, ?s) = Some (r, d', s')"
    using depth by (cases q) (auto simp: poll_once_def deq bad simp del: default_settings_simps)
  from crashed_job_unacknowledged [OF mem.redis_server_axioms deq bad run] show ?thesis by blast
qed

end
