(* ===== verification/Queue_Refinement.thy ===== *)
theory Queue_Refinement
  imports Queue_Contract "HOL-Library.Multiset"
begin

text \<open>
  What the queue is for its clients: a bag of jobs that may lose some. The specification is a
  transition system over multisets of jobs; every sequence of calls of the queue helpers, by any
  number of API processes, schedulers and workers, is one of its runs.
\<close>

section \<open>The specification\<close>

datatype queue_event = Submit json | Serve json | Idle

text \<open>A job served was in the bag and leaves it; the queue is reported idle only when the bag is empty.\<close>

inductive lossy_bag :: "queue_event list \<Rightarrow> json multiset \<Rightarrow> bool" where
  bag_empty: "lossy_bag [] {#}"
| bag_submit: "lossy_bag es b \<Longrightarrow> lossy_bag (es @ [Submit j]) (add_mset j b)"
| bag_serve: "lossy_bag es (add_mset j b) \<Longrightarrow> lossy_bag (es @ [Serve j]) b"
| bag_idle: "lossy_bag es {#} \<Longrightarrow> lossy_bag (es @ [Idle]) {#}"
| bag_lose: "lossy_bag es (add_mset j b) \<Longrightarrow> lossy_bag es b"

lemma bag_lose_all:
  assumes "lossy_bag es b" and "c \<subseteq># b"
  shows "lossy_bag es c"
proof -
  have "lossy_bag es (c + d) \<Longrightarrow> lossy_bag es c" for d
    by (induction d) (auto intro: bag_lose)
  then show ?thesis using assms by (auto simp: mset_subset_eq_exists_conv)
qed

text \<open>A job is served at most as often as it was submitted.\<close>

lemma bag_counts: "lossy_bag es b \<Longrightarrow> count b j + count_list es (Serve j) \<le> count_list es (Submit j)"
  by (induction rule: lossy_bag.induct) (auto split: if_splits)

section \<open>The calls\<close>

text \<open>
  A sequence of calls of the three helpers, in the order the server sees them. A failed call of
  \<open>dequeue_job\<close> and an acknowledgement are silent; a submission counts whatever the client heard.
\<close>

inductive calls ::
  "((nat \<Rightarrow> time) \<Rightarrow> string \<Rightarrow> (string \<times> json) list \<Rightarrow> int \<Rightarrow> 's \<Rightarrow> unit result \<times> 's) \<Rightarrow>
   (int \<Rightarrow> 's \<Rightarrow> json option result \<times> 's) \<Rightarrow> (string \<Rightarrow> 's \<Rightarrow> (unit result \<times> 's) option) \<Rightarrow>
   's \<Rightarrow> queue_event list \<Rightarrow> 's \<Rightarrow> bool"
  for enq deq ack s where
  call_none: "calls enq deq ack s [] s"
| call_enqueue:
    "calls enq deq ack s es s1 \<Longrightarrow> wf_json (job_object i p) \<Longrightarrow> enq clock i p pr s1 = (r, s2) \<Longrightarrow>
     calls enq deq ack s (es @ [Submit (job_object i p)]) s2"
| call_dequeue:
    "calls enq deq ack s es s1 \<Longrightarrow> deq t s1 = (Inr (Some j), s2) \<Longrightarrow> calls enq deq ack s (es @ [Serve j]) s2"
| call_idle: "calls enq deq ack s es s1 \<Longrightarrow> deq t s1 = (Inr None, s2) \<Longrightarrow> calls enq deq ack s (es @ [Idle]) s2"
| call_failed: "calls enq deq ack s es s1 \<Longrightarrow> deq t s1 = (Inl e, s2) \<Longrightarrow> calls enq deq ack s es s2"
| call_ack: "calls enq deq ack s es s1 \<Longrightarrow> ack i s1 = Some (r, s2) \<Longrightarrow> calls enq deq ack s es s2"

section \<open>The abstraction\<close>

definition jobs_of :: "string set \<Rightarrow> json multiset" where
  "jobs_of ms = image_mset (\<lambda>m. the (loads m)) (mset_set ms)"

definition readable_jobs :: "(string \<Rightarrow> int option) \<Rightarrow> bool" where
  "readable_jobs w \<longleftrightarrow> finite (dom w) \<and> (\<forall>m \<in> dom w. loads m \<noteq> None)"

lemma jobs_of_empty [simp]: "jobs_of {} = {#}"
  by (simp add: jobs_of_def)

lemma jobs_of_insert: "finite ms \<Longrightarrow> m \<notin> ms \<Longrightarrow> loads m = Some j \<Longrightarrow> jobs_of (insert m ms) = add_mset j (jobs_of ms)"
  by (simp add: jobs_of_def)

lemma jobs_of_mono: "finite ms \<Longrightarrow> ns \<subseteq> ms \<Longrightarrow> jobs_of ns \<subseteq># jobs_of ms"
  by (simp add: jobs_of_def image_mset_subseteq_mono subset_imp_msubset_mset_set)

lemma readable_jobs_mono: "readable_jobs w \<Longrightarrow> v \<subseteq>\<^sub>m w \<Longrightarrow> readable_jobs v"
  unfolding readable_jobs_def by (metis domIff finite_subset map_le_def map_le_implies_dom_le subset_iff)

section \<open>The simulation\<close>

context job_queue begin

abbreviation waiting :: "'s \<Rightarrow> json multiset" where
  "waiting s \<equiv> jobs_of (dom (pend s))"

lemma submit_simulates:
  assumes "lossy_bag es (waiting s)" and "readable_jobs (pend s)" and "wf_json j"
    and "pend s' = pend s \<or> pend s' = (pend s)(dumps j \<mapsto> sc)"
  shows "lossy_bag (es @ [Submit j]) (waiting s') \<and> readable_jobs (pend s')"
proof -
  have add: "lossy_bag (es @ [Submit j]) (add_mset j (waiting s))" using assms(1) by (rule bag_submit)
  have read: "loads (dumps j) = Some j" using assms(3) by (rule loads_dumps)
  show ?thesis
  proof (cases "pend s' = pend s \<or> dumps j \<in> dom (pend s)")
    case True
    then have "dom (pend s') = dom (pend s)" using assms(4) by (metis dom_fun_upd insert_absorb option.distinct(1))
    then show ?thesis using bag_lose [OF add] assms(2) by (simp add: readable_jobs_def)
  next
    case False
    then have "dom (pend s') = insert (dumps j) (dom (pend s))" using assms(4) by auto
    then show ?thesis using add assms(2) read False by (auto simp: readable_jobs_def jobs_of_insert)
  qed
qed

lemma shrink_simulates:
  assumes "lossy_bag es (waiting s)" and "readable_jobs (pend s)" and "pend s' \<subseteq>\<^sub>m pend s"
  shows "lossy_bag es (waiting s') \<and> readable_jobs (pend s')"
proof
  have "waiting s' \<subseteq># waiting s"
    using assms(2) map_le_implies_dom_le [OF assms(3)] by (simp add: readable_jobs_def jobs_of_mono)
  then show "lossy_bag es (waiting s')" by (rule bag_lose_all [OF assms(1)])
qed (rule readable_jobs_mono [OF assms(2,3)])

lemma serve_simulates:
  assumes "lossy_bag es (waiting s)" and "readable_jobs (pend s)" and "deq t s = (Inr (Some j), s')"
  shows "lossy_bag (es @ [Serve j]) (waiting s') \<and> readable_jobs (pend s')"
proof -
  from deq_some [OF assms(3)] obtain m sc where m: "loads m = Some j" "pend s m = Some sc" "pend s' m = None"
    and sub: "pend s' \<subseteq>\<^sub>m pend s" by blast
  have fin: "finite (dom (pend s))" using assms(2) by (simp add: readable_jobs_def)
  have "waiting s = jobs_of (insert m (dom (pend s) - {m}))" using m(2) by (simp add: insert_absorb domI)
  also have "\<dots> = add_mset j (jobs_of (dom (pend s) - {m}))" using fin m(1) by (intro jobs_of_insert) auto
  finally have served: "lossy_bag (es @ [Serve j]) (jobs_of (dom (pend s) - {m}))" using assms(1) bag_serve by simp
  have "dom (pend s') \<subseteq> dom (pend s) - {m}" using map_le_implies_dom_le [OF sub] m(3) by blast
  then have "waiting s' \<subseteq># jobs_of (dom (pend s) - {m})" using fin by (intro jobs_of_mono) auto
  then show ?thesis using bag_lose_all [OF served] readable_jobs_mono [OF assms(2) sub] by simp
qed

lemma idle_simulates:
  assumes "lossy_bag es (waiting s)" and "deq t s = (Inr None, s')"
  shows "lossy_bag (es @ [Idle]) (waiting s') \<and> readable_jobs (pend s')"
  using deq_none [OF assms(2)] bag_idle bag_lose_all [OF assms(1), of "{#}"] by (simp add: readable_jobs_def)

lemma calls_simulate:
  assumes "calls enq deq ack s es s'" and "pend s = Map.empty"
  shows "lossy_bag es (waiting s') \<and> readable_jobs (pend s')"
  using assms(1)
proof (induction rule: calls.induct)
  case call_none
  show ?case using assms(2) by (simp add: readable_jobs_def bag_empty)
next
  case (call_enqueue es s1 i p clock pr r s2)
  then show ?case using enq_ok enq_err by (cases r) (metis submit_simulates)+
next
  case (call_dequeue es s1 t j s2)
  then show ?case using serve_simulates by blast
next
  case (call_idle es s1 t s2)
  then show ?case using idle_simulates by blast
next
  case (call_failed es s1 t e s2)
  then show ?case using shrink_simulates deq_shrinks by blast
next
  case (call_ack es s1 i r s2)
  then show ?case using ack_frame by (cases r) simp_all
qed

end

section \<open>The queue of the program\<close>

context redis_server begin

lemmas server_calls_simulate = queue.calls_simulate

end

lemma mem_enqueue_dequeue:
  obtains s1 s2 where
    "enqueue_job mem_redis (\<lambda>n. int n) ''7'' [(''payload'', JObj [])] 0 mem_empty = (Inr (), s1)"
    "dequeue_job mem_redis 1 s1 = (Inr (Some (job_object ''7'' [(''payload'', JObj [])])), s2)"
proof -
  let ?j = "job_object ''7'' [(''payload'', JObj [])]"
  have wf: "wf_json ?j" by (simp add: job_object_def)
  obtain s1 where enq: "enqueue_job mem_redis (\<lambda>n. int n) ''7'' [(''payload'', JObj [])] 0 mem_empty = (Inr (), s1)"
    and s1: "s1 = mem_zset queue_name [(dumps ?j, job_score 0 0)] mem_empty"
    by (simp add: enqueue_job_def redis_retry_total_first mem_redis_def mem_empty_def al_del_def)
  obtain s2 where "dequeue_job mem_redis 1 s1 = (Inr (Some ?j), s2)"
    by (simp add: s1 dequeue_job_def redis_retry_total_first dequeue_attempt_def mem_redis_def mem_zset_def
        mem_empty_def live_def loads_dumps [OF wf])
  with enq show thesis by (rule that)
qed

lemma mem_queue_empty: "mem_zs mem_empty queue_name = Map.empty"
  by (simp add: mem_zs_def mem_empty_def fun_eq_iff)



end
