(* ===== verification/Queue_Properties.thy ===== *)
theory Queue_Properties
  imports Queue_Refinement
begin

text \<open>
  What the users of the queue and of the distributed lock rely on, over any Redis server that does
  what \<open>redis_server\<close> says; the witnesses run on the server in memory.
\<close>

text \<open>The laws of the two services, as facts about the server.\<close>

context redis_server begin

lemmas served_job = queue.deq_some
lemmas acknowledged = queue.ack_ends queue.ack_frame queue.ack_removes
lemmas lock_held = locks.acq_busy
lemmas lock_taken = locks.acq_got
lemmas lock_wait_ends = locks.acq_ends
lemmas lock_released = locks.rel_own locks.rel_other

end

section \<open>Jobs\<close>

text \<open>The job object always carries the execution id, when the payload has no key of that name.\<close>

lemma map_of_foldl_dict_set:
  "k \<notin> fst ` set p \<Longrightarrow> map_of (foldl (\<lambda>d (k, v). dict_set k v d) m p) k = map_of m k"
  by (induction p arbitrary: m) (auto simp: map_of_dict_set split: prod.splits)

lemma job_object_has_id:
  assumes "wf_json (job_object i p)" and "''job_id'' \<notin> fst ` set p"
  shows "has_job_id i (dumps (job_object i p))"
  using loads_dumps [OF assms(1)] map_of_foldl_dict_set [OF assms(2), of "[(''job_id'', JStr i)]"]
  by (simp add: has_job_id_def job_object_def)

text \<open>A job pushed on an idle queue is what the next worker reads: the JSON it gets is the job object
  that was enqueued, the queue is empty again, and the job is in the processing set under its
  execution id.\<close>

theorem enqueue_dequeue_roundtrip:
  assumes "redis_server R zs kv rest rank" and "zs s queue_name = Map.empty"
    and "wf_json (job_object i p)" and "''job_id'' \<notin> fst ` set p"
    and "enqueue_job R clock i p pr s = (Inr u, s1)" and "dequeue_job R t s1 = (Inr (Some j), s2)"
  shows "j = job_object i p \<and> zs s2 queue_name = Map.empty \<and>
    (\<exists>m \<in> dom (zs s2 processing_set). has_job_id i m \<and> loads m = Some j)"
proof -
  let ?m = "dumps (job_object i p)"
  obtain n where put: "zs s1 = zput queue_name ?m (job_score (clock n) pr) (zs s)"
    using redis_server.enqueue_effect [OF assms(1,5)] by auto
  from redis_server.served_job [OF assms(1,6)] obtain m sc where m: "loads m = Some j"
    "zs s1 queue_name m = Some sc" "zs s2 processing_set m = Some sc" "zs s2 queue_name m = None"
    "zs s2 queue_name \<subseteq>\<^sub>m zs s1 queue_name" by blast
  have one: "m = ?m" using m(2) assms(2) by (auto simp: put zput_apply split: if_splits)
  have "zs s2 queue_name x = None" for x
    using m(4,5) one assms(2) by (cases "x = ?m") (auto simp: put zput_apply map_le_def dom_def split: if_splits)
  then have "zs s2 queue_name = Map.empty" by (rule ext)
  moreover have "j = job_object i p" using m(1) loads_dumps [OF assms(3)] one by simp
  ultimately show ?thesis using m(1,3) one job_object_has_id [OF assms(3,4)] by (auto simp: dom_def)
qed

theorem enqueue_dequeue_roundtrip_witness:
  "\<exists>s1 s2. enqueue_job mem_redis (\<lambda>n. int n) ''7'' [(''payload'', JObj [])] 0 mem_empty = (Inr (), s1) \<and>
     dequeue_job mem_redis 1 s1 = (Inr (Some (job_object ''7'' [(''payload'', JObj [])])), s2)"
proof -
  have wf: "wf_json (job_object ''7'' [(''payload'', JObj [])])" by (simp add: job_object_def)
  obtain s1 s2 where enq: "enqueue_job mem_redis (\<lambda>n. int n) ''7'' [(''payload'', JObj [])] 0 mem_empty = (Inr (), s1)"
    and deq: "dequeue_job mem_redis 1 s1 = (Inr (Some (job_object ''7'' [(''payload'', JObj [])])), s2)"
    by (rule mem_enqueue_dequeue)
  show ?thesis
    using enqueue_dequeue_roundtrip [OF mem.redis_server_axioms mem_queue_empty wf _ enq deq] enq deq by auto
qed

text \<open>C14: Workers take jobs by priority, then by age: the job taken has the smallest score of all, and a
  job of higher priority has a smaller score than any job of lower priority enqueued up to a million
  seconds before it; of two jobs of equal priority the earlier has the smaller score.\<close>

theorem dequeue_priority_order:
  assumes "redis_server R zs kv rest rank" and "dequeue_job R t s = (Inr (Some j), s')"
  shows "(\<exists>m sc. loads m = Some j \<and> zs s queue_name m = Some sc \<and>
      (\<forall>m' sc'. zs s' queue_name m' = Some sc' \<longrightarrow> sc \<le> sc')) \<and>
    (p2 < p1 \<and> t1 - t2 < seconds 1000000 \<longrightarrow> job_score t1 p1 < job_score t2 p2) \<and>
    (t1 < t2 \<longrightarrow> job_score t1 p < job_score t2 p)"
proof (intro conjI impI)
  show "\<exists>m sc. loads m = Some j \<and> zs s queue_name m = Some sc \<and>
      (\<forall>m' sc'. zs s' queue_name m' = Some sc' \<longrightarrow> sc \<le> sc')"
    using redis_server.served_job [OF assms] by blast
  show "job_score t1 p1 < job_score t2 p2" if "p2 < p1 \<and> t1 - t2 < seconds 1000000"
  proof -
    have "(p2 + 1) * 1000000000000 \<le> p1 * 1000000000000" using that by (intro mult_right_mono) simp_all
    then show ?thesis using that by (simp add: job_score_def algebra_simps)
  qed
qed (simp add: job_score_def)

theorem dequeue_priority_order_witness:
  "\<exists>s'. dequeue_job mem_redis 1 (mem_zset queue_name [(''[]'', 5), (''{}'', 4)] mem_empty) = (Inr (Some (JObj [])), s') \<and>
     (\<exists>m. loads m = Some (JObj []) \<and> mem_zs (mem_zset queue_name [(''[]'', 5), (''{}'', 4)] mem_empty) queue_name m \<noteq> None)"
proof -
  let ?s = "mem_zset queue_name [(''[]'', 5), (''{}'', 4)] mem_empty"
  have l: "loads ''{}'' = Some (JObj [])" by code_simp
  obtain s' where deq: "dequeue_job mem_redis 1 ?s = (Inr (Some (JObj [])), s')"
    by (simp add: dequeue_job_def redis_retry_total_first dequeue_attempt_def mem_redis_def mem_zset_def mem_empty_def
        live_def l)
  show ?thesis using dequeue_priority_order [OF mem.redis_server_axioms deq] deq by blast
qed

text \<open>Acknowledging always returns; it touches no waiting job and no job of another execution, and a
  successful acknowledgement of a job that is in processing once removes it.\<close>

theorem ack_removes_only_its_job:
  assumes "redis_server R zs kv rest rank"
  shows "\<exists>r s'. ack_job R i s = Some (r, s') \<and> zs s' queue_name = zs s queue_name \<and>
    zs s' processing_set \<subseteq>\<^sub>m zs s processing_set \<and>
    (\<forall>m. \<not> has_job_id i m \<longrightarrow> zs s' processing_set m = zs s processing_set m) \<and>
    (\<forall>m. r = Inr () \<and> {x \<in> dom (zs s processing_set). has_job_id i x} = {m} \<longrightarrow>
       zs s' processing_set = (zs s processing_set)(m := None))"
proof -
  obtain r s' where ack: "ack_job R i s = Some (r, s')"
    using redis_server.acknowledged(1) [OF assms] by fastforce
  have "zs s' processing_set = (zs s processing_set)(m := None)"
    if "r = Inr ()" "{x \<in> dom (zs s processing_set). has_job_id i x} = {m}" for m
    using redis_server.acknowledged(3) [OF assms, of i s "()" s' m] ack that by blast
  then show ?thesis using redis_server.acknowledged(2) [OF assms ack] ack by blast
qed

theorem ack_removes_only_its_job_witness:
  "\<exists>r s'. ack_job mem_redis ''7'' mem_empty = Some (r, s') \<and> mem_zs s' queue_name = Map.empty"
  using ack_removes_only_its_job [OF mem.redis_server_axioms, of "''7''" mem_empty]
  by (auto simp: mem_zs_def mem_empty_def fun_eq_iff)

section \<open>The lock\<close>

text \<open>C17: While a client's token is under the key no other client gets the lock, however long it waits,
  and no client whose own token is another one releases it: a holder that lost the lock by expiry
  cannot free it for its successor. The client that gets the lock does so when the key is free.\<close>

theorem lock_exclusion:
  assumes "redis_server R zs kv rest rank" and "kv s (lk_name lk) = Some owner"
    and "\<And>n x. kv x (lk_name lk) = Some owner \<Longrightarrow> kv (sleep n x) (lk_name lk) = Some owner"
    and "fst (acquire R lk token start clock sleep s) = Some (res, s')"
  shows "res \<noteq> Inr True \<and> (res = Inr False \<longrightarrow> kv s' (lk_name lk) = Some owner) \<and>
    (\<forall>own r x. own \<noteq> owner \<and> release R (lk\<lparr>lk_token := Some own\<rparr>) s = (r, x) \<longrightarrow>
       kv x (lk_name lk) = Some owner)"
proof -
  note busy = redis_server.lock_held [where R = R and zs = zs and kv = kv and rest = rest and rank = rank
      and lk = lk and s = s and t = owner and sleep = sleep, OF assms(1,2,3)]
  have "kv x (lk_name lk) = Some owner"
    if "own \<noteq> owner" "release R (lk\<lparr>lk_token := Some own\<rparr>) s = (r, x)" for own r x
    using redis_server.lock_released(2) [OF assms(1) that(2)] that(1) assms(2) by simp
  then show ?thesis using busy assms(4) by (cases res) blast+
qed

theorem lock_exclusion_witness:
  "\<exists>res s'. fst (acquire mem_redis (new_lock ''x'' 60 0) ''b'' 0 (\<lambda>i. seconds (int i)) (\<lambda>_ x. x)
      (mem_put ''sopm:lock:x'' ''a'' mem_empty)) = Some (res, s') \<and> res \<noteq> Inr True"
proof -
  let ?lk = "new_lock ''x'' 60 0" and ?s = "mem_put ''sopm:lock:x'' ''a'' mem_empty"
  have name: "lk_name ?lk = ''sopm:lock:x''" by (simp add: new_lock_def lock_prefix_def)
  have held: "mem_kv ?s (lk_name ?lk) = Some ''a''" by (simp add: name)
  obtain res s' where run: "fst (acquire mem_redis ?lk ''b'' 0 (\<lambda>i. seconds (int i)) (\<lambda>_ x. x) ?s) = Some (res, s')"
    using redis_server.lock_wait_ends [OF mem.redis_server_axioms, of "\<lambda>i. seconds (int i)"] by fastforce
  then show ?thesis using lock_exclusion [OF mem.redis_server_axioms held _ run] by blast
qed

text \<open>Waiting for the lock ends whatever the other clients do, as each pause lets at least a tenth of
  a second pass: either with the lock, taken when the key was free and now under the caller's token,
  or without it at the deadline, or with an exception of the server.\<close>

theorem lock_wait_bounded:
  assumes "redis_server R zs kv rest rank" and "\<And>i. clock i + 100000 \<le> clock (Suc i)"
  shows "\<exists>res s'. fst (acquire R lk token start clock sleep s) = Some (res, s') \<and>
    (res = Inr True \<longrightarrow> kv s' (lk_name lk) = Some token)"
proof -
  obtain res s' where run: "fst (acquire R lk token start clock sleep s) = Some (res, s')"
    using redis_server.lock_wait_ends [OF assms(1), of clock, OF assms(2)] by fastforce
  moreover have "kv s' (lk_name lk) = Some token" if "res = Inr True"
    using redis_server.lock_taken [OF assms(1) run [unfolded that]] by auto
  ultimately show ?thesis by blast
qed

theorem lock_wait_bounded_witness:
  "\<exists>res s'. fst (acquire mem_redis (new_lock ''x'' 60 10) ''b'' 0 (\<lambda>i. seconds (int i)) (\<lambda>_ x. x) mem_empty) = Some (res, s')"
  using lock_wait_bounded [OF mem.redis_server_axioms, of "\<lambda>i. seconds (int i)" "new_lock ''x'' 60 10" "''b''" 0 "\<lambda>_ x. x" mem_empty]
  by auto

section \<open>A job can be lost\<close>

text \<open>A server that never lets the processing set be written.\<close>

definition refuse_processing :: "'r redis \<Rightarrow> 'r redis" where
  "refuse_processing R = R\<lparr>r_zadd := \<lambda>k m sc s.
     if k = processing_set then (Inl (RedisError ''READONLY''), s) else r_zadd R k m sc s\<rparr>"

lemma refuse_processing_server:
  "redis_server R zs kv rest rank \<Longrightarrow> redis_server (refuse_processing R) zs kv rest rank"
  unfolding redis_server_def refuse_processing_def by (simp split: if_splits)

context redis_server begin

lemma attempt_keeps_lost:
  assumes "dequeue_attempt R t s = (r, s')"
    and "zs s queue_name m = None" and "zs s processing_set m = None"
  shows "zs s' queue_name m = None \<and> zs s' processing_set m = None"
proof -
  obtain p s1 where pop: "r_bzpopmin R queue_name t s = (p, s1)" by fastforce
  have ne: "queue_name \<noteq> processing_set" by (simp add: queue_name_def processing_set_def)
  have 1: "zs s1 queue_name m = None" "zs s1 processing_set m = None"
    using pop pop_some [of queue_name t s _ _ s1] pop_none [of queue_name t s s1] pop_err [of queue_name t s _ s1] assms(2,3) ne
    by (cases p; force simp: zdel_apply)+
  show ?thesis
  proof (cases "\<exists>x sc. p = Inr (Some (x, sc))")
    case True
    then obtain x sc where p: "p = Inr (Some (x, sc))" by blast
    obtain q s2 where add: "r_zadd R processing_set x sc s1 = (q, s2)" by fastforce
    have "x \<noteq> m" using pop_some [OF pop [unfolded p]] assms(2) by auto
    then have "zs s2 queue_name m = None \<and> zs s2 processing_set m = None"
      using 1 add zadd_ok [of processing_set x sc s1 _ s2] zadd_err [of processing_set x sc s1 _ s2] ne
      by (cases q) (auto simp: zput_apply)
    moreover have "s' = s2"
      using assms(1) pop p add by (cases q) (auto simp: dequeue_attempt_def split: option.splits)
    ultimately show ?thesis by simp
  next
    case False
    then have "s' = s1" using assms(1) pop
      by (cases p) (auto simp: dequeue_attempt_def split: option.splits)
    then show ?thesis using 1 by simp
  qed
qed

end

text \<open>C37: The pop and the move to the processing set are two commands, and the retry runs both again: when
  the move fails after the pop, the popped job is in neither set once \<open>dequeue_job\<close> returns, whatever
  it returns, so no worker ever sees it.\<close>

theorem dequeue_can_lose_a_job:
  assumes "redis_server R zs kv rest rank"
    and "r_bzpopmin R queue_name t s = (Inr (Some (m, sc)), s1)" and "zs s processing_set m = None"
    and "r_zadd R processing_set m sc s1 = (Inl e, s2)" and "zs s2 = zs s1"
    and "dequeue_job R t s = (r, s')"
  shows "zs s' queue_name m = None \<and> zs s' processing_set m = None"
proof -
  let ?lost = "\<lambda>x. zs x queue_name m = None \<and> zs x processing_set m = None"
  let ?f = "\<lambda>_ x. Some (dequeue_attempt R t x)"
  have first: "dequeue_attempt R t s = (Inl e, s2)" by (simp add: dequeue_attempt_def assms(2,4))
  have lost: "?lost s2"
    using redis_server.pop_some [OF assms(1,2)] assms(3,5) by (auto simp: zdel_apply)
  have "redis_retry ?f s = Some (r, s')"
    using assms(6) redis_retry_total_eq [of "\<lambda>_. dequeue_attempt R t" s] by (simp add: dequeue_job_def)
  then have "retry_loop 1 1 ?f s2 = Some (r, s')"
    using first by (simp add: redis_retry_def max_attempts_def numeral_2_eq_2)
  then have "case r of Inl e \<Rightarrow> ?lost s' | Inr a \<Rightarrow> ?lost s'"
  proof (rule retry_loop_inv [where I = ?lost and Q = "\<lambda>a. ?lost"])
  qed (use lost redis_server.attempt_keeps_lost [OF assms(1)] in \<open>auto simp: max_attempts_def\<close>)
  then show ?thesis by (cases r) simp_all
qed

theorem dequeue_can_lose_a_job_witness:
  "\<exists>r s'. dequeue_job (refuse_processing mem_redis) 1 (mem_zset queue_name [(''{}'', 5)] mem_empty) = (r, s') \<and>
     mem_zs s' queue_name ''{}'' = None \<and> mem_zs s' processing_set ''{}'' = None"
proof -
  let ?R = "refuse_processing mem_redis" and ?s = "mem_zset queue_name [(''{}'', 5)] mem_empty"
  obtain s1 where pop: "r_bzpopmin ?R queue_name 1 ?s = (Inr (Some (''{}'', 5)), s1)"
    by (simp add: refuse_processing_def mem_redis_def mem_zset_def mem_empty_def live_def)
  have "mem_zs ?s processing_set ''{}'' = None"
    by (simp add: mem_zs_def mem_zset_def mem_empty_def queue_name_def processing_set_def)
  moreover have "r_zadd ?R processing_set ''{}'' 5 s1 = (Inl (RedisError ''READONLY''), s1)"
    by (simp add: refuse_processing_def)
  moreover obtain r s' where "dequeue_job ?R 1 ?s = (r, s')" by fastforce
  ultimately show ?thesis
    using dequeue_can_lose_a_job [OF refuse_processing_server [OF mem.redis_server_axioms] pop] by blast
qed

end
