(* ===== verification/Scheduler.thy ===== *)
theory Scheduler
  imports Executions_Router
begin

text \<open>
  \<open>api/routers/schedules.py\<close> and \<open>scheduler/scheduler.py\<close>. \<open>croniter\<close> is a parameter
  \<open>cron_next expression base\<close>; the locale \<open>cron_lib\<close> states that the next run of a valid
  expression exists and lies after the base. Firing a schedule commits the execution first
  (\<open>fire_begin\<close>), then pushes the job, then advances the schedule (\<open>fire_finish\<close>).
\<close>

section \<open>Schedules of a user\<close>

type_synonym cron = "string \<Rightarrow> time \<Rightarrow> time result"

definition list_schedules :: "uuid \<Rightarrow> nat \<times> nat \<Rightarrow> db \<Rightarrow> schedule list \<times> nat" where
  "list_schedules user pagination d =
     (let (offset, limit) = pagination; mine = filter (\<lambda>s. s_owner_id s = user) (t_schedules d)
      in (page_of offset limit (order_by_desc s_created_at mine), length mine))"

definition new_schedule_row :: "uuid \<Rightarrow> uuid \<Rightarrow> schedule_create \<Rightarrow> time \<Rightarrow> uuid \<Rightarrow> time \<Rightarrow> schedule" where
  "new_schedule_row function_id user body nxt i now =
     \<lparr>s_id = i, s_function_id = function_id, s_owner_id = user, s_name = sc_name body,
      s_cron_expression = sc_cron_expression body, s_payload = sc_payload body, s_status = S_ACTIVE,
      s_next_run_at = Some nxt, s_last_run_at = None, s_last_execution_id = None, s_missed_runs = 0,
      s_created_at = now\<rparr>"

definition create_schedule ::
  "cron \<Rightarrow> schedule_create \<Rightarrow> uuid \<Rightarrow> uuid \<Rightarrow> uuid \<Rightarrow> time \<Rightarrow> db \<Rightarrow> schedule result \<times> db" where
  "create_schedule cron_next body function_id user i now d =
     (case get_function_or_404 function_id user d of
        Inl e \<Rightarrow> (Inl e, d)
      | Inr fn \<Rightarrow>
          (case cron_next (sc_cron_expression body) now of
             Inl e \<Rightarrow> (Inl e, d)
           | Inr nxt \<Rightarrow>
               seq (insert_schedule (new_schedule_row function_id user body nxt i now) d)
                 (\<lambda>_ d'. (Inr (new_schedule_row function_id user body nxt i now), d'))))"

definition get_schedule :: "uuid \<Rightarrow> uuid \<Rightarrow> db \<Rightarrow> schedule result" where
  "get_schedule schedule_id user d =
     (case scalar_one_or_none (filter (\<lambda>s. s_id s = schedule_id \<and> s_owner_id s = user) (t_schedules d)) of
        Inl e \<Rightarrow> Inl e
      | Inr None \<Rightarrow> Inl (HTTPException 404 ''Schedule not found'')
      | Inr (Some s) \<Rightarrow> Inr s)"

definition apply_update :: "schedule_update \<Rightarrow> time option \<Rightarrow> schedule \<Rightarrow> schedule" where
  "apply_update body nxt s =
     (let s1 = (case su_name body of None \<Rightarrow> s | Some n \<Rightarrow> s\<lparr>s_name := n\<rparr>);
          s2 = (case su_cron_expression body of None \<Rightarrow> s1
                | Some c \<Rightarrow> s1\<lparr>s_cron_expression := c, s_next_run_at := nxt\<rparr>);
          s3 = (case su_payload body of None \<Rightarrow> s2 | Some p \<Rightarrow> s2\<lparr>s_payload := p\<rparr>)
      in (case su_status body of None \<Rightarrow> s3 | Some st \<Rightarrow> s3\<lparr>s_status := st\<rparr>))"

definition update_schedule ::
  "cron \<Rightarrow> uuid \<Rightarrow> schedule_update \<Rightarrow> uuid \<Rightarrow> time \<Rightarrow> db \<Rightarrow> schedule result \<times> db" where
  "update_schedule cron_next schedule_id body user now d =
     (case get_schedule schedule_id user d of
        Inl e \<Rightarrow> (Inl e, d)
      | Inr s \<Rightarrow>
          (case (case su_cron_expression body of None \<Rightarrow> Inr None
                 | Some c \<Rightarrow> (case cron_next c now of Inl e \<Rightarrow> Inl e | Inr t \<Rightarrow> Inr (Some t))) of
             Inl e \<Rightarrow> (Inl e, d)
           | Inr nxt \<Rightarrow>
               (Inr (apply_update body nxt s), set_schedule schedule_id (apply_update body nxt) d)))"

definition delete_schedule :: "uuid \<Rightarrow> uuid \<Rightarrow> db \<Rightarrow> unit result \<times> db" where
  "delete_schedule schedule_id user d =
     (case get_schedule schedule_id user d of
        Inl e \<Rightarrow> (Inl e, d)
      | Inr s \<Rightarrow> (Inr (), delete_schedules (\<lambda>s. s_id s = schedule_id) d))"

section \<open>Firing\<close>

definition compute_next :: "cron \<Rightarrow> string \<Rightarrow> time \<Rightarrow> time result" where
  "compute_next cron_next cron_expr base = cron_next cron_expr base"

definition schedule_execution :: "func \<Rightarrow> version \<Rightarrow> schedule \<Rightarrow> uuid \<Rightarrow> time \<Rightarrow> execution" where
  "schedule_execution fn v fresh i now =
     (new_execution i now)\<lparr>e_function_id := Some (f_id fn), e_function_version_id := Some (v_id v),
        e_schedule_id := Some (s_id fresh), e_status := QUEUED, e_payload := s_payload fresh,
        e_queued_at := Some now, e_timeout := v_timeout v\<rparr>"

definition schedule_job :: "execution \<Rightarrow> func \<Rightarrow> version \<Rightarrow> (string \<times> json) list" where
  "schedule_job e fn v =
     [(''execution_id'', JStr (str_nat (e_id e))), (''function_id'', JStr (str_nat (f_id fn))),
      (''version_id'', JStr (str_nat (v_id v))), (''artifact_path'', JStr (v_artifact_path v)),
      (''entrypoint'', JStr (v_entrypoint v)), (''payload'', e_payload e),
      (''timeout'', JInt (v_timeout v)), (''environment'', JObj (v_environment v)),
      (''memory_mb'', JInt (v_memory_mb v))]"

text \<open>The run is skipped: only \<open>next_run_at\<close> moves.\<close>

definition advance :: "cron \<Rightarrow> schedule \<Rightarrow> time \<Rightarrow> db \<Rightarrow> 'a option result \<times> db" where
  "advance cron_next fresh now d =
     (case compute_next cron_next (s_cron_expression fresh) now of
        Inl e \<Rightarrow> (Inl e, d)
      | Inr t \<Rightarrow> (Inr None, set_schedule (s_id fresh) (\<lambda>s. s\<lparr>s_next_run_at := Some t\<rparr>) d))"

text \<open>From the function's lookup to the new execution, for a schedule that is due.\<close>

definition fire_due ::
  "settings \<Rightarrow> cron \<Rightarrow> schedule \<Rightarrow> time \<Rightarrow> nat \<Rightarrow> uuid \<Rightarrow> time \<Rightarrow> db \<Rightarrow>
   (execution \<times> (string \<times> json) list \<times> schedule) option result \<times> db" where
  "fire_due cfg cron_next fresh due r i now d =
     (case scalar_one_or_none (filter (\<lambda>f. f_id f = s_function_id fresh) (t_functions d)) of
        Inl e \<Rightarrow> (Inl e, d)
      | Inr None \<Rightarrow> advance cron_next fresh now d
      | Inr (Some fn) \<Rightarrow>
          (case choose_execution_version d fn None r of
             Inl e \<Rightarrow> (Inl e, d)
           | Inr None \<Rightarrow> advance cron_next fresh now d
           | Inr (Some v) \<Rightarrow>
               if due < now \<and>
                  now - due > seconds (scheduler_poll_interval cfg * scheduler_max_missed_runs cfg)
               then advance cron_next fresh now d
               else (let e = schedule_execution fn v fresh i now
                     in case insert_execution e d of
                          (Inl x, d') \<Rightarrow> (Inl x, d')
                        | (Inr _, d') \<Rightarrow> (Inr (Some (e, schedule_job e fn v, fresh)), d'))))"

definition fire_begin ::
  "settings \<Rightarrow> cron \<Rightarrow> uuid \<Rightarrow> nat \<Rightarrow> uuid \<Rightarrow> time \<Rightarrow> db \<Rightarrow>
   (execution \<times> (string \<times> json) list \<times> schedule) option result \<times> db" where
  "fire_begin cfg cron_next schedule_id r i now d =
     (case scalar_one_or_none (filter (\<lambda>s. s_id s = schedule_id) (t_schedules d)) of
        Inl e \<Rightarrow> (Inl e, d)
      | Inr None \<Rightarrow> (Inr None, d)
      | Inr (Some fresh) \<Rightarrow>
          if s_status fresh \<noteq> S_ACTIVE then (Inr None, d)
          else (case s_next_run_at fresh of
             None \<Rightarrow> (Inr None, d)
           | Some due \<Rightarrow>
               if due > now then (Inr None, d)
               else fire_due cfg cron_next fresh due r i now d))"

definition schedule_failed :: "exn \<Rightarrow> execution \<Rightarrow> execution" where
  "schedule_failed x e =
     e\<lparr>e_status := FAILED, e_error_message := Some (exn_str x), e_failure_kind := Some ''queue''\<rparr>"

definition fire_finish ::
  "cron \<Rightarrow> schedule \<Rightarrow> uuid \<Rightarrow> exn option \<Rightarrow> time \<Rightarrow> db \<Rightarrow> uuid option result \<times> db" where
  "fire_finish cron_next fresh execution_id failure now d =
     (case compute_next cron_next (s_cron_expression fresh) now of
        Inl e \<Rightarrow> (Inl e, d)
      | Inr t \<Rightarrow>
          (Inr (Some execution_id),
           set_schedule (s_id fresh)
             (\<lambda>s. s\<lparr>s_last_run_at := Some now, s_last_execution_id := Some execution_id,
                    s_next_run_at := Some t, s_missed_runs := 0\<rparr>)
             (case failure of None \<Rightarrow> d | Some x \<Rightarrow> set_execution execution_id (schedule_failed x) d)))"

text \<open>The result is the id of the execution when the schedule fired, \<open>None\<close> when it did not.\<close>

definition fire_schedule ::
  "settings \<Rightarrow> cron \<Rightarrow> 'r redis \<Rightarrow> (nat \<Rightarrow> time) \<Rightarrow> uuid \<Rightarrow> nat \<Rightarrow> uuid \<Rightarrow> time \<Rightarrow>
   db \<times> 'r \<Rightarrow> uuid option result \<times> db \<times> 'r" where
  "fire_schedule cfg cron_next R clock schedule_id r i now ds =
     (let (d, s) = ds in
      case fire_begin cfg cron_next schedule_id r i now d of
        (Inl e, d') \<Rightarrow> (Inl e, d', s)
      | (Inr None, d') \<Rightarrow> (Inr None, d', s)
      | (Inr (Some (e, job, fresh)), d') \<Rightarrow>
          (case enqueue_job R clock (str_nat (e_id e)) job 0 s of
             (Inl x, s') \<Rightarrow>
               (case fire_finish cron_next fresh (e_id e) (Some x) now d' of (res, d'') \<Rightarrow> (res, d'', s'))
           | (Inr _, s') \<Rightarrow>
               (case fire_finish cron_next fresh (e_id e) None now d' of (res, d'') \<Rightarrow> (res, d'', s'))))"

definition due_schedules :: "time \<Rightarrow> db \<Rightarrow> schedule list" where
  "due_schedules now d =
     filter (\<lambda>s. s_status s = S_ACTIVE \<and> (case s_next_run_at s of None \<Rightarrow> False | Some t \<Rightarrow> t \<le> now))
       (t_schedules d)"

text \<open>
  What one firing reads from outside: the draw of the router, the new execution id, the clock of
  the firing and of the enqueue attempts. An exception in one firing does not stop the others.
\<close>

record firing =
  fi_draw :: nat
  fi_id :: uuid
  fi_now :: time
  fi_clock :: "nat \<Rightarrow> time"

fun fire_all ::
  "settings \<Rightarrow> cron \<Rightarrow> 'r redis \<Rightarrow> (uuid \<Rightarrow> firing) \<Rightarrow> schedule list \<Rightarrow> db \<times> 'r \<Rightarrow> db \<times> 'r" where
  "fire_all cfg cron_next R inp [] ds = ds"
| "fire_all cfg cron_next R inp (sch # rest) ds =
     (let f = inp (s_id sch);
          (_, ds') = fire_schedule cfg cron_next R (fi_clock f) (s_id sch) (fi_draw f) (fi_id f) (fi_now f) ds
      in fire_all cfg cron_next R inp rest ds')"

definition process_due_schedules ::
  "settings \<Rightarrow> cron \<Rightarrow> 'r redis \<Rightarrow> (uuid \<Rightarrow> firing) \<Rightarrow> time \<Rightarrow> db \<times> 'r \<Rightarrow> db \<times> 'r" where
  "process_due_schedules cfg cron_next R inp now ds =
     fire_all cfg cron_next R inp (due_schedules now (fst ds)) ds"

definition scheduler_lock :: "settings \<Rightarrow> lock" where
  "scheduler_lock cfg = new_lock ''sopm:scheduler:lock'' (scheduler_poll_interval cfg * 2) 10"

text \<open>One tick: \<open>None\<close> when the lock loop does not end.\<close>

definition tick ::
  "settings \<Rightarrow> cron \<Rightarrow> 'r redis \<Rightarrow> string \<Rightarrow> time \<Rightarrow> (nat \<Rightarrow> time) \<Rightarrow> (nat \<Rightarrow> 'r \<Rightarrow> 'r) \<Rightarrow>
   (uuid \<Rightarrow> firing) \<Rightarrow> time \<Rightarrow> db \<times> 'r \<Rightarrow> (unit result \<times> db \<times> 'r) option" where
  "tick cfg cron_next R token start ticks sleep inp now ds =
     (let (d, s) = ds in
      case acquire R (scheduler_lock cfg) token start ticks sleep s of
        (None, _) \<Rightarrow> None
      | (Some (Inl e, s1), _) \<Rightarrow> Some (Inl e, d, s1)
      | (Some (Inr acquired, s1), lk) \<Rightarrow>
          (let (d2, s2) = (if acquired then process_due_schedules cfg cron_next R inp now (d, s1) else (d, s1));
               (r, s3) = release R lk s2
           in Some (r, d2, s3)))"

section \<open>What croniter promises\<close>

locale cron_lib =
  fixes cron_ok :: "string \<Rightarrow> bool" and cron_next :: cron
  assumes cron_defined: "cron_ok c \<Longrightarrow> \<exists>t. cron_next c now = Inr t"
    and cron_later: "cron_next c now = Inr t \<Longrightarrow> now < t"

section \<open>Lemmas\<close>

lemma get_schedule_Inr:
  "get_schedule i user d = Inr s \<Longrightarrow> s \<in> set (t_schedules d) \<and> s_id s = i \<and> s_owner_id s = user"
  by (auto simp: get_schedule_def split: sum.splits option.splits dest!: scalar_one_or_none_Some)

lemma insert_schedule_Inr:
  "insert_schedule s d = (Inr u, d') \<longleftrightarrow>
   (\<forall>x \<in> set (t_schedules d). s_id x \<noteq> s_id s) \<and> d' = d\<lparr>t_schedules := t_schedules d @ [s]\<rparr>"
  by (auto simp: insert_schedule_def list_ex_iff)

lemma insert_schedule_Inl: "insert_schedule s d = (Inl e, d') \<Longrightarrow> d' = d"
  by (auto simp: insert_schedule_def split: if_splits)

lemma db_ok_insert_schedule:
  assumes "db_ok d" and "insert_schedule s d = (Inr u, d')"
    and "\<exists>f \<in> set (t_functions d). f_id f = s_function_id s"
  shows "db_ok d'"
proof -
  have keys: "distinct (map s_id (t_schedules d))"
    and refs: "\<forall>s \<in> set (t_schedules d). \<exists>f \<in> set (t_functions d). f_id f = s_function_id s"
    using assms(1) by (simp_all add: db_ok_def keys_ok_def refs_ok_def)
  have fresh: "\<forall>x \<in> set (t_schedules d). s_id x \<noteq> s_id s" and d': "d' = d\<lparr>t_schedules := t_schedules d @ [s]\<rparr>"
    using assms(2) by (simp_all add: insert_schedule_Inr)
  show ?thesis unfolding d'
  proof (rule db_ok_schedules [OF assms(1)])
    show "distinct (map s_id (t_schedules d @ [s]))" using keys fresh by auto
    show "\<forall>x \<in> set (t_schedules d @ [s]). \<exists>f \<in> set (t_functions d). f_id f = s_function_id x"
      using refs assms(3) by auto
  qed
qed

lemma new_schedule_row_simps [simp]:
  "s_id (new_schedule_row fid user body nxt i now) = i"
  "s_function_id (new_schedule_row fid user body nxt i now) = fid"
  "s_owner_id (new_schedule_row fid user body nxt i now) = user"
  "s_status (new_schedule_row fid user body nxt i now) = S_ACTIVE"
  "s_next_run_at (new_schedule_row fid user body nxt i now) = Some nxt"
  by (simp_all add: new_schedule_row_def)

lemma create_schedule_db_ok [inv_intros]:
  assumes ok: "db_ok d" and cs: "create_schedule cron body fid user i now d = (r, d')"
  shows "db_ok d'"
proof (cases "get_function_or_404 fid user d")
  case (Inr fn)
  note fn = this
  show ?thesis
  proof (cases "cron (sc_cron_expression body) now")
    case (Inr nxt)
    obtain x d1 where ins: "insert_schedule (new_schedule_row fid user body nxt i now) d = (x, d1)" by fastforce
    have d1: "d' = d1" using cs fn Inr ins by (cases x) (auto simp: create_schedule_def)
    show ?thesis
    proof (cases x)
      case (Inl e)
      then show ?thesis using ins d1 ok insert_schedule_Inl by blast
    next
      case (Inr u)
      have "\<exists>f \<in> set (t_functions d). f_id f = fid" using fn by (auto dest: get_function_Inr)
      then show ?thesis using db_ok_insert_schedule [OF ok] ins Inr d1 by simp
    qed
  qed (use ok cs fn in \<open>auto simp: create_schedule_def\<close>)
qed (use ok cs in \<open>auto simp: create_schedule_def\<close>)

lemma apply_update_keys [simp]:
  "s_id (apply_update body nxt s) = s_id s" "s_function_id (apply_update body nxt s) = s_function_id s"
  by (simp_all add: apply_update_def Let_def split: option.split)

lemma update_schedule_db_ok [inv_intros]:
  assumes "db_ok d" and "update_schedule cron i body user now d = (r, d')"
  shows "db_ok d'"
proof -
  have "d' = d \<or> (\<exists>nxt. d' = set_schedule i (apply_update body nxt) d)"
    using assms(2) by (auto simp: update_schedule_def split: sum.splits option.splits)
  then show ?thesis using assms(1) db_ok_set_schedule by (auto simp: db_ok_set_schedule)
qed

lemma delete_schedule_db_ok [inv_intros]:
  assumes "db_ok d" and "delete_schedule i user d = (r, d')"
  shows "db_ok d'"
  using assms db_ok_delete_schedules by (auto simp: delete_schedule_def split: sum.splits)

lemma schedule_execution_simps [simp]:
  "e_id (schedule_execution fn v s i now) = i" "e_status (schedule_execution fn v s i now) = QUEUED"
  "e_function_id (schedule_execution fn v s i now) = Some (f_id fn)"
  "e_function_version_id (schedule_execution fn v s i now) = Some (v_id v)"
  "e_schedule_id (schedule_execution fn v s i now) = Some (s_id s)"
  "e_payload (schedule_execution fn v s i now) = s_payload s"
  "e_timeout (schedule_execution fn v s i now) = v_timeout v"
  "e_triggered_by (schedule_execution fn v s i now) = None"
  by (simp_all add: schedule_execution_def new_execution_def)

text \<open>The outcomes of \<open>fire_begin\<close>.\<close>

definition skipped :: "cron \<Rightarrow> uuid \<Rightarrow> time \<Rightarrow> db \<Rightarrow> db \<Rightarrow> bool" where
  "skipped cron i now d d' \<longleftrightarrow>
     d' = d \<or> (\<exists>s t. s \<in> set (t_schedules d) \<and> s_id s = i \<and> cron (s_cron_expression s) now = Inr t \<and>
        d' = set_schedule i (\<lambda>s. s\<lparr>s_next_run_at := Some t\<rparr>) d)"

lemma advance_skipped:
  "advance cron s now d = (r, d') \<Longrightarrow> s \<in> set (t_schedules d) \<Longrightarrow>
   skipped cron (s_id s) now d d' \<and> (\<forall>a. r \<noteq> Inr (Some a))"
  by (auto simp: advance_def compute_next_def skipped_def split: sum.splits)

definition due_now :: "settings \<Rightarrow> schedule \<Rightarrow> time \<Rightarrow> bool" where
  "due_now cfg s now \<longleftrightarrow> s_status s = S_ACTIVE \<and>
     (\<exists>due. s_next_run_at s = Some due \<and> due \<le> now \<and>
        (due = now \<or> now - due \<le> seconds (scheduler_poll_interval cfg * scheduler_max_missed_runs cfg)))"

definition fired ::
  "settings \<Rightarrow> schedule \<Rightarrow> nat \<Rightarrow> uuid \<Rightarrow> time \<Rightarrow> db \<Rightarrow>
   (execution \<times> (string \<times> json) list \<times> schedule) option result \<Rightarrow> db \<Rightarrow> bool" where
  "fired cfg fresh r i now d res d' \<longleftrightarrow>
     fresh \<in> set (t_schedules d) \<and> due_now cfg fresh now \<and>
     (\<exists>fn v. fn \<in> set (t_functions d) \<and> f_id fn = s_function_id fresh \<and>
        choose_execution_version d fn None r = Inr (Some v) \<and>
        insert_execution (schedule_execution fn v fresh i now) d = (Inr (), d') \<and>
        res = Inr (Some (schedule_execution fn v fresh i now,
                         schedule_job (schedule_execution fn v fresh i now) fn v, fresh)))"

lemma skipped_refl: "skipped cron sid now d d"
  by (simp add: skipped_def)

lemma fire_due_outcome:
  assumes run: "fire_due cfg cron fresh due r i now d = (res, d')"
    and fresh: "fresh \<in> set (t_schedules d)" "s_status fresh = S_ACTIVE" "s_next_run_at fresh = Some due" "due \<le> now"
  shows "(\<forall>a. res \<noteq> Inr (Some a)) \<and> skipped cron (s_id fresh) now d d' \<or> fired cfg fresh r i now d res d'"
proof (cases "advance cron fresh now d = (res, d')")
  case True
  then show ?thesis using advance_skipped [OF True fresh(1)] by blast
next
  case adv: False
  show ?thesis
  proof (cases "\<exists>fn v. scalar_one_or_none (filter (\<lambda>f. f_id f = s_function_id fresh) (t_functions d)) = Inr (Some fn) \<and>
      choose_execution_version d fn None r = Inr (Some v)")
    case False
    then have "d' = d \<and> (\<forall>a. res \<noteq> Inr (Some a))"
      using run adv by (auto simp: fire_due_def split: sum.splits option.splits)
    then show ?thesis using skipped_refl by blast
  next
    case True
    then obtain fn v where fn: "scalar_one_or_none (filter (\<lambda>f. f_id f = s_function_id fresh) (t_functions d)) = Inr (Some fn)"
      and v: "choose_execution_version d fn None r = Inr (Some v)" by blast
    obtain x d1 where ins: "insert_execution (schedule_execution fn v fresh i now) d = (x, d1)" by fastforce
    have intime: "\<not> (due < now \<and> now - due > seconds (scheduler_poll_interval cfg * scheduler_max_missed_runs cfg))"
      using run adv fn v by (auto simp: fire_due_def split: if_splits)
    then have dn: "due_now cfg fresh now" using fresh by (auto simp: due_now_def)
    have run': "(case x of Inl y \<Rightarrow> (Inl y, d1) | Inr _ \<Rightarrow> (Inr (Some (schedule_execution fn v fresh i now,
        schedule_job (schedule_execution fn v fresh i now) fn v, fresh)), d1)) = (res, d')"
      using run fn v intime ins by (auto simp: fire_due_def Let_def split: sum.splits)
    show ?thesis
    proof (cases x)
      case (Inl e)
      then have "d' = d" "res = Inl e" using run' ins insert_execution_Inl by auto
      then show ?thesis using skipped_refl by auto
    next
      case (Inr u)
      then show ?thesis
        using run' ins fresh(1) dn v scalar_one_or_none_Some [OF fn] by (auto simp: fired_def)
    qed
  qed
qed

lemma fire_begin_outcome:
  assumes "fire_begin cfg cron sid r i now d = (res, d')"
  shows "(\<forall>a. res \<noteq> Inr (Some a)) \<and> skipped cron sid now d d' \<or>
    (\<exists>fresh. s_id fresh = sid \<and> fired cfg fresh r i now d res d')"
proof -
  consider (idle) "res = Inr None \<or> (\<exists>e. res = Inl e)" "d' = d"
    | (due) fresh due where "scalar_one_or_none (filter (\<lambda>s. s_id s = sid) (t_schedules d)) = Inr (Some fresh)"
      "s_status fresh = S_ACTIVE" "s_next_run_at fresh = Some due" "due \<le> now"
      "fire_due cfg cron fresh due r i now d = (res, d')"
    using assms by (auto simp: fire_begin_def split: sum.splits option.splits if_splits)
  then show ?thesis
  proof cases
    case idle
    then show ?thesis using skipped_refl by auto
  next
    case due
    then have "fresh \<in> set (t_schedules d)" "s_id fresh = sid" by (auto dest: scalar_one_or_none_Some)
    then show ?thesis using fire_due_outcome [OF due(5) _ due(2-4)] by blast
  qed
qed

text \<open>Which tables a firing writes.\<close>

lemma skipped_db_ok: "skipped cron sid now d d' \<Longrightarrow> db_ok d \<Longrightarrow> db_ok d'"
  by (auto simp: skipped_def db_ok_set_schedule)

lemma fire_begin_db_ok [inv_intros]:
  assumes "db_ok d" and "fire_begin cfg cron sid r i now d = (res, d')"
  shows "db_ok d'"
  using fire_begin_outcome [OF assms(2)] skipped_db_ok assms(1) db_ok_insert_execution
  unfolding fired_def by blast

lemma fire_finish_db_ok [inv_intros]:
  assumes ok: "db_ok d" and run: "fire_finish cron fresh i x now d = (res, d')"
  shows "db_ok d'"
proof -
  have "db_ok (case x of None \<Rightarrow> d | Some y \<Rightarrow> set_execution i (schedule_failed y) d)"
    using ok by (auto simp: schedule_failed_def db_ok_set_execution split: option.split)
  then show ?thesis using ok run
    by (auto simp: fire_finish_def db_ok_set_schedule split: sum.splits)
qed

lemma fire_schedule_db_ok [inv_intros]:
  assumes "db_ok d" and "fire_schedule cfg cron R clock sid r i now (d, s) = (res, d', s')"
  shows "db_ok d'"
proof -
  obtain b d1 where b: "fire_begin cfg cron sid r i now d = (b, d1)" by fastforce
  note ok1 = fire_begin_db_ok [OF assms(1) b]
  consider (stop) "\<And>a. b \<noteq> Inr (Some a)" | (go) e job fresh where "b = Inr (Some (e, job, fresh))"
    by (metis prod_cases3)
  then show ?thesis
  proof cases
    case stop
    then show ?thesis using assms(2) b ok1 by (auto simp: fire_schedule_def split: sum.splits option.splits)
  next
    case go
    then show ?thesis using assms(2) b fire_finish_db_ok [OF ok1]
      by (auto simp: fire_schedule_def split: sum.splits prod.splits)
  qed
qed

lemma fire_all_db_ok: "db_ok d \<Longrightarrow> db_ok (fst (fire_all cfg cron R inp scheds (d, s)))"
proof (induction scheds arbitrary: d s)
  case (Cons sch rest)
  obtain res d1 s1 where run: "fire_schedule cfg cron R (fi_clock (inp (s_id sch))) (s_id sch)
      (fi_draw (inp (s_id sch))) (fi_id (inp (s_id sch))) (fi_now (inp (s_id sch))) (d, s) = (res, d1, s1)"
    by (metis prod_cases3)
  then show ?case using Cons.IH [of d1 s1] fire_schedule_db_ok [OF Cons.prems run] by (simp add: Let_def)
qed simp

lemma process_due_schedules_db_ok: "db_ok d \<Longrightarrow> db_ok (fst (process_due_schedules cfg cron R inp now (d, s)))"
  by (simp add: process_due_schedules_def fire_all_db_ok)

end
