(* ===== verification/Scheduler_Properties.thy ===== *)
theory Scheduler_Properties
  imports Scheduler Execution_Properties Queue_Properties
begin

text \<open>
  What the scheduler promises, over a cron library that meets \<open>cron_lib\<close>: a due schedule fires once
  per due time, a skipped one only moves on, and an instance without the lock does nothing.
\<close>

section \<open>A cron library\<close>

text \<open>
  The expressions that run every \<open>k\<close> seconds, written with \<open>k\<close> stars: the next run is the next
  multiple of the period. It meets \<open>cron_lib\<close>, so the hypothesis of the properties can hold.
\<close>

definition every_ok :: "string \<Rightarrow> bool" where
  "every_ok c \<longleftrightarrow> c \<noteq> []"

definition every_next :: cron where
  "every_next c base =
     (if c = [] then Inl (ValueError ''Bad cron expression'')
      else (let p = seconds (int (length c)) in Inr ((base div p + 1) * p)))"

lemma next_multiple: "0 < p \<Longrightarrow> base < (base div p + 1) * p" for base :: int
proof -
  assume "0 < p"
  then have "base mod p < p" by simp
  moreover have "(base div p + 1) * p = p * (base div p) + p" by (simp add: algebra_simps)
  ultimately show ?thesis using mult_div_mod_eq [of p base] by linarith
qed

interpretation every: cron_lib every_ok every_next
proof unfold_locales
  show "\<exists>t. every_next c now = Inr t" if "every_ok c" for c now
    using that by (simp add: every_next_def every_ok_def Let_def)
  show "now < t" if "every_next c now = Inr t" for c now t
    using that next_multiple [of "seconds (int (length c))" now]
    by (auto simp: every_next_def Let_def split: if_splits)
qed

section \<open>Firing\<close>

context cron_lib begin

text \<open>Whatever moves a schedule's next run moves it past the clock it was computed from.\<close>

lemma skipped_later:
  assumes "skipped cron_next i now d d'" and "keys_ok d" and "s' \<in> set (t_schedules d')"
  shows "\<exists>s \<in> set (t_schedules d). s_id s = s_id s' \<and> s_status s' = s_status s \<and>
    (s' = s \<or> s_id s = i \<and> (\<exists>t. s_next_run_at s' = Some t \<and> now < t))"
  using assms cron_later
  by (fastforce simp: skipped_def set_schedule_def update_where_def split: if_splits)

lemma fire_finish_later:
  assumes "fire_finish cron_next fresh i x now d = (Inr r, d')"
  shows "r = Some i \<and> (\<forall>s \<in> set (t_schedules d'). s_id s = s_id fresh \<longrightarrow>
    s_last_execution_id s = Some i \<and> s_last_run_at s = Some now \<and> (\<exists>t. s_next_run_at s = Some t \<and> now < t))"
  using assms cron_later
  by (auto simp: fire_finish_def compute_next_def set_schedule_def set_execution_def update_where_def
      split: sum.splits option.splits)

end

lemma schedule_by_id:
  assumes "keys_ok d" and "sch \<in> set (t_schedules d)"
  shows "scalar_one_or_none (filter (\<lambda>x. s_id x = s_id sch) (t_schedules d)) = Inr (Some sch)"
  using assms scalar_by_key [of s_id "t_schedules d" sch "s_id sch" "\<lambda>_. True"] by (simp add: keys_ok_schedules)

lemma fire_not_due:
  assumes "keys_ok d" and "sch \<in> set (t_schedules d)" and "s_next_run_at sch = Some t" and "now < t"
  shows "fire_schedule cfg cron R clock (s_id sch) draw i now (d, s) = (Inr None, d, s)"
  using schedule_by_id [OF assms(1,2)] assms(3,4) by (simp add: fire_schedule_def fire_begin_def)

text \<open>What a firing that returns the id of an execution has done.\<close>

lemma fire_schedule_parts:
  assumes "fire_schedule cfg cron R clock sid draw i now (d, s) = (Inr (Some eid), d', s')"
  obtains fresh fn v e0 d1 x where "s_id fresh = sid" "fired cfg fresh draw i now d
      (Inr (Some (e0, schedule_job e0 fn v, fresh))) d1" "e0 = schedule_execution fn v fresh i now"
    "enqueue_job R clock (str_nat i) (schedule_job e0 fn v) 0 s = (x, s')"
    "fire_finish cron fresh i (case x of Inl e \<Rightarrow> Some e | Inr _ \<Rightarrow> None) now d1 = (Inr (Some eid), d')"
proof -
  obtain b d1 where b: "fire_begin cfg cron sid draw i now d = (b, d1)" by fastforce
  obtain e0 job fresh where b': "b = Inr (Some (e0, job, fresh))"
    using assms by (auto simp: fire_schedule_def b split: sum.splits option.splits)
  obtain f where f: "s_id f = sid" "fired cfg f draw i now d b d1"
    using fire_begin_outcome [OF b] b' by blast
  then obtain fn v where parts: "f = fresh" "e0 = schedule_execution fn v fresh i now" "job = schedule_job e0 fn v"
    by (auto simp: fired_def b')
  obtain x s1 where enq: "enqueue_job R clock (str_nat i) (schedule_job e0 fn v) 0 s = (x, s1)" by fastforce
  have id: "e_id e0 = i" by (simp add: parts(2))
  have fin: "fire_finish cron fresh i (case x of Inl e \<Rightarrow> Some e | Inr _ \<Rightarrow> None) now d1 = (Inr (Some eid), d') \<and> s1 = s'"
    using assms enq id by (cases x) (auto simp: fire_schedule_def b b' parts(3) split: prod.splits)
  show thesis
    using that [of fresh e0 fn v d1 x] f parts enq fin b' by simp
qed

lemma demo_fires:
  "\<exists>eid d' s'. fire_schedule default_settings every_next mem_redis (\<lambda>n. int n) 40 55 33 100 (demo_db, mem_empty)
     = (Inr (Some eid), d', s')"
proof -
  have v: "choose_execution_version demo_db demo_fn None 55 = Inr (Some (demo_version 20 1))"
    by (simp add: choose_execution_version_def route_version_id_def)
  have nxt: "\<exists>t. every_next (s_cron_expression demo_schedule) 100 = Inr t"
    by (rule every.cron_defined) (simp add: every_ok_def)
  obtain r d' s' where run: "fire_schedule default_settings every_next mem_redis (\<lambda>n. int n) 40 55 33 100
      (demo_db, mem_empty) = (r, d', s')" by (metis prod_cases3)
  have "\<exists>e job d1. fire_begin default_settings every_next 40 55 33 100 demo_db = (Inr (Some (e, job, demo_schedule)), d1)"
    by (simp add: fire_begin_def fire_due_def v insert_execution_def Let_def del: demo_schedule_simps(6))
  then have "\<exists>eid. r = Inr (Some eid)"
    using run nxt by (auto simp: fire_schedule_def fire_finish_def compute_next_def split: prod.splits sum.splits)
  then show ?thesis using run by blast
qed

text \<open>A schedule that fires commits exactly one new execution, of the version the router chose for its
  function and with the schedule's payload, QUEUED with its job in the queue or FAILED with kind
  \<open>queue\<close>; and the schedule's next run moves strictly past the time of the firing.\<close>

theorem fire_schedule_creates_one:
  assumes "redis_server R zs kv rest rank" and "cron_lib cron_ok cron"
    and "fire_schedule cfg cron R clock sid draw i now (d, s) = (Inr (Some eid), d', s')"
  shows "eid = i \<and> (\<exists>sch fn v e. sch \<in> set (t_schedules d) \<and> s_id sch = sid \<and> due_now cfg sch now \<and>
      fn \<in> set (t_functions d) \<and> f_id fn = s_function_id sch \<and>
      choose_execution_version d fn None draw = Inr (Some v) \<and>
      t_executions d' = t_executions d @ [e] \<and> e_id e = i \<and> e_schedule_id e = Some sid \<and>
      e_function_version_id e = Some (v_id v) \<and> e_payload e = s_payload sch \<and>
      (e_status e = QUEUED \<and> submitted zs e (schedule_job e fn v) clock s s' \<or>
       e_status e = FAILED \<and> e_failure_kind e = Some ''queue'')) \<and>
    (\<forall>sch' \<in> set (t_schedules d'). s_id sch' = sid \<longrightarrow> (\<exists>t. s_next_run_at sch' = Some t \<and> now < t))"
proof -
  obtain fresh fn v e0 d1 x where id: "s_id fresh = sid"
    and fired: "fired cfg fresh draw i now d (Inr (Some (e0, schedule_job e0 fn v, fresh))) d1"
    and e0: "e0 = schedule_execution fn v fresh i now"
    and enq: "enqueue_job R clock (str_nat i) (schedule_job e0 fn v) 0 s = (x, s')"
    and fin: "fire_finish cron fresh i (case x of Inl e \<Rightarrow> Some e | Inr _ \<Rightarrow> None) now d1 = (Inr (Some eid), d')"
    by (rule fire_schedule_parts [OF assms(3)])
  from fired obtain fn' v' where f: "fresh \<in> set (t_schedules d)" "due_now cfg fresh now"
    "fn' \<in> set (t_functions d)" "f_id fn' = s_function_id fresh" "choose_execution_version d fn' None draw = Inr (Some v')"
    "insert_execution e0 d = (Inr (), d1)" "e0 = schedule_execution fn' v' fresh i now"
    "schedule_job e0 fn v = schedule_job e0 fn' v'"
    by (auto simp: fired_def)
  have d1: "\<forall>y \<in> set (t_executions d). e_id y \<noteq> i" "d1 = d\<lparr>t_executions := t_executions d @ [e0]\<rparr>"
    using f(6) by (simp_all add: insert_execution_Inr f(7))
  define e where "e = (case x of Inl y \<Rightarrow> schedule_failed y e0 | Inr _ \<Rightarrow> e0)"
  have rows: "t_executions d' = t_executions d @ [e]"
    using fin update_fresh_row [OF d1(1), of e0] d1(2) e0
    by (cases x) (auto simp: e_def fire_finish_def set_schedule_def split: sum.splits)
  have same: "schedule_job (schedule_failed y e0) fn' v' = schedule_job e0 fn' v'" for y
    by (simp add: schedule_job_def schedule_failed_def)
  have row: "e_id e = i" "e_schedule_id e = Some sid" "e_function_version_id e = Some (v_id v')"
    "e_payload e = s_payload fresh"
    using id by (auto simp: e_def schedule_failed_def f(7) split: sum.split)
  have sub: "x = Inr u \<Longrightarrow> submitted zs e0 (schedule_job e0 fn' v') clock s s'" for u
    using redis_server.enqueue_effect [OF assms(1) enq] f(8) by (auto simp: submitted_def e0)
  have st: "e_status e = QUEUED \<and> submitted zs e (schedule_job e fn' v') clock s s' \<or>
      e_status e = FAILED \<and> e_failure_kind e = Some ''queue''"
    using sub by (cases x) (auto simp: e_def schedule_failed_def f(7))
  note later = cron_lib.fire_finish_later [OF assms(2) fin]
  moreover have "\<exists>sch fn v e. sch \<in> set (t_schedules d) \<and> s_id sch = sid \<and> due_now cfg sch now \<and>
      fn \<in> set (t_functions d) \<and> f_id fn = s_function_id sch \<and>
      choose_execution_version d fn None draw = Inr (Some v) \<and>
      t_executions d' = t_executions d @ [e] \<and> e_id e = i \<and> e_schedule_id e = Some sid \<and>
      e_function_version_id e = Some (v_id v) \<and> e_payload e = s_payload sch \<and>
      (e_status e = QUEUED \<and> submitted zs e (schedule_job e fn v) clock s s' \<or>
       e_status e = FAILED \<and> e_failure_kind e = Some ''queue'')"
    using f(1-5) rows row st id by (intro exI [of _ fresh] exI [of _ fn'] exI [of _ v'] exI [of _ e]) simp
  ultimately show ?thesis using id by simp
qed

theorem fire_schedule_creates_one_witness:
  "\<exists>eid d' s'. fire_schedule default_settings every_next mem_redis (\<lambda>n. int n) 40 55 33 100 (demo_db, mem_empty)
     = (Inr (Some eid), d', s') \<and> eid = 33 \<and> length (t_executions d') = 4"
proof -
  obtain eid d' s' where run: "fire_schedule default_settings every_next mem_redis (\<lambda>n. int n) 40 55 33 100
      (demo_db, mem_empty) = (Inr (Some eid), d', s')" using demo_fires by blast
  from fire_schedule_creates_one [OF mem.redis_server_axioms every.cron_lib_axioms run] run
  show ?thesis by auto
qed

text \<open>C11: A schedule that fired does not fire again before its next run: whoever tries, at any time up to
  then, leaves the database and the queue as they are, so one due time gives one execution.\<close>

theorem no_double_fire:
  assumes "cron_lib cron_ok cron" and "db_ok d"
    and "fire_schedule cfg cron R clock sid draw i now (d, s) = (Inr (Some eid), d', s')"
  shows "\<exists>t. now < t \<and> (\<forall>cfg2 clock2 draw2 i2 now2 s2. now2 < t \<longrightarrow>
    fire_schedule cfg2 cron R clock2 sid draw2 i2 now2 (d', s2) = (Inr None, d', s2))"
proof -
  obtain fresh fn v e0 d1 x where id: "s_id fresh = sid"
    and fired: "fired cfg fresh draw i now d (Inr (Some (e0, schedule_job e0 fn v, fresh))) d1"
    and "e0 = schedule_execution fn v fresh i now"
    and "enqueue_job R clock (str_nat i) (schedule_job e0 fn v) 0 s = (x, s')"
    and fin: "fire_finish cron fresh i (case x of Inl e \<Rightarrow> Some e | Inr _ \<Rightarrow> None) now d1 = (Inr (Some eid), d')"
    by (rule fire_schedule_parts [OF assms(3)])
  have "fresh \<in> set (t_schedules d1)"
    using fired by (auto simp: fired_def insert_execution_Inr)
  moreover have "map s_id (t_schedules d') = map s_id (t_schedules d1)"
    using fin by (auto simp: fire_finish_def set_schedule_def set_execution_def map_key_update_where
        split: sum.splits option.splits)
  ultimately have "s_id fresh \<in> s_id ` set (t_schedules d')" by (metis image_eqI set_map)
  then obtain sch where sch: "sch \<in> set (t_schedules d')" "s_id sch = sid" using id by auto
  then obtain t where "s_next_run_at sch = Some t" "now < t"
    using cron_lib.fire_finish_later [OF assms(1) fin] id by auto
  moreover have "keys_ok d'" using fire_schedule_db_ok [OF assms(2,3)] by (rule db_ok_keys)
  ultimately show ?thesis using fire_not_due [OF _ sch(1)] sch(2) by metis
qed

theorem no_double_fire_witness:
  "\<exists>eid d' s'. fire_schedule default_settings every_next mem_redis (\<lambda>n. int n) 40 55 33 100 (demo_db, mem_empty)
     = (Inr (Some eid), d', s') \<and>
     fire_schedule default_settings every_next mem_redis (\<lambda>n. int n) 40 7 34 100 (d', s') = (Inr None, d', s')"
proof -
  obtain eid d' s' where run: "fire_schedule default_settings every_next mem_redis (\<lambda>n. int n) 40 55 33 100
      (demo_db, mem_empty) = (Inr (Some eid), d', s')" using demo_fires by blast
  from no_double_fire [OF every.cron_lib_axioms demo_db_ok run] show ?thesis using run by blast
qed

text \<open>A schedule that is later than the poll interval times the number of tolerated missed runs is
  skipped: no execution and no job, only its next run moves past the present.\<close>

theorem missed_run_skipped:
  assumes "cron_lib cron_ok cron" and "db_ok d" and "sch \<in> set (t_schedules d)" and "s_status sch = S_ACTIVE"
    and "s_next_run_at sch = Some due" and "cron_ok (s_cron_expression sch)"
    and "due < now" and "seconds (scheduler_poll_interval cfg * scheduler_max_missed_runs cfg) < now - due"
  shows "\<exists>t. now < t \<and> fire_schedule cfg cron R clock (s_id sch) draw i now (d, s) =
    (Inr None, set_schedule (s_id sch) (\<lambda>x. x\<lparr>s_next_run_at := Some t\<rparr>) d, s)"
proof -
  from cron_lib.cron_defined [OF assms(1,6)] obtain t where t: "cron (s_cron_expression sch) now = Inr t" by blast
  have adv: "advance cron sch now d = (Inr None, set_schedule (s_id sch) (\<lambda>x. x\<lparr>s_next_run_at := Some t\<rparr>) d)"
    by (simp add: advance_def compute_next_def t)
  obtain fn where fn: "fn \<in> set (t_functions d)" "f_id fn = s_function_id sch"
    using assms(2,3) by (auto simp: db_ok_def refs_ok_def)
  have look: "scalar_one_or_none (filter (\<lambda>f. f_id f = s_function_id sch) (t_functions d)) = Inr (Some fn)"
    using scalar_by_key [of f_id "t_functions d" fn "s_function_id sch" "\<lambda>_. True"] fn
      keys_ok_functions [OF db_ok_keys [OF assms(2)]] by simp
  obtain y where y: "choose_execution_version d fn None draw = Inr y"
    using choose_total [OF db_ok_keys [OF assms(2)]] by blast
  have "fire_due cfg cron sch due draw i now d = advance cron sch now d"
    using assms(7,8) by (cases y) (simp_all add: fire_due_def look y)
  then have "fire_begin cfg cron (s_id sch) draw i now d =
      (Inr None, set_schedule (s_id sch) (\<lambda>x. x\<lparr>s_next_run_at := Some t\<rparr>) d)"
    using schedule_by_id [OF db_ok_keys [OF assms(2)] assms(3)] assms(4,5,7) adv by (simp add: fire_begin_def)
  then show ?thesis using cron_lib.cron_later [OF assms(1) t] by (auto simp: fire_schedule_def)
qed

theorem missed_run_skipped_witness:
  "\<exists>t. seconds 1000 < t \<and> fire_schedule default_settings every_next mem_redis (\<lambda>n. int n) 40 55 33 (seconds 1000) (demo_db, mem_empty)
     = (Inr None, set_schedule 40 (\<lambda>x. x\<lparr>s_next_run_at := Some t\<rparr>) demo_db, mem_empty)"
  using missed_run_skipped [OF every.cron_lib_axioms demo_db_ok, of demo_schedule 100 "seconds 1000" default_settings mem_redis
      "\<lambda>n. int n" 55 33 mem_empty]
  by (simp add: every_ok_def)

text \<open>An instance that does not get the scheduler's lock processes nothing: its tick returns with the
  database as it was, and when no exception ended it the lock is still with its owner.\<close>

theorem tick_needs_the_lock:
  assumes "redis_server R zs kv rest rank" and "kv s (lk_name (scheduler_lock cfg)) = Some owner" and "owner \<noteq> token"
    and "\<And>n x. kv x (lk_name (scheduler_lock cfg)) = Some owner \<Longrightarrow> kv (sleep n x) (lk_name (scheduler_lock cfg)) = Some owner"
    and "\<And>n. ticks n + 100000 \<le> ticks (Suc n)"
  shows "\<exists>r s'. tick cfg cron R token start ticks sleep inp now (d, s) = Some (r, d, s') \<and>
    (r = Inr () \<longrightarrow> kv s' (lk_name (scheduler_lock cfg)) = Some owner)"
proof -
  let ?lk = "scheduler_lock cfg"
  obtain res s1 where run: "fst (acquire R ?lk token start ticks sleep s) = Some (res, s1)"
    using redis_server.lock_wait_ends [OF assms(1), of ticks, OF assms(5)] by fastforce
  then have acq: "acquire R ?lk token start ticks sleep s = (Some (res, s1), ?lk\<lparr>lk_token := Some token\<rparr>)"
    by (simp add: acquire_def)
  obtain r2 s2 where rel: "release R (?lk\<lparr>lk_token := Some token\<rparr>) s1 = (r2, s2)" by fastforce
  note held = redis_server.lock_held [where R = R and zs = zs and kv = kv and rest = rest and rank = rank
      and lk = ?lk and s = s and t = owner and sleep = sleep, OF assms(1,2,4)]
  show ?thesis
  proof (cases res)
    case (Inr b)
    with held run have b: "\<not> b" "kv s1 (lk_name ?lk) = Some owner" by blast+
    then have "kv s2 = kv s1" using redis_server.lock_released(2) [OF assms(1) rel] assms(3) by simp
    then show ?thesis using acq Inr b rel by (simp add: tick_def)
  qed (use acq in \<open>simp add: tick_def\<close>)
qed

theorem tick_needs_the_lock_witness:
  "\<exists>r s'. tick default_settings every_next mem_redis ''b'' 0 (\<lambda>i. seconds (int i)) (\<lambda>_ x. x)
     (\<lambda>_. \<lparr>fi_draw = 0, fi_id = 33, fi_now = 100, fi_clock = (\<lambda>i. seconds (int i))\<rparr>) 100
     (demo_db, mem_put (lk_name (scheduler_lock default_settings)) ''a'' mem_empty) = Some (r, demo_db, s')"
  using tick_needs_the_lock [OF mem.redis_server_axioms, of "mem_put (lk_name (scheduler_lock default_settings)) ''a'' mem_empty"
      default_settings "''a''" "''b''" "\<lambda>_ x. x" "\<lambda>i. seconds (int i)"] by fastforce

end
