(* ===== verification/Runner.thy ===== *)
theory Runner
  imports Sandbox_Facts Code_Validator Storage
begin

text \<open>
  \<open>sandbox/runner.py\<close>, the script inside the container. The file system is an association list
  from paths to contents; the artifact store, the ZIP library, \<open>pip\<close>, the import machinery and
  the user's handler are parameters. The value of \<open>runner_main\<close> is the exit code (or the
  exception that ends the process), everything written to the standard streams in order, and the
  files it leaves.
\<close>

section \<open>Parameters\<close>

type_synonym files = "(string \<times> string) list"

text \<open>
  What a call of the handler does: it returns a value (JSON, or one that \<open>json.dumps\<close> refuses
  with a message), or raises; an exception of the alarm is \<open>TimeoutError\<close>. The string is what it
  printed.
\<close>

datatype handler_outcome =
    HReturned json
  | HUnserialisable string
  | HTimeout string
  | HRaised string string

record handler =
  h_positional :: nat
  h_varargs :: bool
  h_call :: "json list \<Rightarrow> handler_outcome \<times> string"

record runner_lib =
  rn_fetch :: "string \<Rightarrow> string result"
  rn_unzip :: "string \<Rightarrow> zip_entry list result"
  rn_pip :: "string \<Rightarrow> int \<Rightarrow> (int \<times> string) result"
  rn_exec_module :: "string \<Rightarrow> (string \<times> handler) list result"

section \<open>Paths and output\<close>

definition under :: "string \<Rightarrow> string \<Rightarrow> string" where
  "under dir name = dir @ ''/'' @ name"

definition module_file :: "string \<Rightarrow> string" where
  "module_file m = map (\<lambda>c. if c = CHR ''.'' then CHR ''/'' else c) m @ ''.py''"

definition say :: "string \<Rightarrow> string" where
  "say s = s @ [CHR 0x0A]"

definition emit_result :: "json \<Rightarrow> string" where
  "emit_result j = say (result_prefix @ dumps j)"

section \<open>Steps\<close>

text \<open>
  Members with \<open>..\<close> in the name or an absolute path are skipped. \<open>ZipFile.extract\<close> drops the empty,
  \<open>.\<close> and \<open>..\<close> components of a name and creates a directory for a name that ends with a slash. (A
  file and a directory of one name, which the operating system refuses, are not told apart here.)
\<close>

definition skipped_member :: "string \<Rightarrow> bool" where
  "skipped_member name \<longleftrightarrow> contains ''..'' name \<or> prefix ''/'' name"

fun join_path :: "string list \<Rightarrow> string" where
  "join_path [] = []"
| "join_path [x] = x"
| "join_path (x # y # xs) = x @ ''/'' @ join_path (y # xs)"

definition member_parts :: "string \<Rightarrow> string list" where
  "member_parts name = filter (\<lambda>x. x \<notin> {[], ''.'', ''..''}) (split_on (CHR ''/'') name)"

definition member_path :: "string \<Rightarrow> string" where
  "member_path name = join_path (member_parts name)"

fun extract_members :: "zip_entry list \<Rightarrow> string list \<Rightarrow> string \<Rightarrow> files \<Rightarrow> unit result \<times> files" where
  "extract_members es [] dir fs = (Inr (), fs)"
| "extract_members es (name # names) dir fs =
     (if skipped_member name then extract_members es names dir fs
      else (case getinfo es name of
              Inl e \<Rightarrow> (Inl e, fs)
            | Inr info \<Rightarrow>
                if suffix ''/'' name then extract_members es names dir fs
                else if member_path name = [] then (Inl (OtherError ''IsADirectoryError''), fs)
                else (case z_read info of
                        Inl e \<Rightarrow> (Inl e, fs)
                      | Inr bytes \<Rightarrow> extract_members es names dir (dict_set (under dir (member_path name)) bytes fs))))"

definition extract_archive :: "runner_lib \<Rightarrow> string \<Rightarrow> string \<Rightarrow> files \<Rightarrow> unit result \<times> files" where
  "extract_archive L archive dir fs =
     (case rn_unzip L archive of
        Inl e \<Rightarrow> (Inl e, fs)
      | Inr es \<Rightarrow> extract_members es (map z_name es) dir fs)"

definition write_inline_source :: "string \<Rightarrow> string \<Rightarrow> string \<Rightarrow> files \<Rightarrow> unit result \<times> files" where
  "write_inline_source dir entrypoint source fs =
     (case rsplit1 (CHR ''.'') entrypoint of
        None \<Rightarrow> (Inl (ValueError ''not enough values to unpack (expected 2, got 1)''), fs)
      | Some (m, f) \<Rightarrow> (Inr (), dict_set (under dir (module_file m)) source fs))"

definition remove_tree :: "string \<Rightarrow> files \<Rightarrow> files" where
  "remove_tree dir fs = filter (\<lambda>(p, c). \<not> prefix (dir @ ''/'') p) fs"

definition last_chars :: "nat \<Rightarrow> string \<Rightarrow> string" where
  "last_chars n s = drop (length s - n) s"

definition pip_timeout :: "int \<Rightarrow> int" where
  "pip_timeout timeout = min 120 (max 15 timeout)"

text \<open>\<open>now\<close> is the text of the clock that the marker file holds.\<close>

definition install_requirements ::
  "runner_lib \<Rightarrow> string \<Rightarrow> string \<Rightarrow> int \<Rightarrow> string \<Rightarrow> files \<Rightarrow> unit result \<times> string \<times> files" where
  "install_requirements L dir deps timeout now fs =
     (case map_of fs (under dir ''requirements.txt'') of
        None \<Rightarrow> (Inr (), [], fs)
      | Some reqs \<Rightarrow>
          if map_of fs (under deps ''.sopm-installed'') \<noteq> None then (Inr (), [], fs)
          else (let fs1 = remove_tree deps fs;
                    out = say ''[sopm-runner] installing dependencies from requirements.txt''
                in case rn_pip L reqs (pip_timeout timeout) of
                     Inl e \<Rightarrow> (Inl e, out, fs1)
                   | Inr (code, log) \<Rightarrow>
                       if code \<noteq> 0
                       then (Inl (OtherError (''dependency install failed:'' @ [CHR 0x0A] @ last_chars 4000 log)), out, fs1)
                       else (Inr (), out, dict_set (under deps ''.sopm-installed'') now fs1)))"

definition load_handler :: "runner_lib \<Rightarrow> string \<Rightarrow> string \<Rightarrow> files \<Rightarrow> handler result" where
  "load_handler L dir entrypoint fs =
     (case rsplit1 (CHR ''.'') entrypoint of
        None \<Rightarrow> Inl (ValueError (''Entrypoint must be '' @ quoted ''module.function'' @ '', got: '' @ entrypoint))
      | Some (m, f) \<Rightarrow>
          (case map_of fs (under dir (module_file m)) of
             None \<Rightarrow> Inl (OtherError (''Module file not found: '' @ under dir (module_file m)))
           | Some source \<Rightarrow>
               (case rn_exec_module L source of
                  Inl e \<Rightarrow> Inl e
                | Inr names \<Rightarrow>
                    (case map_of names f of
                       None \<Rightarrow> Inl (OtherError (''Function '' @ quoted f @ '' not found in module '' @ quoted m))
                     | Some h \<Rightarrow> Inr h))))"

section \<open>The main program\<close>

definition env_get :: "string \<Rightarrow> string \<Rightarrow> files \<Rightarrow> string" where
  "env_get k dflt env = (case map_of env k of None \<Rightarrow> dflt | Some v \<Rightarrow> v)"

definition failed_report :: "string \<Rightarrow> string \<Rightarrow> string" where
  "failed_report what msg =
     say (''[sopm-runner] ERROR: '' @ what @ msg) @
     emit_result (JObj [(''error'', JStr (what @ msg)), (''success'', JBool False)])"

text \<open>
  Getting the code in place: inline source, or the archive once per work directory. The result is
  the exit code and final output when the step fails.
\<close>

definition prepare_source ::
  "runner_lib \<Rightarrow> files \<Rightarrow> string \<Rightarrow> string \<Rightarrow> string \<Rightarrow> files \<Rightarrow> (string + string) \<times> files" where
  "prepare_source L env dir entrypoint now fs =
     (case map_of env ''SOPM_SOURCE_CODE'' of
        Some source \<Rightarrow>
          (let out = say (''[sopm-runner] using inline source for '' @ entrypoint) in
           case write_inline_source dir entrypoint source fs of
             (Inl e, fs') \<Rightarrow> (Inl (out @ failed_report ''inline source write failed: '' (exn_str e)), fs')
           | (Inr _, fs') \<Rightarrow> (Inr out, fs'))
      | None \<Rightarrow>
          if map_of fs (under dir ''.sopm-extracted'') \<noteq> None
          then (Inr (say (''[sopm-runner] using cached artifact: '' @ dir)), fs)
          else if env_get ''SOPM_ARTIFACT_PATH'' [] env = []
          then (Inl (failed_report ''SOPM_ARTIFACT_PATH is required without SOPM_SOURCE_CODE'' []), fs)
          else (let path = env_get ''SOPM_ARTIFACT_PATH'' [] env;
                    out = say (''[sopm-runner] downloading artifact: '' @ path)
                in case rn_fetch L path of
                     Inl e \<Rightarrow> (Inl (out @ failed_report ''artifact download failed: '' (exn_str e)), fs)
                   | Inr bytes \<Rightarrow>
                       (case extract_archive L bytes dir (dict_set (under dir ''source.zip'') bytes fs) of
                          (Inl e, fs') \<Rightarrow> (Inl (out @ failed_report ''archive extraction failed: '' (exn_str e)), fs')
                        | (Inr _, fs') \<Rightarrow> (Inr out, dict_set (under dir ''.sopm-extracted'') now fs'))))"

definition call_args :: "handler \<Rightarrow> json \<Rightarrow> json \<Rightarrow> json list" where
  "call_args h payload ctx =
     (if h_varargs h \<or> 2 \<le> h_positional h then [payload, ctx]
      else if h_positional h = 1 then [payload] else [])"

definition as_dict :: "json \<Rightarrow> json" where
  "as_dict j = (case j of JObj kvs \<Rightarrow> j | _ \<Rightarrow> JObj [(''return_value'', j)])"

definition success_report :: "json \<Rightarrow> int \<Rightarrow> json" where
  "success_report result ms =
     JObj [(''success'', JBool True), (''result'', as_dict result), (''duration_ms'', JInt ms)]"

text \<open>
  The call of the handler and the report. \<open>took\<close> is the printed duration, \<open>ms\<close> the duration in
  milliseconds.
\<close>

definition run_handler ::
  "handler \<Rightarrow> string \<Rightarrow> int \<Rightarrow> json \<Rightarrow> string \<Rightarrow> int \<Rightarrow> int \<times> string" where
  "run_handler h execution_id timeout payload took ms =
     (let ctx = JObj [(''execution_id'', JStr execution_id), (''timeout'', JInt timeout)];
          (outcome, printed) = h_call h (call_args h payload ctx);
          completed = say (''[sopm-runner] completed in '' @ took @ ''s'')
      in case outcome of
           HReturned j \<Rightarrow> (0, printed @ completed @ emit_result (success_report j ms))
         | HUnserialisable msg \<Rightarrow>
             (1, printed @ completed @ say (''[sopm-runner] ERROR: '' @ msg) @
                 emit_result (JObj [(''success'', JBool False), (''error'', JStr msg), (''traceback'', JStr [])]))
         | HTimeout msg \<Rightarrow>
             (1, printed @ say (''[sopm-runner] TIMEOUT: '' @ msg) @
                 emit_result (JObj [(''success'', JBool False), (''error'', JStr msg), (''timed_out'', JBool True)]))
         | HRaised msg tb \<Rightarrow>
             (1, printed @ say (''[sopm-runner] ERROR: '' @ msg @ [CHR 0x0A] @ tb) @
                 emit_result (JObj [(''success'', JBool False), (''error'', JStr msg), (''traceback'', JStr tb)])))"

definition payload_of :: "string \<Rightarrow> json" where
  "payload_of raw = (case loads raw of None \<Rightarrow> JObj [] | Some j \<Rightarrow> j)"

text \<open>From the dependencies to the report, once the source is in place.\<close>

definition run_prepared ::
  "runner_lib \<Rightarrow> files \<Rightarrow> string \<Rightarrow> string \<Rightarrow> int \<Rightarrow> string \<Rightarrow> string \<Rightarrow> int \<Rightarrow> files \<Rightarrow> int \<times> string \<times> files" where
  "run_prepared L env dir deps timeout now took ms fs =
     (let entrypoint = env_get ''SOPM_ENTRYPOINT'' ''handler.handler'' env in
      case install_requirements L dir deps timeout now fs of
        (Inl e, out, fs') \<Rightarrow>
          (1, out @ say (''[sopm-runner] ERROR: dependency install failed: '' @ exn_str e) @
              emit_result (JObj [(''error'', JStr (''dependency install failed: '' @ exn_str e)),
                (''success'', JBool False), (''phase'', JStr ''dependency_install'')]), fs')
      | (Inr _, out, fs') \<Rightarrow>
          (case load_handler L dir entrypoint fs' of
             Inl e \<Rightarrow> (1, out @ failed_report ''handler load failed: '' (exn_str e), fs')
           | Inr h \<Rightarrow>
               (case run_handler h (env_get ''SOPM_EXECUTION_ID'' ''unknown'' env) timeout
                       (payload_of (env_get ''SOPM_PAYLOAD'' ''{}'' env)) took ms of
                  (code, text) \<Rightarrow>
                    (code, out @ say (''[sopm-runner] executing '' @ entrypoint) @ text, fs'))))"

definition work_dirs :: "files \<Rightarrow> string \<times> string" where
  "work_dirs env =
     (if env_get ''SOPM_CACHE_DIR'' [] env = []
      then (env_get ''SOPM_WORK_DIR'' ''/work'' env, under (env_get ''SOPM_WORK_DIR'' ''/work'' env) ''.deps'')
      else (under (env_get ''SOPM_CACHE_DIR'' [] env) ''src'', under (env_get ''SOPM_CACHE_DIR'' [] env) ''deps''))"

definition runner_main ::
  "runner_lib \<Rightarrow> files \<Rightarrow> string \<Rightarrow> string \<Rightarrow> int \<Rightarrow> files \<Rightarrow> int result \<times> string \<times> files" where
  "runner_main L env now took ms fs =
     (case py_int (env_get ''SOPM_TIMEOUT'' ''300'' env) of
        None \<Rightarrow> (Inl (ValueError ''invalid literal for int()''), [], fs)
      | Some timeout \<Rightarrow>
          (let (dir, deps) = work_dirs env;
               entrypoint = env_get ''SOPM_ENTRYPOINT'' ''handler.handler'' env;
               out0 = say (''[sopm-runner] execution_id='' @ env_get ''SOPM_EXECUTION_ID'' ''unknown'' env)
           in case prepare_source L env dir entrypoint now fs of
                (Inl out, fs') \<Rightarrow> (Inr 1, out0 @ out, fs')
              | (Inr out, fs') \<Rightarrow>
                  (case run_prepared L env dir deps timeout now took ms fs' of
                     (code, text, fs'') \<Rightarrow> (Inr code, out0 @ out @ text, fs''))))"

section \<open>The report is the last line\<close>

definition reports :: "string \<Rightarrow> json \<Rightarrow> bool" where
  "reports out j \<longleftrightarrow> (\<exists>pre. (pre = [] \<or> last pre = CHR 0x0A) \<and> out = pre @ emit_result j)"

definition lines_done :: "string \<Rightarrow> bool" where
  "lines_done x \<longleftrightarrow> x = [] \<or> last x = CHR 0x0A"

lemma lines_done_append: "lines_done x \<Longrightarrow> lines_done y \<Longrightarrow> lines_done (x @ y)"
  by (cases y) (simp_all add: lines_done_def)

lemma reports_iff: "reports out j \<longleftrightarrow> (\<exists>pre. lines_done pre \<and> out = pre @ emit_result j)"
  by (simp add: reports_def lines_done_def)

lemma reports_append: "reports out j \<Longrightarrow> lines_done x \<Longrightarrow> reports (x @ out) j"
  unfolding reports_iff using lines_done_append by (metis append.assoc)

lemma last_say [simp]: "last (say s) = CHR 0x0A" "say s \<noteq> []"
  by (simp_all add: say_def)

lemma reports_say: "reports (x @ say s @ emit_result j) j"
  unfolding reports_def by (rule exI [of _ "x @ say s"]) (simp add: last_append)

lemma reports_say0: "reports (say s @ emit_result j) j"
  using reports_say [of "[]" s j] by simp

lemma parse_reports:
  assumes "reports out j" and "wf_json j"
  shows "parse_result_from_logs out = none_if_null j"
  using assms parse_result_last by (auto simp: reports_def emit_result_def say_def)

lemma wf_as_dict: "wf_json j \<Longrightarrow> wf_json (as_dict j)"
  by (cases j) (simp_all add: as_dict_def)

lemma wf_success_report: "wf_json j \<Longrightarrow> wf_json (success_report j ms)"
  by (simp add: success_report_def wf_as_dict)

text \<open>Reports of a failure carry an error and are well formed.\<close>

definition failure_json :: "json \<Rightarrow> bool" where
  "failure_json j \<longleftrightarrow> wf_json j \<and> (\<exists>kvs. j = JObj kvs \<and> map_of kvs ''success'' = Some (JBool False) \<and>
     (\<exists>e. map_of kvs ''error'' = Some (JStr e)))"

lemma failed_report_reports: "\<exists>j. reports (failed_report what msg) j \<and> failure_json j"
  unfolding failed_report_def
  by (rule exI, rule conjI, rule reports_say0) (simp add: failure_json_def)

lemma run_handler_reports:
  assumes "run_handler h eid timeout payload took ms = (code, out)"
    and ret: "h_call h (call_args h payload (JObj [(''execution_id'', JStr eid), (''timeout'', JInt timeout)])) = (oc, printed)"
  shows "case oc of
      HReturned r \<Rightarrow> code = 0 \<and> reports out (success_report r ms)
    | _ \<Rightarrow> code = 1 \<and> (\<exists>j. reports out j \<and> failure_json j)"
proof (cases oc)
  case (HReturned r)
  then have "out = printed @ say (''[sopm-runner] completed in '' @ took @ ''s'') @ emit_result (success_report r ms)"
    "code = 0" using assms by (simp_all add: run_handler_def Let_def)
  then show ?thesis using HReturned reports_say by simp
next
  case (HUnserialisable msg)
  let ?j = "JObj [(''success'', JBool False), (''error'', JStr msg), (''traceback'', JStr [])]"
  have "out = (printed @ say (''[sopm-runner] completed in '' @ took @ ''s'')) @
      say (''[sopm-runner] ERROR: '' @ msg) @ emit_result ?j" "code = 1"
    using assms HUnserialisable by (simp_all add: run_handler_def Let_def)
  then have "reports out ?j" by (simp only: reports_say)
  moreover have "failure_json ?j" by (simp add: failure_json_def)
  ultimately have "\<exists>j. reports out j \<and> failure_json j" by blast
  then show ?thesis using HUnserialisable \<open>code = 1\<close> by simp
next
  case (HTimeout msg)
  let ?j = "JObj [(''success'', JBool False), (''error'', JStr msg), (''timed_out'', JBool True)]"
  have "out = printed @ say (''[sopm-runner] TIMEOUT: '' @ msg) @ emit_result ?j" "code = 1"
    using assms HTimeout by (simp_all add: run_handler_def Let_def)
  then have "reports out ?j" by (simp only: reports_say)
  moreover have "failure_json ?j" by (simp add: failure_json_def)
  ultimately have "\<exists>j. reports out j \<and> failure_json j" by blast
  then show ?thesis using HTimeout \<open>code = 1\<close> by simp
next
  case (HRaised msg tb)
  let ?j = "JObj [(''success'', JBool False), (''error'', JStr msg), (''traceback'', JStr tb)]"
  have "out = printed @ say (''[sopm-runner] ERROR: '' @ msg @ [CHR 0x0A] @ tb) @ emit_result ?j" "code = 1"
    using assms HRaised by (simp_all add: run_handler_def Let_def)
  then have "reports out ?j" by (simp only: reports_say)
  moreover have "failure_json ?j" by (simp add: failure_json_def)
  ultimately have "\<exists>j. reports out j \<and> failure_json j" by blast
  then show ?thesis using HRaised \<open>code = 1\<close> by simp
qed

text \<open>Every piece of the output ends its line, so the pieces can be put one after the other.\<close>

lemma lines_done_say [simp]: "lines_done (say s)" "lines_done []"
  by (simp_all add: lines_done_def)

lemma lines_done_reports: "reports out j \<Longrightarrow> lines_done out"
  by (auto simp: reports_iff lines_done_def emit_result_def say_def)

lemma prepare_source_out:
  assumes "prepare_source L env dir ep now fs = (r, fs')"
  shows "case r of Inl out \<Rightarrow> \<exists>j. reports out j \<and> failure_json j | Inr out \<Rightarrow> lines_done out"
proof -
  have rep: "\<exists>j. reports (say a @ failed_report b c) j \<and> failure_json j" for a b c
    using failed_report_reports [of b c] reports_append [of _ _ "say a"] by (metis lines_done_say(1))
  show ?thesis
    using assms rep failed_report_reports
    by (auto simp: prepare_source_def Let_def split: option.splits if_splits prod.splits sum.splits)
qed

lemma install_requirements_out:
  "install_requirements L dir deps timeout now fs = (r, out, fs') \<Longrightarrow> lines_done out"
  by (auto simp: install_requirements_def Let_def split: option.splits if_splits sum.splits prod.splits)

definition returns_json :: "runner_lib \<Rightarrow> bool" where
  "returns_json L \<longleftrightarrow> (\<forall>source names n h args r p. rn_exec_module L source = Inr names \<longrightarrow>
     map_of names n = Some h \<longrightarrow> h_call h args = (HReturned r, p) \<longrightarrow> wf_json r)"

lemma load_handler_Inr:
  assumes "load_handler L dir ep fs = Inr h" and "returns_json L" and "h_call h args = (HReturned r, p)"
  shows "wf_json r"
proof -
  from assms(1) obtain source names f where "rn_exec_module L source = Inr names" "map_of names f = Some h"
    by (auto simp: load_handler_def split: option.splits prod.splits sum.splits)
  then show ?thesis using assms(2,3) unfolding returns_json_def by blast
qed

definition report_ok :: "int \<Rightarrow> int \<Rightarrow> string \<Rightarrow> bool" where
  "report_ok code ms out \<longleftrightarrow>
     (code = 0 \<and> (\<exists>r. wf_json r \<and> reports out (success_report r ms))) \<or>
     (code = 1 \<and> (\<exists>j. reports out j \<and> failure_json j))"

lemma report_ok_append: "report_ok code ms out \<Longrightarrow> lines_done x \<Longrightarrow> report_ok code ms (x @ out)"
  unfolding report_ok_def using reports_append by blast

lemma run_handler_ok:
  assumes "run_handler h eid timeout payload took ms = (code, out)"
    and "\<And>args r p. h_call h args = (HReturned r, p) \<Longrightarrow> wf_json r"
  shows "report_ok code ms out"
proof -
  obtain oc printed where ret: "h_call h (call_args h payload (JObj [(''execution_id'', JStr eid),
      (''timeout'', JInt timeout)])) = (oc, printed)" by fastforce
  from run_handler_reports [OF assms(1) ret] assms(2) [of _ _ printed] ret
  show ?thesis by (cases oc) (auto simp: report_ok_def)
qed

lemma run_prepared_ok:
  assumes run: "run_prepared L env dir deps timeout now took ms fs = (code, out, fs')" and js: "returns_json L"
  shows "report_ok code ms out"
proof -
  let ?ep = "env_get ''SOPM_ENTRYPOINT'' ''handler.handler'' env"
  obtain r out1 fs1 where ins: "install_requirements L dir deps timeout now fs = (r, out1, fs1)" by (metis prod_cases3)
  note l1 = install_requirements_out [OF ins]
  show ?thesis
  proof (cases r)
    case (Inl e)
    let ?j = "JObj [(''error'', JStr (''dependency install failed: '' @ exn_str e)),
      (''success'', JBool False), (''phase'', JStr ''dependency_install'')]"
    have "code = 1" "out = out1 @ say (''[sopm-runner] ERROR: dependency install failed: '' @ exn_str e) @ emit_result ?j"
      using run ins Inl by (simp_all add: run_prepared_def Let_def)
    then have "code = 1" "reports out ?j" by (simp_all only: reports_say)
    moreover have "failure_json ?j" by (simp add: failure_json_def)
    ultimately show ?thesis by (auto simp: report_ok_def)
  next
    case (Inr u)
    show ?thesis
    proof (cases "load_handler L dir ?ep fs1")
      case (Inl e)
      have "code = 1" "out = out1 @ failed_report ''handler load failed: '' (exn_str e)"
        using run ins Inr Inl by (simp_all add: run_prepared_def Let_def)
      moreover have "report_ok 1 ms (failed_report ''handler load failed: '' (exn_str e))"
        using failed_report_reports by (simp add: report_ok_def)
      ultimately show ?thesis using report_ok_append l1 by simp
    next
      case h: (Inr h)
      obtain c txt1 where rh: "run_handler h (env_get ''SOPM_EXECUTION_ID'' ''unknown'' env) timeout
          (payload_of (env_get ''SOPM_PAYLOAD'' ''{}'' env)) took ms = (c, txt1)" by fastforce
      have ok: "report_ok c ms txt1" using run_handler_ok [OF rh] load_handler_Inr [OF h js] by blast
      have "code = c" "out = out1 @ say (''[sopm-runner] executing '' @ ?ep) @ txt1"
        using run ins Inr h rh by (simp_all add: run_prepared_def Let_def)
      then show ?thesis using report_ok_append ok l1 by (simp only: lines_done_say)
    qed
  qed
qed

lemma runner_main_ok:
  assumes run: "runner_main L env now took ms fs = (Inr code, out, fs')" and js: "returns_json L"
  shows "report_ok code ms out"
proof -
  let ?ep = "env_get ''SOPM_ENTRYPOINT'' ''handler.handler'' env"
  let ?out0 = "say (''[sopm-runner] execution_id='' @ env_get ''SOPM_EXECUTION_ID'' ''unknown'' env)"
  obtain dir deps where wd: "work_dirs env = (dir, deps)" by fastforce
  obtain timeout where t: "py_int (env_get ''SOPM_TIMEOUT'' ''300'' env) = Some timeout"
    using run by (auto simp: runner_main_def split: option.splits)
  obtain r fs1 where ps: "prepare_source L env dir ?ep now fs = (r, fs1)" by fastforce
  note po = prepare_source_out [OF ps]
  show ?thesis
  proof (cases r)
    case (Inl o1)
    then have "code = 1" "out = ?out0 @ o1" using run wd t ps by (simp_all add: runner_main_def Let_def)
    moreover have "report_ok 1 ms o1" using po Inl by (simp add: report_ok_def)
    ultimately show ?thesis using report_ok_append by (simp only: lines_done_say)
  next
    case (Inr o1)
    obtain c txt1 fs2 where rp: "run_prepared L env dir deps timeout now took ms fs1 = (c, txt1, fs2)"
      by (metis prod_cases3)
    have "report_ok c ms txt1" using run_prepared_ok [OF rp js] .
    moreover have "code = c" "out = ?out0 @ o1 @ txt1"
      using run wd t ps Inr rp by (simp_all add: runner_main_def Let_def)
    moreover have "lines_done o1" using po Inr by simp
    ultimately show ?thesis using report_ok_append by (simp only: lines_done_say)
  qed
qed

section \<open>Extraction and the entry point\<close>

lemma contains_sublist: "contains p s \<longleftrightarrow> sublist p s"
  by (induction p s rule: contains.induct) (auto simp: sublist_Cons_right)

lemma split_on_nonempty: "split_on d s \<noteq> []"
  by (cases s) (auto split: list.splits)

lemma split_on_sublist: "w \<in> set (split_on d s) \<Longrightarrow> sublist w s"
proof (induction s arbitrary: w)
  case (Cons c s)
  obtain v vs where sp: "split_on d s = v # vs" using split_on_nonempty by (meson list.exhaust)
  have pre: "prefix v s"
    using sp
  proof (induction s arbitrary: v vs)
    case (Cons a s)
    then show ?case by (auto split: if_splits list.splits)
  qed simp
  show ?case using Cons.prems Cons.IH sp pre
    by (auto simp: sublist_Cons_right split: if_splits)
qed simp

text \<open>Whatever the archive, only paths under the work directory are written, and none climbs out.\<close>

definition inside :: "string \<Rightarrow> string \<Rightarrow> bool" where
  "inside dir p \<longleftrightarrow> (\<exists>cs. cs \<noteq> [] \<and> p = under dir (join_path cs) \<and>
     (\<forall>c \<in> set cs. c \<noteq> [] \<and> c \<noteq> ''.'' \<and> \<not> contains ''..'' c))"

lemma member_inside:
  assumes "\<not> skipped_member n" and "member_path n \<noteq> []"
  shows "inside dir (under dir (member_path n))"
proof -
  have "\<not> contains ''..'' c" if "c \<in> set (member_parts n)" for c
    using assms(1) that split_on_sublist [of c "CHR ''/''" n] sublist_order.order_trans
    by (auto simp: skipped_member_def member_parts_def contains_sublist)
  moreover have "member_parts n \<noteq> []" using assms(2) by (auto simp: member_path_def)
  ultimately show ?thesis
    unfolding inside_def member_path_def
    by (intro exI [of _ "member_parts n"]) (auto simp: member_parts_def)
qed

lemma extract_members_confined:
  "extract_members es names dir fs = (r, fs') \<Longrightarrow> map_of fs' p \<noteq> map_of fs p \<Longrightarrow>
   \<exists>n \<in> set names. p = under dir (member_path n) \<and> \<not> skipped_member n \<and> \<not> suffix ''/'' n \<and> member_path n \<noteq> []"
proof (induction names arbitrary: fs)
  case (Cons n names)
  show ?case
  proof (cases "skipped_member n \<or> (\<exists>i. getinfo es n = Inr i \<and> suffix ''/'' n)")
    case True
    then have "extract_members es names dir fs = (r, fs')" using Cons.prems(1)
      by (auto split: if_splits)
    from Cons.IH [OF this Cons.prems(2)] show ?thesis by auto
  next
    case False
    then obtain info bytes where ok: "getinfo es n = Inr info" "z_read info = Inr bytes"
        "member_path n \<noteq> []" "\<not> suffix ''/'' n"
      using Cons.prems by (cases "getinfo es n"; cases "z_read (projr (getinfo es n))") (auto split: if_splits)
    then have run: "extract_members es names dir (dict_set (under dir (member_path n)) bytes fs) = (r, fs')"
      using Cons.prems False by simp
    show ?thesis
    proof (cases "p = under dir (member_path n)")
      case True
      then show ?thesis using False ok by auto
    next
      case ne: False
      then have "map_of fs' p \<noteq> map_of (dict_set (under dir (member_path n)) bytes fs) p"
        using Cons.prems by (simp add: map_of_dict_set)
      from Cons.IH [OF run this] show ?thesis by auto
    qed
  qed
qed simp

lemma under_inj: "under dir a = under dir b \<longleftrightarrow> a = b"
  by (simp add: under_def)

text \<open>When no member is skipped, the files can be read and have paths of their own, all are there.\<close>

lemma extract_members_all:
  assumes "\<forall>n \<in> set names. \<not> skipped_member n"
    and "\<forall>n \<in> set names. \<exists>i. getinfo es n = Inr i \<and> (\<not> suffix ''/'' n \<longrightarrow> z_read i = Inr (bytes n) \<and> member_path n \<noteq> [])"
    and "inj_on member_path {n \<in> set names. \<not> suffix ''/'' n}"
  shows "\<exists>fs'. extract_members es names dir fs = (Inr (), fs') \<and>
    (\<forall>n \<in> set names. \<not> suffix ''/'' n \<longrightarrow> map_of fs' (under dir (member_path n)) = Some (bytes n))"
  using assms
proof (induction names arbitrary: fs)
  case (Cons n names)
  have inj: "inj_on member_path {n \<in> set names. \<not> suffix ''/'' n}"
    using Cons.prems(3) by (rule inj_on_subset) auto
  let ?fs = "if suffix ''/'' n then fs else dict_set (under dir (member_path n)) (bytes n) fs"
  from Cons.IH [of ?fs] Cons.prems inj obtain fs' where
    run: "extract_members es names dir ?fs = (Inr (), fs')" and
    all: "\<forall>m \<in> set names. \<not> suffix ''/'' m \<longrightarrow> map_of fs' (under dir (member_path m)) = Some (bytes m)" by auto
  have "map_of fs' (under dir (member_path n)) = Some (bytes n)" if "\<not> suffix ''/'' n"
  proof (cases "n \<in> set names")
    case False
    then have "map_of fs' (under dir (member_path n)) = map_of ?fs (under dir (member_path n))"
      using extract_members_confined [OF run, of "under dir (member_path n)"] that Cons.prems(3)
      by (auto simp: under_inj inj_on_def)
    then show ?thesis using that by (simp add: map_of_dict_set)
  qed (use all that in blast)
  then show ?case using run all Cons.prems by (intro exI [of _ fs']) auto
qed simp

text \<open>The source of an ephemeral run is the one its handler is loaded from.\<close>

lemma load_inline_source:
  assumes "rsplit1 (CHR ''.'') ep = Some (m, f)"
  shows "\<exists>fs'. write_inline_source dir ep source fs = (Inr (), fs') \<and>
    load_handler L dir ep fs' =
      (case rn_exec_module L source of
         Inl e \<Rightarrow> Inl e
       | Inr names \<Rightarrow>
           (case map_of names f of
              None \<Rightarrow> Inl (OtherError (''Function '' @ quoted f @ '' not found in module '' @ quoted m))
            | Some h \<Rightarrow> Inr h))"
  using assms by (simp add: write_inline_source_def load_handler_def map_of_dict_set split: option.split)

end
