(* ===== verification/Sandbox_Properties.thy ===== *)
theory Sandbox_Properties
  imports Runner Worker Demo
begin

text \<open>
  What stands between a user's code and the platform: the archive check, the extraction in the
  container, the report that travels from the handler to the stored execution, and the job the
  cluster runs.
\<close>

section \<open>Uploaded archives\<close>

text \<open>C6: An archive is accepted exactly when it is a readable ZIP file of at most 50 members without
  suspicious paths, with at least one Python file, and every Python file in it is at most 10 MB, can
  be read and parsed, and no node at any depth of its syntax tree is a forbidden import, name,
  attribute or \<open>global __builtins__\<close>; the early exits of the checks lose nothing.\<close>

theorem validator_accepts_spec:
  "(\<exists>r. validate_archive zl parse dec archive = Inr r \<and> is_valid r) \<longleftrightarrow>
   zl_is_zipfile zl archive \<and> (\<exists>es. zl_entries zl archive = Inr es \<and> length es \<le> 50 \<and>
     (\<forall>e \<in> set es. \<not> prefix ''/'' (z_name e) \<and> \<not> contains ''..'' (z_name e)) \<and>
     (\<exists>e \<in> set es. suffix ''.py'' (z_name e)) \<and>
     (\<forall>e \<in> set es. suffix ''.py'' (z_name e) \<longrightarrow>
        (\<exists>info bytes tree. getinfo es (z_name e) = Inr info \<and> z_file_size info \<le> 10485760 \<and>
           z_read info = Inr bytes \<and> parse (dec bytes) = Parsed tree \<and>
           (\<forall>n. occurs n tree \<longrightarrow> \<not> forbidden n))))"
  using accepts_iff_acceptable [of zl parse dec archive]
  by (simp add: accepts_def acceptable_def file_ok_def clean_def suspicious_path_def max_files_def max_file_size_def)

definition one_file :: "zip_entry list" where
  "one_file = [\<lparr>z_name = ''src/main.py'', z_file_size = 3, z_read = Inr ''x''\<rparr>]"

definition one_file_zip :: zip_lib where
  "one_file_zip = \<lparr>zl_is_zipfile = (\<lambda>_. True), zl_entries = (\<lambda>_. Inr one_file)\<rparr>"

lemma one_file_simps [simp]:
  "zl_is_zipfile one_file_zip a" "zl_entries one_file_zip a = Inr one_file"
  by (simp_all add: one_file_zip_def)

theorem validator_accepts_spec_witness:
  "(\<exists>r. validate_archive one_file_zip (\<lambda>_. Parsed (Other [Name (1, 0) ''x''])) id ''zip'' = Inr r \<and> is_valid r) \<and>
   \<not> (\<exists>r. validate_archive one_file_zip
       (\<lambda>_. Parsed (Other [Call (1, 0) (Attribute (1, 0) (Name (1, 0) ''os'') ''system'') []])) id ''zip'' = Inr r \<and> is_valid r)"
proof -
  have "clean (Other [Name (1, 0) ''x''])" by (simp add: denied_builtins_def)
  then have ok: "\<forall>n. occurs n (Other [Name (1, 0) ''x'']) \<longrightarrow> \<not> forbidden n" by (simp only: clean_def)
  have "\<not> clean (Other [Call (1, 0) (Attribute (1, 0) (Name (1, 0) ''os'') ''system'') []])"
    by (simp add: denied_attributes_def)
  then have bad: "\<not> (\<forall>n. occurs n (Other [Call (1, 0) (Attribute (1, 0) (Name (1, 0) ''os'') ''system'') []]) \<longrightarrow>
      \<not> forbidden n)" unfolding clean_def .
  have f: "length one_file \<le> 50" "\<forall>e \<in> set one_file. \<not> prefix ''/'' (z_name e) \<and> \<not> contains ''..'' (z_name e)"
    "\<exists>e \<in> set one_file. suffix ''.py'' (z_name e)"
    "\<forall>e \<in> set one_file. \<exists>info bytes. getinfo one_file (z_name e) = Inr info \<and> z_file_size info \<le> 10485760 \<and>
        z_read info = Inr bytes" "\<exists>e \<in> set one_file. suffix ''.py'' (z_name e)"
    by (simp_all add: one_file_def getinfo_def suffix_def)
  show ?thesis
    unfolding validator_accepts_spec one_file_simps sum.inject parse_outcome.inject simp_thms
    using f ok bad one_file_simps(1) [of "''zip''"] by blast
qed


definition demo_handler :: handler where
  "demo_handler = \<lparr>h_positional = 1, h_varargs = False, h_call = (\<lambda>args. (HReturned (JInt (int (length args))), ''hi''))\<rparr>"

definition demo_lib :: runner_lib where
  "demo_lib = \<lparr>rn_fetch = (\<lambda>_. Inr ''zip''), rn_unzip = (\<lambda>_. Inr one_file), rn_pip = (\<lambda>_ _. Inr (0, [])),
     rn_exec_module = (\<lambda>_. Inr [(''run'', demo_handler)])\<rparr>"


section \<open>From the handler to the execution\<close>

lemma runner_main_success:
  assumes run: "runner_main L env now took ms fs = (Inr 0, out, fs')"
  defines "ep \<equiv> env_get ''SOPM_ENTRYPOINT'' ''handler.handler'' env"
    and "payload \<equiv> payload_of (env_get ''SOPM_PAYLOAD'' ''{}'' env)"
  shows "\<exists>dir fs1 h ctx p r. load_handler L dir ep fs1 = Inr h \<and>
    h_call h (call_args h payload ctx) = (HReturned r, p) \<and> reports out (success_report r ms)"
proof -
  let ?eid = "env_get ''SOPM_EXECUTION_ID'' ''unknown'' env"
  obtain dir deps where wd: "work_dirs env = (dir, deps)" by fastforce
  obtain timeout where t: "py_int (env_get ''SOPM_TIMEOUT'' ''300'' env) = Some timeout"
    using run by (auto simp: runner_main_def split: option.splits)
  obtain r1 fs1 where ps: "prepare_source L env dir ep now fs = (r1, fs1)" by fastforce
  then obtain o1 where r1: "r1 = Inr o1"
    using run wd t by (cases r1) (auto simp: runner_main_def Let_def ep_def)
  obtain r2 o2 fs2 where ins: "install_requirements L dir deps timeout now fs1 = (r2, o2, fs2)" by (metis prod_cases3)
  have r2: "\<exists>u. r2 = Inr u" using run wd t ps r1 ins
    by (cases r2) (auto simp: runner_main_def run_prepared_def Let_def ep_def)
  obtain h where h: "load_handler L dir ep fs2 = Inr h" using run wd t ps r1 ins r2
    by (cases "load_handler L dir ep fs2") (auto simp: runner_main_def run_prepared_def Let_def ep_def)
  obtain code o3 where rh: "run_handler h ?eid timeout payload took ms = (code, o3)" by fastforce
  have out: "code = 0" "out = (say (''[sopm-runner] execution_id='' @ ?eid) @ o1 @ o2 @ say (''[sopm-runner] executing '' @ ep)) @ o3"
    using run wd t ps r1 ins r2 h rh by (auto simp: runner_main_def run_prepared_def Let_def ep_def payload_def)
  obtain oc p where call: "h_call h (call_args h payload (JObj [(''execution_id'', JStr ?eid), (''timeout'', JInt timeout)])) = (oc, p)"
    by fastforce
  have pre: "lines_done (say (''[sopm-runner] execution_id='' @ ?eid) @ o1 @ o2 @ say (''[sopm-runner] executing '' @ ep))"
    using prepare_source_out [OF ps] install_requirements_out [OF ins] r1
    by (intro lines_done_append) simp_all
  from run_handler_reports [OF rh call] out(1) obtain r where "oc = HReturned r" "reports o3 (success_report r ms)"
    by (cases oc) auto
  then show ?thesis using h call reports_append [OF _ pre] out(2) by blast
qed

lemma local_result_failure:
  assumes "reports out j" and "failure_json j"
  shows "\<exists>msg. error_text (sr_error (local_result t (Exited 1 out))) = Inr (Some msg) \<and> msg \<noteq> []"
proof -
  obtain kvs e where j: "j = JObj kvs" "map_of kvs ''error'' = Some (JStr e)"
    using assms(2) by (auto simp: failure_json_def)
  have "parse_result_from_logs out = Some j"
    using parse_reports [OF assms(1)] assms(2) j by (simp add: failure_json_def none_if_null_def)
  then show ?thesis using j by (auto simp: local_result_def reported_error_def error_text_def Let_def)
qed


definition demo_env :: files where
  "demo_env = [(''SOPM_SOURCE_CODE'', ''x''), (''SOPM_ENTRYPOINT'', ''main.run''), (''SOPM_PAYLOAD'', ''7'')]"


section \<open>The job in the cluster\<close>

text \<open>The polling does not depend on how jobs are created.\<close>

lemma wait_loop_same:
  assumes same: "read_namespaced_job A = read_namespaced_job B" "list_namespaced_pod A = list_namespaced_pod B"
      "read_namespaced_pod_log A = read_namespaced_pod_log B"
    and run: "wait_loop A name clock dl i k = Some x"
  shows "wait_loop B name clock dl i k = Some x"
proof (rule wait_loop.raw_induct [where P = "\<lambda>K n c d i k y. K = A \<longrightarrow> wait_loop B n c d i k = Some y", OF _ run, THEN mp])
  fix wl K n c d i k y
  assume ih: "\<And>K n c d i k y. wl K n c d i k = Some y \<Longrightarrow> K = A \<longrightarrow> wait_loop B n c d i k = Some y"
    and step: "(if c i < d
      then (case read_namespaced_job K n k of
              (Inl e, k1) \<Rightarrow> Some (Inl e, k1)
            | (Inr job, k1) \<Rightarrow>
                if js_succeeded job
                then (case get_pod_logs K n k1 of
                        (logs, k2) \<Rightarrow> Some (Inr (succeeded (parse_result_from_logs logs) (format_logs logs)), k2))
                else if js_failed job
                then (case get_pod_logs K n k1 of
                        (logs, k2) \<Rightarrow>
                          (case classify_failed_job K n job logs k2 of (r, k3) \<Rightarrow> Some (Inr r, k3)))
                else wl K n c d (Suc i) k1)
      else Some (Inr wait_timed_out, k)) = Some y"
  have logs: "get_pod_logs A = get_pod_logs B" and classify: "classify_failed_job A = classify_failed_job B"
    unfolding fun_eq_iff get_pod_logs_def classify_failed_job_def same by simp_all
  obtain r k1 where rd: "read_namespaced_job B n k = (r, k1)" by fastforce
  have "wait_loop B n c d i k = Some y" if "K = A"
  proof (cases "c i < d \<and> (\<exists>job. r = Inr job \<and> \<not> js_succeeded job \<and> \<not> js_failed job)")
    case True
    then have "wl A n c d (Suc i) k1 = Some y" using step that rd same(1) by auto
    then have "wait_loop B n c d (Suc i) k1 = Some y" using ih by blast
    then show ?thesis using True rd by (auto simp: wait_loop.simps [of B n c d i k])
  next
    case False
    then show ?thesis using step that rd same(1)
      by (cases r) (auto simp: wait_loop.simps [of B n c d i k] logs classify)
  qed
  then show "K = A \<longrightarrow> wait_loop B n c d i k = Some y" by blast
qed simp

lemma option_eqI: "(\<And>x. a = Some x \<longleftrightarrow> b = Some x) \<Longrightarrow> a = b"
  by (cases b) (simp_all, metis option.exhaust)

lemma wait_loop_create:
  "wait_loop (K\<lparr>create_namespaced_job := f\<rparr>) name clock dl i k = wait_loop K name clock dl i k"
proof (rule option_eqI)
  show "wait_loop (K\<lparr>create_namespaced_job := f\<rparr>) name clock dl i k = Some x \<longleftrightarrow> wait_loop K name clock dl i k = Some x" for x
    by (rule iffI; erule wait_loop_same [rotated 3]) simp_all
qed

lemma ensure_create:
  "ensure_runtime_class cfg (K\<lparr>create_namespaced_job := f\<rparr>) c k = ensure_runtime_class cfg K c k"
  by (simp add: ensure_runtime_class_def)

text \<open>Whatever a run of a job creates satisfies what \<open>build_manifest\<close> gives.\<close>

lemma run_job_create:
  assumes "\<And>m k. job_manifest_of cfg rep name spec = Inr m \<Longrightarrow> f m k = create_namespaced_job K m k"
  shows "run_job cfg rep (K\<lparr>create_namespaced_job := f\<rparr>) inp name timeout spec ck = run_job cfg rep K inp name timeout spec ck"
proof -
  have create: "create_job cfg rep (K\<lparr>create_namespaced_job := f\<rparr>) name spec k = create_job cfg rep K name spec k" for k
    using assms by (simp add: create_job_def split: sum.splits)
  show ?thesis unfolding run_job_def wait_for_job_def wait_loop_create ensure_create create ..
qed

lemma cluster_execute_create:
  assumes "\<And>name m k. job_manifest_of cfg rep name spec = Inr m \<Longrightarrow> f m k = create_namespaced_job K m k"
  shows "cluster_execute cfg rep (K\<lparr>create_namespaced_job := f\<rparr>) inp spec ck = cluster_execute cfg rep K inp spec ck"
proof -
  have run: "run_job cfg rep (K\<lparr>create_namespaced_job := f\<rparr>) inp name timeout spec ck
      = run_job cfg rep K inp name timeout spec ck" for name timeout
    by (rule run_job_create) (rule assms)
  have del: "delete_namespaced_job (K\<lparr>create_namespaced_job := f\<rparr>) = delete_namespaced_job K" by simp
  show ?thesis unfolding cluster_execute_def run del ..
qed

text \<open>C8: Every job the sandbox asks the cluster for is locked down, whatever the specification says: on
  manifests of any other shape the answer of the cluster does not matter, as none is ever sent. It
  runs under the sandbox runtime class, as an unprivileged user without capabilities, privilege
  escalation, service account token or a writable root, is never retried or restarted, and is killed
  at the timeout of the specification; a memory size in the specification is its limit, and the
  request is at most 128 Mi of it.\<close>

theorem job_locked_down:
  assumes "\<And>m k. jm_runtime_class m = sandbox_runtime_class cfg \<Longrightarrow> jm_namespace m = sandbox_namespace cfg \<Longrightarrow>
      jm_run_as_non_root m \<Longrightarrow> jm_run_as_user m = 65534 \<Longrightarrow> \<not> jm_privileged m \<Longrightarrow>
      \<not> jm_privilege_escalation m \<Longrightarrow> jm_read_only_root m \<Longrightarrow> jm_dropped_capabilities m = [''ALL''] \<Longrightarrow>
      \<not> jm_automount_token m \<Longrightarrow> jm_backoff_limit m = 0 \<Longrightarrow> jm_restart_policy m = ''Never'' \<Longrightarrow>
      spec_timeout (sandbox_default_timeout cfg) spec = Inr (jm_active_deadline m) \<Longrightarrow>
      (\<forall>n > 0. map_of spec ''memory_mb'' = Some (JInt n) \<longrightarrow>
         map_of (jm_limits m) ''memory'' = Some (str_int n @ ''Mi'') \<and>
         map_of (jm_requests m) ''memory'' = Some (str_int (min n 128) @ ''Mi'')) \<Longrightarrow>
      f m k = create_namespaced_job K m k"
  shows "cluster_execute cfg rep (K\<lparr>create_namespaced_job := f\<rparr>) inp spec ck = cluster_execute cfg rep K inp spec ck"
proof (rule cluster_execute_create)
  fix name m k assume "job_manifest_of cfg rep name spec = Inr m"
  from job_manifest_of_Inr [OF this] obtain eid mem fid env where
    m: "memory_limit cfg spec = Inr mem" "spec_timeout (sandbox_default_timeout cfg) spec = Inr (jm_active_deadline m)"
      "m = build_manifest cfg name eid fid mem (jm_active_deadline m) env"
    by (auto simp: build_manifest_def)
  have "map_of (jm_limits m) ''memory'' = Some mem" "map_of (jm_requests m) ''memory'' = Some (memory_request cfg mem)"
    by (subst m(3), simp add: build_manifest_def)+
  then have "\<forall>n > 0. map_of spec ''memory_mb'' = Some (JInt n) \<longrightarrow>
         map_of (jm_limits m) ''memory'' = Some (str_int n @ ''Mi'') \<and>
         map_of (jm_requests m) ''memory'' = Some (str_int (min n 128) @ ''Mi'')"
    using m(1) memory_request_of_limit by (auto simp: memory_limit_def)
  then show "f m k = create_namespaced_job K m k"
    by (intro assms) (simp_all add: m(2), (subst m(3), simp add: build_manifest_def)+)
qed

definition demo_kube :: "job_manifest list kube" where
  "demo_kube = \<lparr>read_runtime_class = (\<lambda>n k. (if n = ''gvisor'' then Inr () else Inl (ApiException 404 ''Not Found''), k)),
     create_namespaced_job = (\<lambda>m k. (Inr (), m # k)),
     read_namespaced_job = (\<lambda>n k. (Inr \<lparr>js_succeeded = True, js_failed = False, js_conditions = []\<rparr>, k)),
     list_namespaced_pod = (\<lambda>l k. (Inr [], k)), read_namespaced_pod_log = (\<lambda>p n k. (Inr None, k)),
     delete_namespaced_job = (\<lambda>n k. (Inr (), filter (\<lambda>m. jm_name m \<noteq> n) k))\<rparr>"

definition demo_spec :: job_spec where
  "demo_spec = [(''execution_id'', JStr ''e1''), (''function_id'', JStr ''f1''), (''entrypoint'', JStr ''main.run''),
     (''memory_mb'', JInt 256), (''timeout'', JInt 60)]"

definition demo_run :: run_inputs where
  "demo_run = \<lparr>ri_suffix = ''abc123'', ri_start = 0, ri_wait_start = 0, ri_polls = (\<lambda>i. seconds (int i)),
     ri_end = seconds 2\<rparr>"

text \<open>A cluster that refuses jobs that could write to the root or gain privileges.\<close>

definition strict_create :: "job_manifest \<Rightarrow> job_manifest list \<Rightarrow> unit result \<times> job_manifest list" where
  "strict_create m k =
     (if jm_privileged m \<or> jm_privilege_escalation m \<or> \<not> jm_read_only_root m \<or> \<not> jm_run_as_non_root m
      then (Inl (ApiException 403 ''Forbidden''), k) else (Inr (), m # k))"

theorem job_locked_down_witness:
  "cluster_execute default_settings dumps (demo_kube\<lparr>create_namespaced_job := strict_create\<rparr>) demo_run demo_spec (False, [])
   = cluster_execute default_settings dumps demo_kube demo_run demo_spec (False, [])"
  by (rule job_locked_down) (simp add: strict_create_def demo_kube_def)

text \<open>C32: Without the runtime class nothing runs: while the cluster does not confirm it, no job is created,
  whatever the cluster would do with one, the execution does not succeed, and the next job asks again.\<close>

theorem sandbox_fails_closed:
  assumes "sandbox_runtime_class cfg = [] \<or> (\<exists>e. fst (read_runtime_class K (sandbox_runtime_class cfg) k) = Inl e)"
  shows "cluster_execute cfg rep (K\<lparr>create_namespaced_job := f\<rparr>) inp spec (False, k) =
      cluster_execute cfg rep K inp spec (False, k) \<and>
    (\<exists>r k'. cluster_execute cfg rep K inp spec (False, k) = Some (r, False, k') \<and>
       (\<forall>sr. r = Inr sr \<longrightarrow> \<not> sr_success sr))"
proof -
  obtain x c1 k1 where x: "ensure_runtime_class cfg K False k = (x, c1, k1)" by (metis prod_cases3)
  then obtain e where "x = Inl e" using assms ensure_runtime_class_Inr [of cfg K False k] by (cases x) auto
  with x have en: "ensure_runtime_class cfg K False k = (Inl e, False, k1)"
    using ensure_runtime_class_Inl [of cfg K False k] by auto
  then have run: "run_job cfg rep (K\<lparr>create_namespaced_job := g\<rparr>) inp name timeout spec (False, k) = Some (Inl e, False, k1)"
    for g name timeout by (simp add: run_job_def ensure_create)
  have run': "run_job cfg rep K inp name timeout spec (False, k) = Some (Inl e, False, k1)" for name timeout
    using en by (simp add: run_job_def)
  show ?thesis
    unfolding cluster_execute_def
    by (auto simp: run run' api_failure_def failure_def Let_def split: sum.splits prod.splits exn.splits)
qed

theorem sandbox_fails_closed_witness:
  "\<exists>r k'. cluster_execute (default_settings\<lparr>sandbox_runtime_class := ''runc''\<rparr>) dumps demo_kube demo_run demo_spec (False, [])
     = Some (r, False, k') \<and> (case r of Inl e \<Rightarrow> True | Inr sr \<Rightarrow> \<not> sr_success sr)"
proof -
  let ?cfg = "default_settings\<lparr>sandbox_runtime_class := ''runc''\<rparr>"
  have "\<exists>e. fst (read_runtime_class demo_kube (sandbox_runtime_class ?cfg) []) = Inl e" by (simp add: demo_kube_def)
  from sandbox_fails_closed [OF disjI2 [OF this], of dumps "\<lambda>m k. (Inr (), k)" demo_run demo_spec]
  obtain r k' where run: "cluster_execute ?cfg dumps demo_kube demo_run demo_spec (False, []) = Some (r, False, k')"
    and no: "\<forall>sr. r = Inr sr \<longrightarrow> \<not> sr_success sr" by blast
  have "case r of Inl e \<Rightarrow> True | Inr sr \<Rightarrow> \<not> sr_success sr" using no by (cases r) simp_all
  with run show ?thesis by blast
qed

text \<open>C31: When each poll takes its quarter of a second, a cluster run ends whatever the cluster answers;
  no API exception leaves it; and the last thing it does to the cluster is to delete its own job,
  whether the job succeeded, failed, timed out or could not be created.\<close>

theorem cluster_run_ends:
  assumes "\<And>i. ri_polls inp i + 250000 \<le> ri_polls inp (Suc i)"
  shows "\<exists>r c' k'. cluster_execute cfg rep K inp spec ck = Some (r, c', k') \<and>
    (\<forall>code reason. r \<noteq> Inl (ApiException code reason)) \<and>
    (\<forall>eid t. need_str ''execution_id'' spec = Inr eid \<and> spec_timeout (sandbox_default_timeout cfg) spec = Inr t \<longrightarrow>
       (\<exists>k1. k' = snd (delete_namespaced_job K (job_name_of eid (ri_suffix inp)) k1)))"
proof -
  have run: "\<exists>x. run_job cfg rep K inp name timeout spec ck = Some x" for name timeout
  proof -
    have "\<exists>x. wait_for_job K name timeout (ri_wait_start inp) (ri_polls inp) k = Some x" for k
      unfolding wait_for_job_def by (rule job_wait_ends) (rule assms)
    then show ?thesis
      by (auto simp: run_job_def split: prod.splits sum.splits option.splits) (metis option.distinct(1))+
  qed
  have ends: "\<exists>x. cluster_execute cfg rep K inp spec ck = Some x"
  proof (cases "need_str ''execution_id'' spec"; cases "spec_timeout (sandbox_default_timeout cfg) spec")
    fix eid t assume "need_str ''execution_id'' spec = Inr eid" "spec_timeout (sandbox_default_timeout cfg) spec = Inr t"
    with run [of "job_name_of eid (ri_suffix inp)" t] show ?thesis
      by (auto simp: cluster_execute_def Let_def split: prod.splits)
  qed (simp_all add: cluster_execute_def)
  then obtain r c' k' where x: "cluster_execute cfg rep K inp spec ck = Some (r, c', k')" by auto
  moreover have "\<exists>k1. k' = snd (delete_namespaced_job K (job_name_of eid (ri_suffix inp)) k1)"
    if "need_str ''execution_id'' spec = Inr eid" "spec_timeout (sandbox_default_timeout cfg) spec = Inr t" for eid t
    using x that by (auto simp: cluster_execute_def Let_def split: option.splits prod.splits) (metis snd_conv)
  moreover have "r \<noteq> Inl (ApiException code reason)" for code reason
    using cluster_execute_no_api_exception [of cfg rep K inp spec ck _ c' k'] x by auto
  ultimately show ?thesis by blast
qed

theorem cluster_run_ends_witness:
  "\<exists>r c' k'. cluster_execute default_settings dumps demo_kube demo_run demo_spec (False, []) = Some (r, c', k')"
proof -
  have "ri_polls demo_run i + 250000 \<le> ri_polls demo_run (Suc i)" for i by (simp add: demo_run_def)
  from cluster_run_ends [OF this, of default_settings dumps demo_kube demo_spec "(False, [])"] show ?thesis by blast
qed

end
