(* ===== verification/Access_Properties.thy ===== *)
theory Access_Properties
  imports Invoke_Router Execution_Properties
begin

text \<open>
  Who gets in: accounts and their tokens, API keys, and the admission of raw code.
\<close>

section \<open>Accounts and tokens\<close>

context auth_lib begin

lemma refresh_gives_tokens:
  assumes "keys_ok d" and "u \<in> set (t_users d)" and "u_is_active u"
    and "later div 1000000 \<le> now div 1000000 + refresh_token_expire_days cfg * 86400"
  shows "refresh_token cfg S later (create_refresh_token cfg S now (str_nat (u_id u))) d = Inr (issue_tokens cfg S later u)"
proof -
  let ?c = "\<lparr>c_sub = Some (str_nat (u_id u)), c_exp = now + seconds (refresh_token_expire_days cfg * 86400),
    c_type = Some ''refresh''\<rparr>"
  have e: "c_exp ?c div 1000000 = now div 1000000 + refresh_token_expire_days cfg * 86400" by simp
  from decode_valid [of later ?c] assms(4) obtain c where "jwt_decode S later (jwt_encode S ?c) = Inr c"
    "c_sub c = Some (str_nat (u_id u))" "c_type c = Some ''refresh''" unfolding e by auto
  then show ?thesis
    using user_by_id [OF assms(1,2)] assms(3)
    by (simp add: refresh_token_def decode_token_def create_refresh_token_def str_nat_nonempty)
qed

lemma expired_access_token:
  assumes "0 \<le> access_token_expire_minutes cfg" and "keys_ok d" and "u \<in> set (t_users d)" and "u_is_active u"
  shows "get_current_user S later (tr_access_token (issue_tokens cfg S now u)) d =
    (if later div 1000000 \<le> now div 1000000 + access_token_expire_minutes cfg * 60 then Inr u
     else Inl credentials_exception)"
  using access_token_user [OF assms(1), of later now "u_id u" d] user_by_id [OF assms(2,3)] assms(4)
  by (simp add: issue_tokens_def lookup_active_def)

end

text \<open>C29: A registered account can log in with its password. The access token it gets is the account's
  identity until the second it expires and nothing afterwards; the refresh token gives new tokens
  until it expires. The two are not interchangeable: a refresh token authenticates no request and an
  access token refreshes nothing. A wrong password gets no token.\<close>

theorem registered_session:
  assumes "auth_lib S" and "db_ok d" and "register S salt body i t0 d = (Inr u, d')"
    and "0 \<le> access_token_expire_minutes cfg" and "0 \<le> refresh_token_expire_days cfg"
  shows "\<exists>tok. login cfg S t1 (ur_username body) (ur_password body) d' = Inr tok \<and>
    get_current_user S t2 (tr_access_token tok) d' =
      (if t2 div 1000000 \<le> t1 div 1000000 + access_token_expire_minutes cfg * 60 then Inr u
       else Inl (HTTPException 401 ''Could not validate credentials'')) \<and>
    (t2 div 1000000 \<le> t1 div 1000000 + refresh_token_expire_days cfg * 86400 \<longrightarrow>
       refresh_token cfg S t2 (tr_refresh_token tok) d' = Inr (issue_tokens cfg S t2 u)) \<and>
    get_current_user S t2 (tr_refresh_token tok) d' = Inl (HTTPException 401 ''Could not validate credentials'') \<and>
    refresh_token cfg S t2 (tr_access_token tok) d' = Inl (HTTPException 401 ''Invalid refresh token'') \<and>
    (\<forall>pw. \<not> checkpw S pw (u_hashed_password u) \<longrightarrow>
       login cfg S t1 (ur_username body) pw d' = Inl (HTTPException 401 ''Incorrect username or password''))"
proof -
  have u: "u = new_user_row S salt body i t0" "u \<in> set (t_users d')" "keys_ok d'"
    using register_Inr [OF assms(3)] register_db_ok [OF assms(2,3)] by (auto simp: insert_user_Inr db_ok_keys)
  then have act: "u_is_active u" and name: "u_username u = ur_username body" by simp_all
  note lib = auth_lib.login_registered [OF assms(1-3)] auth_lib.expired_access_token [OF assms(1,4) u(3,2) act]
    auth_lib.refresh_gives_tokens [OF assms(1) u(3,2) act]
    auth_lib.refresh_token_rejected [OF assms(1)] auth_lib.access_token_no_refresh [OF assms(1)]
  have wrong: "login cfg S t1 (ur_username body) pw d' = Inl (HTTPException 401 ''Incorrect username or password'')"
    if "\<not> checkpw S pw (u_hashed_password u)" for pw
    using user_by_name [OF u(3,2)] name that by (simp add: login_def verify_password_def)
  show ?thesis
    using lib wrong
    by (simp add: credentials_exception_def invalid_refresh_def)
       (simp add: issue_tokens_def)
qed

definition demo_register :: user_register where
  "demo_register = \<lparr>ur_username = ''bob'', ur_email = ''b@x.io'', ur_password = ''secret123''\<rparr>"

theorem registered_session_witness:
  "\<exists>u d' tok. register plain_security ''s'' demo_register 3 0 demo_db = (Inr u, d') \<and>
     login default_settings plain_security 5 ''bob'' ''secret123'' d' = Inr tok \<and>
     get_current_user plain_security 6 (tr_access_token tok) d' = Inr u"
proof -
  obtain u d' where run: "register plain_security ''s'' demo_register 3 0 demo_db = (Inr u, d')"
    by (simp add: register_def demo_register_def demo_user_def insert_user_def new_user_row_def)
  from registered_session [OF plain.auth_lib_axioms demo_db_ok run, of default_settings 5 6] run show ?thesis
    by (auto simp: demo_register_def)
qed

section \<open>API keys\<close>

text \<open>C16: A new API key is shown once: the row keeps its hash and a prefix of twelve characters. Until it is
  revoked it identifies its owner, whoever else uses the service; only the owner can revoke it, and
  from then on it is refused for good.\<close>

theorem api_key_lifecycle:
  assumes "db_ok d" and "u \<in> set (t_users d)"
    and "create_key h (u_id u) name secret i t0 d = (Inr (k, raw), d1)"
  shows "k_key_hash k = h raw \<and> k_key_prefix k = take 12 raw \<and>
    (\<exists>p. fst (get_api_key_principal h (Some raw) t1 d1) = Inr p \<and> p_user p = u \<and> k_id (p_key p) = i) \<and>
    (\<forall>v. v \<noteq> u_id u \<longrightarrow> revoke_key i v t2 d1 = (Inl (HTTPException 404 ''API key not found''), d1)) \<and>
    (\<exists>d2. revoke_key i (u_id u) t2 d1 = (Inr (), d2) \<and>
       (\<forall>t3. get_api_key_principal h (Some raw) t3 d2 = (Inl (HTTPException 401 ''Invalid API key''), d2)))"
proof -
  note new = create_key_Inr [OF assms(3)]
  have k: "k \<in> set (t_api_keys d1)" and users: "t_users d1 = t_users d" and ok: "keys_ok d1"
    using new(3) create_key_db_ok [OF assms(1,3)] by (auto simp: insert_api_key_Inr db_ok_keys)
  have row: "k_id k = i" "k_owner_id k = u_id u" "k_key_hash k = hash_api_key h raw" "k_revoked_at k = None"
    and raw: "raw \<noteq> []" and pre: "k_key_prefix k = take 12 raw"
    using new(1,2) by (simp_all add: new_key_row_def)
  have only: "x = k" if "x \<in> set (t_api_keys d1)" "k_id x = i" for x
    using that k row(1) ok by (auto simp: keys_ok_def distinct_map inj_on_def)
  let ?d2 = "d1\<lparr>t_api_keys := update_where (\<lambda>x. k_id x = i) (\<lambda>x. x\<lparr>k_revoked_at := Some t2\<rparr>) (t_api_keys d1)\<rparr>"
  have rev: "revoke_key i (u_id u) t2 d1 = (Inr (), ?d2)"
    using scalar_by_key [of k_id "t_api_keys d1" k i "\<lambda>x. k_owner_id x = u_id u"] k row ok
    by (simp add: revoke_key_def keys_ok_def)
  have other: "revoke_key i v t2 d1 = (Inl (HTTPException 404 ''API key not found''), d1)" if "v \<noteq> u_id u" for v
  proof -
    have none: "filter (\<lambda>x. k_id x = i \<and> k_owner_id x = v) (t_api_keys d1) = []"
      using only row(2) that by (auto simp: filter_empty_conv)
    show ?thesis unfolding revoke_key_def none by simp
  qed
  have ok2: "keys_ok ?d2" using revoke_key_db_ok [OF create_key_db_ok [OF assms(1,3)] rev] db_ok_keys by blast
  have k2: "k\<lparr>k_revoked_at := Some t2\<rparr> \<in> set (t_api_keys ?d2)"
    using k row(1) by (force simp: update_where_def)
  have "get_api_key_principal h (Some raw) t3 ?d2 = (Inl (HTTPException 401 ''Invalid API key''), ?d2)" for t3
    by (rule revoked_key_rejected [OF ok2 k2]) (simp_all add: row raw)
  moreover have "fst (get_api_key_principal h (Some raw) t1 d1) = Inr \<lparr>p_key = k\<lparr>k_last_used_at := Some t1\<rparr>, p_user = u\<rparr>"
    by (rule principal_of_key [OF ok k]) (use assms(2) users row raw in auto)
  ultimately show ?thesis using rev other row pre by (auto simp: hash_api_key_def)
qed

theorem api_key_lifecycle_witness:
  "\<exists>k raw d1. create_key id 1 ''cd'' ''k2'' 6 0 demo_db = (Inr (k, raw), d1) \<and>
     (\<exists>p. fst (get_api_key_principal id (Some raw) 1 d1) = Inr p \<and> p_user p = demo_user)"
proof -
  have user: "u_id demo_user = 1" "demo_user \<in> set (t_users demo_db)" by (simp_all add: demo_user_def)
  obtain k raw d1 where run: "create_key id (u_id demo_user) ''cd'' ''k2'' 6 0 demo_db = (Inr (k, raw), d1)"
    by (simp add: create_key_def insert_api_key_def demo_key_def new_key_row_def hash_api_key_def Let_def)
  from api_key_lifecycle [OF demo_db_ok user(2) run, of 1] run [unfolded user(1)] show ?thesis by blast
qed

section \<open>Raw code\<close>

text \<open>C30: Raw code is accepted only where it runs in the sandbox or the operator has allowed the local
  mode; only while the key has made at most its limit of requests in this minute; and only while it
  has fewer unsettled ephemeral executions than its limit, so that the new one keeps them within it.
  What is accepted is one new ephemeral row of the key, and its job carries the code; what is refused
  leaves the database as it was.\<close>

theorem ephemeral_admission:
  assumes "redis_server R zs kv rest rank"
    and "execute_ephemeral cfg R clock body p minute i now (d, s) = (res, d', s')"
  shows "(\<exists>x. res = Inl x \<and> d' = d) \<or>
    (\<exists>e count. res = Inr e \<and> t_executions d' = t_executions d @ [e] \<and>
       (sandbox_enabled cfg \<or> ephemeral_local_execution_enabled cfg) \<and>
       kv s' (rate_key (k_id (p_key p)) minute) = Some (str_int count) \<and> count \<le> ephemeral_rate_limit_per_minute cfg \<and>
       active_ephemeral (k_id (p_key p)) d' \<le> ephemeral_concurrency_limit cfg \<and>
       e_api_key_id e = Some (k_id (p_key p)) \<and> e_execution_type e = ''ephemeral'' \<and>
       (e_status e = QUEUED \<and> submitted zs e (ephemeral_job e body) clock s s' \<and>
          (''source_code'', JStr (er_code body)) \<in> set (ephemeral_job e body) \<or>
        e_status e = FAILED \<and> e_failure_kind e = Some ''queue''))"
  using execute_ephemeral_outcome [OF assms(2)]
proof (elim disjE exE conjE)
  fix e d1 s1
  let ?e = "ephemeral_execution p body i now" and ?key = "k_id (p_key p)"
  assume gate: "enforce_ephemeral_gate cfg = Inr ()"
    and lim: "enforce_rate_limits cfg R ?key minute (d, s) = (Inr (), s1)"
    and ins: "insert_execution ?e d = (Inr (), d1)"
    and sub: "submit_job R clock ?e (ephemeral_job ?e body) (d1, s1) = (e, d', s')" and res: "res = Inr e"
  from lim obtain count where count: "kv s1 (rate_key ?key minute) = Some (str_int count)" "zs s1 = zs s"
      "count \<le> ephemeral_rate_limit_per_minute cfg" and act: "active_ephemeral ?key d < ephemeral_concurrency_limit cfg"
    by (auto simp: enforce_rate_limits_def seq_Inr_iff split: if_splits
        dest!: redis_server.incr_ok [OF assms(1)] redis_server.expire_ok [OF assms(1)])
  note out = redis_server.submit_job_outcome [OF assms(1) ins sub]
  have row: "e_api_key_id e = Some ?key" "e_execution_type e = ''ephemeral''"
    using out by (auto simp: queue_failed_def)
  have "active_ephemeral ?key d' \<le> ephemeral_concurrency_limit cfg"
    using act out by (auto simp: active_ephemeral_def count_where_def)
  moreover have "sandbox_enabled cfg \<or> ephemeral_local_execution_enabled cfg"
    using gate by (auto simp: enforce_ephemeral_gate_def split: if_splits)
  moreover have "submitted zs ?e (ephemeral_job ?e body) clock s s'"
    if "submitted zs ?e (ephemeral_job ?e body) clock s1 s'"
    using that count(2) by (simp add: submitted_def)
  moreover have "(''source_code'', JStr (er_code body)) \<in> set (ephemeral_job ?e body)" by (simp add: ephemeral_job_def)
  ultimately show ?thesis using out res row count(1,3) by auto
qed simp

definition demo_principal :: principal where
  "demo_principal = \<lparr>p_key = demo_key, p_user = demo_user\<rparr>"

definition demo_code :: ephemeral_request where
  "demo_code = \<lparr>er_code = ''x'', er_entrypoint = ''main.run'', er_event = JObj [], er_timeout = 30, er_memory_mb = 128\<rparr>"

theorem ephemeral_admission_witness:
  "\<exists>e d' s'. execute_ephemeral default_settings mem_redis (\<lambda>n. int n) demo_code demo_principal ''1'' 33 9 (demo_db, mem_empty)
     = (Inr e, d', s') \<and> t_executions d' = t_executions demo_db @ [e]"
proof -
  obtain r d' s' where run: "execute_ephemeral default_settings mem_redis (\<lambda>n. int n) demo_code demo_principal ''1'' 33 9
      (demo_db, mem_empty) = (r, d', s')" by (metis prod_cases3)
  have "\<exists>e. r = Inr e"
    using run by (auto simp: execute_ephemeral_def enforce_ephemeral_gate_def enforce_rate_limits_def
        mem_redis_def mem_get_def mem_empty_def active_ephemeral_def count_where_def
        insert_execution_def demo_principal_def demo_key_def Let_def
        demo_execution_def new_execution_def split: prod.splits if_splits)
  with ephemeral_admission [OF mem.redis_server_axioms run] run show ?thesis by auto
qed

end
