(* ===== verification/System.thy ===== *)
theory System
  imports Invoke_Router Scheduler Worker
begin

text \<open>
  The installation as a whole: API processes, the scheduler and any number of workers that share one
  database. A step is one transaction of one of them. A request that only reads or writes the
  database is one step; an execution takes several, and what has been started and not finished is
  kept in a list of flights: a request or a firing that has committed its QUEUED row and has not
  heard from the queue yet, and a worker that has claimed a row and has not reported. Flights of
  different processes interleave freely and any of them may be lost in a crash. The queue is
  covered by letting any worker try any execution at any time.
\<close>

section \<open>Steps\<close>

datatype flight = Submitting uuid | Firing uuid schedule | Running uuid

record installation =
  in_db :: db
  in_flights :: "flight list"

text \<open>The requests that are one transaction. Their bodies have passed validation before the handler runs.\<close>

inductive request :: "settings \<Rightarrow> 's minio \<Rightarrow> cron \<Rightarrow> db \<Rightarrow> db \<Rightarrow> bool"
  for cfg :: settings and M :: "'s minio" and cron :: cron where
  req_register: "get_db (register S salt user_body i now) d = (r, d') \<Longrightarrow>
     validate_user_register email_ok user_body = Inr user_body \<Longrightarrow> request cfg M cron d d'"
| req_create_key:
    "get_db (create_key sha user name secret i now) d = (r, d') \<Longrightarrow> validate_key_create name = Inr name \<Longrightarrow>
     request cfg M cron d d'"
| req_revoke_key: "get_db (revoke_key key_id user now) d = (r, d') \<Longrightarrow> request cfg M cron d d'"
| req_use_key: "get_db (get_api_key_principal sha key now) d = (r, d') \<Longrightarrow> request cfg M cron d d'"
| req_create_function:
    "get_db (create_function cfg user fbody i now) d = (r, d') \<Longrightarrow> validate_function_create fbody = Inr fbody \<Longrightarrow>
     request cfg M cron d d'"
| req_update_function:
    "get_db (update_function fid user ubody) d = (r, d') \<Longrightarrow> validate_function_update ubody = Inr ubody \<Longrightarrow>
     request cfg M cron d d'"
| req_delete_function: "get_db_with (delete_function cfg M fid user) (d, s) = (r, d', s') \<Longrightarrow> request cfg M cron d d'"
| req_create_version:
    "get_db_with (create_version cfg sha M validate fid user archive form vid now) (d, s) = (r, d', s') \<Longrightarrow>
     request cfg M cron d d'"
| req_activate: "get_db (activate_version fid vid user now) d = (r, d') \<Longrightarrow> request cfg M cron d d'"
| req_canary:
    "validate_canary_update cbody = Inr cbody' \<Longrightarrow> get_db (update_canary fid cbody user now) d = (r, d') \<Longrightarrow>
     request cfg M cron d d'"
| req_create_schedule:
    "get_db (create_schedule cron sbody fid user i now) d = (r, d') \<Longrightarrow> validate_schedule_create cron_ok sbody = Inr sbody \<Longrightarrow>
     request cfg M cron d d'"
| req_update_schedule:
    "get_db (update_schedule cron i sub user now) d = (r, d') \<Longrightarrow> validate_schedule_update cron_ok sub = Inr sub \<Longrightarrow>
     request cfg M cron d d'"
| req_delete_schedule: "get_db (delete_schedule i user) d = (r, d') \<Longrightarrow> request cfg M cron d d'"
| req_cancel: "get_db (cancel_execution i user) d = (r, d') \<Longrightarrow> request cfg M cron d d'"
| req_recover: "recover_stale cfg now d = (n, d') \<Longrightarrow> request cfg M cron d d'"
| req_skip: "get_db (fire_begin cfg cron sid draw i now) d = (Inr None, d') \<Longrightarrow> request cfg M cron d d'"

text \<open>Steps that start, finish or lose a flight, and the requests.\<close>

inductive step :: "settings \<Rightarrow> 's minio \<Rightarrow> cron \<Rightarrow> installation \<Rightarrow> installation \<Rightarrow> bool"
  for cfg :: settings and M :: "'s minio" and cron :: cron where
  step_request: "request cfg M cron d d' \<Longrightarrow> step cfg M cron \<lparr>in_db = d, in_flights = fl\<rparr> \<lparr>in_db = d', in_flights = fl\<rparr>"
| step_trigger:
    "trigger_begin fid user body draw i now d = (Inr (e, job), d') \<Longrightarrow> validate_execution_trigger body = Inr body \<Longrightarrow>
     step cfg M cron \<lparr>in_db = d, in_flights = fl\<rparr> \<lparr>in_db = d', in_flights = Submitting i # fl\<rparr>"
| step_invoke:
    "invoke_begin fid p payload draw i now d = (Inr (e, job), d') \<Longrightarrow> validate_invoke payload = Inr payload \<Longrightarrow>
     step cfg M cron \<lparr>in_db = d, in_flights = fl\<rparr> \<lparr>in_db = d', in_flights = Submitting i # fl\<rparr>"
| step_ephemeral:
    "enforce_ephemeral_gate cfg = Inr () \<Longrightarrow> insert_execution (ephemeral_execution p ebody i now) d = (Inr (), d') \<Longrightarrow>
     validate_ephemeral cfg ebody = Inr ebody \<Longrightarrow>
     step cfg M cron \<lparr>in_db = d, in_flights = fl\<rparr> \<lparr>in_db = d', in_flights = Submitting i # fl\<rparr>"
| step_fire:
    "fire_begin cfg cron sid draw i now d = (Inr (Some (e, job, fresh)), d') \<Longrightarrow>
     step cfg M cron \<lparr>in_db = d, in_flights = fl\<rparr> \<lparr>in_db = d', in_flights = Firing i fresh # fl\<rparr>"
| step_queue_failed:
    "Submitting i \<in> set fl \<Longrightarrow>
     step cfg M cron \<lparr>in_db = d, in_flights = fl\<rparr> \<lparr>in_db = mark_queue_failed i x d, in_flights = remove1 (Submitting i) fl\<rparr>"
| step_fired:
    "Firing i fresh \<in> set fl \<Longrightarrow> get_db (fire_finish cron fresh i err now) d = (r, d') \<Longrightarrow>
     step cfg M cron \<lparr>in_db = d, in_flights = fl\<rparr> \<lparr>in_db = d', in_flights = remove1 (Firing i fresh) fl\<rparr>"
| step_claim:
    "get_db (worker_begin wid now i) d = (Inr go, d') \<Longrightarrow>
     step cfg M cron \<lparr>in_db = d, in_flights = fl\<rparr> \<lparr>in_db = d', in_flights = (if go then [Running i] else []) @ fl\<rparr>"
| step_report:
    "Running i \<in> set fl \<Longrightarrow> get_db (worker_finish sr ms now i) d = (r, d') \<Longrightarrow>
     step cfg M cron \<lparr>in_db = d, in_flights = fl\<rparr> \<lparr>in_db = d', in_flights = remove1 (Running i) fl\<rparr>"
| step_end: "step cfg M cron \<lparr>in_db = d, in_flights = fl\<rparr> \<lparr>in_db = d, in_flights = remove1 f fl\<rparr>"

inductive steps :: "settings \<Rightarrow> 's minio \<Rightarrow> cron \<Rightarrow> installation \<Rightarrow> installation \<Rightarrow> bool"
  for cfg :: settings and M :: "'s minio" and cron :: cron where
  none: "steps cfg M cron s s"
| more: "steps cfg M cron s t \<Longrightarrow> step cfg M cron t u \<Longrightarrow> steps cfg M cron s u"

definition fresh_installation :: installation where
  "fresh_installation = \<lparr>in_db = empty_db, in_flights = []\<rparr>"

inductive_simps steps_from_iff: "steps cfg M cron s t"

lemma steps_one: "step cfg M cron s t \<Longrightarrow> steps cfg M cron s t"
  by (rule more [OF none])

lemma steps_trans: "steps cfg M cron s t \<Longrightarrow> steps cfg M cron t u \<Longrightarrow> steps cfg M cron s u"
  by (rotate_tac 1, induction rule: steps.induct) (auto intro: more)

section \<open>The data invariant\<close>

lemma get_db_either: "get_db h d = (r, d') \<Longrightarrow> d' = d \<or> h d = (r, d')"
  by (cases r) (auto dest: get_db_Inl_rollback simp: get_db_Inr_iff)

lemma get_db_with_either: "get_db_with h (d, s) = (r, d', s') \<Longrightarrow> d' = d \<or> h (d, s) = (r, d', s')"
  by (cases r) (auto dest: get_db_with_Inl simp: get_db_with_Inr_iff)

lemma delete_function_db_ok [inv_intros]:
  "db_ok d \<Longrightarrow> delete_function cfg M fid user (d, s) = (r, d', s') \<Longrightarrow> db_ok d'"
  using delete_function_outcome [of cfg M fid user d s r d' s'] detach_and_delete_db_ok by auto

lemma mark_queue_failed_db_ok [inv_intros]: "db_ok d \<Longrightarrow> db_ok (mark_queue_failed i x d)"
  unfolding mark_queue_failed_def by (simp add: set_row_ids queue_failed_def)

lemma request_db_ok: "request cfg M cron d d' \<Longrightarrow> db_ok d \<Longrightarrow> db_ok d'"
  by (induction rule: request.induct)
     (erule recover_stale_db_ok [rotated], assumption |
      (drule get_db_either get_db_with_either, elim disjE, simp, rule inv_intros, assumption+))+

lemma step_db_ok: "step cfg M cron s t \<Longrightarrow> db_ok (in_db s) \<Longrightarrow> db_ok (in_db t)"
proof (induction rule: step.induct)
  case (step_ephemeral p ebody i now d d' fl)
  then show ?case using db_ok_insert_execution by fastforce
qed (auto dest!: get_db_either intro: inv_intros request_db_ok)

lemma steps_db_ok: "steps cfg M cron s t \<Longrightarrow> db_ok (in_db s) \<Longrightarrow> db_ok (in_db t)"
  by (induction rule: steps.induct) (auto intro: step_db_ok)

section \<open>The history of executions\<close>

text \<open>
  What a row may become: the request it came from is fixed and its status follows the state machine,
  or is set to FAILED by the handler that heard a queue error, which bypasses the machine.
\<close>

definition later :: "execution \<Rightarrow> execution \<Rightarrow> bool" where
  "later e e' \<longleftrightarrow> e_id e' = e_id e \<and> e_payload e' = e_payload e \<and> e_execution_type e' = e_execution_type e \<and>
     e_timeout e' = e_timeout e \<and> e_api_key_id e' = e_api_key_id e \<and>
     (status_reaches (e_status e) (e_status e') \<or> e_status e' = FAILED)"

definition extends :: "db \<Rightarrow> db \<Rightarrow> bool" where
  "extends d d' \<longleftrightarrow> (\<forall>e \<in> set (t_executions d). \<exists>e' \<in> set (t_executions d'). later e e')"

lemma later_refl [simp]: "later e e"
  by (simp add: later_def stay)

lemma later_trans: "later a b \<Longrightarrow> later b c \<Longrightarrow> later a c"
  unfolding later_def using reaches_trans terminal_reaches by (metis is_terminal_simps(5))

lemma extends_same [simp]: "t_executions d' = t_executions d \<Longrightarrow> extends d d'"
  unfolding extends_def by (metis later_refl)

lemma extends_append: "t_executions d' = t_executions d @ es \<Longrightarrow> extends d d'"
  unfolding extends_def by (metis UnCI later_refl set_append)

lemma extends_map: "t_executions d' = map g (t_executions d) \<Longrightarrow> (\<And>e. e \<in> set (t_executions d) \<Longrightarrow> later e (g e)) \<Longrightarrow> extends d d'"
  by (auto simp: extends_def)

lemma extends_trans: "extends a b \<Longrightarrow> extends b c \<Longrightarrow> extends a c"
  unfolding extends_def using later_trans by meson

lemma extends_set:
  assumes "\<And>e. e \<in> set (t_executions d) \<Longrightarrow> e_id e = i \<Longrightarrow> later e (g e)"
  shows "extends d (set_execution i g d)"
  by (rule extends_map [where g = "\<lambda>e. if e_id e = i then g e else e"])
     (use assms in \<open>auto simp: set_execution_def update_where_def\<close>)

lemma extends_set_row:
  assumes "keys_ok d" and "e \<in> set (t_executions d)" and "e_id e = i" and "later e e'"
  shows "extends d (set_execution i (\<lambda>_. e') d)"
proof (rule extends_set)
  fix x assume "x \<in> set (t_executions d)" "e_id x = i"
  then have "x = e" using assms(1-3) by (auto simp: keys_ok_def distinct_map inj_on_def)
  then show "later x e'" using assms(4) by simp
qed

lemma extends_logs [simp]: "extends d (d'\<lparr>t_logs := ls\<rparr>) = extends d d'"
  by (simp add: extends_def)

lemma finished_row_later: "later e (finished_row sr err ms now e)"
  by (auto simp: later_def finished_row_def move_status_cases stay intro: reaches_step)

text \<open>Most requests do not touch the executions.\<close>

lemma insert_executions [simp]:
  "insert_user u d = (r, d') \<Longrightarrow> t_executions d' = t_executions d"
  "insert_api_key k d = (r, d') \<Longrightarrow> t_executions d' = t_executions d"
  "insert_function fn d = (r, d') \<Longrightarrow> t_executions d' = t_executions d"
  "insert_version v d = (r, d') \<Longrightarrow> t_executions d' = t_executions d"
  "insert_schedule sch d = (r, d') \<Longrightarrow> t_executions d' = t_executions d"
  by (auto simp: insert_user_def insert_api_key_def insert_function_def insert_version_def insert_schedule_def
      split: if_splits)

lemma register_executions: "register S salt body i now d = (r, d') \<Longrightarrow> t_executions d' = t_executions d"
  by (cases "insert_user (new_user_row S salt body i now) d"; cases "fst (insert_user (new_user_row S salt body i now) d)")
     (auto simp: register_def split: sum.splits option.splits)

lemma key_executions:
  "create_key h user name secret i now d = (r, d') \<Longrightarrow> t_executions d' = t_executions d"
  "revoke_key i user now d = (r1, d') \<Longrightarrow> t_executions d' = t_executions d"
  "get_api_key_principal h key now d = (r2, d') \<Longrightarrow> t_executions d' = t_executions d"
proof -
  let ?k = "new_key_row h user name (''sopm_'' @ secret) i now"
  show "create_key h user name secret i now d = (r, d') \<Longrightarrow> t_executions d' = t_executions d"
    by (cases "insert_api_key ?k d"; cases "fst (insert_api_key ?k d)") (auto simp: create_key_def Let_def)
qed (auto simp: revoke_key_def get_api_key_principal_def split: sum.splits option.splits list.splits if_splits)

lemma function_executions:
  "update_function fid user ub d = (r, d') \<Longrightarrow> t_executions d' = t_executions d"
  "activate_version fid vid user now d = (r1, d') \<Longrightarrow> t_executions d' = t_executions d"
  "update_canary fid cb user now d = (r2, d') \<Longrightarrow> t_executions d' = t_executions d"
  by (auto simp: update_function_def activate_version_def update_canary_def set_func_def record_activation_def Let_def
      split: sum.splits option.splits if_splits)

lemma create_function_executions: "create_function cfg user body i now d = (r, d') \<Longrightarrow> t_executions d' = t_executions d"
  using create_function_Inl create_function_Inr(4) insert_executions(3) by (cases r) blast+

lemma create_version_executions:
  "create_version cfg sha M validate fid user archive form vid now (d, s) = (r, d', s') \<Longrightarrow> t_executions d' = t_executions d"
  using create_version_outcome [of cfg sha M validate fid user archive form vid now d s r d' s']
  by (auto simp: set_func_def dest!: insert_version_Inr)

lemma schedule_executions:
  "create_schedule cron body fid user i now d = (r, d') \<Longrightarrow> t_executions d' = t_executions d"
  "update_schedule cron i sub user now d = (r1, d') \<Longrightarrow> t_executions d' = t_executions d"
  "skipped cron sid now d d' \<Longrightarrow> t_executions d' = t_executions d"
proof -
  show "t_executions d' = t_executions d" if run: "create_schedule cron body fid user i now d = (r, d')"
  proof (cases "cron (sc_cron_expression body) now")
    case (Inr nxt)
    obtain x d1 where ins: "insert_schedule (new_schedule_row fid user body nxt i now) d = (x, d1)" by fastforce
    with run Inr show ?thesis using insert_executions(5) [OF ins]
      by (cases x) (auto simp: create_schedule_def split: sum.splits)
  qed (use run in \<open>auto simp: create_schedule_def split: sum.splits\<close>)
qed (auto simp: update_schedule_def skipped_def set_schedule_def split: sum.splits option.splits)

lemmas executions_same = register_executions key_executions function_executions create_function_executions
  create_version_executions schedule_executions

lemma recover_later: "is_stale cfg now e \<Longrightarrow> later e (recovered_row now e)"
  by (auto simp: recovered_row_stale later_def is_stale_def intro: reaches_step)

lemma request_extends: "request cfg M cron d d' \<Longrightarrow> db_ok d \<Longrightarrow> extends d d'"
proof (induction rule: request.induct)
  case (req_delete_function fid user d s r d' s')
  have det: "extends d (detach_and_delete fn user d)" for fn
    by (rule extends_map [OF detach_executions]) (simp add: later_def detached_def stay)
  show ?case
    using get_db_with_either [OF req_delete_function(1)] delete_function_outcome [of cfg M fid user d s r d' s'] det
    by auto
next
  case (req_create_version sha validate fid user archive form vid now d s r d' s')
  then show ?case using get_db_with_either create_version_executions by fastforce
next
  case (req_delete_schedule i user d r d')
  have "extends d (delete_schedules p d)" for p
    by (rule extends_map [OF delete_schedules_simps(7)]) (simp add: later_def stay)
  then show ?case using get_db_either [OF req_delete_schedule(1)]
    by (auto simp: delete_schedule_def split: sum.splits)
next
  case (req_cancel i user d r d')
  show ?case
  proof (cases r)
    case (Inr u)
    then obtain e where "get_execution i user d = Inr e" "CANCELLED \<in> set (valid_transitions (e_status e))"
      "d' = set_execution i (\<lambda>_. e\<lparr>e_status := CANCELLED\<rparr>) d"
      using cancel_execution_Inr [of i user d u d'] req_cancel(1) by (auto simp: get_db_Inr_iff)
    then show ?thesis
      using extends_set_row [of d e i "e\<lparr>e_status := CANCELLED\<rparr>"] get_execution_Inr db_ok_keys [OF req_cancel(2)]
      by (auto simp: later_def intro: reaches_step)
  qed (use req_cancel in \<open>auto dest: get_db_Inl_rollback\<close>)
next
  case (req_recover now d n d')
  then have "t_executions d' = map (\<lambda>e. if is_stale cfg now e then recovered_row now e else e) (t_executions d)"
    by (auto simp: recover_stale_def update_where_def)
  then show ?case by (rule extends_map) (simp add: recover_later)
next
  case (req_skip sid draw i now d d')
  then show ?case using fire_begin_outcome [of cfg cron sid draw i now d "Inr None" d'] schedule_executions(3)
    by (auto simp: get_db_Inr_iff fired_def)
qed (auto dest!: get_db_either executions_same)

lemma fire_finish_extends:
  assumes "fire_finish cron fresh i err now d = (r, d')"
  shows "extends d d'"
proof -
  have f: "extends d (set_execution i (schedule_failed x) d)" for x
    by (rule extends_set) (simp add: schedule_failed_def later_def)
  have s: "extends d (set_schedule j g d1) = extends d d1" for j g d1
    by (simp add: extends_def set_schedule_def)
  show ?thesis using assms f by (auto simp: fire_finish_def s split: sum.splits option.splits)
qed

lemma step_extends: "step cfg M cron s t \<Longrightarrow> db_ok (in_db s) \<Longrightarrow> extends (in_db s) (in_db t)"
proof (induction rule: step.induct)
  case (step_trigger fid user body draw i now d e job d' fl)
  obtain e2 where "insert_execution e2 d = (Inr (), d')" by (rule trigger_begin_Inr [OF step_trigger(1)])
  then show ?case using extends_append by (auto simp: insert_execution_Inr)
next
  case (step_invoke fid p payload draw i now d e job d' fl)
  obtain e2 where "insert_execution e2 d = (Inr (), d')" by (rule invoke_begin_Inr [OF step_invoke(1)])
  then show ?case using extends_append by (auto simp: insert_execution_Inr)
next
  case (step_ephemeral p ebody i now d d' fl)
  then show ?case using extends_append by (auto simp: insert_execution_Inr)
next
  case (step_fire sid draw i now d e job fresh d' fl)
  then obtain e2 where "insert_execution e2 d = (Inr (), d')"
    using fire_begin_outcome [OF step_fire(1)] by (auto simp: fired_def)
  then show ?case using extends_append by (auto simp: insert_execution_Inr)
next
  case (step_queue_failed i fl x d)
  show ?case unfolding mark_queue_failed_def by (simp, rule extends_set) (simp add: queue_failed_def later_def)
next
  case (step_claim wid now i d go d' fl)
  then have run: "worker_begin wid now i d = (Inr go, d')" by (simp add: get_db_Inr_iff)
  have "later e (e\<lparr>e_status := RUNNING, e_started_at := Some now, e_worker_id := Some wid\<rparr>)" if "e_status e = QUEUED" for e
    using that by (auto simp: later_def intro: reaches_step)
  then show ?case
    using worker_begin_cases [OF run] extends_set_row [OF db_ok_keys, of d] step_claim(2) by fastforce
next
  case (step_report i fl sr ms now d r d')
  show ?case
    using get_db_either [OF step_report(2)] worker_finish_cases [of sr ms now i d r d']
      extends_set_row [OF db_ok_keys, of d] step_report(3) finished_row_later by fastforce
qed (auto dest!: get_db_either simp: fire_finish_extends request_extends)

lemma steps_extends: "steps cfg M cron s t \<Longrightarrow> db_ok (in_db s) \<Longrightarrow> extends (in_db s) (in_db t)"
proof (induction rule: steps.induct)
  case (more s t u)
  then show ?case using step_extends steps_db_ok extends_trans by blast
qed simp

end
