(* ===== verification/Migrations.thy ===== *)
theory Migrations
  imports Prelude
begin

text \<open>
  The Alembic scripts of \<open>migrations/versions/\<close> as programs over a database schema, with the errors
  PostgreSQL answers when an object is missing, exists already or is still referenced; and the schema
  that the ORM classes of \<open>shared/db/models.py\<close> declare.
\<close>

section \<open>Schemas\<close>

datatype col_type = UUID | STRING nat | TEXT | BOOLEAN | INTEGER | JSONB | TIMESTAMPTZ | ENUM string

record column =
  co_name :: string
  co_type :: col_type
  co_nullable :: bool
  co_default :: "string option"
  co_primary :: bool

datatype on_delete = NO_ACTION | CASCADE | SET_NULL

record foreign_key =
  fk_name :: string
  fk_columns :: "string list"
  fk_target :: string
  fk_target_columns :: "string list"
  fk_on_delete :: on_delete

record table =
  tb_columns :: "column list"
  tb_uniques :: "(string \<times> string list) list"
  tb_foreign_keys :: "foreign_key list"

text \<open>The columns of an index may carry a direction; a partial index has a condition.\<close>

record index =
  ix_table :: string
  ix_columns :: "(string \<times> bool) list"
  ix_unique :: bool
  ix_where :: "string option"

record schema =
  sc_types :: "(string \<times> string list) list"
  sc_tables :: "(string \<times> table) list"
  sc_indexes :: "(string \<times> index) list"

definition empty_schema :: schema where
  "empty_schema = \<lparr>sc_types = [], sc_tables = [], sc_indexes = []\<rparr>"

section \<open>Operations\<close>

text \<open>A column with the foreign key written in it; the server names that key after table and column.\<close>

datatype column_def = Col column "(string \<times> string \<times> on_delete) option"

datatype ddl =
    Create_enum string "string list"
  | Drop_enum string
  | Create_table string "column_def list"
  | Drop_table string
  | Create_unique string string "string list"
  | Create_foreign_key string string string "string list" "string list" on_delete
  | Drop_constraint string string
  | Create_index bool string string "(string \<times> bool) list" bool "string option"
  | Drop_index bool string
  | Add_column string column
  | Drop_column string string
  | Alter_default string string "string option"

definition has_key :: "string \<Rightarrow> (string \<times> 'a) list \<Rightarrow> bool" where
  "has_key k kvs \<longleftrightarrow> map_of kvs k \<noteq> None"

definition without :: "string \<Rightarrow> (string \<times> 'a) list \<Rightarrow> (string \<times> 'a) list" where
  "without k kvs = filter (\<lambda>(k', v). k' \<noteq> k) kvs"

definition on_table :: "string \<Rightarrow> (table \<Rightarrow> table result) \<Rightarrow> schema \<Rightarrow> schema result" where
  "on_table t f sc =
     (case map_of (sc_tables sc) t of
        None \<Rightarrow> Inl (OtherError (''UndefinedTable: '' @ t))
      | Some tb \<Rightarrow>
          (case f tb of
             Inl e \<Rightarrow> Inl e
           | Inr tb' \<Rightarrow> Inr (sc\<lparr>sc_tables := map (\<lambda>(n, x). (n, if n = t then tb' else x)) (sc_tables sc)\<rparr>)))"

definition column_names :: "table \<Rightarrow> string list" where
  "column_names tb = map co_name (tb_columns tb)"

definition inline_keys :: "string \<Rightarrow> column_def list \<Rightarrow> foreign_key list" where
  "inline_keys t cds =
     concat (map (\<lambda>cd. case cd of Col c None \<Rightarrow> []
       | Col c (Some (target, tcol, od)) \<Rightarrow>
           [\<lparr>fk_name = t @ ''_'' @ co_name c @ ''_fkey'', fk_columns = [co_name c], fk_target = target,
             fk_target_columns = [tcol], fk_on_delete = od\<rparr>]) cds)"

definition table_of :: "string \<Rightarrow> column_def list \<Rightarrow> table" where
  "table_of t cds =
     \<lparr>tb_columns = map (\<lambda>cd. case cd of Col c k \<Rightarrow> c) cds, tb_uniques = [], tb_foreign_keys = inline_keys t cds\<rparr>"

text \<open>A key needs its target columns; the table being created may refer to itself.\<close>

definition target_ok :: "(string \<times> table) list \<Rightarrow> foreign_key \<Rightarrow> bool" where
  "target_ok tables k =
     (case map_of tables (fk_target k) of
        None \<Rightarrow> False
      | Some tb \<Rightarrow> fk_target_columns k = map co_name (filter co_primary (tb_columns tb)))"

definition types_ok :: "schema \<Rightarrow> table \<Rightarrow> bool" where
  "types_ok sc tb \<longleftrightarrow> list_all (\<lambda>c. case co_type c of ENUM n \<Rightarrow> has_key n (sc_types sc) | _ \<Rightarrow> True) (tb_columns tb)"

definition uses_enum :: "string \<Rightarrow> table \<Rightarrow> bool" where
  "uses_enum n tb \<longleftrightarrow> list_ex (\<lambda>c. co_type c = ENUM n) (tb_columns tb)"

definition create_table :: "string \<Rightarrow> column_def list \<Rightarrow> schema \<Rightarrow> schema result" where
  "create_table t cds sc =
     (let tb = table_of t cds; tables = sc_tables sc @ [(t, tb)] in
      if has_key t (sc_tables sc) then Inl (OtherError (''DuplicateTable: '' @ t))
      else if \<not> types_ok sc tb then Inl (OtherError ''UndefinedObject'')
      else if \<not> list_all (target_ok tables) (tb_foreign_keys tb) then Inl (OtherError ''UndefinedTable'')
      else Inr (sc\<lparr>sc_tables := tables\<rparr>))"

text \<open>Dropping a table that another table refers to is refused; its own indexes go with it.\<close>

definition drop_table :: "string \<Rightarrow> schema \<Rightarrow> schema result" where
  "drop_table t sc =
     (if \<not> has_key t (sc_tables sc) then Inl (OtherError (''UndefinedTable: '' @ t))
      else if list_ex (\<lambda>(n, tb). n \<noteq> t \<and> list_ex (\<lambda>k. fk_target k = t) (tb_foreign_keys tb)) (sc_tables sc)
      then Inl (OtherError (''DependentObjectsStillExist: '' @ t))
      else Inr (sc\<lparr>sc_tables := without t (sc_tables sc),
                   sc_indexes := filter (\<lambda>(n, ix). ix_table ix \<noteq> t) (sc_indexes sc)\<rparr>))"

definition create_unique :: "string \<Rightarrow> string list \<Rightarrow> table \<Rightarrow> table result" where
  "create_unique n cols tb =
     (if has_key n (tb_uniques tb) then Inl (OtherError (''DuplicateObject: '' @ n))
      else if \<not> set cols \<subseteq> set (column_names tb) then Inl (OtherError ''UndefinedColumn'')
      else Inr (tb\<lparr>tb_uniques := tb_uniques tb @ [(n, cols)]\<rparr>))"

definition create_foreign_key ::
  "(string \<times> table) list \<Rightarrow> string \<Rightarrow> string \<Rightarrow> string list \<Rightarrow> string list \<Rightarrow> on_delete \<Rightarrow> table \<Rightarrow> table result" where
  "create_foreign_key tables n target cols tcols od tb =
     (let k = \<lparr>fk_name = n, fk_columns = cols, fk_target = target, fk_target_columns = tcols, fk_on_delete = od\<rparr> in
      if n \<in> set (map fk_name (tb_foreign_keys tb)) then Inl (OtherError (''DuplicateObject: '' @ n))
      else if \<not> target_ok tables k \<or> \<not> set cols \<subseteq> set (column_names tb) then Inl (OtherError ''UndefinedColumn'')
      else Inr (tb\<lparr>tb_foreign_keys := tb_foreign_keys tb @ [k]\<rparr>))"

definition drop_constraint :: "string \<Rightarrow> table \<Rightarrow> table result" where
  "drop_constraint n tb =
     (if n \<notin> set (map fk_name (tb_foreign_keys tb)) then Inl (OtherError (''UndefinedObject: '' @ n))
      else Inr (tb\<lparr>tb_foreign_keys := filter (\<lambda>k. fk_name k \<noteq> n) (tb_foreign_keys tb)\<rparr>))"

definition create_index ::
  "bool \<Rightarrow> string \<Rightarrow> string \<Rightarrow> (string \<times> bool) list \<Rightarrow> bool \<Rightarrow> string option \<Rightarrow> schema \<Rightarrow> schema result" where
  "create_index if_not_exists n t cols uniq cond sc =
     (if has_key n (sc_indexes sc)
      then (if if_not_exists then Inr sc else Inl (OtherError (''DuplicateTable: '' @ n)))
      else (case map_of (sc_tables sc) t of
              None \<Rightarrow> Inl (OtherError (''UndefinedTable: '' @ t))
            | Some tb \<Rightarrow>
                if set (map fst cols) \<subseteq> set (column_names tb)
                then Inr (sc\<lparr>sc_indexes := sc_indexes sc @
                       [(n, \<lparr>ix_table = t, ix_columns = cols, ix_unique = uniq, ix_where = cond\<rparr>)]\<rparr>)
                else Inl (OtherError ''UndefinedColumn'')))"

definition drop_index :: "bool \<Rightarrow> string \<Rightarrow> schema \<Rightarrow> schema result" where
  "drop_index if_exists n sc =
     (if has_key n (sc_indexes sc) then Inr (sc\<lparr>sc_indexes := without n (sc_indexes sc)\<rparr>)
      else if if_exists then Inr sc else Inl (OtherError (''UndefinedObject: '' @ n)))"

definition add_column :: "column \<Rightarrow> table \<Rightarrow> table result" where
  "add_column c tb =
     (if co_name c \<in> set (column_names tb) then Inl (OtherError (''DuplicateColumn: '' @ co_name c))
      else Inr (tb\<lparr>tb_columns := tb_columns tb @ [c]\<rparr>))"

text \<open>The keys and indexes on a dropped column go with it.\<close>

definition drop_column :: "string \<Rightarrow> string \<Rightarrow> schema \<Rightarrow> schema result" where
  "drop_column t c sc =
     (case on_table t (\<lambda>tb.
          if c \<notin> set (column_names tb) then Inl (OtherError (''UndefinedColumn: '' @ c))
          else Inr (tb\<lparr>tb_columns := filter (\<lambda>x. co_name x \<noteq> c) (tb_columns tb),
                       tb_uniques := filter (\<lambda>(n, cols). c \<notin> set cols) (tb_uniques tb),
                       tb_foreign_keys := filter (\<lambda>k. c \<notin> set (fk_columns k)) (tb_foreign_keys tb)\<rparr>)) sc of
        Inl e \<Rightarrow> Inl e
      | Inr sc' \<Rightarrow> Inr (sc'\<lparr>sc_indexes :=
          filter (\<lambda>(n, ix). \<not> (ix_table ix = t \<and> c \<in> set (map fst (ix_columns ix)))) (sc_indexes sc')\<rparr>))"

definition alter_default :: "string \<Rightarrow> string option \<Rightarrow> table \<Rightarrow> table result" where
  "alter_default c dflt tb =
     (if c \<notin> set (column_names tb) then Inl (OtherError (''UndefinedColumn: '' @ c))
      else Inr (tb\<lparr>tb_columns := map (\<lambda>x. if co_name x = c then x\<lparr>co_default := dflt\<rparr> else x) (tb_columns tb)\<rparr>))"

fun run_op :: "ddl \<Rightarrow> schema \<Rightarrow> schema result" where
  "run_op (Create_enum n vs) sc =
     Inr (if has_key n (sc_types sc) then sc else sc\<lparr>sc_types := sc_types sc @ [(n, vs)]\<rparr>)"
| "run_op (Drop_enum n) sc =
     (if list_ex (\<lambda>(t, tb). uses_enum n tb) (sc_tables sc)
      then Inl (OtherError (''DependentObjectsStillExist: '' @ n))
      else Inr (sc\<lparr>sc_types := without n (sc_types sc)\<rparr>))"
| "run_op (Create_table t cds) sc = create_table t cds sc"
| "run_op (Drop_table t) sc = drop_table t sc"
| "run_op (Create_unique n t cols) sc = on_table t (create_unique n cols) sc"
| "run_op (Create_foreign_key n src target cols tcols od) sc =
     on_table src (create_foreign_key (sc_tables sc) n target cols tcols od) sc"
| "run_op (Drop_constraint n t) sc = on_table t (drop_constraint n) sc"
| "run_op (Create_index ine n t cols uniq cond) sc = create_index ine n t cols uniq cond sc"
| "run_op (Drop_index ie n) sc = drop_index ie n sc"
| "run_op (Add_column t c) sc = on_table t (add_column c) sc"
| "run_op (Drop_column t c) sc = drop_column t c sc"
| "run_op (Alter_default t c dflt) sc = on_table t (alter_default c dflt) sc"

fun run_ops :: "ddl list \<Rightarrow> schema \<Rightarrow> schema result" where
  "run_ops [] sc = Inr sc"
| "run_ops (x # xs) sc = (case run_op x sc of Inl e \<Rightarrow> Inl e | Inr sc' \<Rightarrow> run_ops xs sc')"

section \<open>The columns\<close>

definition key :: column_def where
  "key = Col \<lparr>co_name = ''id'', co_type = UUID, co_nullable = False, co_default = None, co_primary = True\<rparr> None"

definition plain_column :: "string \<Rightarrow> col_type \<Rightarrow> bool \<Rightarrow> string option \<Rightarrow> column" where
  "plain_column n t nullable dflt =
     \<lparr>co_name = n, co_type = t, co_nullable = nullable, co_default = dflt, co_primary = False\<rparr>"

definition required :: "string \<Rightarrow> col_type \<Rightarrow> column_def" where
  "required n t = Col (plain_column n t False None) None"

definition optional :: "string \<Rightarrow> col_type \<Rightarrow> column_def" where
  "optional n t = Col (plain_column n t True None) None"

definition defaulted :: "string \<Rightarrow> col_type \<Rightarrow> string \<Rightarrow> column_def" where
  "defaulted n t d = Col (plain_column n t False (Some d)) None"

definition references :: "string \<Rightarrow> bool \<Rightarrow> string \<Rightarrow> on_delete \<Rightarrow> column_def" where
  "references n nullable target od = Col (plain_column n UUID nullable None) (Some (target, ''id'', od))"

definition timestamps :: "column_def list" where
  "timestamps = [defaulted ''created_at'' TIMESTAMPTZ ''now()'', defaulted ''updated_at'' TIMESTAMPTZ ''now()'']"

definition asc :: "string list \<Rightarrow> (string \<times> bool) list" where
  "asc cols = map (\<lambda>c. (c, False)) cols"

definition simple_index :: "string \<Rightarrow> string \<Rightarrow> string list \<Rightarrow> ddl" where
  "simple_index n t cols = Create_index False n t (asc cols) False None"

section \<open>Revision 001\<close>

definition enums_001 :: "ddl list" where
  "enums_001 =
     [Create_enum ''executionstatus''
        [''PENDING'', ''QUEUED'', ''RUNNING'', ''COMPLETED'', ''FAILED'', ''TIMED_OUT'', ''CANCELLED''],
      Create_enum ''functionstatus'' [''ACTIVE'', ''INACTIVE'', ''DEPRECATED''],
      Create_enum ''schedulestatus'' [''ACTIVE'', ''PAUSED'', ''DELETED'']]"

definition users_001 :: "ddl list" where
  "users_001 =
     [Create_table ''users''
        ([key, required ''username'' (STRING 64), required ''email'' (STRING 255),
          required ''hashed_password'' (STRING 255), defaulted ''is_active'' BOOLEAN ''true'',
          defaulted ''is_superuser'' BOOLEAN ''false''] @ timestamps),
      Create_unique ''uq_users_username'' ''users'' [''username''],
      Create_unique ''uq_users_email'' ''users'' [''email''],
      simple_index ''ix_users_username'' ''users'' [''username''],
      simple_index ''ix_users_email'' ''users'' [''email'']]"

definition functions_001 :: "ddl list" where
  "functions_001 =
     [Create_table ''functions''
        ([key, references ''owner_id'' False ''users'' CASCADE, required ''name'' (STRING 128),
          optional ''description'' TEXT, defaulted ''runtime'' (STRING 32) ''python3.12'',
          defaulted ''status'' (ENUM ''functionstatus'') ''ACTIVE'', optional ''active_version_id'' UUID,
          defaulted ''tags'' JSONB ''{}''] @ timestamps),
      Create_unique ''uq_function_owner_name'' ''functions'' [''owner_id'', ''name''],
      simple_index ''ix_function_owner_id'' ''functions'' [''owner_id''],
      simple_index ''ix_function_status'' ''functions'' [''status'']]"

definition versions_001 :: "ddl list" where
  "versions_001 =
     [Create_table ''function_versions''
        ([key, references ''function_id'' False ''functions'' CASCADE, required ''version_number'' INTEGER,
          defaulted ''entrypoint'' (STRING 255) ''handler.handler'', required ''artifact_path'' (STRING 512),
          required ''artifact_hash'' (STRING 64), required ''artifact_size'' INTEGER,
          defaulted ''environment'' JSONB ''{}'', defaulted ''timeout'' INTEGER ''300'',
          defaulted ''memory_mb'' INTEGER ''128'', defaulted ''is_active'' BOOLEAN ''true'',
          optional ''change_notes'' TEXT] @ timestamps),
      Create_unique ''uq_version_function_number'' ''function_versions'' [''function_id'', ''version_number''],
      simple_index ''ix_function_version_function_id'' ''function_versions'' [''function_id''],
      Create_foreign_key ''fk_functions_active_version'' ''functions'' ''function_versions''
        [''active_version_id''] [''id''] NO_ACTION]"

definition schedules_001 :: "ddl list" where
  "schedules_001 =
     [Create_table ''schedules''
        ([key, references ''function_id'' False ''functions'' CASCADE, references ''owner_id'' False ''users'' CASCADE,
          required ''name'' (STRING 128), required ''cron_expression'' (STRING 128),
          defaulted ''payload'' JSONB ''{}'', defaulted ''status'' (ENUM ''schedulestatus'') ''ACTIVE'',
          optional ''next_run_at'' TIMESTAMPTZ, optional ''last_run_at'' TIMESTAMPTZ,
          optional ''last_execution_id'' UUID, defaulted ''missed_runs'' INTEGER ''0''] @ timestamps),
      simple_index ''ix_schedule_next_run_at'' ''schedules'' [''next_run_at'']]"

definition executions_001 :: "ddl list" where
  "executions_001 =
     [Create_table ''executions''
        ([key, references ''function_id'' True ''functions'' SET_NULL,
          references ''function_version_id'' True ''function_versions'' SET_NULL,
          references ''triggered_by'' True ''users'' SET_NULL, references ''schedule_id'' True ''schedules'' SET_NULL,
          defaulted ''status'' (ENUM ''executionstatus'') ''PENDING'', defaulted ''payload'' JSONB ''{}'',
          optional ''result'' JSONB, optional ''error_message'' TEXT, optional ''worker_id'' (STRING 64),
          optional ''k8s_job_name'' (STRING 255), optional ''queued_at'' TIMESTAMPTZ,
          optional ''started_at'' TIMESTAMPTZ, optional ''completed_at'' TIMESTAMPTZ,
          optional ''duration_ms'' INTEGER, defaulted ''attempt_number'' INTEGER ''1'',
          defaulted ''timeout'' INTEGER ''300''] @ timestamps),
      simple_index ''ix_execution_function_id'' ''executions'' [''function_id''],
      simple_index ''ix_execution_status'' ''executions'' [''status''],
      simple_index ''ix_execution_created_at'' ''executions'' [''created_at''],
      Create_foreign_key ''fk_schedules_last_execution'' ''schedules'' ''executions''
        [''last_execution_id''] [''id''] NO_ACTION]"

definition logs_001 :: "ddl list" where
  "logs_001 =
     [Create_table ''execution_logs''
        [key, references ''execution_id'' False ''executions'' CASCADE,
         defaulted ''timestamp'' TIMESTAMPTZ ''now()'', defaulted ''level'' (STRING 16) ''INFO'',
         defaulted ''stream'' (STRING 8) ''stdout'', required ''message'' TEXT,
         defaulted ''sequence'' INTEGER ''0''],
      simple_index ''ix_execution_log_execution_timestamp'' ''execution_logs'' [''execution_id'', ''timestamp''],
      simple_index ''ix_execution_log_execution_id'' ''execution_logs'' [''execution_id'']]"

definition upgrade_001 :: "ddl list" where
  "upgrade_001 = enums_001 @ users_001 @ functions_001 @ versions_001 @ schedules_001 @ executions_001 @ logs_001"

definition downgrade_001 :: "ddl list" where
  "downgrade_001 =
     [Drop_table ''execution_logs'', Drop_constraint ''fk_schedules_last_execution'' ''schedules'',
      Drop_table ''executions'', Drop_table ''schedules'',
      Drop_constraint ''fk_functions_active_version'' ''functions'', Drop_table ''function_versions'',
      Drop_table ''functions'', Drop_table ''users'',
      Drop_enum ''executionstatus'', Drop_enum ''functionstatus'', Drop_enum ''schedulestatus'']"

section \<open>Revisions 002 to 005\<close>

definition upgrade_002 :: "ddl list" where
  "upgrade_002 =
     [Create_index True ''ix_exec_status_created'' ''executions'' [(''status'', False), (''created_at'', True)] False None,
      Create_index True ''ix_exec_created_status'' ''executions'' [(''created_at'', True), (''status'', False)] False None,
      Create_index True ''ix_exec_failed_created'' ''executions'' [(''created_at'', True)] False
        (Some ''status IN ('FAILED', 'TIMED_OUT')''),
      Create_index True ''ix_fv_created'' ''function_versions'' [(''created_at'', True)] False None,
      Create_index True ''ix_exec_fn_status'' ''executions''
        [(''function_id'', False), (''status'', False), (''created_at'', True)] False None]"

definition downgrade_002 :: "ddl list" where
  "downgrade_002 =
     [Drop_index True ''ix_exec_status_created'', Drop_index True ''ix_exec_created_status'',
      Drop_index True ''ix_exec_failed_created'', Drop_index True ''ix_fv_created'',
      Drop_index True ''ix_exec_fn_status'']"

definition upgrade_003 :: "ddl list" where
  "upgrade_003 =
     [Create_table ''api_keys''
        ([key, references ''owner_id'' False ''users'' CASCADE, required ''name'' (STRING 128),
          required ''key_hash'' (STRING 64), required ''key_prefix'' (STRING 16),
          optional ''revoked_at'' TIMESTAMPTZ, optional ''last_used_at'' TIMESTAMPTZ] @ timestamps),
      simple_index ''ix_api_keys_owner_id'' ''api_keys'' [''owner_id''],
      Create_index False ''ix_api_keys_key_hash'' ''api_keys'' (asc [''key_hash'']) True None,
      simple_index ''ix_api_key_owner_created'' ''api_keys'' [''owner_id'', ''created_at'']]"

definition downgrade_003 :: "ddl list" where
  "downgrade_003 =
     [Drop_index False ''ix_api_key_owner_created'', Drop_index False ''ix_api_keys_key_hash'',
      Drop_index False ''ix_api_keys_owner_id'', Drop_table ''api_keys'']"

definition upgrade_004 :: "ddl list" where
  "upgrade_004 =
     [Add_column ''functions'' (plain_column ''canary_version_id'' UUID True None),
      Add_column ''functions'' (plain_column ''canary_percent'' INTEGER False (Some ''0'')),
      Create_foreign_key ''fk_functions_canary_version_id_function_versions'' ''functions'' ''function_versions''
        [''canary_version_id''] [''id''] NO_ACTION,
      Alter_default ''functions'' ''canary_percent'' None,
      Add_column ''executions'' (plain_column ''failure_kind'' (STRING 32) True None),
      simple_index ''ix_executions_failure_kind'' ''executions'' [''failure_kind''],
      Create_table ''version_activations''
        ([key, references ''function_id'' False ''functions'' CASCADE, references ''actor_id'' True ''users'' SET_NULL,
          references ''previous_version_id'' True ''function_versions'' SET_NULL,
          references ''activated_version_id'' True ''function_versions'' SET_NULL,
          references ''canary_version_id'' True ''function_versions'' SET_NULL,
          defaulted ''canary_percent'' INTEGER ''0'', defaulted ''action'' (STRING 32) ''activate''] @ timestamps),
      simple_index ''ix_version_activations_function_id'' ''version_activations'' [''function_id''],
      simple_index ''ix_version_activations_actor_id'' ''version_activations'' [''actor_id''],
      simple_index ''ix_version_activation_function_created'' ''version_activations'' [''function_id'', ''created_at'']]"

definition downgrade_004 :: "ddl list" where
  "downgrade_004 =
     [Drop_index False ''ix_version_activation_function_created'', Drop_index False ''ix_version_activations_actor_id'',
      Drop_index False ''ix_version_activations_function_id'', Drop_table ''version_activations'',
      Drop_index False ''ix_executions_failure_kind'', Drop_column ''executions'' ''failure_kind'',
      Drop_constraint ''fk_functions_canary_version_id_function_versions'' ''functions'',
      Drop_column ''functions'' ''canary_percent'', Drop_column ''functions'' ''canary_version_id'']"

definition upgrade_005 :: "ddl list" where
  "upgrade_005 =
     [Add_column ''executions'' (plain_column ''api_key_id'' UUID True None),
      Add_column ''executions'' (plain_column ''execution_type'' (STRING 32) False (Some ''function'')),
      Alter_default ''executions'' ''execution_type'' None,
      Create_foreign_key ''fk_executions_api_key_id_api_keys'' ''executions'' ''api_keys'' [''api_key_id''] [''id''] SET_NULL,
      simple_index ''ix_executions_api_key_id'' ''executions'' [''api_key_id''],
      simple_index ''ix_executions_execution_type'' ''executions'' [''execution_type''],
      simple_index ''ix_execution_type_created_at'' ''executions'' [''execution_type'', ''created_at''],
      simple_index ''ix_execution_api_key_status'' ''executions'' [''api_key_id'', ''status'']]"

definition downgrade_005 :: "ddl list" where
  "downgrade_005 =
     [Drop_index False ''ix_execution_api_key_status'', Drop_index False ''ix_execution_type_created_at'',
      Drop_index False ''ix_executions_execution_type'', Drop_index False ''ix_executions_api_key_id'',
      Drop_constraint ''fk_executions_api_key_id_api_keys'' ''executions'',
      Drop_column ''executions'' ''execution_type'', Drop_column ''executions'' ''api_key_id'']"

text \<open>The revisions in the order of \<open>down_revision\<close>.\<close>

definition revisions :: "(ddl list \<times> ddl list) list" where
  "revisions = [(upgrade_001, downgrade_001), (upgrade_002, downgrade_002), (upgrade_003, downgrade_003),
     (upgrade_004, downgrade_004), (upgrade_005, downgrade_005)]"

fun reversible :: "(ddl list \<times> ddl list) list \<Rightarrow> schema \<Rightarrow> bool" where
  "reversible [] sc = True"
| "reversible ((up, down) # rs) sc =
     (case run_ops up sc of
        Inl e \<Rightarrow> False
      | Inr sc' \<Rightarrow> run_ops down sc' = Inr sc \<and> reversible rs sc')"

fun upgrade_all :: "(ddl list \<times> ddl list) list \<Rightarrow> schema \<Rightarrow> schema result" where
  "upgrade_all [] sc = Inr sc"
| "upgrade_all ((up, down) # rs) sc = (case run_ops up sc of Inl e \<Rightarrow> Inl e | Inr sc' \<Rightarrow> upgrade_all rs sc')"

section \<open>The schema of the ORM classes\<close>

text \<open>
  Name, columns and unique column sets of each class; the defaults of the classes are filled in by
  the client and are no part of the schema.
\<close>

type_synonym orm_class = "string \<times> column_def list \<times> string list list"

definition User_class :: orm_class where
  "User_class = (''users'',
     [key, required ''username'' (STRING 64), required ''email'' (STRING 255),
      required ''hashed_password'' (STRING 255), required ''is_active'' BOOLEAN,
      required ''is_superuser'' BOOLEAN] @ timestamps, [[''username''], [''email'']])"

definition ApiKey_class :: orm_class where
  "ApiKey_class = (''api_keys'',
     [key, references ''owner_id'' False ''users'' CASCADE, required ''name'' (STRING 128),
      required ''key_hash'' (STRING 64), required ''key_prefix'' (STRING 16),
      optional ''revoked_at'' TIMESTAMPTZ, optional ''last_used_at'' TIMESTAMPTZ] @ timestamps, [[''key_hash'']])"

definition Function_class :: orm_class where
  "Function_class = (''functions'',
     [key, references ''owner_id'' False ''users'' CASCADE, required ''name'' (STRING 128),
      optional ''description'' TEXT, required ''runtime'' (STRING 32),
      required ''status'' (ENUM ''functionstatus''),
      references ''active_version_id'' True ''function_versions'' NO_ACTION,
      references ''canary_version_id'' True ''function_versions'' NO_ACTION,
      required ''canary_percent'' INTEGER, required ''tags'' JSONB] @ timestamps, [[''owner_id'', ''name'']])"

definition VersionActivation_class :: orm_class where
  "VersionActivation_class = (''version_activations'',
     [key, references ''function_id'' False ''functions'' CASCADE, references ''actor_id'' True ''users'' SET_NULL,
      references ''previous_version_id'' True ''function_versions'' SET_NULL,
      references ''activated_version_id'' True ''function_versions'' SET_NULL,
      references ''canary_version_id'' True ''function_versions'' SET_NULL,
      required ''canary_percent'' INTEGER, required ''action'' (STRING 32)] @ timestamps, [])"

definition FunctionVersion_class :: orm_class where
  "FunctionVersion_class = (''function_versions'',
     [key, references ''function_id'' False ''functions'' CASCADE, required ''version_number'' INTEGER,
      required ''entrypoint'' (STRING 255), required ''artifact_path'' (STRING 512),
      required ''artifact_hash'' (STRING 64), required ''artifact_size'' INTEGER, required ''environment'' JSONB,
      required ''timeout'' INTEGER, required ''memory_mb'' INTEGER, required ''is_active'' BOOLEAN,
      optional ''change_notes'' TEXT] @ timestamps, [[''function_id'', ''version_number'']])"

definition Execution_class :: orm_class where
  "Execution_class = (''executions'',
     [key, references ''function_id'' True ''functions'' SET_NULL,
      references ''function_version_id'' True ''function_versions'' SET_NULL,
      references ''triggered_by'' True ''users'' SET_NULL, references ''api_key_id'' True ''api_keys'' SET_NULL,
      required ''execution_type'' (STRING 32), references ''schedule_id'' True ''schedules'' SET_NULL,
      required ''status'' (ENUM ''executionstatus''), required ''payload'' JSONB, optional ''result'' JSONB,
      optional ''error_message'' TEXT, optional ''failure_kind'' (STRING 32), optional ''worker_id'' (STRING 64),
      optional ''k8s_job_name'' (STRING 255), optional ''queued_at'' TIMESTAMPTZ, optional ''started_at'' TIMESTAMPTZ,
      optional ''completed_at'' TIMESTAMPTZ, optional ''duration_ms'' INTEGER, required ''attempt_number'' INTEGER,
      required ''timeout'' INTEGER] @ timestamps, [])"

definition ExecutionLog_class :: orm_class where
  "ExecutionLog_class = (''execution_logs'',
     [key, references ''execution_id'' False ''executions'' CASCADE, required ''timestamp'' TIMESTAMPTZ,
      required ''level'' (STRING 16), required ''stream'' (STRING 8), required ''message'' TEXT,
      required ''sequence'' INTEGER], [])"

definition Schedule_class :: orm_class where
  "Schedule_class = (''schedules'',
     [key, references ''function_id'' False ''functions'' CASCADE, references ''owner_id'' False ''users'' CASCADE,
      required ''name'' (STRING 128), required ''cron_expression'' (STRING 128), required ''payload'' JSONB,
      required ''status'' (ENUM ''schedulestatus''), optional ''next_run_at'' TIMESTAMPTZ,
      optional ''last_run_at'' TIMESTAMPTZ, references ''last_execution_id'' True ''executions'' SET_NULL,
      required ''missed_runs'' INTEGER] @ timestamps, [])"

definition orm_classes :: "orm_class list" where
  "orm_classes = [User_class, ApiKey_class, Function_class, VersionActivation_class, FunctionVersion_class,
     Execution_class, ExecutionLog_class, Schedule_class]"

section \<open>Comparing the two\<close>

definition same_set :: "'a list \<Rightarrow> 'a list \<Rightarrow> bool" where
  "same_set xs ys \<longleftrightarrow> list_all (\<lambda>x. List.member ys x) xs \<and> list_all (\<lambda>y. List.member xs y) ys"

definition column_shape :: "column \<Rightarrow> string \<times> col_type \<times> bool \<times> bool" where
  "column_shape c = (co_name c, co_type c, co_nullable c, co_primary c)"

definition key_shape :: "foreign_key \<Rightarrow> string list \<times> string \<times> string list \<times> on_delete" where
  "key_shape k = (fk_columns k, fk_target k, fk_target_columns k, fk_on_delete k)"

definition unique_sets :: "schema \<Rightarrow> string \<Rightarrow> table \<Rightarrow> string list list" where
  "unique_sets sc t tb = map snd (tb_uniques tb) @
     map (\<lambda>(n, ix). map fst (ix_columns ix)) (filter (\<lambda>(n, ix). ix_table ix = t \<and> ix_unique ix) (sc_indexes sc))"

definition serves :: "schema \<Rightarrow> orm_class \<Rightarrow> bool" where
  "serves sc oc =
     (case oc of (t, cds, us) \<Rightarrow>
        (case map_of (sc_tables sc) t of
           None \<Rightarrow> False
         | Some tb \<Rightarrow>
             same_set (map column_shape (tb_columns tb)) (map column_shape (tb_columns (table_of t cds))) \<and>
             same_set (unique_sets sc t tb) us))"

text \<open>The keys of a class that the table does not have as declared, and those only the table has.\<close>

definition key_differences :: "schema \<Rightarrow> orm_class \<Rightarrow> (string \<times> string list \<times> on_delete) list" where
  "key_differences sc oc =
     (case oc of (t, cds, us) \<Rightarrow>
        (case map_of (sc_tables sc) t of
           None \<Rightarrow> []
         | Some tb \<Rightarrow>
             (let declared = map key_shape (inline_keys t cds); actual = map key_shape (tb_foreign_keys tb) in
              map (\<lambda>(cols, target, tcols, od). (t, cols, od)) (filter (\<lambda>k. \<not> List.member declared k) actual) @
              map (\<lambda>(cols, target, tcols, od). (t, cols, od)) (filter (\<lambda>k. \<not> List.member actual k) declared))))"

section \<open>Properties\<close>



end
