(* ===== verification/Typing.thy ===== *)
theory Typing
  imports System Migrations
begin

text \<open>
  What the request models of \<open>api/schemas/schemas.py\<close> make of the stored rows: a typing predicate for every
  table, kept by every step of the installation, and the width of the string columns of
  \<open>shared/db/models.py\<close> that the typed values fit into.
\<close>

named_theorems type_intros

section \<open>Typed rows\<close>

definition length_between :: "nat \<Rightarrow> nat \<Rightarrow> string \<Rightarrow> bool" where
  "length_between lo hi s \<longleftrightarrow> lo \<le> length s \<and> length s \<le> hi"

lemma length_between_iff: "length_between lo hi s \<longleftrightarrow> \<not> (length s < lo \<or> hi < length s)"
  by (auto simp: length_between_def)

definition typed_user :: "user \<Rightarrow> bool" where
  "typed_user u \<longleftrightarrow> length_between 3 64 (u_username u) \<and> username_pattern (u_username u)"

definition typed_key :: "api_key \<Rightarrow> bool" where
  "typed_key k \<longleftrightarrow> length_between 1 128 (k_name k) \<and> length (k_key_prefix k) \<le> 16"

definition typed_function :: "func \<Rightarrow> bool" where
  "typed_function f \<longleftrightarrow> length_between 1 128 (f_name f) \<and> function_name_re (f_name f) \<and>
     opt_max 1024 (f_description f) \<and> length (f_runtime f) \<le> 32 \<and> between 0 100 (f_canary_percent f)"

definition typed_version :: "version \<Rightarrow> bool" where
  "typed_version v \<longleftrightarrow> entrypoint_pattern (v_entrypoint v) \<and> between 1 3600 (v_timeout v) \<and>
     between 64 3072 (v_memory_mb v) \<and> opt_max 512 (v_change_notes v)"

definition typed_schedule :: "schedule \<Rightarrow> bool" where
  "typed_schedule s \<longleftrightarrow> length_between 1 128 (s_name s) \<and> is_jobj (s_payload s)"

definition typed_execution :: "execution \<Rightarrow> bool" where
  "typed_execution e \<longleftrightarrow> is_jobj (e_payload e) \<and> between 1 3600 (e_timeout e) \<and>
     e_execution_type e \<in> {''function'', ''ephemeral''} \<and> opt_max 32 (e_failure_kind e)"

definition typed :: "db \<Rightarrow> bool" where
  "typed d \<longleftrightarrow> list_all typed_user (t_users d) \<and> list_all typed_key (t_api_keys d) \<and>
     list_all typed_function (t_functions d) \<and> list_all typed_version (t_versions d) \<and>
     list_all typed_schedule (t_schedules d) \<and> list_all typed_execution (t_executions d)"

section \<open>Single writes\<close>

lemma typed_empty: "typed empty_db"
  by (simp add: typed_def empty_db_def)

lemma typed_other [simp]:
  "typed (d\<lparr>t_logs := ls\<rparr>) = typed d" "typed (d\<lparr>t_activations := as\<rparr>) = typed d"
  "typed (record_activation fn actor action p a c n now d) = typed d"
  by (simp_all add: typed_def record_activation_def)

lemma list_all_update_where:
  "list_all P xs \<Longrightarrow> (\<And>x. x \<in> set xs \<Longrightarrow> P x \<Longrightarrow> P (g x)) \<Longrightarrow> list_all P (update_where p g xs)"
  by (auto simp: list_all_iff update_where_def)

lemma list_all_delete_where: "list_all P xs \<Longrightarrow> list_all P (delete_where p xs)"
  by (simp add: list_all_iff)

lemma typed_set_func:
  "typed d \<Longrightarrow> (\<And>f. f \<in> set (t_functions d) \<Longrightarrow> typed_function f \<Longrightarrow> typed_function (g f)) \<Longrightarrow> typed (set_func i g d)"
  by (simp add: typed_def set_func_def list_all_update_where)

lemma typed_set_execution:
  "typed d \<Longrightarrow> (\<And>e. e \<in> set (t_executions d) \<Longrightarrow> typed_execution e \<Longrightarrow> typed_execution (g e)) \<Longrightarrow>
   typed (set_execution i g d)"
  by (simp add: typed_def set_execution_def list_all_update_where)

lemma typed_set_schedule:
  "typed d \<Longrightarrow> (\<And>s. s \<in> set (t_schedules d) \<Longrightarrow> typed_schedule s \<Longrightarrow> typed_schedule (g s)) \<Longrightarrow>
   typed (set_schedule i g d)"
  by (simp add: typed_def set_schedule_def list_all_update_where)

lemma typed_rows:
  assumes "typed d"
  shows "f \<in> set (t_functions d) \<Longrightarrow> typed_function f" and "v \<in> set (t_versions d) \<Longrightarrow> typed_version v"
    and "e \<in> set (t_executions d) \<Longrightarrow> typed_execution e" and "s \<in> set (t_schedules d) \<Longrightarrow> typed_schedule s"
    and "u \<in> set (t_users d) \<Longrightarrow> typed_user u" and "k \<in> set (t_api_keys d) \<Longrightarrow> typed_key k"
  using assms by (auto simp: typed_def list_all_iff)

lemma typed_append:
  assumes "typed d"
  shows "typed_user u \<Longrightarrow> typed (d\<lparr>t_users := t_users d @ [u]\<rparr>)"
    and "typed_key k \<Longrightarrow> typed (d\<lparr>t_api_keys := t_api_keys d @ [k]\<rparr>)"
    and "typed_function f \<Longrightarrow> typed (d\<lparr>t_functions := t_functions d @ [f]\<rparr>)"
    and "typed_version v \<Longrightarrow> typed (d\<lparr>t_versions := t_versions d @ [v]\<rparr>)"
    and "typed_execution e \<Longrightarrow> typed (d\<lparr>t_executions := t_executions d @ [e]\<rparr>)"
    and "typed_schedule s \<Longrightarrow> typed (d\<lparr>t_schedules := t_schedules d @ [s]\<rparr>)"
  using assms by (simp_all add: typed_def)

lemma typed_insert_user: "typed d \<Longrightarrow> typed_user u \<Longrightarrow> typed (snd (insert_user u d))"
  by (simp add: insert_user_def typed_append)

lemma typed_insert_api_key: "typed d \<Longrightarrow> typed_key k \<Longrightarrow> typed (snd (insert_api_key k d))"
  by (simp add: insert_api_key_def typed_append)

lemma typed_insert_function: "typed d \<Longrightarrow> typed_function f \<Longrightarrow> typed (snd (insert_function f d))"
  by (simp add: insert_function_def typed_append)

lemma typed_insert_version: "typed d \<Longrightarrow> typed_version v \<Longrightarrow> typed (snd (insert_version v d))"
  by (simp add: insert_version_def typed_append)

lemma typed_insert_execution: "typed d \<Longrightarrow> typed_execution e \<Longrightarrow> typed (snd (insert_execution e d))"
  by (simp add: insert_execution_def typed_append)

lemma typed_insert_schedule: "typed d \<Longrightarrow> typed_schedule s \<Longrightarrow> typed (snd (insert_schedule s d))"
  by (simp add: insert_schedule_def typed_append)

lemmas typed_insert = typed_insert_user typed_insert_api_key typed_insert_function typed_insert_version
  typed_insert_execution typed_insert_schedule

section \<open>The rows that requests make\<close>

lemma typed_new_user:
  "validate_user_register email_ok body = Inr body' \<Longrightarrow> typed_user (new_user_row S salt body i now)"
  by (auto simp: typed_user_def length_between_iff new_user_row_def validate_user_register_def split: if_splits)

lemma typed_new_key: "validate_key_create name = Inr name' \<Longrightarrow> typed_key (new_key_row h user name raw i now)"
  by (auto simp: typed_key_def length_between_iff new_key_row_def validate_key_create_def split: if_splits)

lemma typed_new_function:
  "validate_function_create body = Inr body' \<Longrightarrow> typed_function (new_function_row user body i now)"
  by (auto simp: typed_function_def length_between_iff new_function_row_def validate_function_create_def between_def
      split: if_splits)

lemma typed_new_version:
  "validate_version_create params = Inr params' \<Longrightarrow> typed_version (new_version_row fn params i path h sz n now)"
  by (auto simp: typed_version_def new_version_row_def validate_version_create_def split: if_splits)

lemma typed_new_schedule:
  "validate_schedule_create cron_ok body = Inr body' \<Longrightarrow> typed_schedule (new_schedule_row fid user body nxt i now)"
  by (auto simp: typed_schedule_def length_between_iff new_schedule_row_def validate_schedule_create_def split: if_splits)

lemma typed_apply_update:
  "validate_schedule_update cron_ok body = Inr body' \<Longrightarrow> typed_schedule s \<Longrightarrow> typed_schedule (apply_update body nxt s)"
  by (auto simp: typed_schedule_def length_between_iff apply_update_def validate_schedule_update_def Let_def
      split: if_splits option.splits)

lemma typed_function_execution:
  "is_jobj p \<Longrightarrow> between 1 3600 t \<Longrightarrow> typed_execution (function_execution fn v user kid p t i now)"
  by (simp add: typed_execution_def function_execution_def new_execution_def opt_max_def)

lemma typed_schedule_execution:
  "typed_schedule s \<Longrightarrow> typed_version v \<Longrightarrow> typed_execution (schedule_execution fn v s i now)"
  by (simp add: typed_execution_def typed_schedule_def typed_version_def schedule_execution_def new_execution_def
      opt_max_def)

lemma typed_ephemeral_execution:
  "validate_ephemeral cfg body = Inr body' \<Longrightarrow> typed_execution (ephemeral_execution p body i now)"
  by (auto simp: typed_execution_def ephemeral_execution_def new_execution_def opt_max_def validate_ephemeral_def
      between_def split: if_splits)

text \<open>The timeout of a trigger: its own when it has one, else that of the version.\<close>

lemma trigger_timeout_range:
  "validate_execution_trigger body = Inr body' \<Longrightarrow> typed_version v \<Longrightarrow> between 1 3600 (trigger_timeout body v)"
  by (auto simp: validate_execution_trigger_def trigger_timeout_def typed_version_def split: if_splits option.splits)

lemma opt_max_Some: "opt_max n (Some s) \<longleftrightarrow> length s \<le> n"
  by (simp add: opt_max_def)

lemma failure_kind_short: "opt_max 32 (failure_kind_of success error)"
  by (simp add: failure_kind_of_def opt_max_def split: option.split)

lemma typed_execution_changes:
  assumes "typed_execution e"
  shows "typed_execution (queue_failed x e)" and "typed_execution (schedule_failed x e)"
    and "typed_execution (finished_row sr err ms now e)" and "typed_execution (recovered_row now e)"
    and "typed_execution (detached fn user d e)"
  using assms failure_kind_short
  by (simp_all add: typed_execution_def queue_failed_def schedule_failed_def finished_row_def move_status_cases
      recovered_row_def transition_to_def validate_transition_def detached_def Let_def opt_max_Some)

section \<open>Handlers\<close>

lemma typed_register [type_intros]:
  assumes "typed d" and "register S salt body i now d = (r, d')" and "validate_user_register email_ok body = Inr body"
  shows "typed d'"
proof (cases r)
  case (Inr u)
  show ?thesis
    using register_Inr(1,2) [OF assms(2) [unfolded Inr]] typed_insert(1) [OF assms(1)] typed_new_user [OF assms(3)]
    by (metis snd_conv)
qed (use assms register_Inl in blast)

lemma typed_create_key [type_intros]:
  assumes "typed d" and "create_key h user name secret i now d = (r, d')" and "validate_key_create name = Inr name"
  shows "typed d'"
proof -
  obtain x d1 where ins: "insert_api_key (new_key_row h user name (''sopm_'' @ secret) i now) d = (x, d1)" by fastforce
  then have "typed d1" using typed_insert(2) [OF assms(1) typed_new_key [OF assms(3)]] by (metis snd_conv)
  then show ?thesis using ins assms by (cases x) (auto simp: create_key_def Let_def)
qed

lemma typed_key_use [type_intros]:
  "typed d \<Longrightarrow> revoke_key kid user now d = (r, d') \<Longrightarrow> typed d'"
  "typed d \<Longrightarrow> get_api_key_principal h x now d = (r1, d') \<Longrightarrow> typed d'"
proof -
  have upd: "typed (d\<lparr>t_api_keys := update_where p g (t_api_keys d)\<rparr>)"
    if "typed d" "\<And>k. typed_key (g k) = typed_key k" for p g
    using that by (simp add: typed_def list_all_update_where)
  show "typed d \<Longrightarrow> revoke_key kid user now d = (r, d') \<Longrightarrow> typed d'"
    by (auto simp: revoke_key_def upd typed_key_def split: sum.splits option.splits)
  show "typed d \<Longrightarrow> get_api_key_principal h x now d = (r1, d') \<Longrightarrow> typed d'"
    by (auto simp: get_api_key_principal_def upd typed_key_def split: list.splits if_splits)
qed

lemma typed_create_function [type_intros]:
  assumes "typed d" and "create_function cfg user body i now d = (r, d')" and "validate_function_create body = Inr body"
  shows "typed d'"
proof (cases r)
  case (Inr fn)
  show ?thesis
    using create_function_Inr(3,4) [OF assms(2) [unfolded Inr]] typed_insert(3) [OF assms(1)]
      typed_new_function [OF assms(3)] by (metis snd_conv)
qed (use assms create_function_Inl in blast)

lemma typed_update_function [type_intros]:
  assumes "typed d" and "update_function fid user body d = (r, d')" and "validate_function_update body = Inr body"
  shows "typed d'"
proof (cases "get_function_or_404 fid user d")
  case (Inr fn)
  have desc: "opt_max 1024 (fu_description body)"
    using assms(3) by (simp add: validate_function_update_def split: if_splits)
  have "typed_function fn" using get_function_Inr [OF Inr] typed_rows(1) [OF assms(1)] by blast
  then show ?thesis using assms(1,2) desc Inr
    by (auto simp: update_function_def Let_def intro!: typed_set_func) (auto simp: typed_function_def split: option.split)
qed (use assms in \<open>simp add: update_function_def\<close>)

lemma typed_create_version [type_intros]:
  assumes "typed d" and "create_version cfg sha M validate fid user archive form vid now (d, s) = (r, d', s')"
  shows "typed d'"
  using create_version_outcome [OF assms(2)]
proof (elim disjE exE conjE)
  fix fn path h sz d1
  let ?v = "new_version_row fn (version_request form) vid path h sz (next_version_number d (f_id fn)) now"
  assume ok: "validate_version_create (version_request form) = Inr (version_request form)"
    and ins: "insert_version ?v d = (Inr (), d1)"
    and d': "d' = set_func (f_id fn) (\<lambda>f. f\<lparr>f_active_version_id := Some vid\<rparr>) d1"
  have "typed d1" using typed_insert(4) [OF assms(1) typed_new_version [OF ok]] ins by (metis snd_conv)
  then show ?thesis unfolding d' by (rule typed_set_func) (simp add: typed_function_def)
qed (use assms in simp)

lemma typed_activate_version [type_intros]:
  "typed d \<Longrightarrow> activate_version fid vid user now d = (r, d') \<Longrightarrow> typed d'"
  by (auto simp: activate_version_def Let_def typed_function_def between_def split: sum.splits intro!: typed_set_func)

lemma typed_update_canary [type_intros]:
  assumes "typed d" and "validate_canary_update body = Inr body'" and "update_canary fid body user now d = (r, d')"
  shows "typed d'"
proof -
  have rng: "between 0 100 (cu_percent body)" using assms(2) by (simp add: validate_canary_update_Inr between_def)
  have set: "typed (set_func i g d)" if "\<And>f. typed_function f \<Longrightarrow> typed_function (g f)" for i g
    using typed_set_func [OF assms(1)] that by blast
  show ?thesis using assms(1,3) rng
    by (auto simp: update_canary_def Let_def split: sum.splits option.splits if_splits intro!: set)
       (auto simp: typed_function_def between_def)
qed

lemma typed_create_schedule [type_intros]:
  assumes "typed d" and run: "create_schedule cron body fid user i now d = (r, d')"
    and "validate_schedule_create cron_ok body = Inr body"
  shows "typed d'"
proof (cases "get_function_or_404 fid user d")
  case (Inr fn)
  note fn = this
  show ?thesis
  proof (cases "cron (sc_cron_expression body) now")
    case (Inr nxt)
    obtain x d1 where ins: "insert_schedule (new_schedule_row fid user body nxt i now) d = (x, d1)" by fastforce
    then have "typed d1" using typed_insert(6) [OF assms(1) typed_new_schedule [OF assms(3)]] by (metis snd_conv)
    moreover have "d' = d1" using run fn Inr ins by (cases x) (auto simp: create_schedule_def)
    ultimately show ?thesis by simp
  qed (use assms(1) run fn in \<open>simp add: create_schedule_def\<close>)
qed (use assms(1) run in \<open>simp add: create_schedule_def\<close>)

lemma typed_update_schedule [type_intros]:
  assumes "typed d" and "update_schedule cron i body user now d = (r, d')"
    and "validate_schedule_update cron_ok body = Inr body"
  shows "typed d'"
proof -
  have "d' = d \<or> (\<exists>nxt. d' = set_schedule i (apply_update body nxt) d)"
    using assms(2) by (auto simp: update_schedule_def split: sum.splits option.splits)
  moreover have "typed (set_schedule i (apply_update body nxt) d)" for nxt
    by (rule typed_set_schedule [OF assms(1)]) (rule typed_apply_update [OF assms(3)])
  ultimately show ?thesis using assms(1) by auto
qed

lemma typed_delete_schedule [type_intros]:
  assumes "typed d" and "delete_schedule i user d = (r, d')"
  shows "typed d'"
proof -
  have "typed (delete_schedules p d)" for p
    using assms(1) by (auto simp: typed_def delete_schedules_def Let_def list_all_iff typed_execution_def)
  then show ?thesis using assms by (auto simp: delete_schedule_def split: sum.splits)
qed

lemma typed_delete_function [type_intros]:
  assumes "typed d" and "delete_function cfg M fid user (d, s) = (r, d', s')"
  shows "typed d'"
proof -
  have "typed (detach_and_delete fn user d)" for fn
    using assms(1) typed_execution_changes(5)
    by (simp add: typed_def detach_and_delete_simps detach_executions list_all_delete_where list.pred_map)
       (simp add: list_all_iff)
  then show ?thesis using delete_function_outcome [OF assms(2)] assms(1) by auto
qed

section \<open>Executions\<close>

lemma typed_set_row:
  assumes "typed d" and "e \<in> set (t_executions d)" and "typed_execution e \<Longrightarrow> typed_execution e'"
  shows "typed (set_execution i (\<lambda>_. e') d)"
  by (rule typed_set_execution [OF assms(1)]) (rule assms(3) [OF typed_rows(3) [OF assms(1,2)]])

lemma typed_status [simp]:
  "typed_execution (e\<lparr>e_status := st\<rparr>) = typed_execution e"
  "typed_execution (e\<lparr>e_started_at := t\<rparr>) = typed_execution e"
  "typed_execution (e\<lparr>e_worker_id := w\<rparr>) = typed_execution e"
  by (simp_all add: typed_execution_def)

lemma typed_cancel [type_intros]:
  assumes "typed d" and "cancel_execution i user d = (r, d')"
  shows "typed d'"
proof (cases r)
  case (Inr u)
  then obtain e where "get_execution i user d = Inr e" "d' = set_execution i (\<lambda>_. e\<lparr>e_status := CANCELLED\<rparr>) d"
    using cancel_execution_Inr assms(2) by blast
  then show ?thesis using typed_set_row [OF assms(1), of e] get_execution_Inr by (metis typed_status(1))
qed (use assms cancel_execution_Inl in blast)

lemma typed_recover [type_intros]:
  assumes "typed d" and "recover_stale cfg now d = (n, d')"
  shows "typed d'"
proof -
  have "typed (d\<lparr>t_executions := update_where p (recovered_row now) (t_executions d)\<rparr>)" for p
    using assms(1) typed_execution_changes(4) by (simp add: typed_def list_all_update_where)
  then show ?thesis using assms by (auto simp: recover_stale_def)
qed

lemma typed_fire_begin [type_intros]:
  assumes "typed d" and "fire_begin cfg cron sid r i now d = (res, d')"
  shows "typed d'"
  using fire_begin_outcome [OF assms(2)]
proof (elim disjE conjE exE)
  assume "skipped cron sid now d d'"
  then show ?thesis using assms(1) typed_set_schedule [OF assms(1)]
    by (auto simp: skipped_def typed_schedule_def)
next
  fix fresh
  assume "fired cfg fresh r i now d res d'"
  then obtain fn v where "fresh \<in> set (t_schedules d)" "choose_execution_version d fn None r = Inr (Some v)"
    and ins: "insert_execution (schedule_execution fn v fresh i now) d = (Inr (), d')" by (auto simp: fired_def)
  then have "typed_execution (schedule_execution fn v fresh i now)"
    using typed_rows [OF assms(1)] choose_Some typed_schedule_execution by blast
  then show ?thesis using typed_insert(5) [OF assms(1)] ins by (metis snd_conv)
qed

lemma typed_fire_finish [type_intros]:
  assumes "typed d" and "fire_finish cron fresh i x now d = (res, d')"
  shows "typed d'"
proof -
  have "typed (case x of None \<Rightarrow> d | Some y \<Rightarrow> set_execution i (schedule_failed y) d)"
    using assms(1) typed_set_execution typed_execution_changes(2) by (auto split: option.split)
  then show ?thesis using assms by (auto simp: fire_finish_def typed_schedule_def split: sum.splits intro!: typed_set_schedule)
qed

lemma typed_worker_begin [type_intros]:
  assumes "typed d" and "worker_begin wid now i d = (r, d')"
  shows "typed d'"
  using worker_begin_cases [OF assms(2)] assms(1) typed_set_row [OF assms(1)] by auto

lemma typed_worker_finish [type_intros]:
  assumes "typed d" and "worker_finish sr ms now i d = (r, d')"
  shows "typed d'"
  using worker_finish_cases [OF assms(2)] assms(1) typed_set_row [OF assms(1)] typed_execution_changes(3) by auto

lemma typed_mark_queue_failed [type_intros]: "typed d \<Longrightarrow> typed (mark_queue_failed i x d)"
  unfolding mark_queue_failed_def using typed_set_execution typed_execution_changes(1) by blast

lemma typed_trigger [type_intros]:
  assumes "typed d" and "trigger_begin fid user body draw i now d = (Inr (e, job), d')"
    and "validate_execution_trigger body = Inr body"
  shows "typed d'"
proof (rule trigger_begin_Inr [OF assms(2)])
  fix fn v
  assume "choose_execution_version d fn (et_version_id body) draw = Inr (Some v)"
    and e: "e = function_execution fn v user None (et_payload body) (trigger_timeout body v) i now"
    and ins: "insert_execution e d = (Inr (), d')"
  then have "typed_version v" using choose_Some typed_rows(2) [OF assms(1)] by blast
  then have "typed_execution e" unfolding e
    using trigger_timeout_range [OF assms(3)] assms(3)
    by (intro typed_function_execution) (auto simp: validate_execution_trigger_def split: if_splits)
  then show ?thesis using typed_insert(5) [OF assms(1)] ins by (metis snd_conv)
qed

lemma typed_invoke [type_intros]:
  assumes "typed d" and "invoke_begin fid p payload draw i now d = (Inr (e, job), d')"
    and "validate_invoke payload = Inr payload"
  shows "typed d'"
proof (rule invoke_begin_Inr [OF assms(2)])
  fix fn v
  assume "choose_execution_version d fn None draw = Inr (Some v)"
    and e: "e = function_execution fn v (u_id (p_user p)) (Some (k_id (p_key p))) payload (v_timeout v) i now"
    and ins: "insert_execution e d = (Inr (), d')"
  then have "typed_version v" using choose_Some typed_rows(2) [OF assms(1)] by blast
  then have "typed_execution e" unfolding e
    using assms(3) by (intro typed_function_execution) (auto simp: validate_invoke_def typed_version_def split: if_splits)
  then show ?thesis using typed_insert(5) [OF assms(1)] ins by (metis snd_conv)
qed

section \<open>Every step\<close>

lemma request_typed: "request cfg M cron d d' \<Longrightarrow> typed d \<Longrightarrow> typed d'"
  by (induction rule: request.induct)
     (erule typed_recover [rotated], assumption |
      (drule get_db_either get_db_with_either, elim disjE, simp, rule type_intros, assumption+))+

lemma step_typed: "step cfg M cron s t \<Longrightarrow> typed (in_db s) \<Longrightarrow> typed (in_db t)"
proof (induction rule: step.induct)
  case (step_ephemeral p ebody i now d d' fl)
  then show ?case using typed_insert(5) [OF _ typed_ephemeral_execution] by (metis installation.select_convs(1) snd_conv)
qed (auto dest!: get_db_either intro: type_intros request_typed)

lemma steps_typed: "steps cfg M cron s t \<Longrightarrow> typed (in_db s) \<Longrightarrow> typed (in_db t)"
  by (induction rule: steps.induct) (auto intro: step_typed)

section \<open>Columns\<close>

text \<open>Whether a string fits the column of a class; only \<open>String(n)\<close> has a limit.\<close>

definition column_type :: "orm_class \<Rightarrow> string \<Rightarrow> col_type option" where
  "column_type oc col =
     (case oc of (t, cds, us) \<Rightarrow> map_of (map (\<lambda>cd. case cd of Col c k \<Rightarrow> (co_name c, co_type c)) cds) col)"

definition fits_column :: "orm_class \<Rightarrow> string \<Rightarrow> string \<Rightarrow> bool" where
  "fits_column oc col s \<longleftrightarrow> (case column_type oc col of Some (STRING n) \<Rightarrow> length s \<le> n | _ \<Rightarrow> True)"

lemmas orm_columns = column_type_def key_def required_def optional_def defaulted_def references_def plain_column_def
  timestamps_def

lemma column_types:
  "column_type User_class ''username'' = Some (STRING 64)" "column_type ApiKey_class ''name'' = Some (STRING 128)"
  "column_type ApiKey_class ''key_prefix'' = Some (STRING 16)" "column_type Function_class ''name'' = Some (STRING 128)"
  "column_type Function_class ''runtime'' = Some (STRING 32)" "column_type Schedule_class ''name'' = Some (STRING 128)"
  "column_type Execution_class ''execution_type'' = Some (STRING 32)"
  "column_type Execution_class ''failure_kind'' = Some (STRING 32)"
  "column_type FunctionVersion_class ''entrypoint'' = Some (STRING 255)"
  "column_type Schedule_class ''cron_expression'' = Some (STRING 128)"
  by code_simp+

lemma typed_fits:
  "typed_user u \<Longrightarrow> fits_column User_class ''username'' (u_username u)"
  "typed_key k \<Longrightarrow> fits_column ApiKey_class ''name'' (k_name k) \<and> fits_column ApiKey_class ''key_prefix'' (k_key_prefix k)"
  "typed_function f \<Longrightarrow> fits_column Function_class ''name'' (f_name f) \<and> fits_column Function_class ''runtime'' (f_runtime f)"
  "typed_schedule s \<Longrightarrow> fits_column Schedule_class ''name'' (s_name s)"
  "typed_execution e \<Longrightarrow> fits_column Execution_class ''execution_type'' (e_execution_type e)"
  "typed_execution e \<Longrightarrow> e_failure_kind e = Some x \<Longrightarrow> fits_column Execution_class ''failure_kind'' x"
  by (auto simp: fits_column_def column_types typed_user_def typed_key_def typed_function_def typed_schedule_def
      typed_execution_def length_between_def opt_max_Some)

lemma typed_execution_row:
  assumes "typed_execution e"
  shows "1 \<le> e_timeout e \<and> e_timeout e \<le> 3600 \<and> (\<exists>kvs. e_payload e = JObj kvs) \<and>
    fits_column Execution_class ''execution_type'' (e_execution_type e) \<and>
    (\<forall>kind. e_failure_kind e = Some kind \<longrightarrow> fits_column Execution_class ''failure_kind'' kind)"
proof -
  have "\<exists>kvs. e_payload e = JObj kvs"
    using assms by (cases "e_payload e") (simp_all add: typed_execution_def is_jobj_def)
  moreover have "1 \<le> e_timeout e \<and> e_timeout e \<le> 3600" using assms by (simp add: typed_execution_def between_def)
  ultimately show ?thesis using typed_fits(5,6) [OF assms] by blast
qed

text \<open>
  Two request fields have no such limit: an entrypoint of any length and a cron expression of any
  length are accepted, and the server refuses the row after the archive is stored.
\<close>

definition long_entrypoint :: "nat \<Rightarrow> string" where
  "long_entrypoint n = replicate (Suc n) (CHR ''m'') @ ''.f''"

lemma long_entrypoint_pattern: "entrypoint_pattern (long_entrypoint n)"
proof -
  have "rsplit1 (CHR ''.'') (long_entrypoint n) = Some (replicate (Suc n) (CHR ''m''), ''f'')"
    by (simp add: rsplit1_def long_entrypoint_def)
  then show ?thesis
    by (simp add: entrypoint_pattern_def ident_start_def ident_char_def is_letter_def char_code_def list_all_iff)
qed

lemma oversized_entrypoint:
  assumes "253 < (n :: nat)"
  shows "\<exists>b. validate_version_create b = Inr b \<and> \<not> fits_column FunctionVersion_class ''entrypoint'' (vc_entrypoint b)"
proof -
  let ?b = "\<lparr>vc_entrypoint = long_entrypoint n, vc_environment = [], vc_timeout = 30, vc_memory_mb = 128,
    vc_change_notes = None\<rparr>"
  have "validate_version_create ?b = Inr ?b"
    by (simp add: validate_version_create_def long_entrypoint_pattern between_def opt_max_def)
  moreover have "\<not> fits_column FunctionVersion_class ''entrypoint'' (vc_entrypoint ?b)"
    using assms by (simp add: fits_column_def column_types long_entrypoint_def)
  ultimately show ?thesis by blast
qed

end
