(* ===== verification/Glob.thy ===== *)
theory Glob
  imports Prelude
begin

text \<open>
  \<open>fnmatch.fnmatch\<close> of the Python standard library, which the client uses for its ignore patterns: the
  translation of a pattern into pieces, the matching of the pieces from left to right without
  backtracking, and the theorem that this is the meaning of the pattern.
\<close>

section \<open>Patterns\<close>

datatype glob = Star | Any_char | Lit char | Class bool "(char \<times> char) list"

text \<open>The body of a bracket: up to the closing one, which counts as a member when it comes first.\<close>

definition take_lead :: "char \<Rightarrow> string \<Rightarrow> string \<times> string" where
  "take_lead c s = (case s of [] \<Rightarrow> ([], []) | x # r \<Rightarrow> if x = c then ([c], r) else ([], s))"

definition bracket_body :: "string \<Rightarrow> (string \<times> string) option" where
  "bracket_body s =
     (let (neg, s1) = take_lead (CHR ''!'') s; (lead, s2) = take_lead (CHR '']'') s1;
          body = takeWhile (\<lambda>c. c \<noteq> CHR '']'') s2
      in (case dropWhile (\<lambda>c. c \<noteq> CHR '']'') s2 of [] \<Rightarrow> None | _ # rest \<Rightarrow> Some (neg @ lead @ body, rest)))"

text \<open>
  The chunks between the hyphens that form ranges. A hyphen right after the start of a chunk (two
  places after it for all but the first) is a member; \<open>skip\<close> counts the characters still to be kept.
\<close>

fun chunks_from :: "nat \<Rightarrow> string \<Rightarrow> string \<Rightarrow> string list" where
  "chunks_from skip acc [] = [rev acc]"
| "chunks_from skip acc (c # cs) =
     (if skip = 0 \<and> c = CHR ''-'' then rev acc # chunks_from 2 [] cs
      else chunks_from (skip - 1) (c # acc) cs)"

text \<open>A last chunk that is empty gives its hyphen to the chunk before.\<close>

definition class_chunks :: "string \<Rightarrow> string list" where
  "class_chunks body =
     (let cs = chunks_from (if body \<noteq> [] \<and> hd body = CHR ''!'' then 2 else 1) [] body in
      if 2 \<le> length cs \<and> last cs = []
      then butlast (butlast cs) @ [last (butlast cs) @ ''-''] else cs)"

text \<open>Empty ranges are removed from the right.\<close>

fun drop_empty_ranges :: "string list \<Rightarrow> string list" where
  "drop_empty_ranges [] = []"
| "drop_empty_ranges (c # cs) =
     (case drop_empty_ranges cs of
        [] \<Rightarrow> [c]
      | d # ds \<Rightarrow>
          if c \<noteq> [] \<and> d \<noteq> [] \<and> char_code (last c) > char_code (hd d) then (butlast c @ tl d) # ds
          else c # d # ds)"

text \<open>
  The ranges of the joined chunks: the end of a chunk with the start of the next. A hyphen that comes
  first is a member.
\<close>

fun class_ranges :: "string list \<Rightarrow> (char \<times> char) list" where
  "class_ranges [] = []"
| "class_ranges [c] = map (\<lambda>x. (x, x)) c"
| "class_ranges (c # d # ds) =
     (if c = [] then (CHR ''-'', CHR ''-'') # class_ranges (d # ds)
      else if d = [] then map (\<lambda>x. (x, x)) (c @ ''-'') @ class_ranges ds
      else map (\<lambda>x. (x, x)) (butlast c) @ (last c, hd d) # class_ranges (tl d # ds))"

definition class_of :: "string \<Rightarrow> glob" where
  "class_of body =
     (let cs = drop_empty_ranges (class_chunks body) in
      case cs of
        [] \<Rightarrow> Class False []
      | c # ds \<Rightarrow>
          if c \<noteq> [] \<and> hd c = CHR ''!''
          then (if tl c = [] \<and> ds = [] then Any_char else Class True (class_ranges (tl c # ds)))
          else Class False (class_ranges cs))"

lemma take_lead_length: "take_lead c s = (l, r) \<Longrightarrow> length r \<le> length s"
  by (auto simp: take_lead_def split: list.splits if_splits)

lemma bracket_body_length: "bracket_body s = Some (b, r) \<Longrightarrow> length r < length s"
proof -
  assume h: "bracket_body s = Some (b, r)"
  obtain l1 s1 l2 s2 where t: "take_lead (CHR ''!'') s = (l1, s1)" "take_lead (CHR '']'') s1 = (l2, s2)"
    by (meson surj_pair)
  obtain c where "dropWhile (\<lambda>c. c \<noteq> CHR '']'') s2 = c # r"
    using h t by (auto simp: bracket_body_def split: list.splits)
  then have "length r < length s2" by (metis Suc_le_lessD length_Cons length_dropWhile_le)
  also have "\<dots> \<le> length s" using take_lead_length [OF t(1)] take_lead_length [OF t(2)] by simp
  finally show ?thesis .
qed

function glob_tokens :: "string \<Rightarrow> glob list" where
  "glob_tokens [] = []"
| "glob_tokens (c # cs) =
     (if c = CHR ''*'' then Star # glob_tokens cs
      else if c = CHR ''?'' then Any_char # glob_tokens cs
      else if c = CHR ''['' then
        (case bracket_body cs of
           None \<Rightarrow> Lit c # glob_tokens cs
         | Some (body, rest) \<Rightarrow> class_of body # glob_tokens rest)
      else Lit c # glob_tokens cs)"
  by pat_completeness auto
termination by (relation "measure length") (auto dest: bracket_body_length)

section \<open>Matching\<close>

fun fits :: "glob \<Rightarrow> char \<Rightarrow> bool" where
  "fits Star c = False"
| "fits Any_char c = True"
| "fits (Lit x) c = (c = x)"
| "fits (Class neg rs) c = (neg \<noteq> list_ex (\<lambda>(a, b). char_code a \<le> char_code c \<and> char_code c \<le> char_code b) rs)"

text \<open>The meaning of a pattern: a star stands for any text, every other token for one character.\<close>

fun matches :: "glob list \<Rightarrow> string \<Rightarrow> bool" where
  "matches [] s = (s = [])"
| "matches (Star # ts) s = list_ex (\<lambda>u. matches ts u) (suffixes s)"
| "matches (t # ts) [] = False"
| "matches (t # ts) (c # cs) = (fits t c \<and> matches ts cs)"

text \<open>The pieces between the stars, consecutive stars counting as one.\<close>

fun pieces :: "glob list \<Rightarrow> glob list list" where
  "pieces [] = [[]]"
| "pieces (t # ts) =
     (if t = Star then (if ts \<noteq> [] \<and> hd ts = Star then pieces ts else [] # pieces ts)
      else (case pieces ts of [] \<Rightarrow> [[t]] | p # ps \<Rightarrow> (t # p) # ps))"

fun match_piece :: "glob list \<Rightarrow> string \<Rightarrow> string option" where
  "match_piece [] s = Some s"
| "match_piece (t # ts) [] = None"
| "match_piece (t # ts) (c # cs) = (if fits t c then match_piece ts cs else None)"

text \<open>An inner piece takes its first occurrence, the last one the end of the name.\<close>

fun find_piece :: "glob list \<Rightarrow> string \<Rightarrow> string option" where
  "find_piece p [] = match_piece p []"
| "find_piece p (c # cs) = (case match_piece p (c # cs) of Some r \<Rightarrow> Some r | None \<Rightarrow> find_piece p cs)"

fun match_inner :: "glob list list \<Rightarrow> string \<Rightarrow> bool" where
  "match_inner [] s = False"
| "match_inner [p] s = (length p \<le> length s \<and> match_piece p (drop (length s - length p) s) = Some [])"
| "match_inner (p # q # ps) s = (case find_piece p s of None \<Rightarrow> False | Some r \<Rightarrow> match_inner (q # ps) r)"

definition fnmatch :: "string \<Rightarrow> string \<Rightarrow> bool" where
  "fnmatch name pat =
     (case pieces (glob_tokens pat) of
        [] \<Rightarrow> False
      | [p] \<Rightarrow> match_piece p name = Some []
      | p # q # ps \<Rightarrow> (case match_piece p name of None \<Rightarrow> False | Some r \<Rightarrow> match_inner (q # ps) r))"

section \<open>Correctness\<close>

definition fixed :: "glob list \<Rightarrow> bool" where
  "fixed p \<longleftrightarrow> Star \<notin> set p"

lemma fixed_simps [simp]: "fixed []" "fixed (t # ts) \<longleftrightarrow> t \<noteq> Star \<and> fixed ts"
  by (auto simp: fixed_def)

lemma matches_Star: "matches (Star # ts) s \<longleftrightarrow> (\<exists>a b. s = a @ b \<and> matches ts b)"
proof
  assume "matches (Star # ts) s"
  then obtain b where "suffix b s" "matches ts b" by (auto simp: list_ex_iff)
  then show "\<exists>a b. s = a @ b \<and> matches ts b" unfolding suffix_def by blast
next
  assume "\<exists>a b. s = a @ b \<and> matches ts b"
  then obtain a b where "suffix b s" "matches ts b" unfolding suffix_def by blast
  then show "matches (Star # ts) s" by (auto simp: list_ex_iff)
qed

declare matches.simps(2) [simp del]

lemma match_piece_matches:
  "fixed p \<Longrightarrow> matches (p @ ts) s \<longleftrightarrow> (\<exists>r. match_piece p s = Some r \<and> matches ts r)"
proof (induction p s rule: match_piece.induct)
  case (2 t ts')
  then show ?case by (cases t) auto
next
  case (3 t ts' c cs)
  then show ?case by (cases t) auto
qed simp

lemma match_piece_length: "match_piece p s = Some r \<Longrightarrow> length s = length p + length r"
  by (induction p s rule: match_piece.induct) (auto split: if_splits)

lemma match_piece_drop: "match_piece p s = Some r \<Longrightarrow> r = drop (length p) s"
  by (induction p s rule: match_piece.induct) (auto split: if_splits)

text \<open>An occurrence anywhere gives a first one, whose rest is at least as long.\<close>

lemma find_piece_first:
  assumes "match_piece p b = Some r"
  shows "\<exists>r' x. find_piece p (a @ b) = Some r' \<and> r' = x @ r"
proof (induction a)
  case Nil
  then show ?case using assms by (cases b) auto
next
  case (Cons c a)
  show ?case
  proof (cases "match_piece p (c # a @ b)")
    case None
    with Cons show ?thesis by simp
  next
    case (Some r')
    define k where "k = length p - length (c # a)"
    have "r' = drop (length p) ((c # a) @ b)" using match_piece_drop [OF Some] by simp
    also have "\<dots> = drop (length p) (c # a) @ drop k b" by (simp only: drop_append k_def)
    finally have "suffix (drop k b) r'" by (simp add: suffix_def)
    moreover have "drop (length p) b = drop (length p - k) (drop k b)" by (simp add: k_def)
    then have "suffix r (drop k b)" by (metis match_piece_drop [OF assms] suffix_drop)
    ultimately have "suffix r r'" by (rule suffix_order.order_trans [rotated])
    then show ?thesis using Some by (auto simp: suffix_def)
  qed
qed

lemma find_piece_sound:
  "find_piece p s = Some r \<Longrightarrow> \<exists>a b. s = a @ b \<and> match_piece p b = Some r"
proof (induction p s rule: find_piece.induct)
  case (2 p c cs)
  show ?case
  proof (cases "match_piece p (c # cs)")
    case None
    with 2 obtain a b where "cs = a @ b" "match_piece p b = Some r" by auto
    then have "c # cs = (c # a) @ b \<and> match_piece p b = Some r" by simp
    then show ?thesis by blast
  qed (use 2 in \<open>auto intro: exI [of _ "[]"]\<close>)
qed auto

text \<open>The tokens again from the pieces.\<close>

fun starred :: "glob list list \<Rightarrow> glob list" where
  "starred [] = []"
| "starred (p # ps) = Star # p @ starred ps"

lemma starred_absorbs: "matches (starred (p # ps)) s \<Longrightarrow> matches (starred (p # ps)) (a @ s)"
proof -
  assume "matches (starred (p # ps)) s"
  then obtain u v where "s = u @ v" "matches (p @ starred ps) v"
    by (subst (asm) starred.simps) (auto simp: matches_Star)
  then have "a @ s = (a @ u) @ v \<and> matches (p @ starred ps) v" by simp
  then show ?thesis unfolding starred.simps matches_Star by blast
qed

lemma match_inner_correct:
  "ps \<noteq> [] \<Longrightarrow> list_all fixed ps \<Longrightarrow> match_inner ps s = matches (starred ps) s"
proof (induction ps s rule: match_inner.induct)
  case (2 p s)
  have m: "matches p b \<longleftrightarrow> match_piece p b = Some []" for b
    using match_piece_matches [of p "[]" b] 2 by simp
  show ?case
  proof
    assume "match_inner [p] s"
    then have "s = take (length s - length p) s @ drop (length s - length p) s \<and>
        match_piece p (drop (length s - length p) s) = Some []" by simp
    then show "matches (starred [p]) s" by (auto simp: matches_Star m) (metis append_take_drop_id)
  next
    assume "matches (starred [p]) s"
    then obtain a b where ab: "s = a @ b" "match_piece p b = Some []" by (auto simp: matches_Star m)
    then show "match_inner [p] s" using match_piece_length [OF ab(2)] by simp
  qed
next
  case (3 p q ps s)
  have m: "matches (p @ starred (q # ps)) b \<longleftrightarrow> (\<exists>r. match_piece p b = Some r \<and> matches (starred (q # ps)) r)" for b
    using match_piece_matches [of p "starred (q # ps)" b] "3.prems" by simp
  have IH: "find_piece p s = Some r \<Longrightarrow> match_inner (q # ps) r = matches (starred (q # ps)) r" for r
    using "3.IH" "3.prems" by simp
  show ?case
  proof
    assume "match_inner (p # q # ps) s"
    then obtain r where r: "find_piece p s = Some r" "match_inner (q # ps) r" by (auto split: option.splits)
    then obtain a b where "s = a @ b" "match_piece p b = Some r" using find_piece_sound by blast
    then show "matches (starred (p # q # ps)) s" using r IH m by (subst starred.simps) (unfold matches_Star, blast)
  next
    assume "matches (starred (p # q # ps)) s"
    then obtain a b where "s = a @ b" "matches (p @ starred (q # ps)) b"
      by (subst (asm) starred.simps) (unfold matches_Star, blast)
    then obtain r where r: "match_piece p b = Some r" "matches (starred (q # ps)) r" using m by blast
    obtain r' x where r': "find_piece p s = Some r'" "r' = x @ r"
      using find_piece_first [OF r(1), of a] \<open>s = a @ b\<close> by blast
    then have "matches (starred (q # ps)) r'" using starred_absorbs [OF r(2)] by simp
    then show "match_inner (p # q # ps) s" using r' IH by simp
  qed
qed simp

lemma matches_Star_Star: "matches (Star # Star # ts) s = matches (Star # ts) s"
proof
  assume "matches (Star # Star # ts) s"
  then obtain a b c where "s = (a @ b) @ c" "matches ts c" by (auto simp: matches_Star)
  then show "matches (Star # ts) s" unfolding matches_Star by blast
next
  assume "matches (Star # ts) s"
  then have "s = [] @ s \<and> matches (Star # ts) s" by simp
  then show "matches (Star # Star # ts) s" by (subst matches_Star) blast
qed

lemma pieces_fixed: "list_all fixed (pieces ts) \<and> pieces ts \<noteq> []"
  by (induction ts) (auto split: list.splits)

lemma pieces_correct: "pieces ts = p # ps \<Longrightarrow> matches (p @ starred ps) s = matches ts s"
proof (induction ts arbitrary: p ps s)
  case (Cons t ts)
  obtain q qs where q: "pieces ts = q # qs" using pieces_fixed [of ts] by (cases "pieces ts") auto
  note IH = Cons.IH [OF q]
  show ?case
  proof (cases "t = Star")
    case True
    show ?thesis
    proof (cases "ts \<noteq> [] \<and> hd ts = Star")
      case two: True
      then have "matches (p @ starred ps) s = matches ts s" using Cons True by simp
      moreover obtain us where "ts = Star # us" using two by (cases ts) auto
      ultimately show ?thesis using True matches_Star_Star [of us s] by simp
    next
      case False
      then have "p = []" "ps = q # qs" using Cons.prems True q by auto
      then show ?thesis using True IH by (simp add: matches_Star)
    qed
  next
    case False
    then have "p = t # q" "ps = qs" using Cons.prems q by auto
    then show ?thesis using False IH by (cases t; cases s) auto
  qed
qed auto

text \<open>Matching without backtracking is the meaning of the pattern.\<close>

theorem fnmatch_correct: "fnmatch name pat = matches (glob_tokens pat) name"
proof -
  obtain p ps where p: "pieces (glob_tokens pat) = p # ps"
    using pieces_fixed [of "glob_tokens pat"] by (cases "pieces (glob_tokens pat)") auto
  then have f: "fixed p" "list_all fixed ps" using pieces_fixed [of "glob_tokens pat"] by auto
  have "matches (p @ starred ps) name \<longleftrightarrow> (\<exists>r. match_piece p name = Some r \<and> matches (starred ps) r)"
    by (rule match_piece_matches [OF f(1)])
  then show ?thesis
    unfolding pieces_correct [OF p, symmetric] using match_inner_correct [OF _ f(2)] p
    by (cases ps) (auto simp: fnmatch_def split: option.splits)
qed

end
