(* ===== verification/Client.thy ===== *)
theory Client
  imports Glob Schemas Sandbox
begin

text \<open>
  \<open>cli/sopm.py\<close>, the command line client. The network, the console and the file system it reads are
  parameters or parts of its state: \<open>urlopen\<close> answers a request, the directory to deploy is the list
  that \<open>rglob\<close> yields, and the credentials file is the dictionary it holds. A command returns or ends
  with an exception; \<open>SystemExit\<close> carries the message it prints.
\<close>

section \<open>Strings\<close>

definition rstrip_slash :: "string \<Rightarrow> string" where
  "rstrip_slash s = rev (dropWhile (\<lambda>c. c = CHR ''/'') (rev s))"

definition is_alpha :: "char \<Rightarrow> bool" where
  "is_alpha c \<longleftrightarrow> (65 \<le> char_code c \<and> char_code c \<le> 90) \<or> (97 \<le> char_code c \<and> char_code c \<le> 122)"

definition to_lower :: "char \<Rightarrow> char" where
  "to_lower c = (if 65 \<le> char_code c \<and> char_code c \<le> 90 then char_of (char_code c + 32) else c)"

text \<open>\<open>urlsplit(url).scheme\<close>: leading blanks and inner tabs and line breaks are dropped first.\<close>

definition clean_url :: "string \<Rightarrow> string" where
  "clean_url url = filter (\<lambda>c. char_code c \<notin> {9, 10, 13}) (dropWhile (\<lambda>c. char_code c \<le> 32) url)"

definition scheme_part :: "string \<Rightarrow> string" where
  "scheme_part u = takeWhile (\<lambda>c. c \<noteq> CHR '':'') u"

definition url_scheme :: "string \<Rightarrow> string" where
  "url_scheme url =
     (let u = clean_url url; p = scheme_part u
      in if CHR '':'' \<in> set u \<and> p \<noteq> [] \<and> is_alpha (hd p) \<and>
            list_all (\<lambda>c. is_alpha c \<or> is_digit c \<or> c \<in> set ''+-.'') p
         then map to_lower p else [])"

definition http_url :: "string \<Rightarrow> bool" where
  "http_url url \<longleftrightarrow> url_scheme url \<in> {''http'', ''https''}"

definition utf8 :: "string \<Rightarrow> string" where
  "utf8 s = concat (map (\<lambda>c. if char_code c < 128 then [c]
      else [char_of (192 + char_code c div 64), char_of (128 + char_code c mod 64)]) s)"

definition hex_upper :: "nat \<Rightarrow> char" where
  "hex_upper d = (if d < 10 then char_of (48 + d) else char_of (55 + d))"

text \<open>\<open>quote_plus\<close> and \<open>urlencode\<close> of \<open>urllib.parse\<close>.\<close>

definition quote_char :: "char \<Rightarrow> string" where
  "quote_char c =
     (if is_alpha c \<or> is_digit c \<or> c \<in> set ''_.-~'' then [c]
      else if c = CHR '' '' then ''+''
      else [CHR ''%'', hex_upper (char_code c div 16), hex_upper (char_code c mod 16)])"

definition quote_plus :: "string \<Rightarrow> string" where
  "quote_plus s = concat (map quote_char (utf8 s))"

fun urlencode :: "(string \<times> string) list \<Rightarrow> string" where
  "urlencode [] = []"
| "urlencode [(k, v)] = quote_plus k @ ''='' @ quote_plus v"
| "urlencode ((k, v) # p # ps) = quote_plus k @ ''='' @ quote_plus v @ ''&'' @ urlencode (p # ps)"

text \<open>\<open>json.dumps(v, indent=2)\<close> at a depth.\<close>

fun join_items :: "string \<Rightarrow> string list \<Rightarrow> string" where
  "join_items sep [] = []"
| "join_items sep [x] = x"
| "join_items sep (x # y # zs) = x @ sep @ join_items sep (y # zs)"

definition new_line :: "nat \<Rightarrow> string" where
  "new_line depth = char_of (10::nat) # replicate (2 * depth) (CHR '' '')"

fun dumps_indent :: "nat \<Rightarrow> json \<Rightarrow> string" where
  "dumps_indent n (JList xs) =
     (if xs = [] then ''[]''
      else ''['' @ new_line (Suc n) @ join_items ('','' @ new_line (Suc n)) (map (dumps_indent (Suc n)) xs) @
           new_line n @ '']'')"
| "dumps_indent n (JObj kvs) =
     (if kvs = [] then ''{}''
      else ''{'' @ new_line (Suc n) @
           join_items ('','' @ new_line (Suc n)) (map (\<lambda>(k, v). dumps_str k @ '': '' @ dumps_indent (Suc n) v) kvs) @
           new_line n @ ''}'')"
| "dumps_indent n j = dumps j"

section \<open>State and requests\<close>

record http_request =
  hr_method :: string
  hr_url :: string
  hr_headers :: "(string \<times> string) list"
  hr_body :: "string option"

datatype http_reply = Reply string | HTTP_error nat string | Url_error exn

record 'n client =
  cl_config :: "(string \<times> json) list option"
  cl_temp :: "(string \<times> string) list"
  cl_printed :: "string list"
  cl_net :: 'n

text \<open>
  What the client takes from outside: the default address, the printing of values without a JSON scalar
  form, the network, the ZIP library's writer and the random names.
\<close>

record 'n outside =
  os_default_api :: string
  os_repr :: "json \<Rightarrow> string"
  os_urlopen :: "http_request \<Rightarrow> 'n \<Rightarrow> http_reply \<times> 'n"
  os_zip :: "(string \<times> string) list \<Rightarrow> string"
  os_temp_name :: string
  os_boundary :: string

abbreviation system_exit :: "string \<Rightarrow> exn" where
  "system_exit m \<equiv> OtherError (''SystemExit: '' @ m)"

definition load_config :: "'n outside \<Rightarrow> 'n client \<Rightarrow> (string \<times> json) list" where
  "load_config E c =
     (case cl_config c of Some cfg \<Rightarrow> cfg | None \<Rightarrow> [(''api_url'', JStr (os_default_api E))])"

definition save_config :: "(string \<times> json) list \<Rightarrow> 'n client \<Rightarrow> 'n client" where
  "save_config cfg c = c\<lparr>cl_config := Some cfg\<rparr>"

definition print_line :: "string \<Rightarrow> 'n client \<Rightarrow> 'n client" where
  "print_line line c = c\<lparr>cl_printed := cl_printed c @ [line]\<rparr>"

text \<open>The truth value of a JSON value in a condition.\<close>

fun truthy :: "json \<Rightarrow> bool" where
  "truthy JNull = False"
| "truthy (JBool b) = b"
| "truthy (JInt i) = (i \<noteq> 0)"
| "truthy (JFloat t) = (\<exists>c \<in> set (takeWhile (\<lambda>c. c \<notin> set ''eE'') t). is_digit c \<and> c \<noteq> CHR ''0'')"
| "truthy (JStr s) = (s \<noteq> [])"
| "truthy (JList xs) = (xs \<noteq> [])"
| "truthy (JObj kvs) = (kvs \<noteq> [])"

definition config_get :: "string \<Rightarrow> (string \<times> json) list \<Rightarrow> json" where
  "config_get k cfg = (case map_of cfg k of None \<Rightarrow> JNull | Some v \<Rightarrow> v)"

section \<open>http\<close>

definition crlf :: string where
  "crlf = [char_of (13::nat), char_of (10::nat)]"

definition quoted_name :: "string \<Rightarrow> string" where
  "quoted_name s = CHR 0x22 # s @ [CHR 0x22]"

definition form_part :: "string \<Rightarrow> string \<times> string \<Rightarrow> string" where
  "form_part boundary nv =
     utf8 (''--'' @ boundary @ crlf @ ''Content-Disposition: form-data; name='' @ quoted_name (fst nv) @ crlf @ crlf @
           snd nv @ crlf)"

definition file_part :: "string \<Rightarrow> string \<times> string \<times> string \<Rightarrow> string" where
  "file_part boundary f =
     (case f of (name, filename, bytes) \<Rightarrow>
        utf8 (''--'' @ boundary @ crlf @ ''Content-Disposition: form-data; name='' @ quoted_name name @
              ''; filename='' @ quoted_name filename @ crlf @ ''Content-Type: application/zip'' @ crlf @ crlf) @
        bytes @ crlf)"

definition multipart_body :: "string \<Rightarrow> (string \<times> string) list \<Rightarrow> (string \<times> string \<times> string) list \<Rightarrow> string" where
  "multipart_body boundary parts files =
     concat (map (form_part boundary) parts) @ concat (map (file_part boundary) files) @
     utf8 (''--'' @ boundary @ ''--'' @ crlf)"

datatype http_data = No_data | Dict_data "(string \<times> json) list" | Text_data string

text \<open>The name of a temporary file is its whole path here; its last component goes into the header.\<close>

definition path_name :: "string \<Rightarrow> string" where
  "path_name p = rev (takeWhile (\<lambda>c. c \<noteq> CHR ''/'') (rev p))"

fun read_files :: "(string \<times> string) list \<Rightarrow> (string \<times> string) list \<Rightarrow> (string \<times> string \<times> string) list result" where
  "read_files temp [] = Inr []"
| "read_files temp ((n, p) # fs) =
     (case map_of temp p of
        None \<Rightarrow> Inl (OtherError ''FileNotFoundError'')
      | Some bytes \<Rightarrow>
          (case read_files temp fs of Inl e \<Rightarrow> Inl e | Inr rest \<Rightarrow> Inr ((n, path_name p, bytes) # rest)))"

definition http_body ::
  "'n outside \<Rightarrow> http_data \<Rightarrow> (string \<times> string) list \<Rightarrow> (string \<times> string) list \<Rightarrow>
   (string option \<times> (string \<times> string) list) result" where
  "http_body E data files temp =
     (if files \<noteq> [] then
        (let boundary = ''----sopm'' @ os_boundary E in
         case data of
           Text_data (c # cs) \<Rightarrow> Inl (OtherError ''AttributeError'')
         | _ \<Rightarrow>
             (let parts = (case data of Dict_data kvs \<Rightarrow> map (\<lambda>(k, v). (k, py_str (os_repr E) v)) kvs | _ \<Rightarrow> []) in
              case read_files temp files of
                Inl e \<Rightarrow> Inl e
              | Inr fs \<Rightarrow>
                  Inr (Some (multipart_body boundary parts fs),
                       [(''Content-Type'', ''multipart/form-data; boundary='' @ boundary)])))
      else (case data of
              Dict_data kvs \<Rightarrow> Inr (Some (utf8 (dumps (JObj kvs))), [(''Content-Type'', ''application/json'')])
            | Text_data s \<Rightarrow> Inr (Some (utf8 s), [])
            | No_data \<Rightarrow> Inr (None, [])))"

text \<open>\<open>d.update(new)\<close>.\<close>

definition dict_update :: "(string \<times> 'v) list \<Rightarrow> (string \<times> 'v) list \<Rightarrow> (string \<times> 'v) list" where
  "dict_update new hs = fold (\<lambda>(k, v). dict_set k v) new hs"

definition http ::
  "'n outside \<Rightarrow> string \<Rightarrow> string \<Rightarrow> json \<Rightarrow> json \<Rightarrow> http_data \<Rightarrow> (string \<times> string) list \<Rightarrow> (string \<times> string) list \<Rightarrow>
   'n client \<Rightarrow> json result \<times> 'n client" where
  "http E meth path token api_key data headers files c =
     (case (case map_of (load_config E c) ''api_url'' of None \<Rightarrow> JStr (os_default_api E) | Some v \<Rightarrow> v) of
        JStr base \<Rightarrow>
          (let url = rstrip_slash base @ path in
           if \<not> http_url url then (Inl (ValueError ''API URL must use http or https''), c)
           else
             (let hs = headers;
                  hs = (if truthy token then dict_update [(''Authorization'', ''Bearer '' @ py_str (os_repr E) token)] hs else hs);
                  hs = (if truthy api_key then dict_update [(''X-SOPM-Key'', py_str (os_repr E) api_key)] hs else hs)
              in case http_body E data files (cl_temp c) of
                   Inl e \<Rightarrow> (Inl e, c)
                 | Inr (body, extra) \<Rightarrow>
                     (case os_urlopen E \<lparr>hr_method = meth, hr_url = url, hr_headers = dict_update extra hs, hr_body = body\<rparr>
                             (cl_net c) of
                        (Reply raw, n) \<Rightarrow>
                          ((if raw = [] then Inr JNull
                            else case loads raw of None \<Rightarrow> Inl JSONDecodeError | Some j \<Rightarrow> Inr j), c\<lparr>cl_net := n\<rparr>)
                      | (HTTP_error code raw, n) \<Rightarrow>
                          (Inl (system_exit (''HTTP '' @ str_nat code @ '': '' @ raw)), c\<lparr>cl_net := n\<rparr>)
                      | (Url_error e, n) \<Rightarrow> (Inl e, c\<lparr>cl_net := n\<rparr>))))
      | _ \<Rightarrow> (Inl (OtherError ''AttributeError''), c))"

section \<open>login\<close>

record login_args =
  la_api_url :: string
  la_username :: string
  la_password :: string
  la_api_key :: string

definition or_else :: "string \<Rightarrow> string \<Rightarrow> string" where
  "or_else s t = (if s \<noteq> [] then s else t)"

text \<open>\<open>d[k]\<close> of a decoded answer.\<close>

definition json_item :: "string \<Rightarrow> json \<Rightarrow> json result" where
  "json_item k j =
     (case j of
        JObj kvs \<Rightarrow> (case map_of kvs k of None \<Rightarrow> Inl (OtherError ''KeyError'') | Some v \<Rightarrow> Inr v)
      | _ \<Rightarrow> Inl (OtherError ''TypeError''))"

text \<open>An absent option is the empty string; \<open>typed\<close> are the answers at the two prompts.\<close>

definition cmd_login :: "'n outside \<Rightarrow> string \<times> string \<Rightarrow> login_args \<Rightarrow> 'n client \<Rightarrow> unit result \<times> 'n client" where
  "cmd_login E typed a c =
     (let api_url = or_else (la_api_url a) (os_default_api E) in
      if \<not> http_url api_url then (Inl (ValueError ''API URL must use http or https''), c)
      else
        (let username = or_else (la_username a) (fst typed);
             password = or_else (la_password a) (snd typed);
             req = \<lparr>hr_method = ''POST'', hr_url = rstrip_slash api_url @ ''/auth/login'',
                    hr_headers = [(''Content-Type'', ''application/x-www-form-urlencoded'')],
                    hr_body = Some (urlencode [(''username'', username), (''password'', password)])\<rparr>
         in case os_urlopen E req (cl_net c) of
              (HTTP_error code raw, n) \<Rightarrow> (Inl (system_exit (''Login failed: '' @ raw)), c\<lparr>cl_net := n\<rparr>)
            | (Url_error e, n) \<Rightarrow> (Inl e, c\<lparr>cl_net := n\<rparr>)
            | (Reply raw, n) \<Rightarrow>
                (case loads raw of
                   None \<Rightarrow> (Inl JSONDecodeError, c\<lparr>cl_net := n\<rparr>)
                 | Some payload \<Rightarrow>
                     (case json_item ''access_token'' payload of
                        Inl e \<Rightarrow> (Inl e, c\<lparr>cl_net := n\<rparr>)
                      | Inr tok \<Rightarrow>
                          (let cfg = dict_update [(''api_url'', JStr api_url), (''token'', tok), (''username'', JStr username)]
                                       (load_config E c);
                               cfg = (if la_api_key a \<noteq> [] then dict_set ''api_key'' (JStr (la_api_key a)) cfg else cfg)
                           in (Inr (), print_line (''Logged in as '' @ username) (save_config cfg (c\<lparr>cl_net := n\<rparr>))))))))"

section \<open>Packing a directory\<close>

text \<open>The entries \<open>rglob\<close> yields: a path relative to the root, and the contents unless it is a directory.\<close>

type_synonym tree = "(string \<times> string option) list"

definition ignore_file :: string where
  "ignore_file = ''.sopmignore''"

definition ignore_patterns :: "tree \<Rightarrow> string list result" where
  "ignore_patterns t =
     (case map_of t ignore_file of
        None \<Rightarrow> Inr []
      | Some None \<Rightarrow> Inl (OtherError ''IsADirectoryError'')
      | Some (Some text') \<Rightarrow>
          Inr (map strip (filter (\<lambda>line. strip line \<noteq> [] \<and> hd line \<noteq> CHR ''#'') (splitlines text'))))"

definition should_ignore :: "string \<Rightarrow> string list \<Rightarrow> bool" where
  "should_ignore rel patterns \<longleftrightarrow> list_ex (\<lambda>pat. fnmatch rel pat \<or> fnmatch (path_name rel) pat) patterns"

fun packed_files :: "string list \<Rightarrow> tree \<Rightarrow> (string \<times> string) list" where
  "packed_files patterns [] = []"
| "packed_files patterns ((rel, None) # t) = packed_files patterns t"
| "packed_files patterns ((rel, Some contents) # t) =
     (if should_ignore rel patterns then packed_files patterns t
      else (rel, contents) # packed_files patterns t)"

definition zip_folder :: "'n outside \<Rightarrow> tree \<Rightarrow> 'n client \<Rightarrow> string result \<times> 'n client" where
  "zip_folder E t c =
     (let temp = os_temp_name E; c1 = c\<lparr>cl_temp := dict_set temp [] (cl_temp c)\<rparr> in
      case ignore_patterns t of
        Inl e \<Rightarrow> (Inl e, c1)
      | Inr patterns \<Rightarrow> (Inr temp, c1\<lparr>cl_temp := dict_set temp (os_zip E (packed_files patterns t)) (cl_temp c1)\<rparr>))"

definition unlink :: "string \<Rightarrow> 'n client \<Rightarrow> 'n client" where
  "unlink p c = c\<lparr>cl_temp := filter (\<lambda>(q, b). q \<noteq> p) (cl_temp c)\<rparr>"

section \<open>deploy and invoke\<close>

text \<open>The first function of the page that has the name.\<close>

fun first_named :: "string \<Rightarrow> json list \<Rightarrow> json option result" where
  "first_named name [] = Inr None"
| "first_named name (JObj kvs # fs) =
     (if map_of kvs ''name'' = Some (JStr name) then Inr (Some (JObj kvs)) else first_named name fs)"
| "first_named name (f # fs) = Inl (OtherError ''AttributeError'')"

definition find_function :: "'n outside \<Rightarrow> json \<Rightarrow> string \<Rightarrow> 'n client \<Rightarrow> json option result \<times> 'n client" where
  "find_function E token name c =
     seq (http E ''GET'' ''/functions?size=100'' token JNull No_data [] [] c) (\<lambda>data c1.
       (case data of
          JObj kvs \<Rightarrow>
            (case map_of kvs ''items'' of
               None \<Rightarrow> Inr None
             | Some (JList fs) \<Rightarrow> first_named name fs
             | Some (JObj ks) \<Rightarrow> (if ks = [] then Inr None else Inl (OtherError ''AttributeError''))
             | Some (JStr t) \<Rightarrow> (if t = [] then Inr None else Inl (OtherError ''AttributeError''))
             | Some _ \<Rightarrow> Inl (OtherError ''TypeError''))
        | _ \<Rightarrow> Inl (OtherError ''AttributeError''), c1))"

record deploy_args =
  da_path :: string
  da_function :: string
  da_entrypoint :: string
  da_timeout :: int
  da_memory :: int

text \<open>\<open>da_path\<close> is the resolved path, and \<open>root\<close> what is there, \<open>None\<close> when it does not exist.\<close>

definition cmd_deploy :: "'n outside \<Rightarrow> tree option \<Rightarrow> deploy_args \<Rightarrow> 'n client \<Rightarrow> unit result \<times> 'n client" where
  "cmd_deploy E root a c =
     (let token = config_get ''token'' (load_config E c) in
      if \<not> truthy token then (Inl (system_exit ''Run `sopm login` first.''), c)
      else (case root of
          None \<Rightarrow> (Inl (system_exit (''Path not found: '' @ da_path a)), c)
        | Some t \<Rightarrow>
            seq (find_function E token (da_function a) c) (\<lambda>found c1.
              seq (case found of
                     Some fn \<Rightarrow> (Inr fn, c1)
                   | None \<Rightarrow>
                       seq (http E ''POST'' ''/functions'' token JNull
                              (Dict_data [(''name'', JStr (da_function a)), (''description'', JNull), (''tags'', JObj [])])
                              [] [] c1)
                         (\<lambda>fn c2. (Inr fn, print_line (''Created function '' @ da_function a) c2)))
                (\<lambda>fn c2.
                  seq (zip_folder E t c2) (\<lambda>archive c3.
                    (case (case json_item ''id'' fn of
                             Inl e \<Rightarrow> (Inl e, c3)
                           | Inr i \<Rightarrow>
                               http E ''POST'' (''/functions/'' @ py_str (os_repr E) i @ ''/versions'') token JNull
                                 (Dict_data [(''entrypoint'', JStr (da_entrypoint a)), (''timeout'', JInt (da_timeout a)),
                                             (''memory_mb'', JInt (da_memory a))]) [] [(''archive'', archive)] c3) of
                       (Inl e, c4) \<Rightarrow> (Inl e, unlink archive c4)
                     | (Inr version, c4) \<Rightarrow> (Inr (), print_line (dumps_indent 0 version) (unlink archive c4))))))))"

definition cmd_invoke ::
  "'n outside \<Rightarrow> string \<Rightarrow> string \<Rightarrow> string \<Rightarrow> 'n client \<Rightarrow> unit result \<times> 'n client" where
  "cmd_invoke E fname payload_arg key_arg c =
     (let cfg = load_config E c;
          api_key = (if key_arg \<noteq> [] then JStr key_arg else config_get ''api_key'' cfg);
          token = config_get ''token'' cfg
      in if \<not> truthy api_key
         then (Inl (system_exit ''Provide --api-key or save one with `sopm login --api-key ...`.''), c)
         else seq (if truthy token then find_function E token fname c else (Inr None, c)) (\<lambda>fn c1.
           (case (case fn of None \<Rightarrow> Inr (JStr fname) | Some f \<Rightarrow> json_item ''id'' f,
                  if payload_arg = [] then Some (JObj []) else loads payload_arg) of
              (Inl e, _) \<Rightarrow> (Inl e, c1)
            | (Inr i, None) \<Rightarrow> (Inl JSONDecodeError, c1)
            | (Inr i, Some payload) \<Rightarrow>
                seq (http E ''POST'' (''/invoke/'' @ py_str (os_repr E) i @ ''?wait=true'') JNull api_key
                       (Dict_data [(''payload'', payload)]) [] [] c1)
                  (\<lambda>result c2. (Inr (), print_line (dumps_indent 0 result) c2)))))"

end
