(* ===== verification/Routes.thy ===== *)
theory Routes
  imports Auth Client
begin

text \<open>
  The routes of the API as \<open>create_app\<close> of \<open>api/main.py\<close> assembles them from the decorators of the routers,
  with the dependency that authenticates each handler, and how a request gets to its handler. The
  router of the framework and the reader of the \<open>Authorization\<close> header are arguments; of the router the
  locale \<open>path_router\<close> says what FastAPI documents, that the first route whose path and method fit is
  taken. FastAPI's own pages of documentation are left out.
\<close>

section \<open>Routes\<close>

datatype segment = Name string | Parameter

datatype request_scope = Http string | Websocket

text \<open>The dependency: none, \<open>get_current_user\<close> or \<open>get_api_key_principal\<close>.\<close>

datatype guard = Open | Session | Api_key

record route =
  rt_scope :: request_scope
  rt_path :: "segment list"
  rt_guard :: guard
  rt_endpoint :: string

definition http_route :: "string \<Rightarrow> segment list \<Rightarrow> guard \<Rightarrow> string \<Rightarrow> route" where
  "http_route method path g endpoint = \<lparr>rt_scope = Http method, rt_path = path, rt_guard = g, rt_endpoint = endpoint\<rparr>"

text \<open>\<open>include_router\<close> with a prefix.\<close>

definition at_prefix :: "segment list \<Rightarrow> route list \<Rightarrow> route list" where
  "at_prefix base rs = map (\<lambda>r. r\<lparr>rt_path := base @ rt_path r\<rparr>) rs"

definition health_route :: route where
  "health_route = http_route ''GET'' [Name ''health''] Open ''health''"

definition ready_route :: route where
  "ready_route = http_route ''GET'' [Name ''ready''] Open ''ready''"

definition metrics_route :: route where
  "metrics_route = http_route ''GET'' [Name ''metrics''] Open ''metrics''"

definition health_routes :: "route list" where
  "health_routes =
     [health_route, ready_route, metrics_route]"

definition register_route :: route where
  "register_route = http_route ''POST'' [Name ''register''] Open ''register''"

definition login_route :: route where
  "login_route = http_route ''POST'' [Name ''login''] Open ''login''"

definition refresh_token_route :: route where
  "refresh_token_route = http_route ''POST'' [Name ''refresh''] Open ''refresh_token''"

definition me_route :: route where
  "me_route = http_route ''GET'' [Name ''me''] Session ''me''"

definition auth_routes :: "route list" where
  "auth_routes =
     at_prefix [Name ''auth''] [register_route, login_route, refresh_token_route, me_route]"

definition list_functions_route :: route where
  "list_functions_route = http_route ''GET'' [] Session ''list_functions''"

definition create_function_route :: route where
  "create_function_route = http_route ''POST'' [] Session ''create_function''"

definition get_function_route :: route where
  "get_function_route = http_route ''GET'' [Parameter] Session ''get_function''"

definition update_function_route :: route where
  "update_function_route = http_route ''PATCH'' [Parameter] Session ''update_function''"

definition delete_function_route :: route where
  "delete_function_route = http_route ''DELETE'' [Parameter] Session ''delete_function''"

definition create_version_route :: route where
  "create_version_route = http_route ''POST'' [Parameter, Name ''versions''] Session ''create_version''"

definition list_versions_route :: route where
  "list_versions_route = http_route ''GET'' [Parameter, Name ''versions''] Session ''list_versions''"

definition get_version_route :: route where
  "get_version_route = http_route ''GET'' [Parameter, Name ''versions'', Parameter] Session ''get_version''"

definition activate_version_route :: route where
  "activate_version_route = http_route ''POST'' [Parameter, Name ''versions'', Parameter, Name ''activate''] Session ''activate_version''"

definition update_canary_route :: route where
  "update_canary_route = http_route ''PATCH'' [Parameter, Name ''canary''] Session ''update_canary''"

definition list_activations_route :: route where
  "list_activations_route = http_route ''GET'' [Parameter, Name ''activations''] Session ''list_activations''"

definition functions_routes :: "route list" where
  "functions_routes =
     at_prefix [Name ''functions''] [list_functions_route, create_function_route, get_function_route,
     update_function_route, delete_function_route, create_version_route, list_versions_route,
     get_version_route, activate_version_route, update_canary_route, list_activations_route]"

definition trigger_execution_route :: route where
  "trigger_execution_route = http_route ''POST'' [Name ''functions'', Parameter, Name ''execute''] Session ''trigger_execution''"

definition list_executions_route :: route where
  "list_executions_route = http_route ''GET'' [Name ''executions''] Session ''list_executions''"

definition get_execution_route :: route where
  "get_execution_route = http_route ''GET'' [Name ''executions'', Parameter] Session ''get_execution''"

definition get_execution_logs_route :: route where
  "get_execution_logs_route = http_route ''GET'' [Name ''executions'', Parameter, Name ''logs''] Session ''get_execution_logs''"

definition cancel_execution_route :: route where
  "cancel_execution_route = http_route ''DELETE'' [Name ''executions'', Parameter] Session ''cancel_execution''"

definition executions_routes :: "route list" where
  "executions_routes =
     [trigger_execution_route, list_executions_route, get_execution_route, get_execution_logs_route,
     cancel_execution_route]"

definition list_schedules_route :: route where
  "list_schedules_route = http_route ''GET'' [] Session ''list_schedules''"

definition create_schedule_route :: route where
  "create_schedule_route = http_route ''POST'' [] Session ''create_schedule''"

definition get_schedule_route :: route where
  "get_schedule_route = http_route ''GET'' [Parameter] Session ''get_schedule''"

definition update_schedule_route :: route where
  "update_schedule_route = http_route ''PATCH'' [Parameter] Session ''update_schedule''"

definition delete_schedule_route :: route where
  "delete_schedule_route = http_route ''DELETE'' [Parameter] Session ''delete_schedule''"

definition schedules_routes :: "route list" where
  "schedules_routes =
     at_prefix [Name ''schedules''] [list_schedules_route, create_schedule_route, get_schedule_route,
     update_schedule_route, delete_schedule_route]"

definition list_keys_route :: route where
  "list_keys_route = http_route ''GET'' [] Session ''list_keys''"

definition create_key_route :: route where
  "create_key_route = http_route ''POST'' [] Session ''create_key''"

definition revoke_key_route :: route where
  "revoke_key_route = http_route ''DELETE'' [Parameter] Session ''revoke_key''"

definition keys_routes :: "route list" where
  "keys_routes =
     at_prefix [Name ''keys''] [list_keys_route, create_key_route, revoke_key_route]"

definition list_invokable_functions_route :: route where
  "list_invokable_functions_route = http_route ''GET'' [Name ''functions''] Api_key ''list_invokable_functions''"

definition get_invoked_execution_route :: route where
  "get_invoked_execution_route = http_route ''GET'' [Name ''executions'', Parameter] Api_key ''get_invoked_execution''"

definition get_invoked_execution_logs_route :: route where
  "get_invoked_execution_logs_route = http_route ''GET'' [Name ''executions'', Parameter, Name ''logs''] Api_key ''get_invoked_execution_logs''"

definition invoke_function_route :: route where
  "invoke_function_route = http_route ''POST'' [Parameter] Api_key ''invoke_function''"

definition invoke_routes :: "route list" where
  "invoke_routes =
     at_prefix [Name ''invoke''] [list_invokable_functions_route, get_invoked_execution_route,
     get_invoked_execution_logs_route, invoke_function_route]"

definition execute_ephemeral_route :: route where
  "execute_ephemeral_route = http_route ''POST'' [Name ''execute-ephemeral''] Api_key ''execute_ephemeral''"

definition ephemeral_routes :: "route list" where
  "ephemeral_routes =
     [execute_ephemeral_route]"

definition get_dashboard_route :: route where
  "get_dashboard_route = http_route ''GET'' [Name ''dashboard''] Session ''get_dashboard''"

definition health_simple_route :: route where
  "health_simple_route = http_route ''GET'' [Name ''health''] Open ''health_simple''"

definition health_detailed_route :: route where
  "health_detailed_route = http_route ''GET'' [Name ''health'', Name ''detailed''] Open ''health_detailed''"

definition metrics_executions_route :: route where
  "metrics_executions_route = http_route ''GET'' [Name ''metrics'', Name ''executions''] Session ''metrics_executions''"

definition metrics_workers_route :: route where
  "metrics_workers_route = http_route ''GET'' [Name ''metrics'', Name ''workers''] Session ''metrics_workers''"

definition metrics_queue_route :: route where
  "metrics_queue_route = http_route ''GET'' [Name ''metrics'', Name ''queue''] Session ''metrics_queue''"

definition metrics_deployments_route :: route where
  "metrics_deployments_route = http_route ''GET'' [Name ''metrics'', Name ''deployments''] Session ''metrics_deployments''"

definition ws_dashboard_route :: route where
  "ws_dashboard_route = \<lparr>rt_scope = Websocket, rt_path = [Name ''ws'', Name ''dashboard''], rt_guard = Open, rt_endpoint = ''ws_dashboard''\<rparr>"

definition dashboard_routes :: "route list" where
  "dashboard_routes =
     [get_dashboard_route, health_simple_route, health_detailed_route, metrics_executions_route,
     metrics_workers_route, metrics_queue_route, metrics_deployments_route, ws_dashboard_route]"

lemmas route_defs = health_route_def ready_route_def metrics_route_def register_route_def login_route_def
  refresh_token_route_def me_route_def list_functions_route_def create_function_route_def
  get_function_route_def update_function_route_def delete_function_route_def create_version_route_def
  list_versions_route_def get_version_route_def activate_version_route_def update_canary_route_def
  list_activations_route_def trigger_execution_route_def list_executions_route_def
  get_execution_route_def get_execution_logs_route_def cancel_execution_route_def
  list_schedules_route_def create_schedule_route_def get_schedule_route_def update_schedule_route_def
  delete_schedule_route_def list_keys_route_def create_key_route_def revoke_key_route_def
  list_invokable_functions_route_def get_invoked_execution_route_def
  get_invoked_execution_logs_route_def invoke_function_route_def execute_ephemeral_route_def
  get_dashboard_route_def health_simple_route_def health_detailed_route_def
  metrics_executions_route_def metrics_workers_route_def metrics_queue_route_def
  metrics_deployments_route_def ws_dashboard_route_def

definition app_routes :: "route list" where
  "app_routes =
     (let v1 = at_prefix [Name ''api'', Name ''v1''] in
      health_routes @ v1 auth_routes @ v1 functions_routes @ v1 executions_routes @ v1 schedules_routes @
      v1 keys_routes @ v1 invoke_routes @ v1 ephemeral_routes @ v1 dashboard_routes @ dashboard_routes)"

section \<open>Finding the route\<close>

text \<open>A parameter of a path stands for one segment that is not empty.\<close>

fun segments_match :: "segment list \<Rightarrow> string list \<Rightarrow> bool" where
  "segments_match [] ws = (ws = [])"
| "segments_match (Name n # ss) ws = (case ws of [] \<Rightarrow> False | w # ws' \<Rightarrow> w = n \<and> segments_match ss ws')"
| "segments_match (Parameter # ss) ws = (case ws of [] \<Rightarrow> False | w # ws' \<Rightarrow> w \<noteq> [] \<and> segments_match ss ws')"

definition path_matches :: "route \<Rightarrow> string \<Rightarrow> bool" where
  "path_matches r path \<longleftrightarrow> (case split_on (CHR ''/'') path of w # ws \<Rightarrow> w = [] \<and> segments_match (rt_path r) ws | [] \<Rightarrow> False)"

definition full_match :: "request_scope \<Rightarrow> string \<Rightarrow> route \<Rightarrow> bool" where
  "full_match sc path r \<longleftrightarrow> rt_scope r = sc \<and> path_matches r path"

text \<open>A route of the right path and another method; a websocket route has no methods.\<close>

definition partial_match :: "request_scope \<Rightarrow> string \<Rightarrow> route \<Rightarrow> bool" where
  "partial_match sc path r \<longleftrightarrow> (case (rt_scope r, sc) of (Http a, Http b) \<Rightarrow> path_matches r path | _ \<Rightarrow> False)"

datatype dispatched = Found route | Redirect string | Not_allowed | Not_found

type_synonym router = "route list \<Rightarrow> request_scope \<Rightarrow> string \<Rightarrow> dispatched"

locale path_router =
  fixes route_to :: router
  assumes first_match: "route_to rs sc path = Found r \<Longrightarrow> find (full_match sc path) rs = Some r"

text \<open>
  Such a router, with the answers for a wrong method and for a trailing slash.
\<close>

definition dispatch :: "route list \<Rightarrow> request_scope \<Rightarrow> string \<Rightarrow> dispatched" where
  "dispatch rs sc path =
     (case find (full_match sc path) rs of
        Some r \<Rightarrow> Found r
      | None \<Rightarrow>
          if list_ex (partial_match sc path) rs then Not_allowed
          else if path \<noteq> ''/'' \<and> sc \<noteq> Websocket \<and> list_ex (partial_match sc (rstrip_slash path)) rs
          then Redirect (rstrip_slash path)
          else Not_found)"

section \<open>Authentication\<close>

record credentials =
  cr_authorization :: "string option"
  cr_api_key :: "string option"

datatype caller = Anyone | User_of user | Key_of principal

text \<open>\<open>bearer\<close> is \<open>OAuth2PasswordBearer\<close>: the token of an \<open>Authorization\<close> header, when it has one.\<close>

definition authenticate ::
  "(string option \<Rightarrow> string option) \<Rightarrow> security \<Rightarrow> (string \<Rightarrow> string) \<Rightarrow> time \<Rightarrow> credentials \<Rightarrow> guard \<Rightarrow> db \<Rightarrow> caller result \<times> db" where
  "authenticate bearer S sha256 now c g d =
     (case g of
        Open \<Rightarrow> (Inr Anyone, d)
      | Session \<Rightarrow>
          (case bearer (cr_authorization c) of
             None \<Rightarrow> (Inl (HTTPException 401 ''Not authenticated''), d)
           | Some token \<Rightarrow>
               (case get_current_user S now token d of Inl e \<Rightarrow> (Inl e, d) | Inr u \<Rightarrow> (Inr (User_of u), d)))
      | Api_key \<Rightarrow>
          (case get_api_key_principal sha256 (cr_api_key c) now d of
             (Inl e, d') \<Rightarrow> (Inl e, d')
           | (Inr p, d') \<Rightarrow> (Inr (Key_of p), d')))"

text \<open>What becomes of a request before its handler runs: the handler and its caller, or an answer.\<close>

datatype arrival = Handler string caller | Refused exn | Redirected string

definition arrive ::
  "router \<Rightarrow> (string option \<Rightarrow> string option) \<Rightarrow> security \<Rightarrow> (string \<Rightarrow> string) \<Rightarrow> time \<Rightarrow> request_scope \<Rightarrow> string \<Rightarrow> credentials \<Rightarrow> db \<Rightarrow> arrival \<times> db" where
  "arrive route_to bearer S sha256 now sc path c d =
     (case route_to app_routes sc path of
        Not_found \<Rightarrow> (Refused (HTTPException 404 ''Not Found''), d)
      | Not_allowed \<Rightarrow> (Refused (HTTPException 405 ''Method Not Allowed''), d)
      | Redirect p \<Rightarrow> (Redirected p, d)
      | Found r \<Rightarrow>
          (case authenticate bearer S sha256 now c (rt_guard r) d of
             (Inl e, d') \<Rightarrow> (Refused e, d')
           | (Inr u, d') \<Rightarrow> (Handler (rt_endpoint r) u, d')))"

section \<open>Lemmas\<close>

text \<open>Two templates that some path matches both are compatible segment by segment.\<close>

fun overlap :: "segment list \<Rightarrow> segment list \<Rightarrow> bool" where
  "overlap [] ts = (ts = [])"
| "overlap (s # ss) [] = False"
| "overlap (Name a # ss) (Name b # ts) = (a = b \<and> overlap ss ts)"
| "overlap (s # ss) (t # ts) = overlap ss ts"

lemma segments_match_Nil [simp]: "segments_match ts [] = (ts = [])"
proof (cases ts)
  case (Cons t ts')
  then show ?thesis by (cases t) simp_all
qed simp

lemma segments_match_tl: "segments_match (t # ts) (w # ws) \<Longrightarrow> segments_match ts ws"
  by (cases t) simp_all

lemma segments_overlap: "segments_match ss ws \<Longrightarrow> segments_match ts ws \<Longrightarrow> overlap ss ts"
  by (induction ss ts arbitrary: ws rule: overlap.induct) (auto split: list.splits dest: segments_match_tl)

definition conflict :: "route \<Rightarrow> route \<Rightarrow> bool" where
  "conflict r q \<longleftrightarrow> rt_scope r = rt_scope q \<and> overlap (rt_path r) (rt_path q)"

fun conflicts :: "route list \<Rightarrow> (string \<times> string) list" where
  "conflicts [] = []"
| "conflicts (r # rs) = map (\<lambda>q. (rt_endpoint r, rt_endpoint q)) (filter (conflict r) rs) @ conflicts rs"

lemma app_conflicts: "conflicts app_routes = [(''health'', ''health_simple'')]"
  by code_simp

text \<open>A template without parameters is matched by one path.\<close>

lemma join_split: "concat (map (\<lambda>w. d # w) (split_on d s)) = d # s"
  by (induction s) (auto split: list.splits)

definition names_path :: "string list \<Rightarrow> string" where
  "names_path ns = concat (map (\<lambda>n. CHR ''/'' # n) ns)"

lemma names_match: "segments_match (map Name ns) ws \<Longrightarrow> ws = ns"
  by (induction ns arbitrary: ws) (auto split: list.splits)

lemma path_of_names:
  assumes "path_matches r path" and "rt_path r = map Name ns"
  shows "path = names_path ns"
proof -
  obtain ws where "split_on (CHR ''/'') path = [] # ws" and "segments_match (map Name ns) ws"
    using assms by (auto simp: path_matches_def split: list.splits)
  then show ?thesis
    using names_match [of ns ws] join_split [of "CHR ''/''" path] by (simp add: names_path_def)
qed

text \<open>Two routes that one request matches stand in the list of conflicts, in their order.\<close>

lemma full_conflict: "full_match sc path r \<Longrightarrow> full_match sc path q \<Longrightarrow> conflict r q"
  by (auto simp: full_match_def path_matches_def conflict_def split: list.splits dest: segments_overlap)

lemma conflicts_member:
  "find (full_match sc path) rs = Some q \<Longrightarrow> r \<in> set rs \<Longrightarrow> full_match sc path r \<Longrightarrow>
   r = q \<or> (rt_endpoint q, rt_endpoint r) \<in> set (conflicts rs)"
  by (induction rs) (auto split: if_splits intro: full_conflict)

context path_router begin

lemma found_route: "route_to rs sc path = Found r \<Longrightarrow> r \<in> set rs \<and> full_match sc path r"
  by (drule first_match) (auto simp: find_Some_iff)

text \<open>No order of the routes matters but that of the two for \<open>/health\<close>.\<close>

lemma found_unambiguous:
  assumes "route_to app_routes sc path = Found q" and "r \<in> set app_routes" and "full_match sc path r"
  shows "r = q \<or> (rt_endpoint q, rt_endpoint r) = (''health'', ''health_simple'')"
  using conflicts_member [OF first_match [OF assms(1)] assms(2,3)] app_conflicts by simp

end

interpretation app: path_router dispatch
  by unfold_locales (auto simp: dispatch_def split: option.splits if_splits)

lemma key_routes:
  "map rt_endpoint (filter (\<lambda>r. rt_guard r = Api_key) app_routes) =
   [''list_invokable_functions'', ''get_invoked_execution'', ''get_invoked_execution_logs'', ''invoke_function'',
    ''execute_ephemeral'']"
  by code_simp

section \<open>Who reaches a handler\<close>

lemma current_user_active: "get_current_user S now token d = Inr u \<Longrightarrow> u \<in> set (t_users d) \<and> u_is_active u"
  by (auto simp: get_current_user_def split: sum.splits exn.splits option.splits if_splits dest!: scalar_one_or_none_Some)

text \<open>The requests that need no credentials.\<close>

definition open_requests :: "(request_scope \<times> string list \<times> string) list" where
  "open_requests =
     [(Http ''GET'', [''health''], ''health''), (Http ''GET'', [''ready''], ''ready''), (Http ''GET'', [''metrics''], ''metrics''),
      (Http ''POST'', [''api'', ''v1'', ''auth'', ''register''], ''register''),
      (Http ''POST'', [''api'', ''v1'', ''auth'', ''login''], ''login''),
      (Http ''POST'', [''api'', ''v1'', ''auth'', ''refresh''], ''refresh_token''),
      (Http ''GET'', [''api'', ''v1'', ''health''], ''health_simple''),
      (Http ''GET'', [''api'', ''v1'', ''health'', ''detailed''], ''health_detailed''),
      (Websocket, [''api'', ''v1'', ''ws'', ''dashboard''], ''ws_dashboard''),
      (Http ''GET'', [''health'', ''detailed''], ''health_detailed''), (Websocket, [''ws'', ''dashboard''], ''ws_dashboard'')]"

lemma open_routes:
  "map (\<lambda>r. (rt_scope r, rt_path r, rt_endpoint r)) (filter (\<lambda>r. rt_guard r = Open) app_routes) =
   map (\<lambda>(sc, ns, ep). (sc, map Name ns, ep))
     (take 9 open_requests @ [(Http ''GET'', [''health''], ''health_simple'')] @ drop 9 open_requests)"
  by code_simp

lemma open_template:
  assumes "r \<in> set app_routes" and "rt_guard r = Open"
  shows "\<exists>ns. rt_path r = map Name ns \<and>
    ((rt_scope r, ns, rt_endpoint r) \<in> set open_requests \<or>
     (rt_scope r, ns, rt_endpoint r) = (Http ''GET'', [''health''], ''health_simple''))"
proof -
  let ?f = "\<lambda>r. (rt_scope r, rt_path r, rt_endpoint r)"
  let ?all = "take 9 open_requests @ [(Http ''GET'', [''health''], ''health_simple'')] @ drop 9 open_requests"
  have "?f r \<in> set (map ?f (filter (\<lambda>r. rt_guard r = Open) app_routes))" using assms by simp
  then have "?f r \<in> (\<lambda>(sc, ns, ep). (sc, map Name ns, ep)) ` set ?all" unfolding open_routes set_map .
  then obtain t where t: "t \<in> set ?all" and f: "?f r = (case t of (sc, ns, ep) \<Rightarrow> (sc, map Name ns, ep))" by (rule imageE)
  obtain sc ns ep where eq: "t = (sc, ns, ep)" by (cases t)
  have r: "rt_scope r = sc" "rt_path r = map Name ns" "rt_endpoint r = ep" using f by (simp_all add: eq)
  have "set ?all \<subseteq> set open_requests \<union> {(Http ''GET'', [''health''], ''health_simple'')}"
    using set_take_subset [of 9 open_requests] set_drop_subset [of 9 open_requests] by auto
  then show ?thesis using t r unfolding eq by blast
qed

lemma path_matches_same: "rt_path r = rt_path q \<Longrightarrow> path_matches r = path_matches q"
  unfolding path_matches_def fun_eq_iff by metis

context path_router begin

lemma health_first:
  assumes "path_matches r path" and "rt_path r = [Name ''health'']"
    and "route_to app_routes (Http ''GET'') path = Found q"
  shows "rt_endpoint q = ''health''"
proof -
  let ?h = "http_route ''GET'' [Name ''health''] Open ''health''"
  have "full_match (Http ''GET'') path ?h"
    using path_matches_same [of ?h r] assms(1,2) by (simp add: full_match_def http_route_def)
  moreover have "?h \<in> set app_routes" by (simp add: app_routes_def health_routes_def health_route_def Let_def)
  ultimately show ?thesis using found_unambiguous [OF assms(3), of ?h] by (auto simp: http_route_def)
qed

end

text \<open>C7: A request reaches a handler without credentials only at the eleven public routes: the probes, the
  metrics, registering, logging in, refreshing, the detailed health report and the websocket of the
  dashboard. It reaches one as a user only with a bearer token that \<open>get_current_user\<close> accepts, for an
  active account, and as the owner of an API key only at the routes of invocations and raw code, with
  a key that is stored and not revoked. A token opens no route of the keys and a key no other route.\<close>

theorem credentials_required:
  assumes "path_router route_to" and "arrive route_to bearer S sha256 now sc path c d = (Handler ep u, d')"
  shows "case u of
      Anyone \<Rightarrow> d' = d \<and> (\<exists>ns. path = names_path ns \<and> (sc, ns, ep) \<in> set open_requests)
    | User_of w \<Rightarrow> d' = d \<and> w \<in> set (t_users d) \<and> u_is_active w \<and>
        (\<exists>token. bearer (cr_authorization c) = Some token \<and> get_current_user S now token d = Inr w)
    | Key_of p \<Rightarrow>
        ep \<in> {''list_invokable_functions'', ''get_invoked_execution'', ''get_invoked_execution_logs'', ''invoke_function'',
               ''execute_ephemeral''} \<and> p_user p \<in> set (t_users d) \<and>
        (\<exists>k \<in> set (t_api_keys d). \<exists>raw. cr_api_key c = Some raw \<and> k_key_hash k = hash_api_key sha256 raw \<and>
           k_revoked_at k = None \<and> u_id (p_user p) = k_owner_id k)"
proof -
  obtain r where r: "route_to app_routes sc path = Found r" and ep: "ep = rt_endpoint r"
    and auth: "authenticate bearer S sha256 now c (rt_guard r) d = (Inr u, d')"
    using assms(2) by (auto simp: arrive_def split: dispatched.splits prod.splits sum.splits)
  have mem: "r \<in> set app_routes" and fm: "path_matches r path" "rt_scope r = sc"
    using path_router.found_route [OF assms(1) r] by (simp_all add: full_match_def)
  show ?thesis
  proof (cases "rt_guard r")
    case Open
    obtain ns where ns: "rt_path r = map Name ns" and
      cases: "(sc, ns, ep) \<in> set open_requests \<or> (sc, ns, ep) = (Http ''GET'', [''health''], ''health_simple'')"
      using open_template [OF mem Open] fm(2) ep by blast
    have "(sc, ns, ep) \<noteq> (Http ''GET'', [''health''], ''health_simple'')"
      using path_router.health_first [OF assms(1) fm(1)] r ns ep by auto
    then show ?thesis using cases path_of_names [OF fm(1) ns] auth Open by (auto simp: authenticate_def)
  next
    case Session
    then show ?thesis using auth current_user_active by (auto simp: authenticate_def split: option.splits sum.splits)
  next
    case Api_key
    then have "ep \<in> set (map rt_endpoint (filter (\<lambda>r. rt_guard r = Api_key) app_routes))" using mem ep by simp
    then have e: "ep \<in> {''list_invokable_functions'', ''get_invoked_execution'', ''get_invoked_execution_logs'',
      ''invoke_function'', ''execute_ephemeral''}" unfolding key_routes by simp
    obtain p where "get_api_key_principal sha256 (cr_api_key c) now d = (Inr p, d')" and u: "u = Key_of p"
      using auth Api_key by (auto simp: authenticate_def split: prod.splits sum.splits)
    then show ?thesis using principal_Inr [of sha256 "cr_api_key c" now d p d'] e by auto
  qed
qed

theorem credentials_required_witness:
  "arrive dispatch (\<lambda>h. h) plain_security (\<lambda>x. x) 0 (Http ''POST'') ''/api/v1/auth/login'' \<lparr>cr_authorization = None, cr_api_key = None\<rparr> empty_db =
     (Handler ''login'' Anyone, empty_db) \<and>
   (\<exists>ns. ''/api/v1/auth/login'' = names_path ns \<and> (Http ''POST'', ns, ''login'') \<in> set open_requests)"
proof -
  have run: "arrive dispatch (\<lambda>h. h) plain_security (\<lambda>x. x) 0 (Http ''POST'') ''/api/v1/auth/login''
      \<lparr>cr_authorization = None, cr_api_key = None\<rparr> empty_db = (Handler ''login'' Anyone, empty_db)" by code_simp
  show ?thesis using credentials_required [OF app.path_router_axioms run] run by simp
qed

end
