(* ===== verification/Dashboard.thy ===== *)
theory Dashboard
  imports Complex_Main Models Storage Redis_Queue Sandbox
begin

text \<open>
  \<open>api/services/dashboard_service.py\<close>, which reads the tables and the Redis server, and
  \<open>api/services/ws_manager.py\<close>, which fans events out to websocket clients. SQL aggregates are
  computed on the rows; averages and percentiles are exact rationals, and the rounding of the answer
  (Python's \<open>round\<close> on a float) is an argument. Every Redis call is guarded: an exception becomes a
  default value.
\<close>

section \<open>Overview\<close>

definition hours :: "int \<Rightarrow> time" where
  "hours h = seconds (h * 3600)"

record overview =
  ov_active_functions :: nat
  ov_running :: nat
  ov_successful_24h :: nat
  ov_failed_24h :: nat
  ov_queue_depth :: int
  ov_active_workers :: nat

definition failed_statuses :: "execution_status list" where
  "failed_statuses = [FAILED, TIMED_OUT]"

text \<open>The \<open>WHERE\<close> clause of the aggregate, and its three \<open>FILTER\<close>ed counts.\<close>

definition overview_rows :: "time \<Rightarrow> execution list \<Rightarrow> execution list" where
  "overview_rows since es = filter (\<lambda>e. e_created_at e \<ge> since \<or> e_status e \<in> {RUNNING, QUEUED, PENDING}) es"

definition overview_counts :: "time \<Rightarrow> execution list \<Rightarrow> nat \<times> nat \<times> nat" where
  "overview_counts since es =
     (let rows = overview_rows since es in
      (count_where (\<lambda>e. e_status e = RUNNING) rows,
       count_where (\<lambda>e. e_status e = COMPLETED \<and> e_created_at e \<ge> since) rows,
       count_where (\<lambda>e. e_status e \<in> set failed_statuses \<and> e_created_at e \<ge> since) rows))"

definition heartbeat_pattern :: string where
  "heartbeat_pattern = ''sopm:worker:*:heartbeat''"

definition get_overview :: "'r redis \<Rightarrow> time \<Rightarrow> db \<times> 'r \<Rightarrow> overview \<times> 'r" where
  "get_overview R now ds =
     (let (d, s) = ds;
          (running, ok, bad) = overview_counts (now - hours 24) (t_executions d);
          active = count_where (\<lambda>f. f_status f = F_ACTIVE) (t_functions d);
          (depth, s1) = (case queue_depth R s of (Inl e, s1) \<Rightarrow> (-1, s1) | (Inr n, s1) \<Rightarrow> (int n, s1));
          (workers, s2) = (case r_keys R heartbeat_pattern s1 of (Inl e, s2) \<Rightarrow> (0, s2) | (Inr ks, s2) \<Rightarrow> (length ks, s2))
      in (\<lparr>ov_active_functions = active, ov_running = running, ov_successful_24h = ok, ov_failed_24h = bad,
           ov_queue_depth = depth, ov_active_workers = workers\<rparr>, s2))"

section \<open>Health\<close>

datatype health = HEALTHY | DEGRADED | UNHEALTHY

text \<open>\<open>SELECT 1\<close>, \<open>PING\<close>, the bucket and the node list; the result of the last is an argument.\<close>

definition check_postgres :: "unit result \<Rightarrow> health" where
  "check_postgres select_1 = (case select_1 of Inl e \<Rightarrow> UNHEALTHY | Inr _ \<Rightarrow> HEALTHY)"

definition check_redis :: "'r redis \<Rightarrow> 'r \<Rightarrow> health \<times> 'r" where
  "check_redis R s = (case r_ping R s of (Inl e, s') \<Rightarrow> (UNHEALTHY, s') | (Inr _, s') \<Rightarrow> (HEALTHY, s'))"

definition check_minio :: "settings \<Rightarrow> 's minio \<Rightarrow> 's \<Rightarrow> health \<times> 's" where
  "check_minio cfg M s =
     (case bucket_exists M (minio_bucket_artifacts cfg) s of (Inl e, s') \<Rightarrow> (DEGRADED, s') | (Inr _, s') \<Rightarrow> (HEALTHY, s'))"

definition check_kubernetes :: "settings \<Rightarrow> unit result \<Rightarrow> health" where
  "check_kubernetes cfg list_node =
     (if \<not> sandbox_enabled cfg then HEALTHY
      else (case list_node of Inl e \<Rightarrow> DEGRADED | Inr _ \<Rightarrow> HEALTHY))"

definition check_runner_pool :: "'r redis \<Rightarrow> 'r \<Rightarrow> health \<times> 'r" where
  "check_runner_pool R s =
     (case r_keys R heartbeat_pattern s of
        (Inl e, s') \<Rightarrow> (UNHEALTHY, s')
      | (Inr ks, s') \<Rightarrow> (if ks = [] then DEGRADED else HEALTHY, s'))"

definition overall_health :: "health list \<Rightarrow> health" where
  "overall_health vals =
     (if UNHEALTHY \<in> set vals then UNHEALTHY else if DEGRADED \<in> set vals then DEGRADED else HEALTHY)"

definition get_health ::
  "settings \<Rightarrow> 's minio \<Rightarrow> 'r redis \<Rightarrow> bool \<Rightarrow> unit result \<Rightarrow> unit result \<Rightarrow> 's \<times> 'r \<Rightarrow>
   (health \<times> (string \<times> health) list) \<times> 's \<times> 'r" where
  "get_health cfg M R detailed select_1 list_node st =
     (let (m, s) = st;
          pg = check_postgres select_1;
          (rd, s1) = check_redis R s;
          (mn, m1) = (if detailed then check_minio cfg M m else (HEALTHY, m));
          k8 = (if detailed then check_kubernetes cfg list_node else HEALTHY);
          (rp, s2) = check_runner_pool R s1;
          statuses = [(''api'', HEALTHY), (''postgres'', pg), (''redis'', rd), (''minio'', mn),
                      (''kubernetes'', k8), (''runner_pool'', rp)]
      in ((overall_health (map snd statuses), statuses), m1, s2))"

section \<open>Recent rows\<close>

text \<open>The outer join gives the function's name, or nothing for a row without a function.\<close>

definition function_of :: "db \<Rightarrow> uuid option \<Rightarrow> func option" where
  "function_of d fid = (case fid of None \<Rightarrow> None | Some i \<Rightarrow> find (\<lambda>f. f_id f = i) (t_functions d))"

record recent_execution =
  re_id :: uuid
  re_function_id :: "uuid option"
  re_function_name :: "string option"
  re_status :: execution_status
  re_duration_ms :: "int option"
  re_started_at :: "time option"
  re_completed_at :: "time option"
  re_created_at :: time
  re_worker_id :: "string option"
  re_error_message :: "string option"

definition recent_row :: "db \<Rightarrow> execution \<Rightarrow> recent_execution" where
  "recent_row d e =
     \<lparr>re_id = e_id e, re_function_id = e_function_id e,
      re_function_name = map_option f_name (function_of d (e_function_id e)), re_status = e_status e,
      re_duration_ms = e_duration_ms e, re_started_at = e_started_at e, re_completed_at = e_completed_at e,
      re_created_at = e_created_at e, re_worker_id = e_worker_id e, re_error_message = e_error_message e\<rparr>"

definition get_recent_executions :: "nat \<Rightarrow> db \<Rightarrow> recent_execution list" where
  "get_recent_executions limit d = map (recent_row d) (take limit (order_by_desc e_created_at (t_executions d)))"

text \<open>The failures leave out the start and the worker.\<close>

definition failure_row :: "db \<Rightarrow> execution \<Rightarrow> recent_execution" where
  "failure_row d e = (recent_row d e)\<lparr>re_started_at := None, re_worker_id := None\<rparr>"

definition get_recent_failures :: "nat \<Rightarrow> db \<Rightarrow> recent_execution list" where
  "get_recent_failures limit d =
     map (failure_row d)
       (take limit (order_by_desc e_created_at (filter (\<lambda>e. e_status e \<in> set failed_statuses) (t_executions d))))"

record recent_deployment =
  rd_id :: uuid
  rd_function_id :: uuid
  rd_function_name :: "string option"
  rd_version_number :: nat
  rd_runtime :: "string option"
  rd_artifact_size :: nat
  rd_is_active :: bool
  rd_created_at :: time

definition deployment_row :: "db \<Rightarrow> version \<Rightarrow> recent_deployment" where
  "deployment_row d v =
     (let fn = function_of d (Some (v_function_id v)) in
      \<lparr>rd_id = v_id v, rd_function_id = v_function_id v, rd_function_name = map_option f_name fn,
       rd_version_number = v_version_number v, rd_runtime = map_option f_runtime fn,
       rd_artifact_size = v_artifact_size v, rd_is_active = v_is_active v, rd_created_at = v_created_at v\<rparr>)"

definition get_recent_deployments :: "nat \<Rightarrow> db \<Rightarrow> recent_deployment list" where
  "get_recent_deployments limit d = map (deployment_row d) (take limit (order_by_desc v_created_at (t_versions d)))"

section \<open>Metrics\<close>

definition average :: "int list \<Rightarrow> rat option" where
  "average xs = (if xs = [] then None else Some (of_int (sum_list xs) / of_nat (length xs)))"

text \<open>\<open>PERCENTILE_CONT\<close>: linear interpolation between the two nearest of the sorted values.\<close>

definition percentile_cont :: "rat \<Rightarrow> int list \<Rightarrow> rat option" where
  "percentile_cont p xs =
     (if xs = [] then None
      else (let ys = sort xs; pos = p * of_nat (length ys - 1);
                lo = nat \<lfloor>pos\<rfloor>; hi = nat \<lceil>pos\<rceil>
            in Some (of_int (ys ! lo) + (pos - of_nat lo) * of_int (ys ! hi - ys ! lo))))"

record trend_bucket =
  tr_hour :: time
  tr_total :: nat
  tr_completed :: nat
  tr_failed :: nat

record execution_metrics =
  em_total_24h :: nat
  em_completed_24h :: nat
  em_failed_24h :: nat
  em_success_rate :: rat
  em_avg_runtime_ms :: rat
  em_p95_runtime_ms :: rat
  em_p99_runtime_ms :: rat
  em_hourly_trend :: "trend_bucket list"

definition date_trunc :: "time \<Rightarrow> time \<Rightarrow> time" where
  "date_trunc unit_len t = t div unit_len * unit_len"

definition or_zero :: "rat option \<Rightarrow> rat" where
  "or_zero x = (case x of None \<Rightarrow> 0 | Some r \<Rightarrow> r)"

definition hourly_trend :: "execution list \<Rightarrow> trend_bucket list" where
  "hourly_trend rows =
     map (\<lambda>h. let b = filter (\<lambda>e. date_trunc (hours 1) (e_created_at e) = h) rows in
              \<lparr>tr_hour = h, tr_total = length b, tr_completed = count_where (\<lambda>e. e_status e = COMPLETED) b,
               tr_failed = count_where (\<lambda>e. e_status e \<in> set failed_statuses) b\<rparr>)
       (sort (remdups (map (\<lambda>e. date_trunc (hours 1) (e_created_at e)) rows)))"

definition success_rate :: "nat \<Rightarrow> nat \<Rightarrow> rat" where
  "success_rate completed n_total = of_nat completed / of_nat n_total * 100"

definition get_execution_metrics :: "(rat \<Rightarrow> rat) \<Rightarrow> time \<Rightarrow> db \<Rightarrow> execution_metrics" where
  "get_execution_metrics round2 now d =
     (let rows = filter (\<lambda>e. e_created_at e \<ge> now - hours 24) (t_executions d);
          n_total = length rows;
          completed = count_where (\<lambda>e. e_status e = COMPLETED) rows;
          failed = count_where (\<lambda>e. e_status e \<in> set failed_statuses) rows;
          durations = List.map_filter e_duration_ms rows
      in \<lparr>em_total_24h = n_total, em_completed_24h = completed, em_failed_24h = failed,
          em_success_rate = (if n_total > 0 then round2 (success_rate completed n_total) else 0),
          em_avg_runtime_ms = round2 (or_zero (average durations)),
          em_p95_runtime_ms = round2 (or_zero (percentile_cont (95 / 100) durations)),
          em_p99_runtime_ms = round2 (or_zero (percentile_cont (99 / 100) durations)),
          em_hourly_trend = hourly_trend rows\<rparr>)"

text \<open>The age of a heartbeat in microseconds; the answer prints it rounded.\<close>

record worker_info =
  wi_worker_id :: string
  wi_last_heartbeat :: "int option"
  wi_age :: time
  wi_online :: bool

definition worker_of_key :: "string \<Rightarrow> string result" where
  "worker_of_key k =
     (if CHR '':'' \<in> set k
      then (case split_on (CHR '':'') k of _ # _ # w # _ \<Rightarrow> Inr w | _ \<Rightarrow> Inl (OtherError ''IndexError''))
      else Inr k)"

definition last_seen :: "string option \<Rightarrow> int result" where
  "last_seen v =
     (case v of None \<Rightarrow> Inr 0
      | Some [] \<Rightarrow> Inr 0
      | Some t \<Rightarrow> (case py_int t of None \<Rightarrow> Inl (ValueError ''invalid literal for int()'') | Some n \<Rightarrow> Inr n))"

text \<open>\<open>datetime.fromtimestamp\<close> raises outside the years 1 to 9999.\<close>

definition timestamp_ok :: "int \<Rightarrow> bool" where
  "timestamp_ok t \<longleftrightarrow> - 62135596800 \<le> t \<and> t < 253402300800"

fun worker_infos :: "'r redis \<Rightarrow> time \<Rightarrow> string list \<Rightarrow> 'r \<Rightarrow> worker_info list result \<times> 'r" where
  "worker_infos R now [] s = (Inr [], s)"
| "worker_infos R now (k # ks) s =
     seq (r_get R k s) (\<lambda>v s1.
       case (worker_of_key k, last_seen v) of
         (Inl e, _) \<Rightarrow> (Inl e, s1)
       | (_, Inl e) \<Rightarrow> (Inl e, s1)
       | (Inr w, Inr t) \<Rightarrow>
           if t \<noteq> 0 \<and> \<not> timestamp_ok t then (Inl (ValueError ''year is out of range''), s1)
           else (let age = now - seconds t;
                info = \<lparr>wi_worker_id = w, wi_last_heartbeat = (if t = 0 then None else Some t), wi_age = age,
                        wi_online = (age < seconds 120)\<rparr>
            in seq (worker_infos R now ks s1) (\<lambda>rest s2. (Inr (info # rest), s2))))"

record worker_metrics =
  wm_workers :: "worker_info list"
  wm_total :: nat
  wm_online :: nat

definition get_worker_metrics :: "'r redis \<Rightarrow> time \<Rightarrow> 'r \<Rightarrow> worker_metrics \<times> 'r" where
  "get_worker_metrics R now s =
     (case seq (r_keys R heartbeat_pattern s) (\<lambda>ks s1. worker_infos R now ks s1) of
        (Inl e, s') \<Rightarrow> (\<lparr>wm_workers = [], wm_total = 0, wm_online = 0\<rparr>, s')
      | (Inr ws, s') \<Rightarrow>
          (\<lparr>wm_workers = ws, wm_total = length ws, wm_online = length (filter wi_online ws)\<rparr>, s'))"

text \<open>Queue, processing set and dead letter queue; one exception zeroes all three.\<close>

definition get_queue_metrics :: "settings \<Rightarrow> 'r redis \<Rightarrow> 'r \<Rightarrow> (nat \<times> nat \<times> nat) \<times> 'r" where
  "get_queue_metrics cfg R s =
     (case seq (r_zcard R queue_name s) (\<lambda>depth s1.
             seq (r_zcard R processing_set s1) (\<lambda>processing s2.
               seq (r_zcard R (queue_dlq_name cfg) s2) (\<lambda>dlq s3. (Inr (depth, processing, dlq), s3)))) of
        (Inl e, s') \<Rightarrow> ((0, 0, 0), s')
      | (Inr x, s') \<Rightarrow> (x, s'))"

definition get_deployment_metrics :: "time \<Rightarrow> db \<Rightarrow> nat \<times> (time \<times> nat) list" where
  "get_deployment_metrics now d =
     (let rows = filter (\<lambda>v. v_created_at v \<ge> now - hours (7 * 24)) (t_versions d);
          day = (\<lambda>v. date_trunc (hours 24) (v_created_at v))
      in (length rows, map (\<lambda>t. (t, count_where (\<lambda>v. day v = t) rows)) (sort (remdups (map day rows)))))"

section \<open>Websocket clients\<close>

text \<open>
  The connections are a list without repetitions, in the order the set is run through; sending to one
  may fail. All sends are made before the failed ones are dropped.
\<close>

type_synonym connections = "nat list"

definition ws_connect :: "nat \<Rightarrow> connections \<Rightarrow> connections" where
  "ws_connect w cs = (if w \<in> set cs then cs else cs @ [w])"

definition ws_disconnect :: "nat \<Rightarrow> connections \<Rightarrow> connections" where
  "ws_disconnect w cs = filter (\<lambda>x. x \<noteq> w) cs"

fun send_all :: "(nat \<Rightarrow> string \<Rightarrow> 's \<Rightarrow> unit result \<times> 's) \<Rightarrow> string \<Rightarrow> connections \<Rightarrow> 's \<Rightarrow> nat list \<times> 's" where
  "send_all send message [] s = ([], s)"
| "send_all send message (w # ws) s =
     (let (r, s1) = send w message s; (dead, s2) = send_all send message ws s1
      in ((case r of Inl e \<Rightarrow> w # dead | Inr _ \<Rightarrow> dead), s2))"

definition event_message :: "string \<Rightarrow> json \<Rightarrow> string \<Rightarrow> string" where
  "event_message event_type payload timestamp =
     dumps (JObj [(''type'', JStr event_type), (''payload'', payload), (''timestamp'', JStr timestamp)])"

definition broadcast ::
  "(nat \<Rightarrow> string \<Rightarrow> 's \<Rightarrow> unit result \<times> 's) \<Rightarrow> string \<Rightarrow> json \<Rightarrow> string \<Rightarrow> connections \<times> 's \<Rightarrow> connections \<times> 's" where
  "broadcast send event_type payload timestamp cst =
     (let (cs, s) = cst in
      if cs = [] then (cs, s)
      else (let (dead, s') = send_all send (event_message event_type payload timestamp) cs s
            in (filter (\<lambda>w. w \<notin> set dead) cs, s')))"

definition opt_json :: "('a \<Rightarrow> json) \<Rightarrow> 'a option \<Rightarrow> json" where
  "opt_json f x = (case x of None \<Rightarrow> JNull | Some v \<Rightarrow> f v)"

text \<open>The typed events: the type and the payload each emitter broadcasts.\<close>

definition execution_started :: "string \<Rightarrow> string option \<Rightarrow> string option \<Rightarrow> string \<times> json" where
  "execution_started execution_id function_name worker_id =
     (''execution_started'', JObj [(''execution_id'', JStr execution_id),
        (''function_name'', opt_json JStr function_name), (''worker_id'', opt_json JStr worker_id)])"

definition execution_completed :: "string \<Rightarrow> string option \<Rightarrow> int option \<Rightarrow> string \<Rightarrow> string \<times> json" where
  "execution_completed execution_id function_name duration_ms status =
     (''execution_completed'', JObj [(''execution_id'', JStr execution_id),
        (''function_name'', opt_json JStr function_name), (''duration_ms'', opt_json JInt duration_ms),
        (''status'', JStr status)])"

definition execution_failed :: "string \<Rightarrow> string option \<Rightarrow> string option \<Rightarrow> string \<times> json" where
  "execution_failed execution_id function_name error =
     (''execution_failed'', JObj [(''execution_id'', JStr execution_id),
        (''function_name'', opt_json JStr function_name), (''error'', opt_json JStr error)])"

definition deployment_event :: "string \<Rightarrow> int \<Rightarrow> string \<Rightarrow> string \<times> json" where
  "deployment_event function_name version_number status =
     (''deployment_'' @ status, JObj [(''function_name'', JStr function_name), (''version_number'', JInt version_number)])"

definition worker_event :: "string \<Rightarrow> string \<Rightarrow> string \<times> json" where
  "worker_event worker_id status = (''worker_'' @ status, JObj [(''worker_id'', JStr worker_id)])"

definition queue_depth_event :: "int \<Rightarrow> string \<times> json" where
  "queue_depth_event depth = (''queue_depth_changed'', JObj [(''depth'', JInt depth)])"

definition health_event :: "string \<Rightarrow> string \<Rightarrow> string \<times> json" where
  "health_event component status =
     (''health_changed'', JObj [(''component'', JStr component), (''status'', JStr status)])"

end
