(* ===== verification/Dashboard_Properties.thy ===== *)
theory Dashboard_Properties
  imports Dashboard Demo
begin

text \<open>
  What the numbers of the dashboard mean: the counts of the overview and of the metrics agree and lose
  no execution, the runtime statistics lie between the extreme durations and are ordered, and the
  overall health is the worst of the components.
\<close>

section \<open>Counting\<close>

lemma count_where_filter: "count_where p (filter q xs) = count_where (\<lambda>x. q x \<and> p x) xs"
  by (induction xs) simp_all

lemma count_where_cong: "(\<And>x. x \<in> set xs \<Longrightarrow> p x = q x) \<Longrightarrow> count_where p xs = count_where q xs"
  by (induction xs) simp_all

lemma length_filter_count: "length (filter p xs) = count_where p xs"
  by (simp add: count_where_def)

lemma count_where_le: "count_where p xs \<le> length xs"
  by (simp add: count_where_def)

lemma count_where_disjoint:
  "(\<And>x. p x \<Longrightarrow> \<not> q x) \<Longrightarrow> count_where p xs + count_where q xs \<le> length xs"
  by (induction xs) auto

lemma sum_indicator:
  "distinct ks \<Longrightarrow> (\<Sum>h\<leftarrow>ks. if y = h then Suc (g h) else g h) = (\<Sum>h\<leftarrow>ks. g h) + (if y \<in> set ks then 1 else 0)"
  by (induction ks) auto

text \<open>Grouping by a key and adding up the groups counts everything once.\<close>

lemma sum_groups:
  assumes "distinct ks" "\<forall>x\<in>set xs. f x \<in> set ks"
  shows "(\<Sum>h\<leftarrow>ks. count_where (\<lambda>x. f x = h \<and> p x) xs) = count_where p xs"
  using assms(2)
proof (induction xs)
  case (Cons x xs)
  show ?case
  proof (cases "p x")
    case True
    with Cons show ?thesis
      using sum_indicator [OF assms(1), of "f x" "\<lambda>h. count_where (\<lambda>x. f x = h \<and> p x) xs"] by simp
  qed (use Cons in simp)
qed simp

lemma hourly_trend_sums:
  "sum_list (map tr_total (hourly_trend rows)) = length rows"
  "sum_list (map tr_completed (hourly_trend rows)) = count_where (\<lambda>e. e_status e = COMPLETED) rows"
  "sum_list (map tr_failed (hourly_trend rows)) = count_where (\<lambda>e. e_status e \<in> set failed_statuses) rows"
proof -
  let ?h = "\<lambda>e. date_trunc (hours 1) (e_created_at e)"
  let ?ks = "sort (remdups (map ?h rows))"
  have ks: "distinct ?ks" "\<forall>e\<in>set rows. ?h e \<in> set ?ks" by auto
  have n: "length rows = count_where (\<lambda>e. True) rows" by (simp add: count_where_def)
  show "sum_list (map tr_total (hourly_trend rows)) = length rows"
    using sum_groups [OF ks, of "\<lambda>e. True"]
    by (simp add: hourly_trend_def Let_def o_def length_filter_count n)
  show "sum_list (map tr_completed (hourly_trend rows)) = count_where (\<lambda>e. e_status e = COMPLETED) rows"
    using sum_groups [OF ks, of "\<lambda>e. e_status e = COMPLETED"]
    by (simp add: hourly_trend_def Let_def o_def count_where_filter)
  show "sum_list (map tr_failed (hourly_trend rows)) = count_where (\<lambda>e. e_status e \<in> set failed_statuses) rows"
    using sum_groups [OF ks, of "\<lambda>e. e_status e \<in> set failed_statuses"]
    by (simp add: hourly_trend_def Let_def o_def count_where_filter)
qed

lemma hourly_trend_sorted: "sorted_wrt (<) (map tr_hour (hourly_trend rows))"
  by (simp add: hourly_trend_def Let_def o_def strict_sorted_iff)

lemma overview_counts_eq:
  "overview_counts since es =
     (count_where (\<lambda>e. e_status e = RUNNING) es,
      count_where (\<lambda>e. e_created_at e \<ge> since \<and> e_status e = COMPLETED) es,
      count_where (\<lambda>e. e_created_at e \<ge> since \<and> e_status e \<in> set failed_statuses) es)"
  by (auto simp: overview_counts_def overview_rows_def Let_def count_where_filter intro!: count_where_cong)

lemma get_overview_counts:
  "ov_running (fst (get_overview R now (d, s))) = count_where (\<lambda>e. e_status e = RUNNING) (t_executions d)"
  "ov_successful_24h (fst (get_overview R now (d, s))) =
     count_where (\<lambda>e. e_created_at e \<ge> now - hours 24 \<and> e_status e = COMPLETED) (t_executions d)"
  "ov_failed_24h (fst (get_overview R now (d, s))) =
     count_where (\<lambda>e. e_created_at e \<ge> now - hours 24 \<and> e_status e \<in> set failed_statuses) (t_executions d)"
  by (simp_all add: get_overview_def overview_counts_eq Let_def split: prod.splits sum.splits)

lemma success_rate_bounds: "c \<le> n \<Longrightarrow> 0 \<le> success_rate c n \<and> success_rate c n \<le> 100"
  by (cases "n = 0") (auto simp: success_rate_def field_simps)

text \<open>C40: The overview and the metrics tell the same story. The \<open>WHERE\<close> clause of the overview loses no
  running execution, both report the same numbers of completed and failed executions of the last day,
  the hours of the trend are strictly ascending and add up to the totals, and the success rate is a
  percentage.
\<close>

theorem dashboard_counts:
  "let ov = fst (get_overview R now (d, s)); m = get_execution_metrics round2 now d in
     ov_running ov = count_where (\<lambda>e. e_status e = RUNNING) (t_executions d) \<and>
     ov_successful_24h ov = em_completed_24h m \<and> ov_failed_24h ov = em_failed_24h m \<and>
     em_completed_24h m + em_failed_24h m \<le> em_total_24h m \<and>
     sum_list (map tr_total (em_hourly_trend m)) = em_total_24h m \<and>
     sum_list (map tr_completed (em_hourly_trend m)) = em_completed_24h m \<and>
     sum_list (map tr_failed (em_hourly_trend m)) = em_failed_24h m \<and>
     sorted_wrt (<) (map tr_hour (em_hourly_trend m)) \<and>
     em_success_rate m \<in> insert 0 (round2 ` {0..100})"
proof -
  let ?rows = "filter (\<lambda>e. e_created_at e \<ge> now - hours 24) (t_executions d)"
  have "count_where (\<lambda>e. e_status e = COMPLETED) ?rows + count_where (\<lambda>e. e_status e \<in> set failed_statuses) ?rows
        \<le> length ?rows"
    by (rule count_where_disjoint) (simp add: failed_statuses_def)
  moreover have "success_rate (count_where (\<lambda>e. e_status e = COMPLETED) ?rows) (length ?rows) \<in> {0..100}"
    by (simp add: success_rate_bounds count_where_le)
  ultimately show ?thesis
    by (simp add: get_execution_metrics_def Let_def get_overview_counts hourly_trend_sums hourly_trend_sorted
        flip: count_where_filter)
qed

section \<open>Runtime statistics\<close>

text \<open>The interpolation of \<open>PERCENTILE_CONT\<close> at a position of the sorted values.\<close>

definition interpolate :: "int list \<Rightarrow> rat \<Rightarrow> rat" where
  "interpolate ys pos =
     of_int (ys ! nat \<lfloor>pos\<rfloor>) + (pos - of_nat (nat \<lfloor>pos\<rfloor>)) * of_int (ys ! nat \<lceil>pos\<rceil> - ys ! nat \<lfloor>pos\<rfloor>)"

lemma percentile_interpolate:
  "xs \<noteq> [] \<Longrightarrow> percentile_cont p xs = Some (interpolate (sort xs) (p * of_nat (length xs - 1)))"
  by (simp add: percentile_cont_def interpolate_def Let_def)

lemma convex_between:
  fixes a b t :: rat
  assumes "a \<le> b" "0 \<le> t" "t \<le> 1"
  shows "a \<le> a + t * (b - a)" "a + t * (b - a) \<le> b"
proof -
  show "a \<le> a + t * (b - a)" using assms by simp
  have "t * (b - a) \<le> 1 * (b - a)" using assms by (intro mult_right_mono) auto
  then show "a + t * (b - a) \<le> b" by simp
qed

lemma ceiling_cases: "\<lceil>x::rat\<rceil> = \<lfloor>x\<rfloor> \<and> x = of_int \<lfloor>x\<rfloor> \<or> \<lceil>x\<rceil> = \<lfloor>x\<rfloor> + 1 \<and> of_int \<lfloor>x\<rfloor> < x"
  using of_int_floor_le [of x] by (auto simp: ceiling_altdef less_le)

lemma position_bounds:
  fixes pos :: rat
  assumes "0 \<le> pos" "pos \<le> of_nat n"
  shows "nat \<lfloor>pos\<rfloor> \<le> nat \<lceil>pos\<rceil>" "nat \<lceil>pos\<rceil> \<le> n" "0 \<le> pos - of_nat (nat \<lfloor>pos\<rfloor>)" "pos - of_nat (nat \<lfloor>pos\<rfloor>) \<le> 1"
proof -
  show "nat \<lfloor>pos\<rfloor> \<le> nat \<lceil>pos\<rceil>" by (intro nat_mono) (use ceiling_cases [of pos] in auto)
  have "\<lceil>pos\<rceil> \<le> int n" using assms(2) by (intro ceiling_le) simp
  then show "nat \<lceil>pos\<rceil> \<le> n" by simp
  have "of_nat (nat \<lfloor>pos\<rfloor>) = (of_int \<lfloor>pos\<rfloor> :: rat)" using assms(1) by simp
  then show "0 \<le> pos - of_nat (nat \<lfloor>pos\<rfloor>)" "pos - of_nat (nat \<lfloor>pos\<rfloor>) \<le> 1" by linarith+
qed

lemma interpolate_between:
  assumes "sorted ys" "0 \<le> pos" "pos \<le> of_nat (length ys - 1)" "ys \<noteq> []"
  shows "of_int (ys ! nat \<lfloor>pos\<rfloor>) \<le> interpolate ys pos \<and> interpolate ys pos \<le> of_int (ys ! nat \<lceil>pos\<rceil>)"
proof -
  note b = position_bounds [OF assms(2,3)]
  have "ys ! nat \<lfloor>pos\<rfloor> \<le> ys ! nat \<lceil>pos\<rceil>"
    using b(1,2) assms(4) by (intro sorted_nth_mono [OF assms(1)]) (cases ys; simp)+
  then show ?thesis
    using convex_between [of "of_int (ys ! nat \<lfloor>pos\<rfloor>)" "of_int (ys ! nat \<lceil>pos\<rceil>)", OF _ b(3,4)]
    by (simp add: interpolate_def)
qed

lemma interpolate_mono:
  assumes ys: "sorted ys" "ys \<noteq> []" and p: "0 \<le> p" "p \<le> q" "q \<le> of_nat (length ys - 1)"
  shows "interpolate ys p \<le> interpolate ys q"
proof -
  have p': "p \<le> of_nat (length ys - 1)" and q: "0 \<le> q" using p by auto
  note bp = interpolate_between [OF ys(1) p(1) p' ys(2)] and bq = interpolate_between [OF ys(1) q p(3) ys(2)]
  show ?thesis
  proof (cases "\<lceil>p\<rceil> \<le> \<lfloor>q\<rfloor>")
    case True
    have "nat \<lfloor>q\<rfloor> < length ys" using position_bounds [OF q p(3)] ys(2) by (cases ys) auto
    then have "ys ! nat \<lceil>p\<rceil> \<le> ys ! nat \<lfloor>q\<rfloor>" using True by (intro sorted_nth_mono [OF ys(1)]) auto
    then show ?thesis using bp bq by (meson of_int_le_iff order_trans)
  next
    case False
    have "\<lfloor>p\<rfloor> \<le> \<lfloor>q\<rfloor>" using p(2) by (rule floor_mono)
    moreover have "\<lceil>p\<rceil> \<le> \<lceil>q\<rceil>" using p(2) by (rule ceiling_mono)
    ultimately have same: "\<lfloor>q\<rfloor> = \<lfloor>p\<rfloor>" "\<lceil>q\<rceil> = \<lceil>p\<rceil>"
      using False ceiling_cases [of p] ceiling_cases [of q] by auto
    have "ys ! nat \<lfloor>p\<rfloor> \<le> ys ! nat \<lceil>p\<rceil>"
      using position_bounds [OF p(1) p'] ys(2) by (intro sorted_nth_mono [OF ys(1)]) (cases ys; simp)+
    then have "(0::rat) \<le> of_int (ys ! nat \<lceil>p\<rceil> - ys ! nat \<lfloor>p\<rfloor>)" by simp
    then show ?thesis
      unfolding interpolate_def same using p(2) by (intro add_left_mono mult_right_mono) auto
  qed
qed

lemma sum_list_between:
  fixes xs :: "int list"
  assumes "\<forall>x\<in>set xs. a \<le> x \<and> x \<le> b"
  shows "a * int (length xs) \<le> sum_list xs \<and> sum_list xs \<le> b * int (length xs)"
  using assms by (induction xs) (auto simp: algebra_simps)

lemma average_between:
  assumes "xs \<noteq> []" "\<forall>x\<in>set xs. a \<le> x \<and> x \<le> b"
  shows "of_int a \<le> or_zero (average xs) \<and> or_zero (average xs) \<le> of_int b"
proof -
  have n: "(0::rat) < of_nat (length xs)" using assms(1) by simp
  have "(of_int (a * int (length xs)) :: rat) \<le> of_int (sum_list xs)"
    "(of_int (sum_list xs) :: rat) \<le> of_int (b * int (length xs))"
    using sum_list_between [OF assms(2)] by (simp_all only: of_int_le_iff)
  then show ?thesis
    using n assms(1) by (simp add: average_def or_zero_def pos_le_divide_eq pos_divide_le_eq)
qed

lemma percentile_between:
  assumes "xs \<noteq> []" "\<forall>x\<in>set xs. a \<le> x \<and> x \<le> b" "0 \<le> p" "p \<le> 1"
  shows "of_int a \<le> or_zero (percentile_cont p xs) \<and> or_zero (percentile_cont p xs) \<le> of_int b"
proof -
  let ?ys = "sort xs" and ?pos = "p * of_nat (length xs - 1)"
  have pos: "0 \<le> ?pos" "?pos \<le> of_nat (length ?ys - 1)"
    using assms(3,4) by (simp_all add: mult_left_le_one_le)
  have ne: "?ys \<noteq> []" using assms(1) by (metis length_0_conv length_sort)
  note b = position_bounds [OF pos]
  have "nat \<lfloor>?pos\<rfloor> < length ?ys" "nat \<lceil>?pos\<rceil> < length ?ys" using b(1,2) ne by (cases ?ys; simp)+
  then have "?ys ! nat \<lfloor>?pos\<rfloor> \<in> set xs" "?ys ! nat \<lceil>?pos\<rceil> \<in> set xs" by (metis nth_mem set_sort)+
  then have "(of_int a :: rat) \<le> of_int (?ys ! nat \<lfloor>?pos\<rfloor>)" "(of_int (?ys ! nat \<lceil>?pos\<rceil>) :: rat) \<le> of_int b"
    using assms(2) by auto
  then show ?thesis
    using interpolate_between [OF sorted_sort pos ne] percentile_interpolate [OF assms(1), of p]
    by (auto simp: or_zero_def)
qed

lemma percentile_mono:
  assumes "xs \<noteq> []" "0 \<le> p" "p \<le> q" "q \<le> 1"
  shows "or_zero (percentile_cont p xs) \<le> or_zero (percentile_cont q xs)"
proof -
  have ne: "sort xs \<noteq> []" using assms(1) by (metis length_0_conv length_sort)
  show ?thesis
    using interpolate_mono [OF sorted_sort ne, of "p * of_nat (length xs - 1)" "q * of_nat (length xs - 1)"] assms
    by (simp add: percentile_interpolate or_zero_def mult_right_mono mult_left_le_one_le)
qed

text \<open>When some execution of the last day has a duration and all durations lie between two values, the
  reported average and percentiles lie between those values as they are rounded, and the 95th percentile is
  at most the 99th. Rounding only has to be monotone.
\<close>

theorem runtime_statistics:
  assumes "durations = List.map_filter e_duration_ms (filter (\<lambda>e. e_created_at e \<ge> now - hours 24) (t_executions d))"
    and "durations \<noteq> []" "\<forall>x\<in>set durations. a \<le> x \<and> x \<le> b" "mono round2"
    and "m = get_execution_metrics round2 now d"
  shows "round2 (of_int a) \<le> em_avg_runtime_ms m \<and> em_avg_runtime_ms m \<le> round2 (of_int b) \<and>
         round2 (of_int a) \<le> em_p95_runtime_ms m \<and> em_p95_runtime_ms m \<le> em_p99_runtime_ms m \<and>
         em_p99_runtime_ms m \<le> round2 (of_int b)"
proof -
  have m: "em_avg_runtime_ms m = round2 (or_zero (average durations))"
    "em_p95_runtime_ms m = round2 (or_zero (percentile_cont (95 / 100) durations))"
    "em_p99_runtime_ms m = round2 (or_zero (percentile_cont (99 / 100) durations))"
    by (simp_all add: assms(1,5) get_execution_metrics_def Let_def)
  show ?thesis
    unfolding m
    using average_between [OF assms(2,3)] percentile_between [OF assms(2,3), of "95 / 100"]
      percentile_between [OF assms(2,3), of "99 / 100"] percentile_mono [OF assms(2), of "95 / 100" "99 / 100"]
    by (simp add: monoD [OF assms(4)])
qed

definition timed_db :: db where
  "timed_db = demo_db\<lparr>t_executions := map (\<lambda>t. (demo_execution 30 COMPLETED)\<lparr>e_created_at := 0, e_duration_ms := t\<rparr>)
     [Some 120, None, Some 40, Some 900]\<rparr>"

lemma timed_durations:
  "List.map_filter e_duration_ms (filter (\<lambda>e. e_created_at e \<ge> 0 - hours 24) (t_executions timed_db)) = [120, 40, 900]"
  by (simp add: timed_db_def hours_def map_filter_simps)

lemma runtime_statistics_witness:
  "40 \<le> em_avg_runtime_ms (get_execution_metrics (\<lambda>x. x) 0 timed_db) \<and>
   em_p95_runtime_ms (get_execution_metrics (\<lambda>x. x) 0 timed_db) \<le> em_p99_runtime_ms (get_execution_metrics (\<lambda>x. x) 0 timed_db) \<and>
   em_p99_runtime_ms (get_execution_metrics (\<lambda>x. x) 0 timed_db) \<le> 900"
  using runtime_statistics [OF timed_durations [symmetric], of 40 900 "\<lambda>x. x"] by (simp add: monoI)

section \<open>Health\<close>

text \<open>Components are ordered by how bad their state is.\<close>

primrec severity :: "health \<Rightarrow> nat" where
  "severity HEALTHY = 0"
| "severity DEGRADED = 1"
| "severity UNHEALTHY = 2"

lemma severity_inject: "severity x = severity y \<longleftrightarrow> x = y"
  by (cases x; cases y) simp_all

instantiation health :: linorder
begin

definition less_eq_health :: "health \<Rightarrow> health \<Rightarrow> bool" where
  "less_eq_health x y \<longleftrightarrow> severity x \<le> severity y"

definition less_health :: "health \<Rightarrow> health \<Rightarrow> bool" where
  "less_health x y \<longleftrightarrow> severity x < severity y"

instance
  by standard (auto simp: less_eq_health_def less_health_def severity_inject)

end

lemma health_bounds [simp]: "HEALTHY \<le> x" "x \<le> UNHEALTHY" "\<not> DEGRADED \<le> HEALTHY" "\<not> UNHEALTHY \<le> DEGRADED"
  by (cases x; simp add: less_eq_health_def)+

lemma overall_health_worst: "overall_health (v # vs) = Max (set (v # vs))"
proof (rule Max_eqI [symmetric])
  show "overall_health (v # vs) \<in> set (v # vs)"
    by (cases v) (auto simp: overall_health_def)
  show "x \<le> overall_health (v # vs)" if "x \<in> set (v # vs)" for x
    by (cases x; insert that) (auto simp: overall_health_def)
qed simp

text \<open>The database or Redis being away is fatal; the archive store, the cluster and an empty pool degrade.\<close>

lemma get_health_cases:
  assumes "r_keys R heartbeat_pattern (snd (r_ping R s)) = (Inr ks, s')"
  shows "fst (fst (get_health cfg M R False sel nodes (m, s))) =
     (if (\<exists>e. sel = Inl e) \<or> (\<exists>e. fst (r_ping R s) = Inl e) then UNHEALTHY
      else if ks = [] then DEGRADED else HEALTHY)"
  using assms
  by (cases sel; cases "r_ping R s"; cases "fst (r_ping R s)")
    (auto simp: get_health_def check_postgres_def check_redis_def check_runner_pool_def overall_health_def Let_def)

section \<open>Events\<close>

lemma ws_connect_distinct [intro]: "distinct cs \<Longrightarrow> distinct (ws_connect w cs)"
  by (simp add: ws_connect_def)

lemma ws_disconnect_set [simp]: "set (ws_disconnect w cs) = set cs - {w}"
  by (auto simp: ws_disconnect_def)

text \<open>Clients as mailboxes: those in \<open>gone\<close> refuse, the others append what they receive.\<close>

definition mailbox_send :: "nat list \<Rightarrow> nat \<Rightarrow> string \<Rightarrow> (nat \<Rightarrow> string list) \<Rightarrow> unit result \<times> (nat \<Rightarrow> string list)" where
  "mailbox_send gone w message boxes =
     (if w \<in> set gone then (Inl (OtherError ''WebSocketDisconnect''), boxes)
      else (Inr (), boxes(w := boxes w @ [message])))"

lemma send_all_mailboxes:
  "distinct cs \<Longrightarrow>
   send_all (mailbox_send gone) message cs boxes =
     (filter (\<lambda>w. w \<in> set gone) cs, \<lambda>w. if w \<in> set cs - set gone then boxes w @ [message] else boxes w)"
  by (induction cs arbitrary: boxes) (auto simp: mailbox_send_def fun_eq_iff)

text \<open>Every reachable client gets the event exactly once, and exactly the others are dropped.\<close>

lemma broadcast_delivers:
  assumes "distinct cs"
  shows "broadcast (mailbox_send gone) ty payload stamp (cs, boxes) =
     (filter (\<lambda>w. w \<notin> set gone) cs,
      \<lambda>w. if w \<in> set cs - set gone then boxes w @ [event_message ty payload stamp] else boxes w)"
  using assms by (auto simp: broadcast_def send_all_mailboxes fun_eq_iff intro!: filter_cong)

end
