(* ===== verification/Responses.thy ===== *)
theory Responses
  imports Auth Functions_Router Executions_Router Scheduler
begin

text \<open>
  The response models of \<open>api/schemas/schemas.py\<close> and \<open>api/routers/keys.py\<close>, and how a handler's result becomes an
  HTTP answer: the model is validated from the row, an exception becomes a status (\<open>api/main.py\<close>). \<open>fmt\<close>
  prints a datetime. Only columns that hold arbitrary JSON can fail the validation, since the model asks
  for a dictionary.
\<close>

section \<open>Values\<close>

definition uuid_json :: "uuid \<Rightarrow> json" where
  "uuid_json i = JStr (str_nat i)"

definition opt_to_json :: "('a \<Rightarrow> json) \<Rightarrow> 'a option \<Rightarrow> json" where
  "opt_to_json f x = (case x of None \<Rightarrow> JNull | Some v \<Rightarrow> f v)"

fun function_status_value :: "function_status \<Rightarrow> string" where
  "function_status_value F_ACTIVE = ''ACTIVE''"
| "function_status_value F_INACTIVE = ''INACTIVE''"
| "function_status_value F_DEPRECATED = ''DEPRECATED''"

fun schedule_status_value :: "schedule_status \<Rightarrow> string" where
  "schedule_status_value S_ACTIVE = ''ACTIVE''"
| "schedule_status_value S_PAUSED = ''PAUSED''"
| "schedule_status_value S_DELETED = ''DELETED''"

text \<open>A field of type \<open>dict[str, Any]\<close>, and one that may be absent.\<close>

definition dict_field :: "json \<Rightarrow> json result" where
  "dict_field j = (case j of JObj kvs \<Rightarrow> Inr j | _ \<Rightarrow> Inl (OtherError ''ResponseValidationError''))"

definition opt_dict_field :: "json option \<Rightarrow> json result" where
  "opt_dict_field x = (case x of None \<Rightarrow> Inr JNull | Some j \<Rightarrow> dict_field j)"

section \<open>Response models\<close>

definition user_response :: "(time \<Rightarrow> string) \<Rightarrow> user \<Rightarrow> json" where
  "user_response fmt u =
     JObj [(''id'', uuid_json (u_id u)), (''username'', JStr (u_username u)), (''email'', JStr (u_email u)),
           (''is_active'', JBool (u_is_active u)), (''is_superuser'', JBool (u_is_superuser u)),
           (''created_at'', JStr (fmt (u_created_at u)))]"

definition token_json :: "token_response \<Rightarrow> json" where
  "token_json t =
     JObj [(''access_token'', JStr (tr_access_token t)), (''refresh_token'', JStr (tr_refresh_token t)),
           (''token_type'', JStr ''bearer''), (''expires_in'', JInt (tr_expires_in t))]"

definition version_response :: "(time \<Rightarrow> string) \<Rightarrow> version \<Rightarrow> json" where
  "version_response fmt v =
     JObj [(''id'', uuid_json (v_id v)), (''function_id'', uuid_json (v_function_id v)),
           (''version_number'', JInt (int (v_version_number v))), (''entrypoint'', JStr (v_entrypoint v)),
           (''artifact_path'', JStr (v_artifact_path v)), (''artifact_hash'', JStr (v_artifact_hash v)),
           (''artifact_size'', JInt (int (v_artifact_size v))), (''environment'', JObj (v_environment v)),
           (''timeout'', JInt (v_timeout v)), (''memory_mb'', JInt (v_memory_mb v)),
           (''is_active'', JBool (v_is_active v)), (''change_notes'', opt_to_json JStr (v_change_notes v)),
           (''created_at'', JStr (fmt (v_created_at v)))]"

definition version_list_response :: "(time \<Rightarrow> string) \<Rightarrow> version list \<times> nat \<Rightarrow> json" where
  "version_list_response fmt p =
     JObj [(''items'', JList (map (version_response fmt) (fst p))), (''total'', JInt (int (snd p)))]"

text \<open>The selected versions are loaded with the function; \<open>updated\<close> is its \<open>updated_at\<close>.\<close>

definition loaded_version :: "db \<Rightarrow> uuid option \<Rightarrow> version option" where
  "loaded_version d i = (case i of None \<Rightarrow> None | Some j \<Rightarrow> find (\<lambda>v. v_id v = j) (t_versions d))"

definition function_response :: "(time \<Rightarrow> string) \<Rightarrow> db \<Rightarrow> (uuid \<Rightarrow> time) \<Rightarrow> func \<Rightarrow> json" where
  "function_response fmt d updated f =
     JObj [(''id'', uuid_json (f_id f)), (''name'', JStr (f_name f)),
           (''description'', opt_to_json JStr (f_description f)), (''runtime'', JStr (f_runtime f)),
           (''status'', JStr (function_status_value (f_status f))),
           (''active_version_id'', opt_to_json uuid_json (f_active_version_id f)),
           (''canary_version_id'', opt_to_json uuid_json (f_canary_version_id f)),
           (''canary_percent'', JInt (f_canary_percent f)),
           (''tags'', JObj (map (\<lambda>(k, v). (k, JStr v)) (f_tags f))), (''owner_id'', uuid_json (f_owner_id f)),
           (''created_at'', JStr (fmt (f_created_at f))), (''updated_at'', JStr (fmt (updated (f_id f)))),
           (''active_version'', opt_to_json (version_response fmt) (loaded_version d (f_active_version_id f))),
           (''canary_version'', opt_to_json (version_response fmt) (loaded_version d (f_canary_version_id f)))]"

definition function_list_response :: "(time \<Rightarrow> string) \<Rightarrow> db \<Rightarrow> (uuid \<Rightarrow> time) \<Rightarrow> func listing \<Rightarrow> json" where
  "function_list_response fmt d updated l =
     JObj [(''items'', JList (map (function_response fmt d updated) (li_items l))), (''total'', JInt (int (li_total l))),
           (''page'', JInt (int (li_page l))), (''page_size'', JInt (int (li_page_size l)))]"

definition activation_response :: "(time \<Rightarrow> string) \<Rightarrow> uuid \<Rightarrow> activation \<Rightarrow> json" where
  "activation_response fmt i a =
     JObj [(''id'', uuid_json i), (''function_id'', uuid_json (a_function_id a)),
           (''actor_id'', opt_to_json uuid_json (a_actor_id a)),
           (''previous_version_id'', opt_to_json uuid_json (a_previous_version_id a)),
           (''activated_version_id'', opt_to_json uuid_json (a_activated_version_id a)),
           (''canary_version_id'', opt_to_json uuid_json (a_canary_version_id a)),
           (''canary_percent'', JInt (a_canary_percent a)), (''action'', JStr (a_action a)),
           (''created_at'', JStr (fmt (a_created_at a)))]"

definition execution_response :: "(time \<Rightarrow> string) \<Rightarrow> execution \<Rightarrow> json result" where
  "execution_response fmt e =
     (case (dict_field (e_payload e), opt_dict_field (e_result e)) of
        (Inl x, _) \<Rightarrow> Inl x
      | (_, Inl x) \<Rightarrow> Inl x
      | (Inr payload, Inr res) \<Rightarrow>
          Inr (JObj [(''id'', uuid_json (e_id e)), (''function_id'', opt_to_json uuid_json (e_function_id e)),
            (''function_version_id'', opt_to_json uuid_json (e_function_version_id e)),
            (''execution_type'', JStr (e_execution_type e)), (''status'', JStr (status_value (e_status e))),
            (''payload'', payload), (''result'', res), (''error_message'', opt_to_json JStr (e_error_message e)),
            (''failure_kind'', opt_to_json JStr (e_failure_kind e)), (''worker_id'', opt_to_json JStr (e_worker_id e)),
            (''k8s_job_name'', opt_to_json JStr (e_k8s_job_name e)),
            (''queued_at'', opt_to_json (\<lambda>t. JStr (fmt t)) (e_queued_at e)),
            (''started_at'', opt_to_json (\<lambda>t. JStr (fmt t)) (e_started_at e)),
            (''completed_at'', opt_to_json (\<lambda>t. JStr (fmt t)) (e_completed_at e)),
            (''duration_ms'', opt_to_json JInt (e_duration_ms e)), (''attempt_number'', JInt (e_attempt_number e)),
            (''timeout'', JInt (e_timeout e)), (''created_at'', JStr (fmt (e_created_at e)))]))"

text \<open>One element that fails makes the whole list fail.\<close>

fun all_valid :: "('a \<Rightarrow> json result) \<Rightarrow> 'a list \<Rightarrow> json list result" where
  "all_valid f [] = Inr []"
| "all_valid f (x # xs) =
     (case f x of Inl e \<Rightarrow> Inl e
      | Inr j \<Rightarrow> (case all_valid f xs of Inl e \<Rightarrow> Inl e | Inr js \<Rightarrow> Inr (j # js)))"

definition execution_list_response :: "(time \<Rightarrow> string) \<Rightarrow> execution listing \<Rightarrow> json result" where
  "execution_list_response fmt l =
     (case all_valid (execution_response fmt) (li_items l) of
        Inl e \<Rightarrow> Inl e
      | Inr items \<Rightarrow>
          Inr (JObj [(''items'', JList items), (''total'', JInt (int (li_total l))), (''page'', JInt (int (li_page l))),
                     (''page_size'', JInt (int (li_page_size l)))]))"

definition log_entry_response :: "(time \<Rightarrow> string) \<Rightarrow> uuid \<times> exec_log \<Rightarrow> json" where
  "log_entry_response fmt p =
     (let (i, l) = p in
      JObj [(''id'', uuid_json i), (''timestamp'', JStr (fmt (l_timestamp l))), (''level'', JStr (l_level l)),
            (''stream'', JStr (l_stream l)), (''message'', JStr (l_message l)), (''sequence'', JInt (int (l_sequence l)))])"

definition log_response :: "(time \<Rightarrow> string) \<Rightarrow> uuid \<Rightarrow> uuid list \<Rightarrow> exec_log list \<times> nat \<Rightarrow> json" where
  "log_response fmt execution_id ids p =
     JObj [(''execution_id'', uuid_json execution_id), (''logs'', JList (map (log_entry_response fmt) (zip ids (fst p)))),
           (''total'', JInt (int (snd p)))]"

definition schedule_response :: "(time \<Rightarrow> string) \<Rightarrow> time \<Rightarrow> schedule \<Rightarrow> json result" where
  "schedule_response fmt updated s =
     (case dict_field (s_payload s) of
        Inl x \<Rightarrow> Inl x
      | Inr payload \<Rightarrow>
          Inr (JObj [(''id'', uuid_json (s_id s)), (''function_id'', uuid_json (s_function_id s)), (''name'', JStr (s_name s)),
            (''cron_expression'', JStr (s_cron_expression s)), (''payload'', payload),
            (''status'', JStr (schedule_status_value (s_status s))),
            (''next_run_at'', opt_to_json (\<lambda>t. JStr (fmt t)) (s_next_run_at s)),
            (''last_run_at'', opt_to_json (\<lambda>t. JStr (fmt t)) (s_last_run_at s)),
            (''created_at'', JStr (fmt (s_created_at s))), (''updated_at'', JStr (fmt updated))]))"

definition key_response :: "(time \<Rightarrow> string) \<Rightarrow> api_key \<Rightarrow> (string \<times> json) list" where
  "key_response fmt k =
     [(''id'', uuid_json (k_id k)), (''name'', JStr (k_name k)), (''key_prefix'', JStr (k_key_prefix k)),
      (''created_at'', JStr (fmt (k_created_at k))),
      (''last_used_at'', opt_to_json (\<lambda>t. JStr (fmt t)) (k_last_used_at k)),
      (''revoked_at'', opt_to_json (\<lambda>t. JStr (fmt t)) (k_revoked_at k))]"

definition key_create_response :: "(time \<Rightarrow> string) \<Rightarrow> api_key \<times> string \<Rightarrow> json" where
  "key_create_response fmt p = JObj (key_response fmt (fst p) @ [(''key'', JStr (snd p))])"

section \<open>Answers\<close>

text \<open>
  An \<open>HTTPException\<close> is answered with its status and detail, every other exception of a handler by the
  handler for unhandled exceptions. A body that fails its validation never reaches the handler.
\<close>

type_synonym http_answer = "nat \<times> json"

fun error_answer :: "exn \<Rightarrow> http_answer" where
  "error_answer (HTTPException code detail) = (code, JObj [(''detail'', JStr detail)])"
| "error_answer e = (500, JObj [(''error'', JStr ''Internal server error'')])"

definition unprocessable :: "exn \<Rightarrow> http_answer" where
  "unprocessable e = (422, JObj [(''detail'', JStr (exn_str e))])"

definition answer_with :: "nat \<Rightarrow> ('a \<Rightarrow> json result) \<Rightarrow> 'a result \<Rightarrow> http_answer" where
  "answer_with code model r =
     (case r of
        Inl e \<Rightarrow> error_answer e
      | Inr a \<Rightarrow> (case model a of Inl e \<Rightarrow> error_answer e | Inr j \<Rightarrow> (code, j)))"

text \<open>The endpoints of \<open>api/routers/executions.py\<close> and \<open>functions.py\<close> the client and the dashboard read.\<close>

definition get_execution_endpoint :: "(time \<Rightarrow> string) \<Rightarrow> uuid \<Rightarrow> uuid \<Rightarrow> db \<Rightarrow> http_answer" where
  "get_execution_endpoint fmt i user d = answer_with 200 (execution_response fmt) (get_execution i user d)"

definition list_functions_endpoint ::
  "(time \<Rightarrow> string) \<Rightarrow> (uuid \<Rightarrow> time) \<Rightarrow> int \<Rightarrow> int \<Rightarrow> uuid \<Rightarrow> db \<Rightarrow> http_answer" where
  "list_functions_endpoint fmt updated page page_size user d =
     (case pagination_params page page_size of
        Inl e \<Rightarrow> unprocessable e
      | Inr p \<Rightarrow> (200, function_list_response fmt d updated (list_functions user p None d)))"

definition create_function_endpoint ::
  "settings \<Rightarrow> (time \<Rightarrow> string) \<Rightarrow> (uuid \<Rightarrow> time) \<Rightarrow> uuid \<Rightarrow> function_create \<Rightarrow> uuid \<Rightarrow> time \<Rightarrow> db \<Rightarrow> http_answer \<times> db" where
  "create_function_endpoint cfg fmt updated user body fresh now d =
     (case validate_function_create body of
        Inl e \<Rightarrow> (unprocessable e, d)
      | Inr b \<Rightarrow>
          (case get_db (create_function cfg user b fresh now) d of
             (r, d') \<Rightarrow> (answer_with 201 (\<lambda>fn. Inr (function_response fmt d' updated fn)) r, d')))"

end
