(* ===== verification/Api_Server.thy ===== *)
theory Api_Server
  imports Responses Client
begin

text \<open>
  The API as the client meets it: requests are routed to the handlers of \<open>api/routers/functions.py\<close>, their
  bodies decoded as the request models ask, and the answers sent as text. A query parameter that no
  handler declares is ignored, so the pagination of a request that does not name \<open>page_size\<close> is the
  default one. The network state is the database; \<open>user\<close> is the owner of the token.
\<close>

definition default_page :: int where
  "default_page = 1"

definition default_page_size :: int where
  "default_page_size = 20"

definition reply_of :: "http_answer \<Rightarrow> http_reply" where
  "reply_of a = (if fst a < 400 then Reply (dumps (snd a)) else HTTP_error (fst a) (dumps (snd a)))"

text \<open>The fields of \<open>FunctionCreateRequest\<close> in a JSON body.\<close>

fun str_items :: "(string \<times> json) list \<Rightarrow> (string \<times> string) list result" where
  "str_items [] = Inr []"
| "str_items ((k, JStr v) # kvs) = (case str_items kvs of Inl e \<Rightarrow> Inl e | Inr ts \<Rightarrow> Inr ((k, v) # ts))"
| "str_items ((k, v) # kvs) = Inl (ValidationError ''tags'')"

definition function_body :: "json \<Rightarrow> function_create result" where
  "function_body j =
     (case j of
        JObj kvs \<Rightarrow>
          (case (map_of kvs ''name'', map_of kvs ''description'',
                 case map_of kvs ''tags'' of None \<Rightarrow> Inr [] | Some (JObj ts) \<Rightarrow> str_items ts
                 | Some _ \<Rightarrow> Inl (ValidationError ''tags'')) of
             (_, _, Inl e) \<Rightarrow> Inl e
           | (Some (JStr n), None, Inr ts) \<Rightarrow> Inr \<lparr>fc_name = n, fc_description = None, fc_tags = ts\<rparr>
           | (Some (JStr n), Some JNull, Inr ts) \<Rightarrow> Inr \<lparr>fc_name = n, fc_description = None, fc_tags = ts\<rparr>
           | (Some (JStr n), Some (JStr t), Inr ts) \<Rightarrow> Inr \<lparr>fc_name = n, fc_description = Some t, fc_tags = ts\<rparr>
           | _ \<Rightarrow> Inl (ValidationError ''body''))
      | _ \<Rightarrow> Inl (ValidationError ''body''))"

record api =
  api_settings :: settings
  api_fmt :: "time \<Rightarrow> string"
  api_updated :: "uuid \<Rightarrow> time"
  api_user :: uuid
  api_base :: string
  api_fresh :: uuid
  api_now :: time

definition api_server :: "api \<Rightarrow> http_request \<Rightarrow> db \<Rightarrow> http_reply \<times> db" where
  "api_server A r d =
     (if hr_method r = ''GET'' \<and> hr_url r = api_base A @ ''/functions?size=100''
      then (reply_of (list_functions_endpoint (api_fmt A) (api_updated A) default_page default_page_size (api_user A) d), d)
      else if hr_method r = ''POST'' \<and> hr_url r = api_base A @ ''/functions''
      then (case (case hr_body r of None \<Rightarrow> None | Some b \<Rightarrow> loads b) of
              None \<Rightarrow> (reply_of (unprocessable JSONDecodeError), d)
            | Some j \<Rightarrow>
                (case function_body j of
                   Inl e \<Rightarrow> (reply_of (unprocessable e), d)
                 | Inr body \<Rightarrow>
                     (case create_function_endpoint (api_settings A) (api_fmt A) (api_updated A) (api_user A) body
                             (api_fresh A) (api_now A) d of
                        (a, d') \<Rightarrow> (reply_of a, d'))))
      else (HTTP_error 404 (dumps (JObj [(''detail'', JStr ''Not Found'')])), d))"

section \<open>What is on a page\<close>

lemma sorted_before:
  fixes k :: "'a \<Rightarrow> int"
  assumes "sorted (map k xs)" "i < length xs"
  shows "count_where (\<lambda>y. k y < k (xs ! i)) xs \<le> i"
proof -
  have "\<not> k y < k (xs ! i)" if "y \<in> set (drop i xs)" for y
  proof -
    obtain j where "j < length (drop i xs)" "drop i xs ! j = y" using \<open>y \<in> set (drop i xs)\<close> by (meson in_set_conv_nth)
    then have "i + j < length xs" "y = xs ! (i + j)" using assms(2) by auto
    then show ?thesis using sorted_nth_mono [OF assms(1), of i "i + j"] by simp
  qed
  then have "count_where (\<lambda>y. k y < k (xs ! i)) (drop i xs) = 0" by (auto simp: count_where_0)
  moreover have "count_where p xs = count_where p (take i xs) + count_where p (drop i xs)" for p
    by (metis append_take_drop_id count_where_append)
  moreover have "count_where p (take i xs) \<le> i" for p
    by (metis count_where_def length_filter_le length_take min.bounded_iff order_trans)
  ultimately show ?thesis by simp
qed

lemma count_where_sort [simp]: "count_where p (sort_key k xs) = count_where p xs"
  by (simp add: count_where_def filter_sort length_sort)

text \<open>A row with at least a page of newer rows is not on the first page.\<close>

lemma not_on_first_page:
  assumes "limit \<le> count_where (\<lambda>y. k x < k y) xs"
  shows "x \<notin> set (page_of 0 limit (order_by_desc k xs))"
proof
  let ?ys = "order_by_desc k xs"
  assume "x \<in> set (page_of 0 limit ?ys)"
  then obtain i where i: "i < limit" "i < length ?ys" "x = ?ys ! i"
    by (auto simp: page_of_def in_set_conv_nth)
  have "count_where (\<lambda>y. - k y < - k (?ys ! i)) ?ys \<le> i"
    by (rule sorted_before) (use i in \<open>simp_all add: order_by_desc_def\<close>)
  then have "count_where (\<lambda>y. k x < k y) xs \<le> i" using i(3) by (simp add: order_by_desc_def)
  then show False using assms i(1) by simp
qed

end
