(* ===== verification/Client_Properties.thy ===== *)
theory Client_Properties
  imports Api_Server Demo Sandbox_Facts
begin

text \<open>
  What the client sends: the archive of a directory is exactly its files that no ignore pattern matches,
  a deployment leaves no temporary file, and how it meets the API's pagination.
\<close>

section \<open>Requests\<close>

lemma http_url_append:
  assumes "http_url s"
  shows "http_url (s @ t)"
proof -
  have "url_scheme s \<noteq> []" using assms by (auto simp: http_url_def)
  then have colon: "CHR '':'' \<in> set (clean_url s)" unfolding url_scheme_def Let_def by presburger
  have "clean_url s \<noteq> []" using colon by auto
  then obtain x where "x \<in> set s" "\<not> char_code x \<le> 32"
    unfolding clean_url_def by (metis dropWhile_eq_Nil_conv filter.simps(1))
  then have clean: "clean_url (s @ t) = clean_url s @ filter (\<lambda>c. char_code c \<notin> {9, 10, 13}) t"
    using dropWhile_append1 [of x s "\<lambda>c. char_code c \<le> 32"] by (simp add: clean_url_def)
  moreover have "scheme_part (clean_url s @ u) = scheme_part (clean_url s)" for u
    unfolding scheme_part_def using takeWhile_append1 [OF colon] by simp
  ultimately have "url_scheme (s @ t) = url_scheme s" using colon by (simp add: url_scheme_def Let_def)
  then show ?thesis using assms by (simp add: http_url_def)
qed

definition read_reply :: "http_reply \<Rightarrow> json result" where
  "read_reply r =
     (case r of
        Reply raw \<Rightarrow> (if raw = [] then Inr JNull else case loads raw of None \<Rightarrow> Inl JSONDecodeError | Some j \<Rightarrow> Inr j)
      | HTTP_error code raw \<Rightarrow> Inl (system_exit (''HTTP '' @ str_nat code @ '': '' @ raw))
      | Url_error e \<Rightarrow> Inl e)"

definition token_headers :: "'n outside \<Rightarrow> json \<Rightarrow> (string \<times> string) list" where
  "token_headers E token = dict_update [(''Authorization'', ''Bearer '' @ py_str (os_repr E) token)] []"

text \<open>A request with a token, once its address and body are fine, is sent once and its answer read.\<close>

lemma http_run:
  assumes "map_of (load_config E c) ''api_url'' = Some (JStr base)" and "http_url (rstrip_slash base)"
    and "truthy token" and "http_body E data files (cl_temp c) = Inr (body, extra)"
    and "os_urlopen E \<lparr>hr_method = meth, hr_url = rstrip_slash base @ path,
           hr_headers = dict_update extra (token_headers E token), hr_body = body\<rparr> (cl_net c) = (reply, n)"
  shows "http E meth path token JNull data [] files c = (read_reply reply, c\<lparr>cl_net := n\<rparr>)"
  using assms http_url_append [OF assms(2), of path]
  by (auto simp: http_def token_headers_def read_reply_def Let_def split: http_reply.splits)

lemma load_config_net [simp]: "load_config E (c\<lparr>cl_net := n\<rparr>) = load_config E c"
  by (simp add: load_config_def)

section \<open>Answers of the API\<close>

text \<open>The dictionaries in the rows have no repeated keys.\<close>

definition dicts_ok :: "db \<Rightarrow> bool" where
  "dicts_ok d \<longleftrightarrow> (\<forall>f \<in> set (t_functions d). distinct (map fst (f_tags f))) \<and>
     (\<forall>v \<in> set (t_versions d). wf_json (JObj (v_environment v)))"

lemma wf_opt: "(\<And>a. x = Some a \<Longrightarrow> wf_json (f a)) \<Longrightarrow> wf_json (opt_to_json f x)"
  by (cases x) (simp_all add: opt_to_json_def)

lemma wf_version_response: "wf_json (JObj (v_environment v)) \<Longrightarrow> wf_json (version_response fmt v)"
  by (simp add: version_response_def uuid_json_def) (simp add: wf_opt)

lemma loaded_version_in: "loaded_version d i = Some v \<Longrightarrow> v \<in> set (t_versions d)"
  by (auto simp: loaded_version_def find_Some_iff split: option.splits)

lemma wf_function_response:
  assumes "dicts_ok d" and "f \<in> set (t_functions d)"
  shows "wf_json (function_response fmt d updated f)"
proof -
  have v: "wf_json (opt_to_json (version_response fmt) (loaded_version d i))" for i
    using assms(1) loaded_version_in by (intro wf_opt wf_version_response) (auto simp: dicts_ok_def)
  have t: "wf_json (JObj (map (\<lambda>(k, v). (k, JStr v)) (f_tags f)))"
    using assms by (auto simp: dicts_ok_def list_all_iff o_def case_prod_beta)
  have o: "wf_json (opt_to_json JStr x)" "wf_json (opt_to_json uuid_json y)" for x y
    by (rule wf_opt, simp add: uuid_json_def)+
  show ?thesis using v t o by (simp add: function_response_def uuid_json_def)
qed

lemma wf_function_list:
  assumes "dicts_ok d"
  shows "wf_json (function_list_response fmt d updated (list_functions user p st d))"
proof -
  have "set (li_items (list_functions user p st d)) \<subseteq> set (t_functions d)"
    by (auto simp: list_functions_def Let_def split: prod.splits dest!: set_page_of [THEN subsetD])
  then have "list_all wf_json (map (function_response fmt d updated) (li_items (list_functions user p st d)))"
    using wf_function_response [OF assms] by (auto simp: list_all_iff)
  then show ?thesis by (simp add: function_list_response_def)
qed

lemma first_named_none:
  "(\<And>f. f \<in> set fs \<Longrightarrow> f_name f \<noteq> name) \<Longrightarrow> first_named name (map (function_response fmt d updated) fs) = Inr None"
  by (induction fs) (simp_all add: function_response_def)

lemma utf8_plain: "\<forall>c \<in> set s. plain_char c \<Longrightarrow> utf8 s = s"
  by (induction s) (auto simp: utf8_def plain_char_def)

lemma dumps_ne: "wf_json j \<Longrightarrow> dumps j \<noteq> []"
  using dumps_head by blast

section \<open>The pagination of the API\<close>

lemma list_functions_reply:
  assumes "dicts_ok d"
  shows "read_reply (fst (api_server A \<lparr>hr_method = ''GET'', hr_url = api_base A @ ''/functions?size=100'', hr_headers = hs, hr_body = b\<rparr> d)) =
     Inr (function_list_response (api_fmt A) d (api_updated A) (list_functions (api_user A) (0, 20) None d))"
proof -
  let ?j = "function_list_response (api_fmt A) d (api_updated A) (list_functions (api_user A) (0, 20) None d)"
  have "wf_json ?j" by (rule wf_function_list [OF assms])
  then show ?thesis
    using loads_dumps [of ?j] dumps_ne [of ?j]
    by (simp add: api_server_def list_functions_endpoint_def default_page_def default_page_size_def
        pagination_params_def between_def reply_of_def read_reply_def)
qed

lemma find_function_missing:
  assumes "os_urlopen E = api_server A" and "map_of (load_config E c) ''api_url'' = Some (JStr base)"
    and "http_url (rstrip_slash base)" and "api_base A = rstrip_slash base" and "truthy token" and "dicts_ok (cl_net c)"
    and "\<And>f. f \<in> set (li_items (list_functions (api_user A) (0, 20) None (cl_net c))) \<Longrightarrow> f_name f \<noteq> name"
  shows "find_function E token name c = (Inr None, c)"
proof -
  let ?j = "function_list_response (api_fmt A) (cl_net c) (api_updated A) (list_functions (api_user A) (0, 20) None (cl_net c))"
  obtain r n where run: "api_server A \<lparr>hr_method = ''GET'', hr_url = api_base A @ ''/functions?size=100'',
      hr_headers = dict_update [] (token_headers E token), hr_body = None\<rparr> (cl_net c) = (r, n)" by fastforce
  then have n: "n = cl_net c" by (simp add: api_server_def)
  have "read_reply r = Inr ?j" using list_functions_reply [OF assms(6)] run by (metis fst_conv)
  then have "http E ''GET'' ''/functions?size=100'' token JNull No_data [] [] c = (Inr ?j, c)"
    using http_run [OF assms(2,3,5), of No_data "[]" None "[]" "''GET''" "''/functions?size=100''" r n] run n
    by (simp add: http_body_def assms(1,4))
  then show ?thesis
    using first_named_none [OF assms(7)] by (simp add: find_function_def function_list_response_def)
qed

lemma str_409: "str_nat 409 = ''409''"
  by code_simp

text \<open>The request that creates a function, as the API reads it.\<close>

lemma create_request_body:
  "function_body (JObj [(''name'', JStr name), (''description'', JNull), (''tags'', JObj [])]) =
   Inr \<lparr>fc_name = name, fc_description = None, fc_tags = []\<rparr>"
  by (simp add: function_body_def)

lemma create_function_taken:
  assumes "keys_ok d" and "fn \<in> set (t_functions d)" and "f_owner_id fn = user" and "f_name fn = fc_name body"
    and "count_where (\<lambda>f. f_owner_id f = user \<and> f_status f \<noteq> F_DEPRECATED) (t_functions d) < max_functions_per_user cfg"
  shows "create_function cfg user body fresh now d =
    (Inl (HTTPException 409 (''Function '' @ quoted (fc_name body) @ '' already exists'')), d)"
proof -
  have "distinct (map (\<lambda>f. (f_owner_id f, f_name f)) (t_functions d))" using assms(1) by (simp add: keys_ok_def)
  from distinct_key_filter [OF this assms(2), of "\<lambda>_. True"]
  have "filter (\<lambda>f. f_owner_id f = user \<and> f_name f = fc_name body) (t_functions d) = [fn]" using assms(3,4) by simp
  then show ?thesis using assms(5) by (simp add: create_function_def Let_def)
qed


text \<open>A user with one old function and twenty newer ones.\<close>

definition newer_fn :: "nat \<Rightarrow> func" where
  "newer_fn n = demo_fn\<lparr>f_id := 100 + n, f_name := replicate (Suc n) (CHR ''f''), f_active_version_id := None,
     f_canary_version_id := None, f_canary_percent := 0, f_created_at := 1\<rparr>"

definition busy_db :: db where
  "busy_db = demo_db\<lparr>t_functions := demo_fn # map newer_fn [0..<20]\<rparr>"

lemma newer_fn_simps [simp]:
  "f_id (newer_fn n) = 100 + n" "f_owner_id (newer_fn n) = 1" "f_name (newer_fn n) = replicate (Suc n) (CHR ''f'')"
  "f_created_at (newer_fn n) = 1" "f_tags (newer_fn n) = []"
  by (simp_all add: newer_fn_def demo_fn_def)

lemma busy_keys: "keys_ok busy_db"
proof -
  have "distinct (map (\<lambda>f. (f_owner_id f, f_name f)) (map newer_fn [0..<20]))"
    by (auto simp: distinct_map inj_on_def)
  moreover have "distinct (map f_id (map newer_fn [0..<20]))" by (auto simp: distinct_map inj_on_def)
  moreover have "f_name demo_fn \<noteq> f_name (newer_fn n)" "f_id demo_fn \<noteq> f_id (newer_fn n)" for n by simp_all
  ultimately have "distinct (map f_id (t_functions busy_db))"
    "distinct (map (\<lambda>f. (f_owner_id f, f_name f)) (t_functions busy_db))"
    by (auto simp: busy_db_def simp del: newer_fn_simps demo_fn_simps)
  then show ?thesis using demo_keys_ok by (simp add: keys_ok_def busy_db_def)
qed

definition busy_api :: api where
  "busy_api = \<lparr>api_settings = default_settings, api_fmt = (\<lambda>t. []), api_updated = (\<lambda>i. 0), api_user = 1,
     api_base = ''http://h'', api_fresh = 500, api_now = 2\<rparr>"

definition busy_outside :: "db outside" where
  "busy_outside = \<lparr>os_default_api = ''http://h'', os_repr = dumps, os_urlopen = api_server busy_api,
     os_zip = (\<lambda>fs. []), os_temp_name = ''/tmp/z'', os_boundary = ''b''\<rparr>"

definition busy_client :: "db client" where
  "busy_client = \<lparr>cl_config = Some [(''api_url'', JStr ''http://h/''), (''token'', JStr ''t'')], cl_temp = [],
     cl_printed = [], cl_net = busy_db\<rparr>"

definition resize_args :: deploy_args where
  "resize_args = \<lparr>da_path = ''/src'', da_function = ''resize'', da_entrypoint = ''handler.handler'', da_timeout = 300,
     da_memory = 128\<rparr>"

lemma busy_facts:
  "count_where (\<lambda>g. f_owner_id g = 1 \<and> 0 < f_created_at g) (t_functions busy_db) = 20"
  "dicts_ok busy_db" "demo_fn \<in> set (t_functions busy_db)" "f_created_at demo_fn = 0"
  "count_where (\<lambda>f. f_owner_id f = 1 \<and> f_status f \<noteq> F_DEPRECATED) (t_functions busy_db) = 21"
  by (simp_all add: busy_db_def dicts_ok_def demo_fn_def count_where_def newer_fn_def demo_version_def upt_conv_Cons)

lemma busy_name: "validate_function_create \<lparr>fc_name = ''resize'', fc_description = None, fc_tags = []\<rparr> =
    Inr \<lparr>fc_name = ''resize'', fc_description = None, fc_tags = []\<rparr>"
  by code_simp

lemma busy_url: "rstrip_slash ''http://h/'' = ''http://h''" "http_url ''http://h''"
  by code_simp+


section \<open>Packing\<close>

lemma packed_files_filter:
  "packed_files patterns t = map (\<lambda>(rel, x). (rel, the x)) (filter (\<lambda>(rel, x). x \<noteq> None \<and> \<not> should_ignore rel patterns) t)"
  by (induction patterns t rule: packed_files.induct) simp_all

lemma should_ignore_iff:
  "should_ignore rel patterns \<longleftrightarrow>
   (\<exists>pat \<in> set patterns. matches (glob_tokens pat) rel \<or> matches (glob_tokens pat) (path_name rel))"
  by (simp add: should_ignore_def list_ex_iff fnmatch_correct)

lemma packed_files_iff:
  "(rel, contents) \<in> set (packed_files patterns t) \<longleftrightarrow> (rel, Some contents) \<in> set t \<and> \<not> should_ignore rel patterns"
  by (force simp: packed_files_filter)

lemma unlink_dict_set:
  "p \<notin> fst ` set kvs \<Longrightarrow> filter (\<lambda>(q, b). q \<noteq> p) (dict_set p x (dict_set p y kvs)) = kvs"
  by (induction kvs) (auto simp: filter_id_conv)

lemma map_of_set_twice: "map_of (dict_set p x kvs) p = Some x"
  by (simp add: map_of_dict_set)

lemma zip_folder_run:
  assumes "ignore_patterns t = Inr patterns" and "os_temp_name E \<notin> fst ` set (cl_temp c)"
  shows "\<exists>c'. zip_folder E t c = (Inr (os_temp_name E), c') \<and> cl_net c' = cl_net c \<and> cl_config c' = cl_config c \<and>
      map_of (cl_temp c') (os_temp_name E) = Some (os_zip E (packed_files patterns t)) \<and>
      filter (\<lambda>(q, b). q \<noteq> os_temp_name E) (cl_temp c') = cl_temp c"
  using assms by (simp add: zip_folder_def Let_def map_of_dict_set unlink_dict_set)

lemma read_one_file: "map_of temp p = Some bytes \<Longrightarrow> read_files temp [(n, p)] = Inr [(n, path_name p, bytes)]"
  by simp

lemma cmd_deploy_found:
  assumes "config_get ''token'' (load_config E c) = token" and "truthy token"
    and "find_function E token (da_function a) c = (Inr (Some fn), c1)"
    and "zip_folder E t c1 = (Inr z, c2)" and "json_item ''id'' fn = Inr i"
    and "http E ''POST'' (''/functions/'' @ py_str (os_repr E) i @ ''/versions'') token JNull
      (Dict_data [(''entrypoint'', JStr (da_entrypoint a)), (''timeout'', JInt (da_timeout a)), (''memory_mb'', JInt (da_memory a))])
      [] [(''archive'', z)] c2 = (q, c3)"
  shows "cl_temp (snd (cmd_deploy E (Some t) a c)) = filter (\<lambda>(p, b). p \<noteq> z) (cl_temp c3) \<and>
     cl_net (snd (cmd_deploy E (Some t) a c)) = cl_net c3"
  unfolding cmd_deploy_def Let_def using assms by (cases q) (simp_all add: unlink_def print_line_def)

text \<open>C21: Deploying to a function the API lists sends two requests, the search and one upload to that
  function. The upload carries the token, the options and an archive of exactly the files under the
  directory that no pattern of the ignore file matches, by path or by name; whatever the API answers,
  no temporary file is left.\<close>

theorem deploy_uploads_directory:
  fixes E :: "http_request list outside" and c :: "http_request list client"
  assumes "os_urlopen E = (\<lambda>r log. (answer r, log @ [r]))"
    and "map_of (load_config E c) ''api_url'' = Some (JStr base)" and "http_url (rstrip_slash base)"
    and "config_get ''token'' (load_config E c) = JStr tok" and "tok \<noteq> []"
    and "\<And>r. hr_url r = rstrip_slash base @ ''/functions?size=100'' \<Longrightarrow> answer r = Reply raw" and "raw \<noteq> []"
    and "loads raw = Some (JObj page)" and "map_of page ''items'' = Some (JList fs)"
    and "first_named (da_function a) fs = Inr (Some (JObj fn))" and "map_of fn ''id'' = Some (JStr i)"
    and "ignore_patterns t = Inr patterns" and "os_temp_name E \<notin> fst ` set (cl_temp c)"
    and "cmd_deploy E (Some t) a c = (r, c')"
  shows "cl_temp c' = cl_temp c \<and>
    (\<exists>get post files. cl_net c' = cl_net c @ [get, post] \<and> hr_method get = ''GET'' \<and>
       hr_method post = ''POST'' \<and> hr_url post = rstrip_slash base @ ''/functions/'' @ i @ ''/versions'' \<and>
       map_of (hr_headers post) ''Authorization'' = Some (''Bearer '' @ tok) \<and>
       hr_body post = Some (multipart_body (''----sopm'' @ os_boundary E)
         [(''entrypoint'', da_entrypoint a), (''timeout'', str_int (da_timeout a)), (''memory_mb'', str_int (da_memory a))]
         [(''archive'', path_name (os_temp_name E), os_zip E files)]) \<and>
       (\<forall>rel contents. (rel, contents) \<in> set files \<longleftrightarrow> (rel, Some contents) \<in> set t \<and>
          \<not> (\<exists>pat \<in> set patterns. matches (glob_tokens pat) rel \<or> matches (glob_tokens pat) (path_name rel))))"
proof -
  let ?tok = "JStr tok" and ?temp = "os_temp_name E"
  let ?get = "\<lparr>hr_method = ''GET'', hr_url = rstrip_slash base @ ''/functions?size=100'',
      hr_headers = dict_update [] (token_headers E ?tok), hr_body = None\<rparr>"
  let ?c1 = "c\<lparr>cl_net := cl_net c @ [?get]\<rparr>"
  have none: "http_body E No_data [] (cl_temp c) = Inr (None, [])" by (simp add: http_body_def)
  have tr: "truthy ?tok" using assms(5) by simp
  have "os_urlopen E ?get (cl_net c) = (Reply raw, cl_net c @ [?get])" by (simp add: assms(1) assms(6))
  from http_run [OF assms(2,3) tr none this]
  have get: "http E ''GET'' ''/functions?size=100'' ?tok JNull No_data [] [] c = (Inr (JObj page), ?c1)"
    using assms(7,8) by (simp add: read_reply_def)
  then have find: "find_function E ?tok (da_function a) c = (Inr (Some (JObj fn)), ?c1)"
    using assms(9,10) by (simp add: find_function_def)
  obtain c2 where zip: "zip_folder E t ?c1 = (Inr ?temp, c2)" "cl_net c2 = cl_net ?c1" "cl_config c2 = cl_config ?c1"
      "map_of (cl_temp c2) ?temp = Some (os_zip E (packed_files patterns t))"
      "filter (\<lambda>(q, b). q \<noteq> ?temp) (cl_temp c2) = cl_temp c"
    using zip_folder_run [OF assms(12), of E ?c1] assms(13) by auto
  let ?parts = "[(''entrypoint'', da_entrypoint a), (''timeout'', str_int (da_timeout a)), (''memory_mb'', str_int (da_memory a))]"
  let ?body = "multipart_body (''----sopm'' @ os_boundary E) ?parts
      [(''archive'', path_name ?temp, os_zip E (packed_files patterns t))]"
  let ?type = "[(''Content-Type'', ''multipart/form-data; boundary='' @ ''----sopm'' @ os_boundary E)]"
  let ?data = "Dict_data [(''entrypoint'', JStr (da_entrypoint a)), (''timeout'', JInt (da_timeout a)), (''memory_mb'', JInt (da_memory a))]"
  let ?post = "\<lparr>hr_method = ''POST'', hr_url = rstrip_slash base @ (''/functions/'' @ i @ ''/versions''),
      hr_headers = dict_update ?type (token_headers E ?tok), hr_body = Some ?body\<rparr>"
  have body: "http_body E ?data [(''archive'', ?temp)] (cl_temp c2) = Inr (Some ?body, ?type)"
    using read_one_file [OF zip(4), of "''archive''"] by (simp add: http_body_def Let_def)
  have cfg: "map_of (load_config E c2) ''api_url'' = Some (JStr base)" using assms(2) zip(3) by (simp add: load_config_def)
  have "os_urlopen E ?post (cl_net c2) = (answer ?post, cl_net c2 @ [?post])" by (simp add: assms(1))
  note post = http_run [OF cfg assms(3) tr body this]
  have item: "json_item ''id'' (JObj fn) = Inr (JStr i)" by (simp add: json_item_def assms(11))
  have "cl_temp c' = cl_temp c \<and> cl_net c' = cl_net c @ [?get, ?post]"
    using cmd_deploy_found [OF assms(4) tr find zip(1) item, unfolded py_str.simps, OF post]
      assms(14) zip(2,5) by simp
  moreover have "map_of (hr_headers ?post) ''Authorization'' = Some (''Bearer '' @ tok)"
    by (simp add: dict_update_def token_headers_def)
  moreover have "(rel, contents) \<in> set (packed_files patterns t) \<longleftrightarrow> (rel, Some contents) \<in> set t \<and>
      \<not> (\<exists>pat \<in> set patterns. matches (glob_tokens pat) rel \<or> matches (glob_tokens pat) (path_name rel))" for rel contents
    by (simp add: packed_files_iff should_ignore_iff)
  ultimately show ?thesis
    by (intro conjI exI [of _ ?get] exI [of _ ?post] exI [of _ "packed_files patterns t"]) simp_all
qed

text \<open>An API that lists one function, and a directory with an ignore file.\<close>

definition listing_raw :: string where
  "listing_raw = dumps (JObj [(''items'', JList [JObj [(''id'', JStr ''10''), (''name'', JStr ''resize'')]])])"

definition logging_outside :: "http_request list outside" where
  "logging_outside = \<lparr>os_default_api = ''http://h'', os_repr = dumps,
     os_urlopen = (\<lambda>r log. (if hr_url r = ''http://h/functions?size=100'' then Reply listing_raw else HTTP_error 413 [], log @ [r])),
     os_zip = (\<lambda>fs. concat (map fst fs)), os_temp_name = ''/tmp/z'', os_boundary = ''b''\<rparr>"

definition logging_client :: "http_request list client" where
  "logging_client = \<lparr>cl_config = Some [(''api_url'', JStr ''http://h/''), (''token'', JStr ''t'')], cl_temp = [],
     cl_printed = [], cl_net = []\<rparr>"

definition small_tree :: tree where
  "small_tree = [(''.sopmignore'', Some ''*.log''), (''main.py'', Some ''x''), (''old'', None), (''old/a.log'', Some ''y'')]"

lemma small_patterns: "ignore_patterns small_tree = Inr [''*.log'']"
  by code_simp

lemma listing_loads:
  "loads listing_raw = Some (JObj [(''items'', JList [JObj [(''id'', JStr ''10''), (''name'', JStr ''resize'')]])])"
  unfolding listing_raw_def by (rule loads_dumps) simp

lemma listing_ne: "listing_raw \<noteq> []"
  by (simp add: listing_raw_def)

theorem deploy_uploads_directory_witness:
  "length (cl_net (snd (cmd_deploy logging_outside (Some small_tree) resize_args logging_client))) = 2 \<and>
   cl_temp (snd (cmd_deploy logging_outside (Some small_tree) resize_args logging_client)) = []"
proof -
  obtain r c' where run: "cmd_deploy logging_outside (Some small_tree) resize_args logging_client = (r, c')" by fastforce
  have "cl_temp c' = cl_temp logging_client \<and> (\<exists>get post. cl_net c' = cl_net logging_client @ [get, post])"
    using deploy_uploads_directory [of logging_outside
        "\<lambda>r. if hr_url r = ''http://h/functions?size=100'' then Reply listing_raw else HTTP_error 413 []"
        logging_client "''http://h/''" "''t''" listing_raw _
        "[JObj [(''id'', JStr ''10''), (''name'', JStr ''resize'')]]" resize_args "[(''id'', JStr ''10''), (''name'', JStr ''resize'')]"
        "''10''" small_tree,
        OF _ _ _ _ _ _ listing_ne listing_loads _ _ _ small_patterns _ run]
      busy_url
    by (auto simp: load_config_def config_get_def logging_outside_def logging_client_def resize_args_def)
  moreover have "cl_temp logging_client = []" "cl_net logging_client = []" by (simp_all add: logging_client_def)
  ultimately show ?thesis by (auto simp: run)
qed

end
