(* ===== verification/Response_Properties.thy ===== *)
theory Response_Properties
  imports Responses Worker_Properties
begin

text \<open>
  Which rows the API can answer with, and what a handler that forges its report does to its execution.
\<close>

section \<open>Which executions can be answered\<close>

definition readable :: "execution \<Rightarrow> bool" where
  "readable e \<longleftrightarrow> is_jobj (e_payload e) \<and> (case e_result e of None \<Rightarrow> True | Some j \<Rightarrow> is_jobj j)"

lemma dict_field_iff: "(\<exists>j'. dict_field j = Inr j') \<longleftrightarrow> is_jobj j"
  by (cases j) (simp_all add: dict_field_def is_jobj_def)

lemma execution_response_iff: "(\<exists>j. execution_response fmt e = Inr j) \<longleftrightarrow> readable e"
  by (cases "e_payload e"; cases "e_result e"; cases "the (e_result e)")
     (simp_all add: execution_response_def readable_def dict_field_def opt_dict_field_def is_jobj_def)

lemma execution_response_Inl: "\<not> readable e \<Longrightarrow> execution_response fmt e = Inl (OtherError ''ResponseValidationError'')"
  by (cases "e_payload e"; cases "e_result e"; cases "the (e_result e)")
     (simp_all add: execution_response_def readable_def dict_field_def opt_dict_field_def is_jobj_def)

lemma all_valid_iff: "(\<exists>js. all_valid f xs = Inr js) \<longleftrightarrow> (\<forall>x \<in> set xs. \<exists>j. f x = Inr j)"
  by (induction xs) (auto split: sum.splits)

lemma execution_list_iff:
  "(\<exists>j. execution_list_response fmt l = Inr j) \<longleftrightarrow> (\<forall>e \<in> set (li_items l). readable e)"
  using all_valid_iff [of "execution_response fmt" "li_items l"]
  by (auto simp: execution_list_response_def execution_response_iff split: sum.splits)

lemma answer_with_500: "model a = Inl (OtherError m) \<Longrightarrow> fst (answer_with code model (Inr a)) = 500"
  by (simp add: answer_with_def)

section \<open>A forged report\<close>

text \<open>The last line of the output wins, and nothing checks who printed it.\<close>

lemma forged_result:
  assumes "pre = [] \<or> last pre = CHR 0x0A" "wf_json j" "j \<noteq> JNull"
  shows "local_result ms (Exited 0 (pre @ result_prefix @ dumps j @ [CHR 0x0A])) =
     \<lparr>sr_success = True, sr_result = Some j, sr_error = None,
      sr_logs = format_logs (pre @ result_prefix @ dumps j @ [CHR 0x0A]), sr_duration_ms = Some ms,
      sr_timed_out = False, sr_k8s_job_name = None\<rparr>"
  using parse_result_last [OF assms(1,2)] assms(3) by (simp add: local_result_def none_if_null_def)


definition forging_processing :: processing where
  "forging_processing = demo_processing (Returned (local_result 7 (Exited 0 (result_prefix @ dumps (JList []) @ [CHR 0x0A]))))"


end
