(* ===== verification/Gateway.thy ===== *)
theory Gateway
  imports Dashboard Responses
begin

text \<open>
  What surrounds the handlers: the request identifier and the metrics label of \<open>api/middleware/middleware.py\<close>, the
  readiness probe of \<open>api/routers/health.py\<close>, the start-up of \<open>api/main.py\<close>, and \<open>api/routers/dashboard.py\<close>, which assembles
  the dashboard and keeps websocket sessions.
\<close>

section \<open>Middleware\<close>

text \<open>\<open>RequestIDMiddleware\<close>: the client's identifier unless it is absent or empty.\<close>

definition request_id_of :: "string option \<Rightarrow> string \<Rightarrow> string" where
  "request_id_of header fresh = (case header of None \<Rightarrow> fresh | Some r \<Rightarrow> if r = [] then fresh else r)"

definition request_id_header :: string where
  "request_id_header = ''X-Request-ID''"

definition with_request_id ::
  "(string \<Rightarrow> http_answer \<times> (string \<times> string) list) \<Rightarrow> string option \<Rightarrow> string \<Rightarrow> http_answer \<times> (string \<times> string) list" where
  "with_request_id call_next header fresh =
     (let i = request_id_of header fresh; (a, hs) = call_next i in (a, dict_set request_id_header i hs))"

definition hex_digit :: "char \<Rightarrow> bool" where
  "hex_digit c \<longleftrightarrow> is_digit c \<or> (97 \<le> char_code c \<and> char_code c \<le> 102)"

text \<open>
  The regular expression of an identifier: groups of 8, 4, 4, 4 and 12 hexadecimal digits joined by
  hyphens, position by position.
\<close>

definition uuid_position :: "nat \<Rightarrow> char \<Rightarrow> bool" where
  "uuid_position i c \<longleftrightarrow> (if i \<in> {8, 13, 18, 23} then c = CHR ''-'' else hex_digit c)"

definition starts_uuid :: "string \<Rightarrow> bool" where
  "starts_uuid s \<longleftrightarrow> 36 \<le> length s \<and> list_all (\<lambda>i. uuid_position i (s ! i)) [0..<36]"

function normalise_path :: "string \<Rightarrow> string" where
  "normalise_path [] = []"
| "normalise_path (c # cs) =
     (if starts_uuid (c # cs) then ''{id}'' @ normalise_path (drop 35 cs) else c # normalise_path cs)"
  by pat_completeness auto
termination by (relation "measure length") auto

definition metrics_path :: "string \<Rightarrow> string" where
  "metrics_path path =
     (if contains ''/executions/'' path \<and> 2 < count_where (\<lambda>c. c = CHR ''/'') path then normalise_path path else path)"

section \<open>Probes and start-up\<close>

text \<open>\<open>GET /ready\<close>: the overall state and the two checks, from the query and the ping.\<close>

definition ready :: "unit result \<Rightarrow> unit result \<Rightarrow> string \<times> (string \<times> string) list" where
  "ready select_1 ping =
     (let overall = (case select_1 of Inl e \<Rightarrow> ''unhealthy'' | Inr _ \<Rightarrow> ''healthy'');
          check = (\<lambda>r. case r of Inl e \<Rightarrow> ''error: '' @ exn_str e | Inr _ \<Rightarrow> ''ok'')
      in (case ping of Inl e \<Rightarrow> if overall = ''healthy'' then ''degraded'' else overall | Inr _ \<Rightarrow> overall,
          [(''database'', check select_1), (''redis'', check ping)]))"

text \<open>The service starts whether or not the buckets can be made.\<close>

definition lifespan_start :: "settings \<Rightarrow> 's minio \<Rightarrow> 's \<Rightarrow> unit result \<times> 's" where
  "lifespan_start cfg M s = (case ensure_buckets cfg M s of (_, s') \<Rightarrow> (Inr (), s'))"

section \<open>The dashboard endpoints\<close>

record dashboard =
  db_overview :: overview
  db_health :: "(string \<times> health) list"
  db_deployments :: "recent_deployment list"
  db_recent_executions :: "recent_execution list"
  db_recent_failures :: "recent_execution list"
  db_success_rate :: rat
  db_avg_runtime :: rat
  db_trend :: "trend_bucket list"
  db_total_24h :: nat
  db_p95 :: rat
  db_p99 :: rat

text \<open>The parts are computed one after the other here; the code starts them together.\<close>

definition get_dashboard ::
  "settings \<Rightarrow> 's minio \<Rightarrow> 'r redis \<Rightarrow> (rat \<Rightarrow> rat) \<Rightarrow> time \<Rightarrow> unit result \<Rightarrow> db \<Rightarrow> 's \<times> 'r \<Rightarrow> dashboard \<times> 's \<times> 'r" where
  "get_dashboard cfg M R round2 now select_1 d st =
     (let (m, s) = st;
          (ov, s1) = get_overview R now (d, s);
          ((worst, components), m1, s2) = get_health cfg M R False select_1 (Inr ()) (m, s1);
          em = get_execution_metrics round2 now d
      in (\<lparr>db_overview = ov, db_health = components, db_deployments = get_recent_deployments 10 d,
           db_recent_executions = get_recent_executions 10 d, db_recent_failures = get_recent_failures 10 d,
           db_success_rate = em_success_rate em, db_avg_runtime = em_avg_runtime_ms em, db_trend = em_hourly_trend em,
           db_total_24h = em_total_24h em, db_p95 = em_p95_runtime_ms em, db_p99 = em_p99_runtime_ms em\<rparr>, m1, s2))"

text \<open>A websocket session: what the client does until it goes, and what the server sends; \<open>None\<close> is a
  connection that is still open after the events.\<close>

datatype ws_event = Text string | Silent | Gone | Broken

definition pong :: string where
  \<open>pong = ''{"type":"pong"}''\<close>

definition keepalive :: string where
  \<open>keepalive = ''{"type":"keepalive"}''\<close>

fun ws_session :: "ws_event list \<Rightarrow> string list \<times> bool" where
  "ws_session [] = ([], True)"
| "ws_session (Text t # es) =
     (case ws_session es of (out, open_) \<Rightarrow> ((if t = ''ping'' then [pong] else []) @ out, open_))"
| "ws_session (Silent # es) = (case ws_session es of (out, open_) \<Rightarrow> (keepalive # out, open_))"
| "ws_session (Gone # es) = ([], False)"
| "ws_session (Broken # es) = ([], False)"

definition ws_dashboard :: "nat \<Rightarrow> ws_event list \<Rightarrow> connections \<Rightarrow> string list \<times> connections" where
  "ws_dashboard w es cs =
     (case ws_session es of
        (out, open_) \<Rightarrow> (out, if open_ then ws_connect w cs else ws_disconnect w (ws_connect w cs)))"

section \<open>Lemmas\<close>

lemma with_request_id_answers:
  "map_of (snd (with_request_id f header fresh)) request_id_header = Some (request_id_of header fresh)"
  by (simp add: with_request_id_def Let_def map_of_dict_set split: prod.splits)

lemma brace_no_position: "\<not> uuid_position i (CHR ''{'')"
  by (simp add: uuid_position_def hex_digit_def is_digit_def char_code_def)

text \<open>Whether an identifier starts here depends on the next 36 characters, none of which is a brace.\<close>

lemma starts_uuid_take:
  assumes "starts_uuid s" and "take 36 t = take 36 s"
  shows "starts_uuid t"
proof -
  have "length (take 36 t) = length (take 36 s)" using assms(2) by simp
  then have "36 \<le> length t" using assms(1) by (simp add: starts_uuid_def)
  moreover have "t ! i = s ! i" if "i < 36" for i using that assms(2) by (metis nth_take)
  ultimately show ?thesis using assms(1) by (auto simp: starts_uuid_def list_all_iff)
qed

lemma starts_uuid_no_brace:
  assumes "starts_uuid s"
  shows "CHR ''{'' \<notin> set (take 36 s)"
proof
  assume "CHR ''{'' \<in> set (take 36 s)"
  then obtain i where "i < 36" and "s ! i = CHR ''{''" by (auto simp: in_set_conv_nth)
  moreover have "uuid_position i (s ! i)" if "i < 36" for i
    using assms that by (simp add: starts_uuid_def list_all_iff)
  ultimately show False using brace_no_position by metis
qed

lemma normalise_agrees:
  "CHR ''{'' \<notin> set (take n (normalise_path s)) \<Longrightarrow> take n (normalise_path s) = take n s"
proof (induction s arbitrary: n rule: normalise_path.induct)
  case (2 c cs)
  then show ?case by (cases n) (auto split: if_splits)
qed simp

text \<open>After the normalisation no identifier is left, so the labels of one route coincide.\<close>

lemma normalise_no_uuid: "\<not> starts_uuid (drop i (normalise_path s))"
proof (induction s arbitrary: i rule: normalise_path.induct)
  case 1
  show ?case by (simp add: starts_uuid_def)
next
  case (2 c cs)
  show ?case
  proof (cases "starts_uuid (c # cs)")
    case True
    then have eq: "normalise_path (c # cs) = ''{id}'' @ normalise_path (drop 35 cs)" by simp
    have "\<not> starts_uuid (drop i (''{id}'' @ r))" if "\<And>j. \<not> starts_uuid (drop j r)" for r
    proof (cases "i < 4")
      case True
      have "\<not> uuid_position j (CHR ''}'')" for j
        by (simp add: uuid_position_def hex_digit_def is_digit_def char_code_def)
      moreover have "drop i (''{id}'' @ r) ! (3 - i) = CHR ''}''" using True by (auto simp: nth_append numeral_eq_Suc less_Suc_eq)
      ultimately show ?thesis using True by (auto simp: starts_uuid_def list_all_iff intro!: bexI [of _ "3 - i"])
    next
      case False
      then obtain k where "i = 4 + k" by (metis le_add_diff_inverse not_less)
      then show ?thesis using that [of k] by (simp add: eval_nat_numeral)
    qed
    then show ?thesis using 2(1) [OF True] eq by simp
  next
    case False
    then have eq: "normalise_path (c # cs) = c # normalise_path cs" by simp
    show ?thesis
    proof (cases i)
      case 0
      have "\<not> starts_uuid (c # normalise_path cs)"
      proof
        assume u: "starts_uuid (c # normalise_path cs)"
        then have "CHR ''{'' \<notin> set (take 35 (normalise_path cs))" using starts_uuid_no_brace [OF u] by (simp add: numeral_eq_Suc)
        then have "take 36 (c # cs) = take 36 (c # normalise_path cs)" using normalise_agrees [of 35 cs] by (simp add: numeral_eq_Suc)
        then show False using starts_uuid_take [OF u] False by simp
      qed
      then show ?thesis using 0 eq by simp
    next
      case (Suc j)
      then show ?thesis using 2(2) [OF False] eq by simp
    qed
  qed
qed

end
