(* ===== verification/Processes.thy ===== *)
theory Processes
  imports Worker Scheduler Queue_Contract
begin

text \<open>
  The processes around one poll, one recovery, one heartbeat and one tick: \<open>Worker.run\<close> and
  \<open>run_workers\<close> of \<open>worker/worker.py\<close>, \<open>Scheduler.run\<close> of \<open>scheduler/scheduler.py\<close>. They loop until the
  shutdown event is set; the model is given the turns of a loop, each with what it reads and what the
  other processes do before the next one. An exception of a turn is logged and the loop goes on.
\<close>

section \<open>Workers\<close>

record 'r turn =
  tn_shutdown :: bool
  tn_processing :: processing
  tn_others :: "db \<times> 'r \<Rightarrow> db \<times> 'r"

text \<open>The outcomes of the polls, and the state after them; \<open>None\<close> when a poll does not end.\<close>

fun worker_run :: "settings \<Rightarrow> 'r redis \<Rightarrow> 'r turn list \<Rightarrow> db \<times> 'r \<Rightarrow> (unit result list \<times> db \<times> 'r) option" where
  "worker_run cfg R [] ds = Some ([], ds)"
| "worker_run cfg R (t # ts) ds =
     (if tn_shutdown t then Some ([], ds)
      else (case poll_once cfg R (tn_processing t) ds of
              None \<Rightarrow> None
            | Some (r, ds1) \<Rightarrow>
                (case worker_run cfg R ts (tn_others t ds1) of
                   None \<Rightarrow> None
                 | Some (rs, ds2) \<Rightarrow> Some (r # rs, ds2))))"

text \<open>\<open>_heartbeat_loop\<close> with the times of its turns.\<close>

fun heartbeat_loop :: "'r redis \<Rightarrow> string \<Rightarrow> int \<Rightarrow> (bool \<times> time \<times> ('r \<Rightarrow> 'r)) list \<Rightarrow> 'r \<Rightarrow> 'r" where
  "heartbeat_loop R wid ttl [] s = s"
| "heartbeat_loop R wid ttl ((stop, now, others) # ts) s =
     (if stop then s else heartbeat_loop R wid ttl ts (others (snd (heartbeat R now wid ttl s))))"

text \<open>\<open>_stale_recovery_loop\<close>: the counts of recovered executions.\<close>

fun recovery_loop :: "settings \<Rightarrow> (bool \<times> time \<times> (db \<Rightarrow> db)) list \<Rightarrow> db \<Rightarrow> nat list \<times> db" where
  "recovery_loop cfg [] d = ([], d)"
| "recovery_loop cfg ((stop, now, others) # ts) d =
     (if stop then ([], d)
      else (let (n, d1) = recover_stale cfg now d; (ns, d2) = recovery_loop cfg ts (others d1) in (n # ns, d2)))"

text \<open>The workers of one process, and which of them runs the recovery.\<close>

definition worker_ids :: "settings \<Rightarrow> string list" where
  "worker_ids cfg = map (\<lambda>i. cfg_worker_id cfg @ ''-'' @ str_nat i) [0..<nat (worker_concurrency cfg)]"

definition recovers :: "string \<Rightarrow> bool" where
  "recovers wid \<longleftrightarrow> suffix ''-0'' wid"

text \<open>
  \<open>run_workers\<close> gives every worker the shutdown timeout for its last poll and then cancels its task. The
  cancellation is no \<open>Exception\<close>: it passes the handlers of \<open>_process_job\<close> and leaves the loop, so what was
  committed stays and nothing is written back or acknowledged. The cancelled poll here is one whose
  sandbox is still running; \<open>remaining\<close> is how many seconds it would still need.
\<close>

definition poll_cancelled :: "settings \<Rightarrow> 'r redis \<Rightarrow> processing \<Rightarrow> db \<times> 'r \<Rightarrow> db \<times> 'r" where
  "poll_cancelled cfg R w ds =
     (let (d, s) = ds in
      case dequeue_job R (max 1 (worker_queue_poll_interval cfg)) s of
        (Inl e, s1) \<Rightarrow> (d, s1)
      | (Inr None, s1) \<Rightarrow> (d, s1)
      | (Inr (Some job), s1) \<Rightarrow>
          (case queue_depth R s1 of
             (Inl e, s2) \<Rightarrow> (d, s2)
           | (Inr depth, s2) \<Rightarrow>
               (case chain (job_id_of job) uuid_of of
                  Inl e \<Rightarrow> (d, s2)
                | Inr i \<Rightarrow> (snd (get_db (worker_begin (wp_worker_id w) (wp_begin w) i) d), s2))))"

definition last_poll ::
  "settings \<Rightarrow> 'r redis \<Rightarrow> processing \<Rightarrow> int \<Rightarrow> db \<times> 'r \<Rightarrow> (db \<times> 'r) option" where
  "last_poll cfg R w remaining ds =
     (if worker_shutdown_timeout cfg < remaining then Some (poll_cancelled cfg R w ds)
      else map_option snd (poll_once cfg R w ds))"

section \<open>The scheduler\<close>

record 'r tick_turn =
  tk_shutdown :: bool
  tk_token :: string
  tk_start :: time
  tk_clock :: "nat \<Rightarrow> time"
  tk_sleep :: "nat \<Rightarrow> 'r \<Rightarrow> 'r"
  tk_firing :: "uuid \<Rightarrow> firing"
  tk_now :: time
  tk_others :: "db \<times> 'r \<Rightarrow> db \<times> 'r"

fun scheduler_run ::
  "settings \<Rightarrow> cron \<Rightarrow> 'r redis \<Rightarrow> 'r tick_turn list \<Rightarrow> db \<times> 'r \<Rightarrow> (unit result list \<times> db \<times> 'r) option" where
  "scheduler_run cfg cron_next R [] ds = Some ([], ds)"
| "scheduler_run cfg cron_next R (t # ts) ds =
     (if tk_shutdown t then Some ([], ds)
      else (case tick cfg cron_next R (tk_token t) (tk_start t) (tk_clock t) (tk_sleep t) (tk_firing t) (tk_now t) ds of
              None \<Rightarrow> None
            | Some (r, ds1) \<Rightarrow>
                (case scheduler_run cfg cron_next R ts (tk_others t ds1) of
                   None \<Rightarrow> None
                 | Some (rs, ds2) \<Rightarrow> Some (r # rs, ds2))))"

section \<open>Lemmas\<close>

text \<open>Every process recovers stale executions in exactly one worker, the first.\<close>

lemma suffix_dash_zero: "suffix ''-0'' (x @ ''-'' @ str_nat i) \<longleftrightarrow> i = 0"
proof
  assume "suffix ''-0'' (x @ ''-'' @ str_nat i)"
  then obtain y where y: "(x @ ''-'') @ str_nat i = (y @ ''-'') @ ''0''" by (auto simp: suffix_def)
  then have len: "length (str_nat i) = 1"
  proof -
    have "CHR ''-'' \<notin> set (str_nat i)" using str_nat_digits [of i] by (auto simp: is_digit_def char_code_def)
    moreover have "CHR ''-'' \<in> set (str_nat i)" if "1 < length (str_nat i)"
    proof -
      have ne: "butlast (str_nat i) \<noteq> []" using that by (cases "str_nat i" rule: rev_cases) auto
      have "(x @ ''-'') @ butlast (str_nat i) @ [last (str_nat i)] = (y @ ''-'') @ ''0''" using y by simp
      then have "(x @ ''-'') @ butlast (str_nat i) = y @ ''-''" by (metis append.assoc butlast_snoc)
      then have "last (butlast (str_nat i)) = CHR ''-''" using ne by (metis last_appendR last_snoc)
      then show ?thesis using ne by (metis in_set_butlastD last_in_set)
    qed
    moreover have "0 < length (str_nat i)" by simp
    ultimately show ?thesis by linarith
  qed
  then have "str_nat i = ''0''" using y by simp
  moreover have "str_nat 0 = ''0''" by code_simp
  ultimately show "i = 0" using str_nat_inj by metis
next
  have "str_nat 0 = ''0''" by code_simp
  then show "suffix ''-0'' (x @ ''-'' @ str_nat i)" if "i = 0" using that by (simp add: suffix_def)
qed

lemma one_recoverer:
  assumes "0 < worker_concurrency cfg"
  shows "filter recovers (worker_ids cfg) = [cfg_worker_id cfg @ ''-0'']"
proof -
  have "filter recovers (worker_ids cfg) =
    map (\<lambda>i. cfg_worker_id cfg @ ''-'' @ str_nat i) (filter (\<lambda>i. i = 0) [0..<nat (worker_concurrency cfg)])"
    by (simp add: worker_ids_def filter_map recovers_def suffix_dash_zero [simplified] comp_def)
  moreover have "filter (\<lambda>i. i = 0) [0..<nat (worker_concurrency cfg)] = [0]"
    using assms by (simp add: upt_conv_Cons filter_empty_conv)
  moreover have "str_nat 0 = ''0''" by code_simp
  ultimately show ?thesis by simp
qed

context redis_server begin

lemma poll_ends: "\<exists>r d' s'. poll_once cfg R w (d, s) = Some (r, d', s')"
proof -
  have "\<exists>r s'. ack_job R i s = Some (r, s')" for i s using queue.ack_ends [of i s] by auto
  then show ?thesis unfolding poll_once_def
    by (auto split: prod.splits sum.splits option.splits) (metis option.distinct(1))+
qed

text \<open>A worker polls in every turn up to the shutdown, whatever its polls raise.\<close>

lemma worker_keeps_polling:
  "\<exists>rs d' s'. worker_run cfg R ts (d, s) = Some (rs, d', s') \<and> length rs = length (takeWhile (\<lambda>t. \<not> tn_shutdown t) ts)"
proof (induction ts arbitrary: d s)
  case (Cons t ts)
  obtain r d1 s1 where poll: "poll_once cfg R (tn_processing t) (d, s) = Some (r, d1, s1)" using poll_ends by metis
  obtain d2 s2 where "tn_others t (d1, s1) = (d2, s2)" by fastforce
  with Cons [of d2 s2] poll show ?case by auto
qed simp

text \<open>So does the scheduler tick.\<close>

lemma tick_ends:
  assumes "\<And>n. ticks n + 100000 \<le> ticks (Suc n)"
  shows "\<exists>r d' s'. tick cfg cron R token start ticks sleep inp now (d, s) = Some (r, d', s')"
proof -
  obtain res s1 lk where run: "acquire R (scheduler_lock cfg) token start ticks sleep s = (Some (res, s1), lk)"
    using locks.acq_ends [of ticks, OF assms] by (metis prod.exhaust fst_conv)
  then show ?thesis by (cases res) (auto simp: tick_def split: prod.splits)
qed

lemma scheduler_keeps_ticking:
  assumes "\<And>t n. t \<in> set ts \<Longrightarrow> tk_clock t n + 100000 \<le> tk_clock t (Suc n)"
  shows "\<exists>rs d' s'. scheduler_run cfg cron R ts (d, s) = Some (rs, d', s') \<and>
    length rs = length (takeWhile (\<lambda>t. \<not> tk_shutdown t) ts)"
  using assms
proof (induction ts arbitrary: d s)
  case (Cons t ts)
  have "\<And>n. tk_clock t n + 100000 \<le> tk_clock t (Suc n)" using Cons.prems by simp
  from tick_ends [of "tk_clock t", OF this] obtain r d1 s1 where
    tick: "tick cfg cron R (tk_token t) (tk_start t) (tk_clock t) (tk_sleep t) (tk_firing t) (tk_now t) (d, s) = Some (r, d1, s1)"
    by metis
  obtain d2 s2 where "tk_others t (d1, s1) = (d2, s2)" by fastforce
  with Cons.IH [of d2 s2] Cons.prems tick show ?case by auto
qed simp

end

text \<open>A recovery leaves nothing stale, so the next one at the same time finds nothing.\<close>

lemma recovery_db_ok:
  "db_ok d \<Longrightarrow> (\<And>t x. t \<in> set ts \<Longrightarrow> db_ok x \<Longrightarrow> db_ok (snd (snd t) x)) \<Longrightarrow> db_ok (snd (recovery_loop cfg ts d))"
proof (induction cfg ts d rule: recovery_loop.induct)
  case (2 cfg stop now others ts d)
  obtain n d1 where rec: "recover_stale cfg now d = (n, d1)" by fastforce
  then have "db_ok d1" using recover_stale_db_ok 2(2) by blast
  then have "db_ok (others d1)" using 2(3) [of "(stop, now, others)"] by simp
  then show ?case using 2 rec by (auto split: prod.splits)
qed simp

end
