(* ===== verification/Metrics.thy ===== *)
theory Metrics
  imports Gateway Processes Worker_Properties
begin

text \<open>
  \<open>shared/observability/metrics.py\<close> and the places that record metrics: the middleware of the API, the
  trigger of an execution, the worker and its recovery. The metrics are declarations with a kind and
  label names; what the program does to them is the sequence of its calls on the client library, each a
  \<open>metric_call\<close>. \<open>accepted\<close> is what the library asks of a call: the labels are exactly the declared
  ones, and the operation is one of the kind. A call that is not accepted raises.
\<close>

section \<open>Declarations\<close>

text \<open>Buckets are in milliseconds.\<close>

datatype metric_kind = Counter | Gauge | Histogram "int list" | Info

record metric =
  m_name :: string
  m_labels :: "string list"
  m_kind :: metric_kind

definition HTTP_REQUESTS_TOTAL :: metric where
  "HTTP_REQUESTS_TOTAL =
     \<lparr>m_name = ''sopm_http_requests_total'', m_labels = [''method'', ''endpoint'', ''status_code''], m_kind = Counter\<rparr>"

definition HTTP_REQUEST_DURATION_SECONDS :: metric where
  "HTTP_REQUEST_DURATION_SECONDS =
     \<lparr>m_name = ''sopm_http_request_duration_seconds'', m_labels = [''method'', ''endpoint''],
      m_kind = Histogram [5, 10, 25, 50, 100, 250, 500, 1000, 2500, 5000, 10000]\<rparr>"

definition EXECUTIONS_TOTAL :: metric where
  "EXECUTIONS_TOTAL =
     \<lparr>m_name = ''sopm_executions_total'', m_labels = [''status'', ''runtime''], m_kind = Counter\<rparr>"

definition EXECUTION_DURATION_SECONDS :: metric where
  "EXECUTION_DURATION_SECONDS =
     \<lparr>m_name = ''sopm_execution_duration_seconds'', m_labels = [''runtime''],
      m_kind = Histogram [100, 500, 1000, 5000, 10000, 30000, 60000, 120000, 300000, 600000]\<rparr>"

definition EXECUTION_ERRORS_TOTAL :: metric where
  "EXECUTION_ERRORS_TOTAL =
     \<lparr>m_name = ''sopm_execution_errors_total'', m_labels = [''error_type''], m_kind = Counter\<rparr>"

definition QUEUE_DEPTH :: metric where
  "QUEUE_DEPTH = \<lparr>m_name = ''sopm_queue_depth'', m_labels = [], m_kind = Gauge\<rparr>"

definition QUEUE_PROCESSING_DEPTH :: metric where
  "QUEUE_PROCESSING_DEPTH = \<lparr>m_name = ''sopm_queue_processing_depth'', m_labels = [], m_kind = Gauge\<rparr>"

definition JOB_RETRIES_TOTAL :: metric where
  "JOB_RETRIES_TOTAL = \<lparr>m_name = ''sopm_job_retries_total'', m_labels = [], m_kind = Counter\<rparr>"

definition DLQ_DEPTH :: metric where
  "DLQ_DEPTH = \<lparr>m_name = ''sopm_dlq_depth'', m_labels = [], m_kind = Gauge\<rparr>"

definition WORKER_ACTIVE :: metric where
  "WORKER_ACTIVE = \<lparr>m_name = ''sopm_worker_active'', m_labels = [], m_kind = Gauge\<rparr>"

definition WORKER_JOBS_PROCESSED_TOTAL :: metric where
  "WORKER_JOBS_PROCESSED_TOTAL =
     \<lparr>m_name = ''sopm_worker_jobs_processed_total'', m_labels = [''worker_id'', ''outcome''], m_kind = Counter\<rparr>"

definition FUNCTIONS_TOTAL :: metric where
  "FUNCTIONS_TOTAL = \<lparr>m_name = ''sopm_functions_total'', m_labels = [''status''], m_kind = Gauge\<rparr>"

definition FUNCTION_VERSIONS_TOTAL :: metric where
  "FUNCTION_VERSIONS_TOTAL = \<lparr>m_name = ''sopm_function_versions_total'', m_labels = [], m_kind = Gauge\<rparr>"

definition PLATFORM_INFO :: metric where
  "PLATFORM_INFO = \<lparr>m_name = ''sopm_platform'', m_labels = [], m_kind = Info\<rparr>"

lemmas metric_defs =
  HTTP_REQUESTS_TOTAL_def HTTP_REQUEST_DURATION_SECONDS_def EXECUTIONS_TOTAL_def EXECUTION_DURATION_SECONDS_def
  EXECUTION_ERRORS_TOTAL_def QUEUE_DEPTH_def QUEUE_PROCESSING_DEPTH_def JOB_RETRIES_TOTAL_def DLQ_DEPTH_def
  WORKER_ACTIVE_def WORKER_JOBS_PROCESSED_TOTAL_def FUNCTIONS_TOTAL_def FUNCTION_VERSIONS_TOTAL_def PLATFORM_INFO_def

definition declared_metrics :: "metric list" where
  "declared_metrics =
     [HTTP_REQUESTS_TOTAL, HTTP_REQUEST_DURATION_SECONDS, EXECUTIONS_TOTAL, EXECUTION_DURATION_SECONDS,
      EXECUTION_ERRORS_TOTAL, QUEUE_DEPTH, QUEUE_PROCESSING_DEPTH, JOB_RETRIES_TOTAL, DLQ_DEPTH, WORKER_ACTIVE,
      WORKER_JOBS_PROCESSED_TOTAL, FUNCTIONS_TOTAL, FUNCTION_VERSIONS_TOTAL, PLATFORM_INFO]"

section \<open>Calls\<close>

type_synonym labels = "(string \<times> string) list"

datatype metric_call =
  Increment metric labels | Decrement metric labels | Put metric labels int | Observe metric labels rat
| Describe metric labels

definition platform_info :: metric_call where
  "platform_info = Describe PLATFORM_INFO [(''version'', ''0.1.0''), (''python_version'', ''3.12'')]"

definition labelled :: "metric \<Rightarrow> labels \<Rightarrow> bool" where
  "labelled m ls \<longleftrightarrow> distinct (map fst ls) \<and> set (map fst ls) = set (m_labels m)"

fun accepted :: "metric_call \<Rightarrow> bool" where
  "accepted (Increment m ls) \<longleftrightarrow> m \<in> set declared_metrics \<and> m_kind m \<in> {Counter, Gauge} \<and> labelled m ls"
| "accepted (Decrement m ls) \<longleftrightarrow> m \<in> set declared_metrics \<and> m_kind m = Gauge \<and> labelled m ls"
| "accepted (Put m ls n) \<longleftrightarrow> m \<in> set declared_metrics \<and> m_kind m = Gauge \<and> labelled m ls"
| "accepted (Observe m ls x) \<longleftrightarrow>
     m \<in> set declared_metrics \<and> (case m_kind m of Histogram bs \<Rightarrow> True | _ \<Rightarrow> False) \<and> labelled m ls"
| "accepted (Describe m kvs) \<longleftrightarrow> m \<in> set declared_metrics \<and> m_kind m = Info"

text \<open>What a counter has counted after the calls.\<close>

definition counted :: "metric \<Rightarrow> labels \<Rightarrow> metric_call list \<Rightarrow> nat" where
  "counted m ls = count_where (\<lambda>c. c = Increment m ls)"

fun moves :: "metric \<Rightarrow> metric_call \<Rightarrow> int" where
  "moves m (Increment k ls) = (if k = m then 1 else 0)"
| "moves m (Decrement k ls) = (if k = m then - 1 else 0)"
| "moves m c = 0"

section \<open>The worker\<close>

definition runtime_label :: string where
  "runtime_label = ''python3.12''"

definition job_metrics :: "string \<Rightarrow> int \<Rightarrow> sandbox_result \<Rightarrow> metric_call list" where
  "job_metrics worker_id elapsed_ms sr =
     (let status = status_value (final_status sr) in
      [Increment EXECUTIONS_TOTAL [(''status'', status), (''runtime'', runtime_label)],
       Observe EXECUTION_DURATION_SECONDS [(''runtime'', runtime_label)] (of_int (duration_of elapsed_ms sr) / 1000),
       Increment WORKER_JOBS_PROCESSED_TOTAL
         [(''worker_id'', worker_id), (''outcome'', if sr_success sr then ''success'' else ''failure'')]] @
      (if \<not> sr_success sr then [Increment EXECUTION_ERRORS_TOTAL [(''error_type'', status)]] else []))"

text \<open>The metrics of a job come after the closing transaction, so a job that raises has none, and
  neither has one whose execution is gone.\<close>

definition process_metrics :: "processing \<Rightarrow> json \<Rightarrow> db \<Rightarrow> metric_call list" where
  "process_metrics w job d =
     (case chain (job_id_of job) uuid_of of
        Inl e \<Rightarrow> []
      | Inr i \<Rightarrow>
          (case get_db (worker_begin (wp_worker_id w) (wp_begin w) i) d of
             (Inl e, d1) \<Rightarrow> []
           | (Inr go, d1) \<Rightarrow>
               if \<not> go then []
               else (let sr = settle (wp_elapsed_ms w) (wp_run w (job_dict job)); d2 = wp_other w d1 in
                     case get_db (worker_finish sr (wp_elapsed_ms w) (wp_end w) i) d2 of
                       (Inl e, d3) \<Rightarrow> []
                     | (Inr _, d3) \<Rightarrow>
                         if list_ex (\<lambda>e. e_id e = i) (t_executions d2)
                         then job_metrics (wp_worker_id w) (wp_elapsed_ms w) sr else [])))"

definition poll_metrics :: "settings \<Rightarrow> 'r redis \<Rightarrow> processing \<Rightarrow> db \<times> 'r \<Rightarrow> metric_call list" where
  "poll_metrics cfg R w ds =
     (let (d, s) = ds in
      case dequeue_job R (max 1 (worker_queue_poll_interval cfg)) s of
        (Inl e, s1) \<Rightarrow> []
      | (Inr None, s1) \<Rightarrow> []
      | (Inr (Some job), s1) \<Rightarrow>
          (case queue_depth R s1 of
             (Inl e, s2) \<Rightarrow> []
           | (Inr depth, s2) \<Rightarrow> Put QUEUE_DEPTH [] depth # process_metrics w job d))"

text \<open>A run of a worker, its polls between the two moves of the gauge.\<close>

definition run_metrics :: "metric_call list list \<Rightarrow> metric_call list" where
  "run_metrics polls = [Increment WORKER_ACTIVE []] @ concat polls @ [Decrement WORKER_ACTIVE []]"

definition recovery_metrics :: "settings \<Rightarrow> time \<Rightarrow> db \<Rightarrow> metric_call list" where
  "recovery_metrics cfg now d =
     concat (map (\<lambda>e. [Increment EXECUTIONS_TOTAL [(''status'', status_value FAILED), (''runtime'', runtime_label)],
                       Increment EXECUTION_ERRORS_TOTAL [(''error_type'', ''stale_recovery'')]])
       (filter (is_stale cfg now) (t_executions d)))"

section \<open>The API\<close>

definition trigger_metrics :: "execution \<Rightarrow> metric_call list" where
  "trigger_metrics e =
     [Increment EXECUTIONS_TOTAL [(''status'', status_value (e_status e)), (''runtime'', runtime_label)]]"

definition http_metrics :: "string \<Rightarrow> string \<Rightarrow> nat \<Rightarrow> rat \<Rightarrow> metric_call list" where
  "http_metrics method path status duration =
     (let endpoint = metrics_path path in
      [Increment HTTP_REQUESTS_TOTAL [(''method'', method), (''endpoint'', endpoint), (''status_code'', str_nat status)],
       Observe HTTP_REQUEST_DURATION_SECONDS [(''method'', method), (''endpoint'', endpoint)] duration])"

text \<open>
  The middlewares as the application stacks them: the one added last is the outer one, and the handler of
  unhandled exceptions is outside both. An exception therefore passes both by: nothing is recorded and
  the answer has no identifier. The other component of a response is its headers.
\<close>

type_synonym response = "http_answer \<times> (string \<times> string) list"

definition with_metrics :: "string \<Rightarrow> string \<Rightarrow> rat \<Rightarrow> response result \<Rightarrow> response result \<times> metric_call list" where
  "with_metrics method path duration r =
     (case r of
        Inl e \<Rightarrow> (Inl e, [])
      | Inr (a, hs) \<Rightarrow> (Inr (a, hs), http_metrics method path (fst a) duration))"

definition app_response ::
  "(string \<Rightarrow> response result) \<Rightarrow> string \<Rightarrow> string \<Rightarrow> rat \<Rightarrow> string option \<Rightarrow> string \<Rightarrow> response \<times> metric_call list" where
  "app_response router method path duration header fresh =
     (let i = request_id_of header fresh in
      case with_metrics method path duration (router i) of
        (Inl e, ms) \<Rightarrow> ((error_answer e, []), ms)
      | (Inr (a, hs), ms) \<Rightarrow> (with_request_id (\<lambda>_. (a, hs)) header fresh, ms))"

section \<open>Lemmas\<close>

text \<open>The names are distinct, which the registry asks for, and the buckets increase.\<close>

lemma metric_names_distinct: "distinct (map m_name declared_metrics)"
  by (simp add: declared_metrics_def metric_defs)

lemma buckets_increase:
  "m \<in> set declared_metrics \<Longrightarrow> m_kind m = Histogram bs \<Longrightarrow> sorted_wrt (<) bs"
  by (auto simp: declared_metrics_def metric_defs)

text \<open>Every call of the program is accepted.\<close>

lemma declared [simp]:
  "HTTP_REQUESTS_TOTAL \<in> set declared_metrics" "HTTP_REQUEST_DURATION_SECONDS \<in> set declared_metrics"
  "EXECUTIONS_TOTAL \<in> set declared_metrics" "EXECUTION_DURATION_SECONDS \<in> set declared_metrics"
  "EXECUTION_ERRORS_TOTAL \<in> set declared_metrics" "QUEUE_DEPTH \<in> set declared_metrics"
  "WORKER_ACTIVE \<in> set declared_metrics" "WORKER_JOBS_PROCESSED_TOTAL \<in> set declared_metrics"
  "PLATFORM_INFO \<in> set declared_metrics"
  by (simp_all add: declared_metrics_def)

lemma kinds [simp]:
  "m_kind HTTP_REQUESTS_TOTAL = Counter" "m_kind EXECUTIONS_TOTAL = Counter" "m_kind EXECUTION_ERRORS_TOTAL = Counter"
  "m_kind WORKER_JOBS_PROCESSED_TOTAL = Counter" "m_kind QUEUE_DEPTH = Gauge" "m_kind WORKER_ACTIVE = Gauge"
  "\<exists>bs. m_kind EXECUTION_DURATION_SECONDS = Histogram bs" "\<exists>bs. m_kind HTTP_REQUEST_DURATION_SECONDS = Histogram bs"
  "m_kind PLATFORM_INFO = Info"
  by (simp_all add: metric_defs)

lemma label_names [simp]:
  "m_labels HTTP_REQUESTS_TOTAL = [''method'', ''endpoint'', ''status_code'']"
  "m_labels HTTP_REQUEST_DURATION_SECONDS = [''method'', ''endpoint'']"
  "m_labels EXECUTIONS_TOTAL = [''status'', ''runtime'']" "m_labels EXECUTION_DURATION_SECONDS = [''runtime'']"
  "m_labels EXECUTION_ERRORS_TOTAL = [''error_type'']" "m_labels QUEUE_DEPTH = []" "m_labels WORKER_ACTIVE = []"
  "m_labels WORKER_JOBS_PROCESSED_TOTAL = [''worker_id'', ''outcome'']"
  by (simp_all add: metric_defs)

lemma histograms [simp]:
  "(case m_kind EXECUTION_DURATION_SECONDS of Histogram bs \<Rightarrow> True | _ \<Rightarrow> False)"
  "(case m_kind HTTP_REQUEST_DURATION_SECONDS of Histogram bs \<Rightarrow> True | _ \<Rightarrow> False)"
  by (simp_all add: metric_defs)

lemma job_metrics_accepted: "list_all accepted (job_metrics wid ms sr)"
  by (simp add: job_metrics_def Let_def labelled_def)

lemma process_metrics_cases: "process_metrics w job d = [] \<or>
    process_metrics w job d = job_metrics (wp_worker_id w) (wp_elapsed_ms w) (settle (wp_elapsed_ms w) (wp_run w (job_dict job)))"
  by (auto simp: process_metrics_def Let_def split: sum.splits prod.splits)

lemma poll_metrics_accepted: "list_all accepted (poll_metrics cfg R w ds)"
  using process_metrics_cases [of w _ "fst ds"] job_metrics_accepted
  by (auto simp: poll_metrics_def labelled_def split: sum.splits prod.splits option.splits) (metis list.pred_inject(1))

lemma run_metrics_accepted: "\<forall>p \<in> set polls. list_all accepted p \<Longrightarrow> list_all accepted (run_metrics polls)"
  by (auto simp: run_metrics_def labelled_def list_all_iff)

lemma recovery_metrics_accepted: "list_all accepted (recovery_metrics cfg now d)"
  by (auto simp: recovery_metrics_def labelled_def list_all_iff)

lemma api_metrics_accepted:
  "list_all accepted (trigger_metrics e)" "list_all accepted (http_metrics method path status duration)"
  "accepted platform_info"
  by (simp_all add: trigger_metrics_def http_metrics_def platform_info_def Let_def labelled_def)

text \<open>The gauge of active workers is back where it was when the worker stops.\<close>

lemma job_moves: "map (moves WORKER_ACTIVE) (job_metrics wid ms sr) = replicate (length (job_metrics wid ms sr)) 0"
  by (simp add: job_metrics_def Let_def metric_defs)

lemma poll_moves: "sum_list (map (moves WORKER_ACTIVE) (poll_metrics cfg R w ds)) = 0"
proof -
  have "sum_list (map (moves WORKER_ACTIVE) (process_metrics w job d)) = 0" for job d
    using process_metrics_cases [of w job d] by (auto simp: job_moves sum_list_replicate)
  then show ?thesis by (auto simp: poll_metrics_def split: sum.splits prod.splits option.splits)
qed

lemma worker_gauge_balanced:
  assumes "\<forall>p \<in> set polls. \<exists>w ds. p = poll_metrics cfg R w ds"
  shows "sum_list (map (moves WORKER_ACTIVE) (run_metrics polls)) = 0"
proof -
  have "sum_list (map (moves WORKER_ACTIVE) (concat polls)) = 0"
    using assms by (induction polls) (auto simp: poll_moves)
  then show ?thesis by (simp add: run_metrics_def)
qed

text \<open>Only a job that was claimed is counted.\<close>

lemma counted_job_was_claimed:
  assumes "process_metrics w job d \<noteq> []"
  shows "\<exists>e \<in> set (t_executions d). job_id_of job = Inr s \<longrightarrow> uuid_of s = Inr (e_id e) \<and> e_status e = QUEUED"
proof -
  obtain i d1 where i: "chain (job_id_of job) uuid_of = Inr i"
    and go: "get_db (worker_begin (wp_worker_id w) (wp_begin w) i) d = (Inr True, d1)"
    using assms by (auto simp: process_metrics_def split: sum.splits prod.splits if_splits)
  from go have "worker_begin (wp_worker_id w) (wp_begin w) i d = (Inr True, d1)" by (simp add: get_db_Inr_iff)
  from worker_begin_cases [OF this] obtain e where "e \<in> set (t_executions d)" "e_id e = i" "e_status e = QUEUED" by blast
  then show ?thesis using i by (auto simp: chain_def)
qed

text \<open>
  The status that is counted is the one the row ends in, if nobody settled the execution during the run;
  of one settled meanwhile the row keeps its status and the counter goes up all the same.
\<close>

lemma counted_status:
  fixes w :: processing and job :: json
  defines "sr \<equiv> settle (wp_elapsed_ms w) (wp_run w (job_dict job))"
  assumes "keys_ok d" and "e \<in> set (t_executions d)" and "e_status e = QUEUED"
    and "job_id_of job = Inr (str_nat (e_id e))"
    and "d1 = set_execution (e_id e) (\<lambda>_. e\<lparr>e_status := RUNNING, e_started_at := Some (wp_begin w),
                                             e_worker_id := Some (wp_worker_id w)\<rparr>) d"
    and "keys_ok (wp_other w d1)" and "x \<in> set (t_executions (wp_other w d1))" and "e_id x = e_id e"
    and "error_text (sr_error sr) = Inr err" and "process_job w job d = (r, d')"
  shows "process_metrics w job d = job_metrics (wp_worker_id w) (wp_elapsed_ms w) sr \<and>
    (\<exists>e' \<in> set (t_executions d'). e_id e' = e_id e \<and>
       e_status e' = (if e_status x = RUNNING then final_status sr else e_status (move_status (final_status sr) x)))"
proof -
  let ?d2 = "wp_other w d1" and ?i = "e_id e"
  let ?f = "finished_row sr err (wp_elapsed_ms w) (wp_end w) x"
  have begun: "worker_begin (wp_worker_id w) (wp_begin w) ?i d = (Inr True, d1)"
    using assms(4,6) by (simp add: worker_begin_row [OF assms(2,3)])
  have fin: "worker_finish sr (wp_elapsed_ms w) (wp_end w) ?i ?d2 =
      (Inr (), (set_execution ?i (\<lambda>_. ?f) ?d2)\<lparr>t_logs := t_logs ?d2 @ log_rows ?i (wp_end w) (sr_logs sr)\<rparr>)"
    using worker_finish_row [OF assms(7,8,10), of "wp_elapsed_ms w" "wp_end w"] assms(9) by simp
  have "list_ex (\<lambda>y. e_id y = ?i) (t_executions ?d2)" using assms(8,9) by (auto simp: list_ex_iff)
  then have "process_metrics w job d = job_metrics (wp_worker_id w) (wp_elapsed_ms w) sr"
    using begun fin by (simp add: process_metrics_def assms(5) chain_def get_db_def Let_def flip: sr_def)
  moreover have "d' = (set_execution ?i (\<lambda>_. ?f) ?d2)\<lparr>t_logs := t_logs ?d2 @ log_rows ?i (wp_end w) (sr_logs sr)\<rparr>"
    using assms(11) begun fin by (simp add: process_job_def assms(5) chain_def get_db_def flip: sr_def)
  moreover have "?f \<in> set (t_executions (set_execution ?i (\<lambda>_. ?f) ?d2))"
    using set_execution_keys [OF assms(7,8), of ?f] assms(9) by simp
  moreover have "e_status ?f = (if e_status x = RUNNING then final_status sr else e_status (move_status (final_status sr) x))"
    by (simp add: move_status_cases final_status_def)
  ultimately show ?thesis using assms(9) by (intro conjI bexI [of _ ?f]) (simp_all add: set_execution_def)
qed

text \<open>The recovery counts exactly the executions it recovers.\<close>

lemma recovery_counted:
  "counted EXECUTION_ERRORS_TOTAL [(''error_type'', ''stale_recovery'')] (recovery_metrics cfg now d) = fst (recover_stale cfg now d)"
proof -
  have "EXECUTION_ERRORS_TOTAL \<noteq> EXECUTIONS_TOTAL" by (simp add: metric_defs)
  then have "counted EXECUTION_ERRORS_TOTAL [(''error_type'', ''stale_recovery'')]
      (concat (map (\<lambda>e. [Increment EXECUTIONS_TOTAL ls, Increment EXECUTION_ERRORS_TOTAL [(''error_type'', ''stale_recovery'')]]) es))
    = length es" for es :: "execution list" and ls
    by (induction es) (auto simp: counted_def count_where_def)
  then show ?thesis by (simp add: recovery_metrics_def recover_stale_def count_where_def)
qed

text \<open>Every answer of the router is counted under its status and carries its identifier; an exception is
  answered 500 with neither.\<close>

lemma app_response_answer:
  assumes "router (request_id_of header fresh) = Inr (a, hs)"
  shows "\<exists>hs'. app_response router method path duration header fresh = ((a, hs'), http_metrics method path (fst a) duration) \<and>
    map_of hs' request_id_header = Some (request_id_of header fresh)"
  using assms by (simp add: app_response_def with_metrics_def with_request_id_def Let_def map_of_dict_set)

lemma app_response_exception:
  assumes "router (request_id_of header fresh) = Inl e"
  shows "app_response router method path duration header fresh = ((error_answer e, []), [])"
  using assms by (simp add: app_response_def with_metrics_def)

text \<open>The identifier of a function stays in the label of its requests.\<close>

lemma function_paths_kept: "\<not> contains ''/executions/'' path \<Longrightarrow> metrics_path path = path"
  by (simp add: metrics_path_def)

end
