(* ===== verification/Column_Types.thy ===== *)
theory Column_Types
  imports Json
begin

text \<open>
  The type decorators of \<open>shared/db/models.py\<close>, which hand JSON and UUIDs to the driver as they are on
  PostgreSQL and as text on any other server. The type below them, which the driver applies, is not
  modelled.
\<close>

definition postgresql :: string where
  "postgresql = ''postgresql''"

section \<open>JSON\<close>

text \<open>\<open>JSONType\<close> on Python values, with \<open>None\<close> as \<open>JNull\<close>.\<close>

definition json_bind_param :: "string \<Rightarrow> json \<Rightarrow> json" where
  "json_bind_param dialect v = (if dialect \<noteq> postgresql \<and> v \<noteq> JNull then JStr (dumps v) else v)"

definition json_result_value :: "string \<Rightarrow> json \<Rightarrow> json result" where
  "json_result_value dialect v =
     (case v of
        JStr t \<Rightarrow>
          if dialect \<noteq> postgresql then (case loads t of None \<Rightarrow> Inl JSONDecodeError | Some x \<Rightarrow> Inr x) else Inr v
      | _ \<Rightarrow> Inr v)"

section \<open>UUIDs\<close>

text \<open>A value of \<open>UUIDType\<close> in Python: nothing, a UUID, or its text.\<close>

datatype uuid_value = No_value | Uuid uuid | Uuid_text string

definition uuid_str :: "uuid_value \<Rightarrow> string" where
  "uuid_str v = (case v of No_value \<Rightarrow> ''None'' | Uuid i \<Rightarrow> str_nat i | Uuid_text t \<Rightarrow> t)"

definition uuid_bind_param :: "string \<Rightarrow> uuid_value \<Rightarrow> uuid_value" where
  "uuid_bind_param dialect v =
     (if v = No_value then No_value else if dialect \<noteq> postgresql then Uuid_text (uuid_str v) else v)"

definition uuid_result_value :: "string \<Rightarrow> uuid_value \<Rightarrow> uuid_value result" where
  "uuid_result_value dialect v =
     (if v = No_value then Inr No_value
      else if dialect \<noteq> postgresql then (case uuid_of (uuid_str v) of Inl e \<Rightarrow> Inl e | Inr i \<Rightarrow> Inr (Uuid i))
      else Inr v)"

section \<open>Round trips\<close>

text \<open>On every server a value comes back as it was stored.\<close>

lemma json_column_roundtrip:
  assumes "wf_json v"
  shows "json_result_value dialect (json_bind_param dialect v) = Inr v"
  using loads_dumps [OF assms] by (cases v) (auto simp: json_bind_param_def json_result_value_def)

lemma uuid_column_roundtrip: "uuid_result_value dialect (uuid_bind_param dialect (Uuid i)) = Inr (Uuid i)"
  by (simp add: uuid_bind_param_def uuid_result_value_def uuid_str_def)

text \<open>Text that is no UUID is refused when it is read, except on PostgreSQL, where the driver decides.\<close>

lemma uuid_text_refused:
  "dialect \<noteq> postgresql \<Longrightarrow> uuid_of t = Inl e \<Longrightarrow> uuid_result_value dialect (Uuid_text t) = Inl e"
  by (simp add: uuid_result_value_def uuid_str_def)

end
