(* ===== verification/Index_Declarations.thy ===== *)
theory Index_Declarations
  imports Migrations
begin

text \<open>
  The indexes the ORM classes of \<open>shared/db/models.py\<close> declare, by \<open>index=True\<close> on a column and by \<open>Index\<close> in
  \<open>__table_args__\<close>, against those the migrations create. The ORM never creates them itself.
\<close>

section \<open>Declarations\<close>

text \<open>\<open>index=True\<close>: the name SQLAlchemy gives, and a unique index when the column is unique.\<close>

definition column_index :: "string \<Rightarrow> bool \<Rightarrow> string \<Rightarrow> string \<times> index" where
  "column_index t uniq c =
     (''ix_'' @ t @ ''_'' @ c, \<lparr>ix_table = t, ix_columns = asc [c], ix_unique = uniq, ix_where = None\<rparr>)"

definition table_index :: "string \<Rightarrow> string \<Rightarrow> string list \<Rightarrow> string \<times> index" where
  "table_index name t cs = (name, \<lparr>ix_table = t, ix_columns = asc cs, ix_unique = False, ix_where = None\<rparr>)"

definition User_indexes :: "(string \<times> index) list" where
  "User_indexes = [column_index ''users'' True ''username'', column_index ''users'' True ''email'']"

definition ApiKey_column_indexes :: "(string \<times> index) list" where
  "ApiKey_column_indexes =
     [column_index ''api_keys'' False ''owner_id'', column_index ''api_keys'' True ''key_hash'']"

definition ApiKey_table_indexes :: "(string \<times> index) list" where
  "ApiKey_table_indexes =
     [table_index ''ix_api_key_owner_created'' ''api_keys'' [''owner_id'', ''created_at'']]"

definition ApiKey_indexes :: "(string \<times> index) list" where
  "ApiKey_indexes = ApiKey_column_indexes @ ApiKey_table_indexes"

definition Function_indexes :: "(string \<times> index) list" where
  "Function_indexes =
     [table_index ''ix_function_owner_id'' ''functions'' [''owner_id''],
      table_index ''ix_function_status'' ''functions'' [''status'']]"

definition VersionActivation_column_indexes :: "(string \<times> index) list" where
  "VersionActivation_column_indexes =
     [column_index ''version_activations'' False ''function_id'', column_index ''version_activations'' False ''actor_id'']"

definition VersionActivation_table_indexes :: "(string \<times> index) list" where
  "VersionActivation_table_indexes =
     [table_index ''ix_version_activation_function_created'' ''version_activations'' [''function_id'', ''created_at'']]"

definition VersionActivation_indexes :: "(string \<times> index) list" where
  "VersionActivation_indexes = VersionActivation_column_indexes @ VersionActivation_table_indexes"

definition FunctionVersion_indexes :: "(string \<times> index) list" where
  "FunctionVersion_indexes = [table_index ''ix_function_version_function_id'' ''function_versions'' [''function_id'']]"

definition Execution_column_indexes :: "(string \<times> index) list" where
  "Execution_column_indexes =
     [column_index ''executions'' False ''api_key_id'', column_index ''executions'' False ''execution_type'',
      column_index ''executions'' False ''status'', column_index ''executions'' False ''failure_kind'']"

definition Execution_table_indexes :: "(string \<times> index) list" where
  "Execution_table_indexes =
     [table_index ''ix_execution_function_id'' ''executions'' [''function_id''],
      table_index ''ix_execution_status'' ''executions'' [''status''],
      table_index ''ix_execution_created_at'' ''executions'' [''created_at''],
      table_index ''ix_execution_type_created_at'' ''executions'' [''execution_type'', ''created_at''],
      table_index ''ix_execution_api_key_status'' ''executions'' [''api_key_id'', ''status'']]"

definition Execution_indexes :: "(string \<times> index) list" where
  "Execution_indexes = Execution_column_indexes @ Execution_table_indexes"

definition ExecutionLog_column_indexes :: "(string \<times> index) list" where
  "ExecutionLog_column_indexes =
     [column_index ''execution_logs'' False ''execution_id'']"

definition ExecutionLog_table_indexes :: "(string \<times> index) list" where
  "ExecutionLog_table_indexes =
     [table_index ''ix_execution_log_execution_timestamp'' ''execution_logs'' [''execution_id'', ''timestamp'']]"

definition ExecutionLog_indexes :: "(string \<times> index) list" where
  "ExecutionLog_indexes = ExecutionLog_column_indexes @ ExecutionLog_table_indexes"

definition Schedule_indexes :: "(string \<times> index) list" where
  "Schedule_indexes = [table_index ''ix_schedule_next_run_at'' ''schedules'' [''next_run_at'']]"

definition orm_indexes :: "(string \<times> index) list" where
  "orm_indexes = User_indexes @ ApiKey_indexes @ Function_indexes @ VersionActivation_indexes @
     FunctionVersion_indexes @ Execution_indexes @ ExecutionLog_indexes @ Schedule_indexes"

section \<open>Comparison\<close>

text \<open>Declared and not created; created with another shape; created for the dashboard or under another name.\<close>

definition missing_indexes :: "schema \<Rightarrow> string list" where
  "missing_indexes sc = map fst (filter (\<lambda>(n, ix). map_of (sc_indexes sc) n = None) orm_indexes)"

definition altered_indexes :: "schema \<Rightarrow> string list" where
  "altered_indexes sc = map fst (filter (\<lambda>(n, ix). case map_of (sc_indexes sc) n of None \<Rightarrow> False | Some x \<Rightarrow> x \<noteq> ix) orm_indexes)"

definition extra_indexes :: "schema \<Rightarrow> string list" where
  "extra_indexes sc = map fst (filter (\<lambda>(n, ix). map_of orm_indexes n = None) (sc_indexes sc))"

text \<open>
  An index is covered by another on the same table that starts with its columns.
\<close>

definition covered_by :: "(string \<times> index) list \<Rightarrow> index \<Rightarrow> bool" where
  "covered_by ixs ix \<longleftrightarrow>
     list_ex (\<lambda>(n, x). ix_table x = ix_table ix \<and> ix_where x = None \<and> prefix (ix_columns ix) (ix_columns x)) ixs"

lemma index_names_distinct: "distinct (map fst orm_indexes)"
  by code_simp

text \<open>
  Every declared index has one in the migrated schema that serves the same lookups; two
  have no index of their name, two are unique only in the classes, and the five of the second revision
  are known to the migrations only.
\<close>

lemma declared_indexes_served:
  "case upgrade_all revisions empty_schema of
     Inl e \<Rightarrow> False
   | Inr sc \<Rightarrow>
       list_all (\<lambda>(n, ix). covered_by (sc_indexes sc) ix) orm_indexes \<and>
       missing_indexes sc = [''ix_executions_status'', ''ix_execution_logs_execution_id''] \<and>
       altered_indexes sc = [''ix_users_username'', ''ix_users_email''] \<and>
       set (extra_indexes sc) = {''ix_execution_log_execution_id'', ''ix_exec_status_created'', ''ix_exec_created_status'',
         ''ix_exec_failed_created'', ''ix_fv_created'', ''ix_exec_fn_status''}"
  by code_simp

end
