(* ===== verification/Startup.thy ===== *)
theory Startup
  imports Gateway
begin

text \<open>
  What a process makes of the settings when it starts and keeps for its life: the Redis pool of
  \<open>shared/queue/redis_client.py\<close> and the MinIO client of \<open>shared/storage/artifact_storage.py\<close>, both made on first
  use and shared, the options of the database engine in \<open>shared/db/session.py\<close>, the log configuration of
  \<open>shared/observability/logging.py\<close>, the cluster configuration of \<open>sandbox/k8s_sandbox.py\<close>, and the end of the
  lifespan in \<open>api/main.py\<close>. Opening and closing are what the libraries do; \<open>aclose\<close> is the outcome of
  closing a pool.
\<close>

section \<open>Shared clients\<close>

record redis_pool =
  rp_url :: string
  rp_max_connections :: int
  rp_socket_timeout :: int
  rp_connect_timeout :: int
  rp_open :: bool

record minio_client =
  mc_endpoint :: string
  mc_access_key :: string
  mc_secret_key :: string
  mc_secure :: bool

text \<open>The pools made so far, the one in \<open>_pool\<close>, the client in \<open>_client\<close> and how many were made.\<close>

record process =
  pr_pools :: "redis_pool list"
  pr_pool :: "nat option"
  pr_client :: "minio_client option"
  pr_clients_made :: nat

definition fresh_process :: process where
  "fresh_process = \<lparr>pr_pools = [], pr_pool = None, pr_client = None, pr_clients_made = 0\<rparr>"

definition pool_of_settings :: "settings \<Rightarrow> redis_pool" where
  "pool_of_settings cfg =
     \<lparr>rp_url = redis_url cfg, rp_max_connections = redis_max_connections cfg,
      rp_socket_timeout = redis_socket_timeout cfg, rp_connect_timeout = redis_socket_connect_timeout cfg,
      rp_open = True\<rparr>"

definition get_redis_pool :: "settings \<Rightarrow> process \<Rightarrow> nat \<times> process" where
  "get_redis_pool cfg p =
     (case pr_pool p of
        Some i \<Rightarrow> (i, p)
      | None \<Rightarrow>
          (let i = length (pr_pools p) in
           (i, p\<lparr>pr_pools := pr_pools p @ [pool_of_settings cfg], pr_pool := Some i\<rparr>)))"

text \<open>A close that raises leaves the pool where it is.\<close>

definition close_redis_pool :: "unit result \<Rightarrow> process \<Rightarrow> unit result \<times> process" where
  "close_redis_pool aclose p =
     (case pr_pool p of
        None \<Rightarrow> (Inr (), p)
      | Some i \<Rightarrow>
          (case aclose of
             Inl e \<Rightarrow> (Inl e, p)
           | Inr _ \<Rightarrow>
               (Inr (), p\<lparr>pr_pools := (pr_pools p)[i := (pr_pools p ! i)\<lparr>rp_open := False\<rparr>], pr_pool := None\<rparr>)))"

definition get_minio_client :: "settings \<Rightarrow> process \<Rightarrow> minio_client \<times> process" where
  "get_minio_client cfg p =
     (case pr_client p of
        Some c \<Rightarrow> (c, p)
      | None \<Rightarrow>
          (let c = \<lparr>mc_endpoint = minio_endpoint cfg, mc_access_key = minio_access_key cfg,
                    mc_secret_key = minio_secret_key cfg, mc_secure = minio_secure cfg\<rparr>
           in (c, p\<lparr>pr_client := Some c, pr_clients_made := Suc (pr_clients_made p)\<rparr>)))"

text \<open>The shutdown half of \<open>lifespan\<close>.\<close>

definition lifespan_end :: "unit result \<Rightarrow> process \<Rightarrow> unit result \<times> process" where
  "lifespan_end aclose p = close_redis_pool aclose p"

section \<open>Options\<close>

definition is_sqlite :: "settings \<Rightarrow> bool" where
  "is_sqlite cfg \<longleftrightarrow> prefix ''sqlite'' (database_url cfg)"

text \<open>Pool size, overflow and timeout, none of them for SQLite.\<close>

record engine_options =
  eo_url :: string
  eo_pool :: "(int \<times> int \<times> int) option"
  eo_pre_ping :: bool
  eo_echo :: bool

definition engine_options_of :: "settings \<Rightarrow> engine_options" where
  "engine_options_of cfg =
     \<lparr>eo_url = database_url cfg,
      eo_pool = (if is_sqlite cfg then None
                 else Some (database_pool_size cfg, database_max_overflow cfg, database_pool_timeout cfg)),
      eo_pre_ping = (\<not> is_sqlite cfg), eo_echo = api_debug cfg\<rparr>"

text \<open>What \<open>create_app\<close> asks of the CORS middleware; the list \<open>["*"]\<close> stands for everything.\<close>

record cors_options =
  cs_origins :: "string list"
  cs_credentials :: bool
  cs_methods :: "string list"
  cs_headers :: "string list"

definition cors_options_of :: "settings \<Rightarrow> cors_options" where
  "cors_options_of cfg =
     \<lparr>cs_origins = api_cors_origins cfg, cs_credentials = True, cs_methods = [''*''], cs_headers = [''*'']\<rparr>"

text \<open>The levels of \<open>logging\<close> by name; a name that is no level stands for \<open>INFO\<close>.\<close>

definition log_levels :: "(string \<times> nat) list" where
  "log_levels = [(''DEBUG'', 10), (''INFO'', 20), (''WARNING'', 30), (''ERROR'', 40), (''CRITICAL'', 50)]"

definition log_threshold :: "settings \<Rightarrow> nat" where
  "log_threshold cfg = (case map_of log_levels (log_level cfg) of None \<Rightarrow> 20 | Some n \<Rightarrow> n)"

definition json_logs :: "settings \<Rightarrow> bool" where
  "json_logs cfg \<longleftrightarrow> log_format cfg = ''json''"

definition noisy_loggers :: "string list" where
  "noisy_loggers = [''uvicorn.access'', ''sqlalchemy.engine'', ''hiredis'']"

text \<open>The level a logger ends with: its own if it has one, else that of the root.\<close>

definition effective_level :: "settings \<Rightarrow> string \<Rightarrow> nat" where
  "effective_level cfg logger = (if logger \<in> set noisy_loggers then 30 else log_threshold cfg)"

text \<open>\<open>KubernetesSandbox.__init__\<close>: only a \<open>ConfigException\<close> leads to the kubeconfig.\<close>

datatype cluster_access = No_cluster | In_cluster | Kubeconfig

definition load_cluster ::
  "settings \<Rightarrow> (exn \<Rightarrow> bool) \<Rightarrow> unit result \<Rightarrow> unit result \<Rightarrow> cluster_access result" where
  "load_cluster cfg is_config_exception incluster kubeconfig =
     (if \<not> sandbox_enabled cfg then Inr No_cluster
      else (case incluster of
              Inr _ \<Rightarrow> Inr In_cluster
            | Inl e \<Rightarrow>
                if is_config_exception e
                then (case kubeconfig of Inl e' \<Rightarrow> Inl e' | Inr _ \<Rightarrow> Inr Kubeconfig)
                else Inl e))"

section \<open>Lemmas\<close>

text \<open>By default a browser sends credentials to one origin only.\<close>

lemma default_origins: "cs_credentials (cors_options_of default_settings) \<and> cs_origins (cors_options_of default_settings) = [''http://localhost:3000'']"
  by (simp add: cors_options_of_def default_settings_def settings_of_def)

text \<open>At most one pool is open, and it is the shared one: whatever a process does, it holds one set of
  connections, and none after a shutdown that closed it.\<close>

definition one_pool :: "process \<Rightarrow> bool" where
  "one_pool p \<longleftrightarrow> (\<forall>i < length (pr_pools p). rp_open (pr_pools p ! i) \<longleftrightarrow> pr_pool p = Some i) \<and>
     (\<forall>i. pr_pool p = Some i \<longrightarrow> i < length (pr_pools p))"

datatype use = Redis_use | Minio_use | Shutdown "unit result"

fun use_step :: "settings \<Rightarrow> use \<Rightarrow> process \<Rightarrow> process" where
  "use_step cfg Redis_use p = snd (get_redis_pool cfg p)"
| "use_step cfg Minio_use p = snd (get_minio_client cfg p)"
| "use_step cfg (Shutdown aclose) p = snd (lifespan_end aclose p)"

lemma one_pool_fresh: "one_pool fresh_process"
  by (simp add: one_pool_def fresh_process_def)

lemma one_pool_step: "one_pool p \<Longrightarrow> one_pool (use_step cfg u p)"
  by (cases u)
    (auto simp: one_pool_def get_redis_pool_def get_minio_client_def lifespan_end_def close_redis_pool_def
      pool_of_settings_def Let_def nth_append nth_list_update less_Suc_eq split: option.splits sum.splits)

lemma one_pool_always: "one_pool (fold (use_step cfg) us fresh_process)"
proof -
  have "one_pool p \<Longrightarrow> one_pool (fold (use_step cfg) us p)" for p
    by (induction us arbitrary: p) (auto intro: one_pool_step)
  then show ?thesis using one_pool_fresh by blast
qed

lemma closed_after_shutdown:
  assumes "one_pool p"
  shows "\<forall>q \<in> set (pr_pools (snd (lifespan_end (Inr ()) p))). \<not> rp_open q"
proof -
  have "one_pool (snd (lifespan_end (Inr ()) p))"
    using one_pool_step [OF assms, of _ "Shutdown (Inr ())"] by simp
  moreover have "pr_pool (snd (lifespan_end (Inr ()) p)) = None"
    by (simp add: lifespan_end_def close_redis_pool_def split: option.split)
  ultimately show ?thesis by (auto simp: one_pool_def in_set_conv_nth)
qed

text \<open>The pool and the client of a process are made once.\<close>

lemma pool_shared: "get_redis_pool cfg p = (i, q) \<Longrightarrow> get_redis_pool cfg q = (i, q)"
  by (auto simp: get_redis_pool_def Let_def split: option.splits)

lemma client_made_once: "pr_clients_made (fold (use_step cfg) us fresh_process) \<le> 1"
proof -
  let ?ok = "\<lambda>p. pr_clients_made p = (if pr_client p = None then 0 else 1)"
  have "?ok p \<Longrightarrow> ?ok (use_step cfg u p)" for u p
    by (cases u) (auto simp: get_redis_pool_def get_minio_client_def lifespan_end_def close_redis_pool_def Let_def
      split: option.splits sum.splits)
  then have "?ok p \<Longrightarrow> ?ok (fold (use_step cfg) us p)" for p by (induction us arbitrary: p) auto
  from this [of fresh_process] show ?thesis by (simp add: fresh_process_def split: if_splits)
qed

text \<open>Validated settings name a level, so the fallback is never taken.\<close>

lemma log_level_known: "validate_settings cfg = Inr cfg' \<Longrightarrow> map_of log_levels (log_level cfg) \<noteq> None"
  by (auto simp: validate_settings_def log_levels_def split: if_splits)

text \<open>Nothing but a \<open>ConfigException\<close> is taken for a process outside the cluster.\<close>

lemma other_error_stops:
  "sandbox_enabled cfg \<Longrightarrow> \<not> ce e \<Longrightarrow> load_cluster cfg ce (Inl e) kubeconfig = Inl e"
  by (simp add: load_cluster_def)

end
