(* ===== verification/End_To_End.thy ===== *)
theory End_To_End
  imports Queue_Properties Execution_Properties Worker_Properties Processes
begin

text \<open>
  An execution from its request to its answer, across the API, the queue and a worker. A server that
  answers every command is a \<open>redis_server\<close> with further laws; over it a request on an idle queue is
  carried out by the next poll of a worker, and its caller reads the outcome.
\<close>

section \<open>A server that answers\<close>

locale answering_server = redis_server R zs kv rest rank
  for R :: "'r redis" and zs :: "'r \<Rightarrow> zsets" and kv :: "'r \<Rightarrow> string \<Rightarrow> string option"
    and rest :: "'r \<Rightarrow> string \<Rightarrow> nat \<Rightarrow> string set" and rank :: "'r \<Rightarrow> string \<Rightarrow> nat \<Rightarrow> nat" +
  assumes zadd_answers: "\<exists>s'. r_zadd R k m sc s = (Inr (), s')"
    and pop_answers: "\<exists>p s'. r_bzpopmin R k t s = (Inr p, s')"
    and scan_answers: "\<exists>p s'. r_zscan R k c s = (Inr p, s')"
    and zrem_answers: "\<exists>s'. r_zrem R k m s = (Inr (), s')"
    and zcard_answers: "\<exists>n s'. r_zcard R k s = (Inr n, s')"
begin

lemma enqueue_answers:
  obtains s' where "enqueue_job R clock i p pr s = (Inr (), s')"
    "zs s' = zput queue_name (dumps (job_object i p)) (job_score (clock 0) pr) (zs s)"
proof -
  obtain s' where put: "r_zadd R queue_name (dumps (job_object i p)) (job_score (clock 0) pr) s = (Inr (), s')"
    using zadd_answers by blast
  then have "enqueue_job R clock i p pr s = (Inr (), s')"
    unfolding enqueue_job_def by (rule redis_retry_total_first)
  with zadd_ok [OF put] show thesis using that by blast
qed

lemma dequeue_answers:
  assumes "zs s queue_name = [m \<mapsto> sc]" and "loads m = Some j"
  obtains s' where "dequeue_job R t s = (Inr (Some j), s')"
    "zs s' = zput processing_set m sc (zdel queue_name m (zs s))"
proof -
  obtain p s1 where pop: "r_bzpopmin R queue_name t s = (Inr p, s1)" using pop_answers by blast
  have "p \<noteq> None"
  proof
    assume "p = None"
    with pop have "zs s queue_name m = None" using pop_none by blast
    then show False using assms(1) by simp
  qed
  then obtain n x where p: "p = Some (n, x)" by auto
  have nx: "n = m" "x = sc" and s1: "zs s1 = zdel queue_name m (zs s)"
    using pop_some [OF pop [unfolded p]] assms(1) by (auto split: if_splits)
  obtain s2 where add: "r_zadd R processing_set m sc s1 = (Inr (), s2)" using zadd_answers by blast
  have "dequeue_attempt R t s = (Inr (Some j), s2)"
    using pop add assms(2) by (simp add: dequeue_attempt_def p nx)
  then have "dequeue_job R t s = (Inr (Some j), s2)"
    unfolding dequeue_job_def by (rule redis_retry_total_first)
  with zadd_ok [OF add] s1 show thesis using that by simp
qed

lemma depth_answers:
  obtains n s' where "queue_depth R s = (Inr n, s')" "zs s' = zs s"
proof -
  obtain n s' where "r_zcard R queue_name s = (Inr n, s')" using zcard_answers by blast
  then have "queue_depth R s = (Inr n, s')" unfolding queue_depth_def by (rule redis_retry_total_first)
  with queue_depth_same show thesis using that by blast
qed

lemma members_answer: "\<exists>b s'. ack_members R i ms s = (Inr b, s')"
proof (induction ms)
  case (Cons m ms)
  obtain member sc where m: "m = (member, sc)" by (cases m)
  obtain s1 where "r_zrem R processing_set member s = (Inr (), s1)" using zrem_answers by blast
  with Cons m show ?case by (cases "has_job_id i member") auto
qed auto

lemma scan_job_answers: "\<exists>s'. ack_scan R i c s = Some (Inr (), s')"
proof (induction "rank s processing_set c" arbitrary: s c rule: less_induct)
  case less
  obtain c' ms s1 where scan: "r_zscan R processing_set c s = (Inr (c', ms), s1)"
    using scan_answers by (metis prod.exhaust)
  obtain b s2 where am: "ack_members R i ms s1 = (Inr b, s2)" using members_answer by blast
  show ?case
  proof (cases "b \<or> c' = 0")
    case False
    then have "s2 = s1" using ack_members_effect [OF am] by simp
    then have "rank s2 processing_set c' < rank s processing_set c" using scan_ok [OF scan] False by simp
    then show ?thesis using less scan am False by (simp add: ack_scan.simps [of R i c])
  qed (use scan am in \<open>simp add: ack_scan.simps [of R i c]\<close>)
qed

lemma ack_answers: "\<exists>s'. ack_job R i s = Some (Inr (), s')"
proof -
  obtain s' where "ack_scan R i 0 s = Some (Inr (), s')" using scan_job_answers by blast
  then show ?thesis by (simp add: ack_job_def redis_retry_def max_attempts_def numeral_2_eq_2)
qed

text \<open>A job added to the processing set by a pop is removed by its acknowledgement, and nothing else is.\<close>

lemma ack_undoes_pop:
  assumes "has_job_id i m" and "zs s processing_set = q(m \<mapsto> sc)" and "\<forall>x \<in> dom q. \<not> has_job_id i x"
  obtains s' where "ack_job R i s = Some (Inr (), s')" "zs s' queue_name = zs s queue_name" "zs s' processing_set = q"
proof -
  obtain s' where ack: "ack_job R i s = Some (Inr (), s')" using ack_answers by blast
  have "zs s' processing_set = (zs s processing_set)(m := None)"
    by (rule queue.ack_removes [OF ack assms(1)]) (use assms in \<open>auto simp: dom_def split: if_splits\<close>)
  moreover have "q m = None" using assms(1,3) by blast
  ultimately have "zs s' processing_set = q" using assms(2) by (auto simp: fun_eq_iff)
  with ack queue.ack_frame [OF ack] show thesis using that by blast
qed

text \<open>The pop, the run and the acknowledgement of one poll, when one job waits.\<close>

lemma poll_one_job:
  assumes "zs s queue_name = [m \<mapsto> sc]" and "loads m = Some job" and "job_id_of job = Inr i" and "has_job_id i m"
    and "\<forall>x \<in> dom (zs s processing_set). \<not> has_job_id i x" and "process_job w job d = (Inr (), d')"
  obtains s' where "poll_once cfg R w (d, s) = Some (Inr (), d', s')"
    "zs s' queue_name = Map.empty" "zs s' processing_set = zs s processing_set"
proof -
  obtain s1 where deq: "dequeue_job R (max 1 (worker_queue_poll_interval cfg)) s = (Inr (Some job), s1)"
    and s1: "zs s1 = zput processing_set m sc (zdel queue_name m (zs s))"
    by (rule dequeue_answers [OF assms(1,2)])
  obtain n s2 where depth: "queue_depth R s1 = (Inr n, s2)" and s2: "zs s2 = zs s1" by (rule depth_answers)
  have "zs s2 processing_set = (zs s processing_set)(m \<mapsto> sc)" "zs s2 queue_name = Map.empty"
    using assms(1) by (simp_all add: s2 s1 zput_apply zdel_apply fun_eq_iff)
  moreover obtain s3 where "ack_job R i s2 = Some (Inr (), s3)" "zs s3 queue_name = zs s2 queue_name"
      "zs s3 processing_set = zs s processing_set"
    by (rule ack_undoes_pop [OF assms(4) calculation(1) assms(5)])
  ultimately show thesis using that [of s3] by (simp add: poll_once_def deq depth assms(3,6))
qed

end

interpretation mem_answers: answering_server mem_redis mem_zs mem_kv mem_rest "\<lambda>_ _ _. 0"
  by unfold_locales (auto simp: mem_redis_def split: option.splits)

section \<open>From the request to the answer\<close>

lemma function_job_object:
  "job_object (str_nat (e_id e)) (function_job e fn v) =
     JObj ((''job_id'', JStr (str_nat (e_id e))) # function_job e fn v)"
  by (simp add: job_object_def function_job_def)

lemma wf_function_job:
  "wf_json (e_payload e) \<Longrightarrow> wf_json (JObj (v_environment v)) \<Longrightarrow> wf_json (job_object (str_nat (e_id e)) (function_job e fn v))"
  unfolding function_job_object by (simp add: function_job_def)

lemma trigger_begin_row:
  assumes "get_function_or_404 fid user d = Inr fn" and "choose_execution_version d fn (et_version_id body) draw = Inr (Some v)"
    and "\<forall>x \<in> set (t_executions d). e_id x \<noteq> i"
    and "e = function_execution fn v user None (et_payload body) (trigger_timeout body v) i now"
  shows "trigger_begin fid user body draw i now d = (Inr (e, function_job e fn v), d\<lparr>t_executions := t_executions d @ [e]\<rparr>)"
  using assms by (auto simp: trigger_begin_def insert_execution_def function_execution_def new_execution_def list_ex_iff Let_def)

lemma keys_ok_fresh_execution:
  "keys_ok d \<Longrightarrow> \<forall>x \<in> set (t_executions d). e_id x \<noteq> e_id e \<Longrightarrow> keys_ok (d\<lparr>t_executions := t_executions d @ [e]\<rparr>)"
  by (auto simp: keys_ok_def)

text \<open>The owner reads what the run left.\<close>

lemma processed_row_readable:
  fixes w :: processing and job :: json
  defines "sr \<equiv> settle (wp_elapsed_ms w) (wp_run w (job_dict job))"
  assumes "keys_ok d" and "e \<in> set (t_executions d)" and "e_status e = QUEUED" and "execution_owner_clause d user e"
    and "job_id_of job = Inr (str_nat (e_id e))" and "wp_other w = (\<lambda>d. d)" and "error_text (sr_error sr) = Inr err"
  obtains d' e' where "process_job w job d = (Inr (), d')" "get_execution (e_id e) user d' = Inr e'"
    "e_status e' = (if sr_timed_out sr then TIMED_OUT else if sr_success sr then COMPLETED else FAILED)"
    "e_result e' = sr_result sr" "e_schedule_id e' = e_schedule_id e" "t_schedules d' = t_schedules d"
proof -
  let ?e' = "finished_row sr err (wp_elapsed_ms w) (wp_end w)
    (e\<lparr>e_status := RUNNING, e_started_at := Some (wp_begin w), e_worker_id := Some (wp_worker_id w)\<rparr>)"
  let ?d = "set_execution (e_id e) (\<lambda>_. ?e') d"
  let ?d' = "?d\<lparr>t_logs := t_logs d @ log_rows (e_id e) (wp_end w) (sr_logs sr)\<rparr>"
  have "process_job w job d = (Inr (), ?d')"
    using process_job_row [OF assms(2-4,6,7), of err] assms(8) by (simp add: sr_def)
  moreover have "keys_ok ?d" "?e' \<in> set (t_executions ?d)" using set_execution_keys [OF assms(2,3), of ?e'] by simp_all
  then have "get_execution (e_id ?e') user ?d' = Inr ?e'"
    using assms(5) by (intro get_execution_found) (simp_all add: owner_clause_iff finished_row_def move_status_cases set_execution_def)
  moreover have "e_schedule_id ?e' = e_schedule_id e" by (simp add: finished_row_def move_status_cases)
  moreover have "t_schedules ?d' = t_schedules d" by (simp add: set_execution_def)
  ultimately show thesis using that [of ?d' ?e'] by (simp add: move_status_cases final_status_def)
qed



section \<open>A worker that is cut off\<close>

text \<open>C4: A worker that outlives the shutdown timeout while its sandbox runs leaves the execution RUNNING under its
  name. Its job no longer waits, so no worker gets it again; a recovery leaves the execution alone until
  twice its timeout and the grace have passed since it began, and one after that fails it as an
  infrastructure error. So the outcome of the run is lost, whatever the handler did.\<close>

theorem cancelled_run_recovered:
  assumes "redis_server R zs kv rest rank" and "keys_ok d" and "e \<in> set (t_executions d)" and "e_status e = QUEUED"
    and "dequeue_job R (max 1 (worker_queue_poll_interval cfg)) s = (Inr (Some job), s1)"
    and "queue_depth R s1 = (Inr depth, s2)" and "job_id_of job = Inr (str_nat (e_id e))"
    and "worker_shutdown_timeout cfg < remaining" and "last_poll cfg R w remaining (d, s) = Some (d', s')"
    and "recover_stale cfg now d' = (n, d'')"
  shows "(\<exists>m. loads m = Some job \<and> zs s' queue_name m = None \<and> m \<in> dom (zs s' processing_set)) \<and>
    (\<exists>x \<in> set (t_executions d'). e_id x = e_id e \<and> e_status x = RUNNING \<and> e_worker_id x = Some (wp_worker_id w)) \<and>
    (\<exists>y \<in> set (t_executions d''). e_id y = e_id e \<and> e_result y = e_result e \<and>
       (if now < wp_begin w + seconds (max 1 (e_timeout e) * 2 + worker_stale_timeout_grace cfg) then e_status y = RUNNING
        else e_status y = FAILED \<and> e_failure_kind y = Some ''infra''))"
proof -
  let ?x = "e\<lparr>e_status := RUNNING, e_started_at := Some (wp_begin w), e_worker_id := Some (wp_worker_id w)\<rparr>"
  let ?y = "if is_stale cfg now ?x then recovered_row now ?x else ?x"
  have fin: "d' = set_execution (e_id e) (\<lambda>_. ?x) d" "s' = s2"
    using assms(9) worker_begin_row [OF assms(2,3)] assms(4)
    by (simp_all add: last_poll_def assms(8) poll_cancelled_def assms(5-7) chain_def get_db_def)
  have zs: "zs s' = zs s1" using redis_server.queue_depth_same [OF assms(1,6)] fin by simp
  obtain m sc where "loads m = Some job" "zs s1 queue_name m = None" "zs s1 processing_set m = Some sc"
    using redis_server.served_job [OF assms(1,5)] by blast
  moreover have x: "?x \<in> set (t_executions d')" using set_execution_keys [OF assms(2,3), of ?x] fin by simp
  moreover have "?y \<in> set (t_executions d'')"
    using assms(10) x by (force simp: recover_stale_def update_where_def)
  moreover have "is_stale cfg now ?x \<longleftrightarrow> \<not> now < wp_begin w + seconds (max 1 (e_timeout e) * 2 + worker_stale_timeout_grace cfg)"
    by (auto simp: is_stale_def stale_after_def)
  ultimately show ?thesis
    by (intro conjI bexI [of _ ?x] bexI [of _ ?y] exI [of _ m]) (auto simp: zs recovered_row_stale)
qed

theorem cancelled_run_recovered_witness:
  "\<exists>s d' s' y. last_poll default_settings mem_redis (demo_processing TookTooLong) 61 (demo_db, s) = Some (d', s') \<and>
     y \<in> set (t_executions (snd (recover_stale default_settings (seconds 9999) d'))) \<and> e_id y = 30 \<and> e_status y = FAILED"
proof -
  let ?cfg = default_settings and ?w = "demo_processing TookTooLong" and ?e = "demo_execution 30 QUEUED"
  have job: "job_object (str_nat 30) [] = demo_job" by (simp add: job_object_def demo_job_def)
  have "wf_json demo_job" by (simp add: demo_job_def)
  note read = loads_dumps [OF this]
  obtain s where "mem_zs s = zput queue_name (dumps demo_job) (job_score 0 0) (mem_zs mem_empty)"
    by (rule mem_answers.enqueue_answers [of "\<lambda>n. 0" "str_nat 30" "[]" 0 mem_empty, unfolded job])
  then have "mem_zs s queue_name = [dumps demo_job \<mapsto> job_score 0 0]" by (simp add: zput_apply mem_queue_empty)
  then obtain s1 where deq: "dequeue_job mem_redis (max 1 (worker_queue_poll_interval ?cfg)) s = (Inr (Some demo_job), s1)"
    by (rule mem_answers.dequeue_answers [OF _ read])
  obtain depth s2 where len: "queue_depth mem_redis s1 = (Inr depth, s2)" by (rule mem_answers.depth_answers)
  have id: "job_id_of demo_job = Inr (str_nat (e_id ?e))" by (simp add: job_id_of_def demo_job_def need_str_def)
  have long: "worker_shutdown_timeout ?cfg < 61" by (simp add: default_settings_def settings_of_def)
  obtain d' s' where last: "last_poll ?cfg mem_redis ?w 61 (demo_db, s) = Some (d', s')"
    using long by (metis last_poll_def prod.exhaust)
  obtain n d'' where rec: "recover_stale ?cfg (seconds 9999) d' = (n, d'')" by fastforce
  have late: "\<not> seconds 9999 < wp_begin ?w + seconds (max 1 (e_timeout ?e) * 2 + worker_stale_timeout_grace ?cfg)"
    by (simp add: demo_processing_def)
  from cancelled_run_recovered [OF mem.redis_server_axioms demo_keys_ok _ _ deq len id long last rec]
  obtain y where "y \<in> set (t_executions d'')" "e_id y = 30" "e_status y = FAILED" using late by auto
  then show ?thesis using last rec by (metis snd_conv)
qed

end
