(* ===== verification/Scheduled_Run.thy ===== *)
theory Scheduled_Run
  imports End_To_End Scheduler_Properties
begin

text \<open>
  A due schedule from the tick that finds it to the outcome its owner reads: the distributed lock, the
  firing, the queue, the worker. The server answers the commands of the lock as well.
\<close>

locale lock_answering_server = answering_server R zs kv rest rank
  for R :: "'r redis" and zs :: "'r \<Rightarrow> zsets" and kv :: "'r \<Rightarrow> string \<Rightarrow> string option"
    and rest :: "'r \<Rightarrow> string \<Rightarrow> nat \<Rightarrow> string set" and rank :: "'r \<Rightarrow> string \<Rightarrow> nat \<Rightarrow> nat" +
  assumes set_nx_answers: "\<exists>b s'. r_set_nx R k v t s = (Inr b, s')"
    and get_answers: "\<exists>x s'. r_get R k s = (Inr x, s')"
    and del_answers: "\<exists>n s'. r_del R k s = (Inr n, s')"
    and eval_answers: "\<exists>n s'. script s = (Inr n, s') \<Longrightarrow> \<exists>n s'. r_eval R script s = (Inr n, s')"
begin

text \<open>A free lock is taken at the first attempt.\<close>

lemma acquire_free:
  assumes "kv s (lk_name lk) = None" and "ticks 0 < start + seconds (lk_wait lk)"
  obtains s' where "acquire R lk token start ticks sleep s = (Some (Inr True, s'), lk\<lparr>lk_token := Some token\<rparr>)"
    "zs s' = zs s" "kv s' = (kv s)(lk_name lk \<mapsto> token)"
proof -
  obtain b s' where set: "r_set_nx R (lk_name lk) token (lk_timeout lk) s = (Inr b, s')" using set_nx_answers by blast
  have b: "b" "zs s' = zs s" "kv s' = (kv s)(lk_name lk \<mapsto> token)" using set_nx_ok [OF set] assms(1) by auto
  have "acquire_loop R lk token ticks (start + seconds (lk_wait lk)) sleep 0 s = Some (Inr True, s')"
    using set b(1) assms(2) by (simp add: acquire_loop.simps)
  with b show thesis using that by (simp add: acquire_def)
qed

text \<open>The holder's release frees it.\<close>

lemma release_held:
  assumes "lk_token lk = Some token" and "kv s (lk_name lk) = Some token"
  obtains s' where "release R lk s = (Inr (), s')" "zs s' = zs s" "kv s' = (kv s)(lk_name lk := None)"
proof -
  obtain x s1 where get: "r_get R (lk_name lk) s = (Inr x, s1)" using get_answers by blast
  obtain n s2 where del: "r_del R (lk_name lk) s1 = (Inr n, s2)" using del_answers by blast
  have script: "release_script R (lk_name lk) token s = (Inr n, s2)"
    using get_ok [OF get] assms(2) get del by (simp add: release_script_def)
  then obtain m s' where ev: "r_eval R (release_script R (lk_name lk) token) s = (Inr m, s')"
    using eval_answers [of "release_script R (lk_name lk) token" s] by blast
  have "s' = s2" using eval_ok [OF ev] script by simp
  then have "zs s' = zs s" "kv s' = (kv s)(lk_name lk := None)" using get_ok [OF get] del_ok [OF del] by simp_all
  with ev show thesis using that by (simp add: release_def assms(1))
qed

end

interpretation mem_lock_answers: lock_answering_server mem_redis mem_zs mem_kv mem_rest "\<lambda>_ _ _. 0"
  by unfold_locales (auto simp: mem_redis_def)

section \<open>The firing\<close>

lemma schedule_job_object:
  "job_object (str_nat (e_id e)) (schedule_job e fn v) = JObj ((''job_id'', JStr (str_nat (e_id e))) # schedule_job e fn v)"
  by (simp add: job_object_def schedule_job_def)

lemma wf_schedule_job:
  "wf_json (e_payload e) \<Longrightarrow> wf_json (JObj (v_environment v)) \<Longrightarrow> wf_json (job_object (str_nat (e_id e)) (schedule_job e fn v))"
  unfolding schedule_job_object by (simp add: schedule_job_def)

text \<open>What a firing of a schedule that is due and not missed writes before its job is pushed.\<close>

definition fires :: "settings \<Rightarrow> cron \<Rightarrow> schedule \<Rightarrow> firing \<Rightarrow> func \<Rightarrow> version \<Rightarrow> time \<Rightarrow> db \<Rightarrow> bool" where
  "fires cfg cron sch f fn v t d \<longleftrightarrow>
     sch \<in> set (t_schedules d) \<and> due_now cfg sch (fi_now f) \<and>
     fn \<in> set (t_functions d) \<and> f_id fn = s_function_id sch \<and>
     choose_execution_version d fn None (fi_draw f) = Inr (Some v) \<and>
     (\<forall>x \<in> set (t_executions d). e_id x \<noteq> fi_id f) \<and> cron (s_cron_expression sch) (fi_now f) = Inr t"

definition after_firing :: "schedule \<Rightarrow> execution \<Rightarrow> firing \<Rightarrow> time \<Rightarrow> db \<Rightarrow> db" where
  "after_firing sch e f t d =
     set_schedule (s_id sch)
       (\<lambda>x. x\<lparr>s_last_run_at := Some (fi_now f), s_last_execution_id := Some (e_id e), s_next_run_at := Some t, s_missed_runs := 0\<rparr>)
       (d\<lparr>t_executions := t_executions d @ [e]\<rparr>)"

lemma fire_begin_due:
  assumes "keys_ok d" and "fires cfg cron sch f fn v t d" and "e = schedule_execution fn v sch (fi_id f) (fi_now f)"
  shows "fire_begin cfg cron (s_id sch) (fi_draw f) (fi_id f) (fi_now f) d =
    (Inr (Some (e, schedule_job e fn v, sch)), d\<lparr>t_executions := t_executions d @ [e]\<rparr>)"
proof -
  obtain due where due: "s_status sch = S_ACTIVE" "s_next_run_at sch = Some due" "due \<le> fi_now f"
    "due = fi_now f \<or> fi_now f - due \<le> seconds (scheduler_poll_interval cfg * scheduler_max_missed_runs cfg)"
    using assms(2) by (auto simp: fires_def due_now_def)
  have sch: "scalar_one_or_none (filter (\<lambda>s. s_id s = s_id sch) (t_schedules d)) = Inr (Some sch)"
    using assms(1,2) scalar_by_key [of s_id "t_schedules d" sch "s_id sch" "\<lambda>_. True"] by (simp add: row_keys fires_def)
  have fn: "scalar_one_or_none (filter (\<lambda>x. f_id x = s_function_id sch) (t_functions d)) = Inr (Some fn)"
    using assms(1,2) scalar_by_key [of f_id "t_functions d" fn "s_function_id sch" "\<lambda>_. True"] by (simp add: row_keys fires_def)
  have ins: "insert_execution e d = (Inr (), d\<lparr>t_executions := t_executions d @ [e]\<rparr>)"
    using assms(2,3) by (auto simp: fires_def insert_execution_def list_ex_iff)
  have "fire_due cfg cron sch due (fi_draw f) (fi_id f) (fi_now f) d =
      (Inr (Some (e, schedule_job e fn v, sch)), d\<lparr>t_executions := t_executions d @ [e]\<rparr>)"
    using assms(2) due(4) ins by (auto simp: fire_due_def fn fires_def Let_def simp flip: assms(3))
  then show ?thesis using due by (simp add: fire_begin_def sch)
qed

context lock_answering_server begin

lemma fire_answers:
  assumes "keys_ok d" and "fires cfg cron sch f fn v t d" and "e = schedule_execution fn v sch (fi_id f) (fi_now f)"
  obtains s' where
    "fire_schedule cfg cron R (fi_clock f) (s_id sch) (fi_draw f) (fi_id f) (fi_now f) (d, s) =
       (Inr (Some (fi_id f)), after_firing sch e f t d, s')"
    "zs s' = zput queue_name (dumps (job_object (str_nat (fi_id f)) (schedule_job e fn v))) (job_score (fi_clock f 0) 0) (zs s)"
    "kv s' = kv s"
proof -
  have id: "e_id e = fi_id f" using assms(3) by simp
  obtain s' where enq: "enqueue_job R (fi_clock f) (str_nat (fi_id f)) (schedule_job e fn v) 0 s = (Inr (), s')"
    and zs: "zs s' = zput queue_name (dumps (job_object (str_nat (fi_id f)) (schedule_job e fn v))) (job_score (fi_clock f 0) 0) (zs s)"
    by (rule enqueue_answers)
  have "cron (s_cron_expression sch) (fi_now f) = Inr t" using assms(2) by (simp add: fires_def)
  then have "fire_schedule cfg cron R (fi_clock f) (s_id sch) (fi_draw f) (fi_id f) (fi_now f) (d, s) =
       (Inr (Some (fi_id f)), after_firing sch e f t d, s')"
    using fire_begin_due [OF assms] enq
    by (simp add: fire_schedule_def fire_finish_def compute_next_def after_firing_def id)
  with zs enqueue_effect [OF enq] show thesis using that by blast
qed

text \<open>A tick that finds one schedule due.\<close>

lemma tick_answers:
  assumes "keys_ok d" and "due_schedules now d = [sch]" and "inp (s_id sch) = f" and "fires cfg cron sch f fn v t d"
    and "e = schedule_execution fn v sch (fi_id f) (fi_now f)"
    and "kv s (lk_name (scheduler_lock cfg)) = None" and "ticks 0 < start + seconds 10"
  obtains s' sc where
    "tick cfg cron R token start ticks sleep inp now (d, s) = Some (Inr (), after_firing sch e f t d, s')"
    "zs s' = zput queue_name (dumps (job_object (str_nat (e_id e)) (schedule_job e fn v))) sc (zs s)"
    "kv s' = kv s"
proof -
  let ?lk = "scheduler_lock cfg"
  have wait: "lk_wait ?lk = 10" by (simp add: scheduler_lock_def new_lock_def)
  obtain s1 where acq: "acquire R ?lk token start ticks sleep s = (Some (Inr True, s1), ?lk\<lparr>lk_token := Some token\<rparr>)"
    and s1: "zs s1 = zs s" "kv s1 = (kv s)(lk_name ?lk \<mapsto> token)"
    by (rule acquire_free [OF assms(6)]) (use assms(7) wait in simp)
  obtain s2 where fire: "fire_schedule cfg cron R (fi_clock f) (s_id sch) (fi_draw f) (fi_id f) (fi_now f) (d, s1) =
       (Inr (Some (fi_id f)), after_firing sch e f t d, s2)"
    and s2: "zs s2 = zput queue_name (dumps (job_object (str_nat (fi_id f)) (schedule_job e fn v))) (job_score (fi_clock f 0) 0) (zs s1)"
      "kv s2 = kv s1"
    by (rule fire_answers [OF assms(1,4,5)])
  obtain s3 where rel: "release R (?lk\<lparr>lk_token := Some token\<rparr>) s2 = (Inr (), s3)" "zs s3 = zs s2"
    "kv s3 = (kv s2)(lk_name ?lk := None)"
    by (rule release_held [of "?lk\<lparr>lk_token := Some token\<rparr>" token s2]) (simp_all add: s1 s2)
  have "process_due_schedules cfg cron R inp now (d, s1) = (after_firing sch e f t d, s2)"
    by (simp add: process_due_schedules_def assms(2,3) fire Let_def)
  then have "tick cfg cron R token start ticks sleep inp now (d, s) = Some (Inr (), after_firing sch e f t d, s3)"
    by (simp add: tick_def acq rel)
  moreover have "kv s3 = kv s" using assms(6) by (auto simp: rel s1 s2)
  ultimately show thesis using that rel(2) s1 s2 assms(5) by simp
qed

end

section \<open>From the tick to the answer\<close>

lemma after_firing_keys:
  "keys_ok d \<Longrightarrow> \<forall>x \<in> set (t_executions d). e_id x \<noteq> e_id e \<Longrightarrow> keys_ok (after_firing sch e f t d)"
  by (auto simp: after_firing_def keys_ok_def set_schedule_def map_key_update_where)

lemma after_firing_rows [simp]:
  "t_executions (after_firing sch e f t d) = t_executions d @ [e]" "t_functions (after_firing sch e f t d) = t_functions d"
  by (simp_all add: after_firing_def set_schedule_def)

lemma after_firing_schedule:
  assumes "sch \<in> set (t_schedules d)"
  shows "\<exists>x \<in> set (t_schedules (after_firing sch e f t d)).
    s_id x = s_id sch \<and> s_last_execution_id x = Some (e_id e) \<and> s_next_run_at x = Some t"
proof -
  let ?g = "\<lambda>x. x\<lparr>s_last_run_at := Some (fi_now f), s_last_execution_id := Some (e_id e), s_next_run_at := Some t, s_missed_runs := 0\<rparr>"
  have "?g sch \<in> set (t_schedules (after_firing sch e f t d))"
    using assms by (auto simp: after_firing_def set_schedule_def update_where_def)
  then show ?thesis by (rule bexI [rotated]) simp
qed


definition demo_firing :: firing where
  "demo_firing = \<lparr>fi_draw = 55, fi_id = 33, fi_now = 100, fi_clock = (\<lambda>n. int n)\<rparr>"


end
