(* ===== verification/Spec2Isabelle.thy ===== *)
theory Spec2Isabelle
  imports Function_Properties Version_Properties Execution_Properties Worker_Properties
    Queue_Properties Scheduler_Properties Sandbox_Properties Access_Properties
    Typing Routes Dashboard_Properties Client_Properties Response_Properties Gateway Processes
    Metrics Column_Types Index_Declarations Startup Scheduled_Run System
begin

text \<open>
  \<^bold>\<open>PyFaaS, a function-as-a-service platform, in Isabelle/HOL.\<close>

  \<^bold>\<open>The program.\<close> An HTTP API (\<open>api/\<close>) keeps users, functions, their versions, schedules and executions
  in PostgreSQL and the uploaded archives in MinIO. A request to run a function commits a QUEUED
  execution and pushes a job to a Redis sorted set. Workers (\<open>worker/\<close>) pop jobs, claim the execution,
  run it in a sandbox (\<open>sandbox/\<close>, a Kubernetes job under gVisor, or a local process) and write the
  result back; a loop recovers executions whose worker went silent. A scheduler (\<open>scheduler/\<close>) fires
  cron schedules under a Redis lock. The model is a translation of that Python code: records for its
  rows and objects, one function per handler, exceptions as the left side of a sum.

  \<^bold>\<open>Theories and sources.\<close>
  \<^item> \<open>Prelude\<close>: results and exceptions, tables and queries, strings, decimal numbers. \<open>Json\<close>:
    \<open>json.dumps\<close> and \<open>json.loads\<close> with the round trip \<open>loads_dumps\<close>.
  \<^item> \<open>Models\<close>: \<open>shared/db/models.py\<close>, \<open>shared/db/session.py\<close>: enumerations, the state machine of
    executions, a record per table, inserts guarded by the unique constraints, \<open>get_db\<close>, and the data
    invariant \<open>db_ok\<close> (unique keys, referential integrity, active and canary versions). \<open>Column_Types\<close>:
    the type decorators for JSON and UUIDs. \<open>Index_Declarations\<close>: the indexes the classes declare.
  \<^item> \<open>Settings\<close>, \<open>Schemas\<close>: \<open>shared/config.py\<close>, \<open>api/schemas/schemas.py\<close>: settings and request bodies
    with their validation.
  \<^item> \<open>Storage\<close>: \<open>shared/storage/artifact_storage.py\<close> over a MinIO client.
  \<^item> \<open>Code_Validator\<close>: \<open>shared/security/code_validator.py\<close> over syntax trees.
  \<^item> \<open>Version_Routing\<close>, \<open>Functions_Router\<close>: \<open>shared/execution/version_routing.py\<close> and
    \<open>api/routers/functions.py\<close>: functions, uploads, activation, canary traffic, deletion.
  \<^item> \<open>Redis_Queue\<close>, \<open>Queue_Contract\<close>: \<open>shared/queue/redis_client.py\<close> over a Redis server; the contracts
    of the queue and the lock, and the proof that the code meets them on any server that meets its own.
    \<open>Queue_Refinement\<close>: the queue as a lossy bag of jobs, refined by the helpers.
  \<^item> \<open>Executions_Router\<close>, \<open>Auth\<close>, \<open>Invoke_Router\<close>: \<open>api/routers/\<close> executions, auth, keys, invoke and
    ephemeral, with \<open>api/dependencies/\<close> and \<open>shared/security/auth.py\<close>.
  \<^item> \<open>Scheduler\<close>: \<open>api/routers/schedules.py\<close>, \<open>scheduler/scheduler.py\<close>.
  \<^item> \<open>Sandbox\<close>, \<open>Sandbox_Facts\<close>: \<open>sandbox/k8s_sandbox.py\<close>; \<open>Runner\<close>: \<open>sandbox/runner.py\<close>; \<open>Worker\<close>:
    \<open>worker/worker.py\<close>; \<open>Processes\<close>: the loops of workers and scheduler around a poll and a tick.
  \<^item> \<open>Migrations\<close>: \<open>migrations/versions/\<close> as programs over a schema. \<open>Dashboard\<close>:
    \<open>api/services/dashboard_service.py\<close> and the websocket manager.
  \<^item> \<open>Responses\<close>: the response models of \<open>api/schemas/schemas.py\<close> and the answers made from them.
    \<open>Routes\<close>: the routes of \<open>api/main.py\<close> and what authenticates each. \<open>Gateway\<close>: the middleware, the
    probes, the start-up and \<open>api/routers/dashboard.py\<close>. \<open>Metrics\<close>: \<open>shared/observability/metrics.py\<close>, the
    calls on the metrics, and the middlewares around the router. \<open>Startup\<close>: the shared Redis pool and MinIO
    client of a process and the options of its engine, log and cluster client.
  \<^item> \<open>Glob\<close>, \<open>Client\<close>: \<open>cli/sopm.py\<close> with the patterns of \<open>fnmatch\<close>. \<open>Api_Server\<close>: the API as the
    network of the client.
  \<^item> \<open>System\<close>: the installation as a step relation over the handlers, for requests whose bodies passed
    validation. \<open>Typing\<close>: what validation makes of the stored rows, kept by every step, and the widths
    of the columns.
  \<^item> \<open>End_To_End\<close>, \<open>Scheduled_Run\<close>: an execution across the API or the scheduler, the queue, a worker and
    the recovery.
  \<^item> \<open>Demo\<close> and the \<open>_Properties\<close> theories: a sample installation, and the properties with a witness each.

  \<^bold>\<open>Assumptions.\<close> A transaction is one step: what a handler reads and writes between commits happens at
  once. PostgreSQL at its default isolation gives less, as the code takes no row locks; the theorems
  speak about serial orders of transactions, and \<open>System\<close> lets the transactions of all processes
  interleave. A table is the list of its rows in insertion order. Time is an integer number of
  microseconds, UUIDs are natural numbers whose text is the decimal numeral, and strings are lists of
  Latin-1 characters. Random and clock readings are arguments. JSON integers are unbounded and floats
  keep their text.

  \<^bold>\<open>Parameters.\<close> MinIO, Redis, Kubernetes, \<open>bcrypt\<close>, \<open>jose\<close>, \<open>croniter\<close>, \<open>zipfile\<close>, \<open>ast.parse\<close>, \<open>pip\<close>,
  the import machinery and the user's handler are records of functions. What the code relies on is a
  locale each: \<open>object_store\<close> with its extension \<open>artifact_store\<close>, \<open>redis_server\<close>, \<open>auth_lib\<close>,
  \<open>cron_lib\<close>; \<open>job_queue\<close> and \<open>lock_service\<close> are what the rest of the program relies on, given by
  sublocales of \<open>redis_server\<close>, and \<open>answering_server\<close> and \<open>lock_answering_server\<close> extend
  it with a server that raises nothing; \<open>path_router\<close> is the router of the framework. Every one is interpreted on a definition that computes, so no
  hypothesis is empty: \<open>memory_minio\<close>, \<open>mem_redis\<close>, \<open>plain_security\<close>, \<open>every_next\<close>, \<open>dispatch\<close>.

  \<^bold>\<open>What is shown.\<close>
  \<^item> \<open>End_To_End\<close>, \<open>Scheduled_Run\<close>: a triggered execution, and a due schedule, is run and answered; one
    whose worker is cut off at the shutdown is failed by the recovery, and not before its deadline.
  \<^item> \<open>Function_Properties\<close>, \<open>Version_Properties\<close>: exact traffic split, a routed version always exists,
    ownership, and what creating, uploading, activating, splitting and deleting leave.
  \<^item> \<open>Execution_Properties\<close>, \<open>Worker_Properties\<close>: the state machine, isolation, exactly one job per
    request, cancelling, claiming once, settling whatever happens, recovery.
  \<^item> \<open>Queue_Refinement\<close>, \<open>Queue_Properties\<close>, \<open>Scheduler_Properties\<close>: at most one delivery per
    submission, round trip through the queue, priorities, exclusion of the lock, one execution per due
    time, no firing without the lock.
  \<^item> \<open>Sandbox_Properties\<close>, \<open>Access_Properties\<close>: the validator equals its specification, unpacking
    stays inside, reports arrive, jobs are locked down and cleaned up; accounts, keys, admission.
  \<^item> \<open>Routes\<close>: which requests reach a handler, and as whom. \<open>Client_Properties\<close>, \<open>Response_Properties\<close>:
    what a deployment sends, and two errors that cross components. \<open>Dashboard_Properties\<close>: the counts
    and statistics of the dashboard. \<open>Metrics\<close>: every call on a metric is one it accepts, and what
    is counted. \<open>Migrations\<close>: the scripts are reversible and serve the ORM classes.
  \<^item> This theory: the invariant of the whole installation, the types of its rows and the history of
    executions.
  Several theorems show where the code does less than it means to: a queue error can overwrite a
  finished execution, a retried pop can lose a job, a job whose worker crashed stays in the processing
  set, a late report overwrites the result of a settled execution, a failed deletion leaves versions
  without their archives, the client looks for a function on the first page only, a handler can forge a
  result that no response model accepts.

  \<^bold>\<open>Loops.\<close> The loops that wait on other processes (\<open>acquire_loop\<close>, the two \<open>wait_loop\<close>s, the scan of
  \<open>ack_job\<close>) are partial functions whose value is \<open>None\<close> when they do not end; that they end is proved
  from a clock that advances by at least the pause, or from a scan that is finite. The retries run at
  most three times. The endless loops of \<open>Processes\<close> run for a given list of turns; they poll or tick in
  every turn up to the shutdown, whatever is raised. \<open>loads\<close> has fuel linear in its input, which \<open>loads_dumps\<close> shows to be enough for
  everything \<open>dumps\<close> writes.

  \<^bold>\<open>Not modelled.\<close> The lines that are logged, the Prometheus client behind the metric calls, the
  framework's CORS answers and the installing of signal handlers; the cancelling of a worker at the
  shutdown is modelled while its sandbox runs, at other points only as a crash between transactions.
  The argument parser of the client and \<open>migrations/env.py\<close> are calls of \<open>argparse\<close> and Alembic, the
  relationships of the ORM classes only tell SQLAlchemy how to join, since no deletion cascades through
  them: functions go by statements, and a schedule has no relationship to rows that depend on it. The expiry of Redis keys; the TypeScript front end and the deployment files.
\<close>

section \<open>The whole installation\<close>

text \<open>C9: Whatever API processes, schedulers and workers do to a new installation, in any order and with any
  crashes between their transactions: names stay unique per owner, account and version; the active
  and the canary version of a function are different active versions of that function, with a split
  strictly between 0 and 100; every schedule belongs to an existing function.\<close>

theorem installation_invariant:
  assumes "steps cfg M cron fresh_installation s" and "d = in_db s"
  shows "(\<forall>f \<in> set (t_functions d). \<forall>g \<in> set (t_functions d). f_owner_id f = f_owner_id g \<and> f_name f = f_name g \<longrightarrow> f = g) \<and>
    (\<forall>u \<in> set (t_users d). \<forall>w \<in> set (t_users d). u_username u = u_username w \<or> u_email u = u_email w \<longrightarrow> u = w) \<and>
    (\<forall>v \<in> set (t_versions d). \<forall>w \<in> set (t_versions d).
       v_function_id v = v_function_id w \<and> v_version_number v = v_version_number w \<longrightarrow> v = w) \<and>
    (\<forall>f \<in> set (t_functions d). \<forall>i. f_active_version_id f = Some i \<or> f_canary_version_id f = Some i \<longrightarrow>
       (\<exists>v \<in> set (t_versions d). v_id v = i \<and> v_function_id v = f_id f \<and> v_is_active v)) \<and>
    (\<forall>f \<in> set (t_functions d). f_canary_version_id f \<noteq> None \<longrightarrow>
       f_canary_version_id f \<noteq> f_active_version_id f \<and> 0 < f_canary_percent f \<and> f_canary_percent f < 100) \<and>
    (\<forall>x \<in> set (t_schedules d). \<exists>f \<in> set (t_functions d). f_id f = s_function_id x) \<and>
    distinct (map e_id (t_executions d))"
proof -
  have ok: "db_ok d" using steps_db_ok [OF assms(1)] db_ok_empty assms(2) by (simp add: fresh_installation_def)
  then have keys: "keys_ok d" and refs: "refs_ok d" by (simp_all add: db_ok_keys db_ok_refs)
  have canary: "canary_ok d f" if "f \<in> set (t_functions d)" for f using refs that by (simp add: refs_ok_def)
  have act: "\<forall>v \<in> set (t_versions d). v_is_active v" using refs by (simp add: refs_ok_def)
  show ?thesis
  proof (intro conjI ballI allI impI)
    show "f = g" if "f \<in> set (t_functions d)" "g \<in> set (t_functions d)" "f_owner_id f = f_owner_id g \<and> f_name f = f_name g" for f g
      using keys that by (auto simp: keys_ok_def distinct_map inj_on_def)
    show "u = w" if "u \<in> set (t_users d)" "w \<in> set (t_users d)" "u_username u = u_username w \<or> u_email u = u_email w" for u w
      using keys that by (auto simp: keys_ok_def distinct_map inj_on_def)
    show "v = w" if "v \<in> set (t_versions d)" "w \<in> set (t_versions d)"
      "v_function_id v = v_function_id w \<and> v_version_number v = v_version_number w" for v w
      using keys that by (auto simp: keys_ok_def distinct_map inj_on_def)
    show "\<exists>v \<in> set (t_versions d). v_id v = i \<and> v_function_id v = f_id f \<and> v_is_active v"
      if "f \<in> set (t_functions d)" "f_active_version_id f = Some i \<or> f_canary_version_id f = Some i" for f i
      using canary [OF that(1)] act that(2) by (fastforce simp: canary_ok_def version_of_def split: option.splits)
    show "f_canary_version_id f \<noteq> f_active_version_id f" "0 < f_canary_percent f" "f_canary_percent f < 100"
      if "f \<in> set (t_functions d)" "f_canary_version_id f \<noteq> None" for f
      using canary [OF that(1)] that(2) by (auto simp: canary_ok_def)
    show "\<exists>f \<in> set (t_functions d). f_id f = s_function_id x" if "x \<in> set (t_schedules d)" for x
      using refs that by (simp add: refs_ok_def)
    show "distinct (map e_id (t_executions d))" using keys by (simp add: keys_ok_def)
  qed
qed

definition one_user :: db where
  "one_user = snd (register plain_security ''s'' demo_register 3 0 empty_db)"

lemma one_user_run:
  obtains u where "steps default_settings memory_minio every_next fresh_installation \<lparr>in_db = one_user, in_flights = []\<rparr>"
    and "t_users one_user = [u]"
proof -
  obtain u where run: "register plain_security ''s'' demo_register 3 0 empty_db = (Inr u, one_user)"
    by (simp add: one_user_def register_def insert_user_def empty_db_def)
  then have "get_db (register plain_security ''s'' demo_register 3 0) empty_db = (Inr u, one_user)"
    by (simp add: get_db_def)
  moreover have "validate_user_register (\<lambda>_. True) demo_register = Inr demo_register" by code_simp
  ultimately have "steps default_settings memory_minio every_next fresh_installation \<lparr>in_db = one_user, in_flights = []\<rparr>"
    unfolding fresh_installation_def by (intro steps_one step_request req_register)
  moreover have "t_users one_user = [u]"
  proof -
    have "one_user = empty_db\<lparr>t_users := t_users empty_db @ [u]\<rparr>"
      using register_Inr(2) [OF run] by (simp add: insert_user_Inr)
    then have "t_users one_user = t_users (empty_db\<lparr>t_users := t_users empty_db @ [u]\<rparr>)" by (rule arg_cong)
    then show ?thesis by (simp add: empty_db_def)
  qed
  ultimately show thesis by (rule that)
qed

theorem installation_invariant_witness:
  "steps default_settings memory_minio every_next fresh_installation \<lparr>in_db = one_user, in_flights = []\<rparr> \<and>
   t_users one_user \<noteq> [] \<and> distinct (map e_id (t_executions one_user))"
proof -
  obtain u where st: "steps default_settings memory_minio every_next fresh_installation \<lparr>in_db = one_user, in_flights = []\<rparr>"
    and "t_users one_user = [u]" by (rule one_user_run)
  then show ?thesis using installation_invariant [OF st HOL.refl] by (simp only: installation.select_convs) blast
qed

text \<open>C10: Every row of a running installation has the type of its request model. Names, key prefixes, run times
  and the kinds of execution and failure fit their string columns; names of users and functions and
  entrypoints match their patterns; timeouts lie between a second and an hour, also those that reach an
  execution from its version, its schedule or its trigger; payloads are JSON objects.\<close>

theorem rows_stay_typed:
  assumes "steps cfg M cron fresh_installation s" and "d = in_db s"
  shows "(\<forall>u \<in> set (t_users d). username_pattern (u_username u) \<and> fits_column User_class ''username'' (u_username u)) \<and>
    (\<forall>k \<in> set (t_api_keys d). fits_column ApiKey_class ''name'' (k_name k) \<and> fits_column ApiKey_class ''key_prefix'' (k_key_prefix k)) \<and>
    (\<forall>f \<in> set (t_functions d). function_name_re (f_name f) \<and> fits_column Function_class ''name'' (f_name f) \<and>
       fits_column Function_class ''runtime'' (f_runtime f) \<and> 0 \<le> f_canary_percent f \<and> f_canary_percent f \<le> 100) \<and>
    (\<forall>v \<in> set (t_versions d). entrypoint_pattern (v_entrypoint v) \<and> 1 \<le> v_timeout v \<and> v_timeout v \<le> 3600 \<and>
       64 \<le> v_memory_mb v \<and> v_memory_mb v \<le> 3072) \<and>
    (\<forall>x \<in> set (t_schedules d). fits_column Schedule_class ''name'' (s_name x) \<and> (\<exists>kvs. s_payload x = JObj kvs)) \<and>
    (\<forall>e \<in> set (t_executions d). 1 \<le> e_timeout e \<and> e_timeout e \<le> 3600 \<and> (\<exists>kvs. e_payload e = JObj kvs) \<and>
       fits_column Execution_class ''execution_type'' (e_execution_type e) \<and>
       (\<forall>kind. e_failure_kind e = Some kind \<longrightarrow> fits_column Execution_class ''failure_kind'' kind))"
proof -
  have ok: "typed d" using steps_typed [OF assms(1)] typed_empty assms(2) by (simp add: fresh_installation_def)
  note rows = typed_rows [OF ok]
  have obj: "\<exists>kvs. p = JObj kvs" if "is_jobj p" for p using that by (cases p) (simp_all add: is_jobj_def)
  show ?thesis
  proof (intro conjI)
    show "\<forall>u \<in> set (t_users d). username_pattern (u_username u) \<and> fits_column User_class ''username'' (u_username u)"
      using rows(5) typed_fits(1) by (auto simp: typed_user_def)
    show "\<forall>k \<in> set (t_api_keys d). fits_column ApiKey_class ''name'' (k_name k) \<and> fits_column ApiKey_class ''key_prefix'' (k_key_prefix k)"
      using rows(6) typed_fits(2) by blast
    show "\<forall>f \<in> set (t_functions d). function_name_re (f_name f) \<and> fits_column Function_class ''name'' (f_name f) \<and>
       fits_column Function_class ''runtime'' (f_runtime f) \<and> 0 \<le> f_canary_percent f \<and> f_canary_percent f \<le> 100"
      using rows(1) typed_fits(3) by (auto simp: typed_function_def between_def)
    show "\<forall>v \<in> set (t_versions d). entrypoint_pattern (v_entrypoint v) \<and> 1 \<le> v_timeout v \<and> v_timeout v \<le> 3600 \<and>
       64 \<le> v_memory_mb v \<and> v_memory_mb v \<le> 3072"
      using rows(2) by (auto simp: typed_version_def between_def)
    show "\<forall>x \<in> set (t_schedules d). fits_column Schedule_class ''name'' (s_name x) \<and> (\<exists>kvs. s_payload x = JObj kvs)"
      using rows(4) typed_fits(4) obj by (auto simp: typed_schedule_def)
    show "\<forall>e \<in> set (t_executions d). 1 \<le> e_timeout e \<and> e_timeout e \<le> 3600 \<and> (\<exists>kvs. e_payload e = JObj kvs) \<and>
       fits_column Execution_class ''execution_type'' (e_execution_type e) \<and>
       (\<forall>kind. e_failure_kind e = Some kind \<longrightarrow> fits_column Execution_class ''failure_kind'' kind)"
      using rows(3) typed_execution_row by blast
  qed
qed

theorem rows_stay_typed_witness:
  "\<exists>u. t_users one_user = [u] \<and> fits_column User_class ''username'' (u_username u)"
proof -
  obtain u where st: "steps default_settings memory_minio every_next fresh_installation \<lparr>in_db = one_user, in_flights = []\<rparr>"
    and u: "t_users one_user = [u]" by (rule one_user_run)
  have "\<forall>u \<in> set (t_users one_user). username_pattern (u_username u) \<and> fits_column User_class ''username'' (u_username u)"
    using conjunct1 [OF rows_stay_typed [OF st HOL.refl]] by (simp only: installation.select_convs)
  then show ?thesis using u by simp
qed

text \<open>C18: Across any run of the installation no execution is lost and its request never changes: payload,
  kind, timeout and API key stay. Its status only moves along the state machine or becomes FAILED;
  so a settled execution keeps its status unless it is overwritten with FAILED.\<close>

theorem execution_history:
  assumes "steps cfg M cron s t" and "db_ok (in_db s)" and "e \<in> set (t_executions (in_db s))"
  shows "\<exists>e' \<in> set (t_executions (in_db t)). e_id e' = e_id e \<and> e_payload e' = e_payload e \<and>
    e_execution_type e' = e_execution_type e \<and> e_timeout e' = e_timeout e \<and> e_api_key_id e' = e_api_key_id e \<and>
    (status_reaches (e_status e) (e_status e') \<or> e_status e' = FAILED) \<and>
    (is_terminal (e_status e) \<longrightarrow> e_status e' = e_status e \<or> e_status e' = FAILED)"
  using steps_extends [OF assms(1,2)] assms(3) terminal_reaches unfolding extends_def later_def by meson

theorem execution_history_witness:
  "\<exists>t. step default_settings memory_minio every_next \<lparr>in_db = demo_db, in_flights = []\<rparr> t \<and>
     (\<exists>e' \<in> set (t_executions (in_db t)). e_id e' = 30 \<and> e_status e' = RUNNING)"
proof -
  let ?e = "demo_execution 30 QUEUED"
  obtain d' where run: "get_db (worker_begin ''w'' 5 30) demo_db = (Inr True, d')"
    using worker_begin_row [OF demo_keys_ok, of ?e "''w''" 5] by (simp add: get_db_def)
  let ?s = "\<lparr>in_db = demo_db, in_flights = []\<rparr>" and ?t = "\<lparr>in_db = d', in_flights = [Running 30]\<rparr>"
  have st: "step default_settings memory_minio every_next ?s ?t"
    using step_claim [OF run, of default_settings memory_minio every_next "[]"] by simp
  have d': "d' = set_execution 30 (\<lambda>_. ?e\<lparr>e_status := RUNNING, e_started_at := Some 5, e_worker_id := Some ''w''\<rparr>) demo_db"
    using run worker_begin_row [OF demo_keys_ok, of ?e "''w''" 5] by (simp add: get_db_Inr_iff)
  obtain e' where "e' \<in> set (t_executions d')" "e_id e' = 30"
    using execution_history [OF steps_one [OF st], of ?e] demo_db_ok by auto
  then show ?thesis using st d' by (auto simp: set_execution_def update_where_def)
qed



end
